(* ===== verification/Prelude.thy ===== *)
theory Prelude
  imports Main "HOL-Library.Word" "HOL-Library.Char_ord" "HOL-Library.List_Lexorder"
    "HOL-Library.Product_Lexorder" "HOL-Library.Sublist" "HOL-Library.Code_Target_Nat"
begin

text \<open>
  Shared vocabulary of the development: the result type, the integers and byte strings the
  server uses, and the operations of the Rust standard library on \<open>str\<close> and the unsigned
  integers that the sources call.

  A Rust \<open>String\<close>, which is a sequence of UTF-8 bytes, is a HOL \<open>string\<close> whose characters
  are those bytes, so that \<open>length\<close> is \<open>str::len\<close> and the order on strings
  (\<open>List_Lexorder\<close> over \<open>Char_ord\<close>) is the byte order of \<open>str: Ord\<close>.
  A \<open>usize\<close> is a \<open>nat\<close> with its 64-bit bound written out where an operation saturates.
  A fallible operation returns a sum, \<open>Inl\<close> carrying the error.
\<close>

named_theorems rust_str \<open>unfolding rules of the string operations\<close>
named_theorems result_simps \<open>rewriting of the result monad\<close>

type_synonym byte = "8 word"
type_synonym bytes = "byte list"
type_synonym u64 = "64 word"

abbreviation Ok :: "'a \<Rightarrow> 'e + 'a" where "Ok \<equiv> Inr"
abbreviation Err :: "'e \<Rightarrow> 'e + 'a" where "Err \<equiv> Inl"

definition result_bind :: "'e + 'a \<Rightarrow> ('a \<Rightarrow> 'e + 'b) \<Rightarrow> 'e + 'b" where
  "result_bind r f = (case r of Inl e \<Rightarrow> Inl e | Inr a \<Rightarrow> f a)"

definition map_err :: "('e \<Rightarrow> 'f) \<Rightarrow> 'e + 'a \<Rightarrow> 'f + 'a" where
  "map_err f r = (case r of Inl e \<Rightarrow> Inl (f e) | Inr a \<Rightarrow> Inr a)"

definition ok_or :: "'e \<Rightarrow> 'a option \<Rightarrow> 'e + 'a" where
  "ok_or e v = (case v of None \<Rightarrow> Inl e | Some a \<Rightarrow> Inr a)"

definition result_ok :: "'e + 'a \<Rightarrow> 'a option" where
  "result_ok r = (case r of Inl _ \<Rightarrow> None | Inr a \<Rightarrow> Some a)"

fun map_result :: "('a \<Rightarrow> 'e + 'b) \<Rightarrow> 'a list \<Rightarrow> 'e + 'b list" where
  "map_result f [] = Ok []"
| "map_result f (x # xs) = result_bind (f x) (\<lambda>y. result_bind (map_result f xs) (\<lambda>ys. Ok (y # ys)))"

definition unwrap_or :: "'a \<Rightarrow> 'a option \<Rightarrow> 'a" where
  "unwrap_or d v = (case v of None \<Rightarrow> d | Some a \<Rightarrow> a)"

definition option_or :: "'a option \<Rightarrow> 'a option \<Rightarrow> 'a option" where
  "option_or a b = (case a of None \<Rightarrow> b | Some _ \<Rightarrow> a)"

definition option_filter :: "('a \<Rightarrow> bool) \<Rightarrow> 'a option \<Rightarrow> 'a option" where
  "option_filter p v = (case v of None \<Rightarrow> None | Some a \<Rightarrow> if p a then Some a else None)"

subsection \<open>Saturating \<open>usize\<close> arithmetic\<close>

definition usize_max :: nat where
  "usize_max = 18446744073709551615"

definition saturating_add :: "nat \<Rightarrow> nat \<Rightarrow> nat" where
  "saturating_add a b = min (a + b) usize_max"

definition saturating_mul :: "nat \<Rightarrow> nat \<Rightarrow> nat" where
  "saturating_mul a b = min (a * b) usize_max"

subsection \<open>ASCII case\<close>

definition byte_of :: "char \<Rightarrow> nat" where
  "byte_of c = of_char c"

definition ascii_lower_char :: "char \<Rightarrow> char" where
  "ascii_lower_char c = (if 65 \<le> byte_of c \<and> byte_of c \<le> 90 then char_of (byte_of c + 32) else c)"

definition to_ascii_lowercase :: "string \<Rightarrow> string" where
  "to_ascii_lowercase s = map ascii_lower_char s"

definition eq_ignore_ascii_case :: "string \<Rightarrow> string \<Rightarrow> bool" where
  "eq_ignore_ascii_case a b \<longleftrightarrow> to_ascii_lowercase a = to_ascii_lowercase b"

subsection \<open>Trimming\<close>

text \<open>
  \<open>str::trim\<close> removes the characters with the Unicode property White\_Space. In UTF-8 these
  are one byte (tab to carriage return, space), two bytes (U+0085, U+00A0) or three bytes
  (U+1680, U+2000 to U+200A, U+2028, U+2029, U+202F, U+205F, U+3000) long.
\<close>

definition is_ws1 :: "char \<Rightarrow> bool" where
  "is_ws1 a \<longleftrightarrow> (9 \<le> byte_of a \<and> byte_of a \<le> 13) \<or> byte_of a = 32"

definition is_ws2 :: "char \<Rightarrow> char \<Rightarrow> bool" where
  "is_ws2 a b \<longleftrightarrow> byte_of a = 194 \<and> (byte_of b = 133 \<or> byte_of b = 160)"

definition is_ws3 :: "char \<Rightarrow> char \<Rightarrow> char \<Rightarrow> bool" where
  "is_ws3 a b c \<longleftrightarrow>
     (byte_of a = 225 \<and> byte_of b = 154 \<and> byte_of c = 128)
   \<or> (byte_of a = 226 \<and> byte_of b = 128 \<and>
        ((128 \<le> byte_of c \<and> byte_of c \<le> 138) \<or> byte_of c = 168 \<or> byte_of c = 169 \<or> byte_of c = 175))
   \<or> (byte_of a = 226 \<and> byte_of b = 129 \<and> byte_of c = 159)
   \<or> (byte_of a = 227 \<and> byte_of b = 128 \<and> byte_of c = 128)"

fun trim_with :: "(char \<Rightarrow> char \<Rightarrow> bool) \<Rightarrow> (char \<Rightarrow> char \<Rightarrow> char \<Rightarrow> bool) \<Rightarrow> string \<Rightarrow> string" where
  "trim_with w2 w3 [] = []"
| "trim_with w2 w3 [a] = (if is_ws1 a then [] else [a])"
| "trim_with w2 w3 [a, b] =
     (if is_ws1 a then trim_with w2 w3 [b] else if w2 a b then [] else [a, b])"
| "trim_with w2 w3 (a # b # c # s) =
     (if is_ws1 a then trim_with w2 w3 (b # c # s)
      else if w2 a b then trim_with w2 w3 (c # s)
      else if w3 a b c then trim_with w2 w3 s
      else a # b # c # s)"

definition trim_start :: "string \<Rightarrow> string" where
  "trim_start s = trim_with is_ws2 is_ws3 s"

definition trim_end :: "string \<Rightarrow> string" where
  "trim_end s = rev (trim_with (\<lambda>c b. is_ws2 b c) (\<lambda>c b a. is_ws3 a b c) (rev s))"

definition trim :: "string \<Rightarrow> string" where
  "trim s = trim_end (trim_start s)"

subsection \<open>Searching and splitting\<close>

definition starts_with :: "string \<Rightarrow> string \<Rightarrow> bool" where
  "starts_with s p \<longleftrightarrow> take (length p) s = p"

definition strip_prefix :: "string \<Rightarrow> string \<Rightarrow> string option" where
  "strip_prefix s p = (if starts_with s p then Some (drop (length p) s) else None)"

definition trim_end_matches :: "char \<Rightarrow> string \<Rightarrow> string" where
  "trim_end_matches c s = rev (dropWhile (\<lambda>d. d = c) (rev s))"

fun split_by :: "(char \<Rightarrow> bool) \<Rightarrow> string \<Rightarrow> string list" where
  "split_by p [] = [[]]"
| "split_by p (c # s) =
     (if p c then [] # split_by p s
      else (case split_by p s of [] \<Rightarrow> [[c]] | w # ws \<Rightarrow> (c # w) # ws))"

abbreviation split_char :: "char \<Rightarrow> string \<Rightarrow> string list" where
  "split_char c \<equiv> split_by (\<lambda>d. d = c)"

fun split_once :: "char \<Rightarrow> string \<Rightarrow> (string \<times> string) option" where
  "split_once c [] = None"
| "split_once c (d # s) =
     (if d = c then Some ([], s) else map_option (\<lambda>(a, b). (d # a, b)) (split_once c s))"

definition rsplit_once :: "char \<Rightarrow> string \<Rightarrow> (string \<times> string) option" where
  "rsplit_once c s = map_option (\<lambda>(a, b). (rev b, rev a)) (split_once c (rev s))"

fun join :: "string \<Rightarrow> string list \<Rightarrow> string" where
  "join sep [] = []"
| "join sep [w] = w"
| "join sep (w # v # ws) = w @ sep @ join sep (v # ws)"

text \<open>\<open>s.chars().take(n).collect()\<close>: a byte of the form 10xxxxxx continues a character.\<close>

definition is_continuation :: "char \<Rightarrow> bool" where
  "is_continuation c \<longleftrightarrow> 128 \<le> byte_of c \<and> byte_of c < 192"

fun take_chars :: "nat \<Rightarrow> string \<Rightarrow> string" where
  "take_chars n [] = []"
| "take_chars n (c # s) =
     (if is_continuation c then c # take_chars n s
      else case n of 0 \<Rightarrow> [] | Suc m \<Rightarrow> c # take_chars m s)"

text \<open>Characters that string literals of the source contain and HOL literals cannot.\<close>

definition newline :: string where
  "newline = [char_of (10 :: nat)]"

definition in_quotes :: "string \<Rightarrow> string" where
  "in_quotes s = char_of (34 :: nat) # s @ [char_of (34 :: nat)]"

definition em_dash :: string where
  "em_dash = map char_of [226, 128, 148 :: nat]"

subsection \<open>Unsigned integers in decimal\<close>

definition digit_char :: "nat \<Rightarrow> char" where
  "digit_char d = char_of (48 + d)"

definition to_digit :: "char \<Rightarrow> nat option" where
  "to_digit c = (if 48 \<le> byte_of c \<and> byte_of c \<le> 57 then Some (byte_of c - 48) else None)"

fun string_of_nat :: "nat \<Rightarrow> string" where
  "string_of_nat n =
     (if n < 10 then [digit_char n] else string_of_nat (n div 10) @ [digit_char (n mod 10)])"

declare string_of_nat.simps [simp del]

datatype IntErrorKind = IntEmpty | InvalidDigit | PosOverflow

text \<open>
  \<open>FromStr\<close> of an unsigned type with largest value \<open>m\<close>: an optional plus sign, then decimal
  digits, each checked as a digit before the accumulator is checked for overflow.
\<close>

fun parse_digits :: "nat \<Rightarrow> nat \<Rightarrow> string \<Rightarrow> IntErrorKind + nat" where
  "parse_digits m acc [] = Ok acc"
| "parse_digits m acc (c # s) =
     (case to_digit c of
        None \<Rightarrow> Err InvalidDigit
      | Some d \<Rightarrow>
          if m < acc * 10 then Err PosOverflow
          else if m < acc * 10 + d then Err PosOverflow
          else parse_digits m (acc * 10 + d) s)"

definition parse_uint :: "nat \<Rightarrow> string \<Rightarrow> IntErrorKind + nat" where
  "parse_uint m s =
     (case s of
        [] \<Rightarrow> Err IntEmpty
      | c # t \<Rightarrow>
          if (c = CHR ''+'' \<or> c = CHR ''-'') \<and> t = [] then Err InvalidDigit
          else if c = CHR ''+'' then parse_digits m 0 t
          else parse_digits m 0 (c # t))"

definition u32_max :: nat where
  "u32_max = 4294967295"

definition u64_max :: nat where
  "u64_max = 18446744073709551615"

subsection \<open>\<open>std::cmp::Reverse\<close>\<close>

datatype 'a Reverse = Reverse (unreverse: 'a)

instantiation Reverse :: (linorder) linorder
begin

definition less_eq_Reverse :: "'a Reverse \<Rightarrow> 'a Reverse \<Rightarrow> bool" where
  "x \<le> y \<longleftrightarrow> unreverse y \<le> unreverse x"

definition less_Reverse :: "'a Reverse \<Rightarrow> 'a Reverse \<Rightarrow> bool" where
  "x < y \<longleftrightarrow> unreverse y < unreverse x"

instance
  by standard (auto simp: less_eq_Reverse_def less_Reverse_def Reverse.expand)

end

section \<open>Lemmas\<close>

lemma Reverse_le [simp]: "Reverse a \<le> Reverse b \<longleftrightarrow> b \<le> a"
  by (simp add: less_eq_Reverse_def)

lemma Reverse_less [simp]: "Reverse a < Reverse b \<longleftrightarrow> b < a"
  by (simp add: less_Reverse_def)

lemma result_bind_simps [simp, result_simps]:
  "result_bind (Inl e) f = Inl e"
  "result_bind (Inr a) f = f a"
  by (simp_all add: result_bind_def)

lemma result_bind_eq_Ok:
  "result_bind r f = Inr b \<longleftrightarrow> (\<exists>a. r = Inr a \<and> f a = Inr b)"
  by (cases r) auto

lemma result_bind_eq_Err:
  "result_bind r f = Inl e \<longleftrightarrow> r = Inl e \<or> (\<exists>a. r = Inr a \<and> f a = Inl e)"
  by (cases r) auto

lemma map_err_simps [simp, result_simps]:
  "map_err f (Inl e) = Inl (f e)"
  "map_err f (Inr a) = Inr a"
  by (simp_all add: map_err_def)

lemma map_err_eq_Ok [simp]: "map_err f r = Inr a \<longleftrightarrow> r = Inr a"
  by (cases r) auto

lemma ok_or_simps [simp, result_simps]:
  "ok_or e None = Inl e"
  "ok_or e (Some a) = Inr a"
  by (simp_all add: ok_or_def)

lemma ok_or_eq_Ok [simp]: "ok_or e v = Inr a \<longleftrightarrow> v = Some a"
  by (cases v) auto

lemma result_ok_simps [simp]:
  "result_ok (Inl e) = None"
  "result_ok (Inr a) = Some a"
  by (simp_all add: result_ok_def)

lemma unwrap_or_simps [simp]:
  "unwrap_or d None = d"
  "unwrap_or d (Some a) = a"
  by (simp_all add: unwrap_or_def)

lemma option_or_simps [simp]:
  "option_or None b = b"
  "option_or (Some a) b = Some a"
  by (simp_all add: option_or_def)

lemma option_filter_simps [simp]:
  "option_filter p None = None"
  "option_filter p (Some a) = (if p a then Some a else None)"
  by (simp_all add: option_filter_def)

lemma option_filter_eq_Some: "option_filter p v = Some a \<longleftrightarrow> v = Some a \<and> p a"
  by (cases v) auto

lemma map_result_Ok:
  "map_result f xs = Inr ys \<Longrightarrow> length ys = length xs \<and> (\<forall>i < length xs. f (xs ! i) = Inr (ys ! i))"
proof (induction xs arbitrary: ys)
  case Nil
  then show ?case by simp
next
  case (Cons x xs)
  then obtain y zs where "f x = Inr y" "map_result f xs = Inr zs" "ys = y # zs"
    by (auto simp: result_bind_eq_Ok)
  with Cons.IH [of zs] show ?case
    by (auto simp: less_Suc_eq_0_disj)
qed

subsection \<open>ASCII case and trimming\<close>

lemma byte_of_ascii_lower_char:
  "byte_of (ascii_lower_char c) = (if 65 \<le> byte_of c \<and> byte_of c \<le> 90 then byte_of c + 32 else byte_of c)"
  by (simp add: ascii_lower_char_def byte_of_def)

lemma ascii_lower_char_idem [simp]: "ascii_lower_char (ascii_lower_char c) = ascii_lower_char c"
  by (auto simp: ascii_lower_char_def [of "ascii_lower_char c"] byte_of_ascii_lower_char)

lemma to_ascii_lowercase_idem [simp]:
  "to_ascii_lowercase (to_ascii_lowercase s) = to_ascii_lowercase s"
  by (simp add: to_ascii_lowercase_def)

lemma is_ws_lower [simp]:
  "is_ws1 (ascii_lower_char a) = is_ws1 a"
  "is_ws2 (ascii_lower_char a) (ascii_lower_char b) = is_ws2 a b"
  "is_ws3 (ascii_lower_char a) (ascii_lower_char b) (ascii_lower_char c) = is_ws3 a b c"
  by (auto simp: is_ws1_def is_ws2_def is_ws3_def byte_of_ascii_lower_char)

lemma trim_with_map:
  assumes "\<And>a. is_ws1 (f a) = is_ws1 a" "\<And>a b. w2 (f a) (f b) = w2 a b"
    "\<And>a b c. w3 (f a) (f b) (f c) = w3 a b c"
  shows "trim_with w2 w3 (map f s) = map f (trim_with w2 w3 s)"
  using assms by (induction w2 w3 s rule: trim_with.induct) simp_all

lemma trim_to_ascii_lowercase: "trim (to_ascii_lowercase s) = to_ascii_lowercase (trim s)"
  by (simp add: trim_def trim_start_def trim_end_def to_ascii_lowercase_def trim_with_map
      rev_map)

definition plain_char :: "char \<Rightarrow> bool" where
  "plain_char c \<longleftrightarrow> 32 < byte_of c \<and> byte_of c < 128"

lemma trim_with_id:
  assumes "s = [] \<or> \<not> is_ws1 (hd s)"
    and "\<And>a b. a \<in> set s \<Longrightarrow> b \<in> set s \<Longrightarrow> \<not> w2 a b"
    and "\<And>a b c. a \<in> set s \<Longrightarrow> b \<in> set s \<Longrightarrow> c \<in> set s \<Longrightarrow> \<not> w3 a b c"
  shows "trim_with w2 w3 s = s"
  using assms by (cases "(w2, w3, s)" rule: trim_with.cases) auto

lemma plain_char_not_ws:
  "plain_char a \<Longrightarrow> \<not> is_ws1 a" "plain_char a \<Longrightarrow> \<not> is_ws2 a b" "plain_char a \<Longrightarrow> \<not> is_ws3 a b c"
  by (auto simp: plain_char_def is_ws1_def is_ws2_def is_ws3_def)

text \<open>A string of printable ASCII characters without spaces is left alone by \<open>trim\<close>.\<close>

lemma trim_plain:
  assumes "list_all plain_char s"
  shows "trim s = s"
proof -
  have "trim_start s = s"
    unfolding trim_start_def using assms
    by (intro trim_with_id) (cases s, auto simp: list_all_iff plain_char_not_ws)
  moreover have "trim_end s = s"
    unfolding trim_end_def using assms
    by (subst trim_with_id) (cases s rule: rev_cases, auto simp: list_all_iff plain_char_not_ws)
  ultimately show ?thesis by (simp add: trim_def)
qed

lemma eq_ignore_ascii_case_equiv [simp]:
  "eq_ignore_ascii_case s s"
  "eq_ignore_ascii_case (to_ascii_lowercase s) t = eq_ignore_ascii_case s t"
  by (simp_all add: eq_ignore_ascii_case_def)

subsection \<open>Prefixes\<close>

lemma starts_with_iff: "starts_with s p \<longleftrightarrow> (\<exists>t. s = p @ t)"
proof
  assume "starts_with s p"
  then have "s = p @ drop (length p) s"
    unfolding starts_with_def by (metis append_take_drop_id)
  then show "\<exists>t. s = p @ t" ..
qed (auto simp: starts_with_def)

lemma starts_with_append [simp]: "starts_with (p @ t) p"
  by (simp add: starts_with_def)

lemma strip_prefix_eq_Some: "strip_prefix s p = Some t \<longleftrightarrow> s = p @ t"
  by (auto simp: strip_prefix_def starts_with_iff)

lemma strip_prefix_append [simp]: "strip_prefix (p @ t) p = Some t"
  by (simp add: strip_prefix_eq_Some)

lemma strip_prefix_eq_None: "strip_prefix s p = None \<longleftrightarrow> \<not> starts_with s p"
  by (simp add: strip_prefix_def)

subsection \<open>Trimming a trailing character\<close>

lemma trim_end_matches_decomp: "\<exists>n. s = trim_end_matches c s @ replicate n c"
proof -
  have "rev s = takeWhile (\<lambda>d. d = c) (rev s) @ dropWhile (\<lambda>d. d = c) (rev s)"
    by simp
  then have "s = trim_end_matches c s @ rev (takeWhile (\<lambda>d. d = c) (rev s))"
    unfolding trim_end_matches_def by (metis rev_append rev_rev_ident)
  moreover have "takeWhile (\<lambda>d. d = c) (rev s) =
      replicate (length (takeWhile (\<lambda>d. d = c) (rev s))) c"
    by (metis (mono_tags, lifting) replicate_eqI set_takeWhileD)
  ultimately show ?thesis
    by (metis rev_replicate)
qed

lemma trim_end_matches_last: "trim_end_matches c s \<noteq> [] \<Longrightarrow> last (trim_end_matches c s) \<noteq> c"
  unfolding trim_end_matches_def by (metis (mono_tags, lifting) hd_dropWhile last_rev rev_is_Nil_conv)

lemma trim_end_matches_id: "s = [] \<or> last s \<noteq> c \<Longrightarrow> trim_end_matches c s = s"
  by (cases s rule: rev_cases) (auto simp: trim_end_matches_def)

lemma trim_end_matches_idem [simp]:
  "trim_end_matches c (trim_end_matches c s) = trim_end_matches c s"
  by (rule trim_end_matches_id) (use trim_end_matches_last in blast)

lemma length_trim_end_matches: "length (trim_end_matches c s) \<le> length s"
  unfolding trim_end_matches_def by (metis length_dropWhile_le length_rev)

subsection \<open>Splitting and joining\<close>

lemma split_by_neq_Nil [simp]: "split_by p s \<noteq> []"
  by (induction s) (auto split: list.splits)

lemma split_by_pieces: "w \<in> set (split_by p s) \<Longrightarrow> c \<in> set w \<Longrightarrow> \<not> p c"
proof (induction s arbitrary: w)
  case (Cons d s)
  then show ?case
    by (cases "split_by p s") (fastforce split: if_splits)+
qed simp

lemma join_Cons: "ws \<noteq> [] \<Longrightarrow> join sep (w # ws) = w @ sep @ join sep ws"
  by (cases ws) auto

lemma join_Cons_Cons: "join sep ((c # w) # ws) = c # join sep (w # ws)"
  by (cases ws) auto

lemma join_append:
  "ws \<noteq> [] \<Longrightarrow> zs \<noteq> [] \<Longrightarrow> join sep (ws @ zs) = join sep ws @ sep @ join sep zs"
proof (induction ws)
  case (Cons w ws)
  then show ?case
    by (cases ws) (auto simp: join_Cons)
qed simp

lemma join_split_char: "join [c] (split_char c s) = s"
proof (induction s)
  case (Cons d s)
  then show ?case
    by (cases "split_char c s") (auto simp: join_Cons join_Cons_Cons)
qed simp

lemma split_by_no_sep: "(\<And>c. c \<in> set s \<Longrightarrow> \<not> p c) \<Longrightarrow> split_by p s = [s]"
  by (induction s) auto

lemma split_by_append_sep: "p c \<Longrightarrow> split_by p (s @ c # t) = split_by p s @ split_by p t"
proof (induction s)
  case (Cons d s)
  then show ?case
    by (cases "split_by p s") auto
qed simp

lemma split_char_join:
  "ws \<noteq> [] \<Longrightarrow> (\<And>w. w \<in> set ws \<Longrightarrow> c \<notin> set w) \<Longrightarrow> split_char c (join [c] ws) = ws"
proof (induction ws)
  case (Cons w ws)
  then show ?case
    by (cases ws) (auto simp: split_by_append_sep intro!: split_by_no_sep)
qed simp

lemma split_once_eq_Some: "split_once c s = Some (a, b) \<longleftrightarrow> s = a @ c # b \<and> c \<notin> set a"
proof (induction s arbitrary: a b)
  case (Cons d s)
  then show ?case
    by (cases a) auto
qed simp

lemma split_once_eq_None: "split_once c s = None \<longleftrightarrow> c \<notin> set s"
  by (induction s) auto

lemma rsplit_once_eq_Some: "rsplit_once c s = Some (a, b) \<longleftrightarrow> s = a @ c # b \<and> c \<notin> set b"
proof -
  have "rsplit_once c s = Some (a, b) \<longleftrightarrow> split_once c (rev s) = Some (rev b, rev a)"
    by (auto simp: rsplit_once_def)
  also have "\<dots> \<longleftrightarrow> rev s = rev b @ c # rev a \<and> c \<notin> set b"
    by (simp add: split_once_eq_Some)
  also have "\<dots> \<longleftrightarrow> s = a @ c # b \<and> c \<notin> set b"
    by (metis append.assoc append_Cons append_Nil rev.simps(2) rev_append rev_rev_ident)
  finally show ?thesis .
qed

lemma rsplit_once_eq_None: "rsplit_once c s = None \<longleftrightarrow> c \<notin> set s"
  by (simp add: rsplit_once_def split_once_eq_None)

subsection \<open>Decimal round trip\<close>

lemma to_digit_digit_char [simp]: "d < 10 \<Longrightarrow> to_digit (digit_char d) = Some d"
  by (simp add: to_digit_def digit_char_def byte_of_def)

lemma digit_char_neq_sign:
  assumes "d < 10"
  shows "digit_char d \<noteq> CHR ''+''" "digit_char d \<noteq> CHR ''-''"
proof -
  have "to_digit (CHR ''+'') = None" "to_digit (CHR ''-'') = None"
    by code_simp+
  with assms show "digit_char d \<noteq> CHR ''+''" "digit_char d \<noteq> CHR ''-''"
    by (metis option.distinct(1) to_digit_digit_char)+
qed

lemma digit_char_plain:
  assumes "d < 10"
  shows "plain_char (digit_char d)" "digit_char d \<noteq> CHR '':''" "digit_char d \<noteq> CHR '',''"
proof -
  have "to_digit (CHR '':'') = None" "to_digit (CHR '','') = None"
    by code_simp+
  with assms show "digit_char d \<noteq> CHR '':''" "digit_char d \<noteq> CHR '',''"
    by (metis option.distinct(1) to_digit_digit_char)+
  show "plain_char (digit_char d)"
    using assms by (simp add: plain_char_def digit_char_def byte_of_def)
qed

lemma string_of_nat_digits: "c \<in> set (string_of_nat n) \<Longrightarrow> \<exists>d < 10. c = digit_char d"
proof (induction n rule: string_of_nat.induct)
  case (1 n)
  then show ?case
    by (subst (asm) (2) string_of_nat.simps)
      (auto split: if_splits intro: exI [of _ "n mod 10"])
qed

lemma string_of_nat_hd: "\<exists>d s. string_of_nat n = digit_char d # s \<and> d < 10"
proof (induction n rule: string_of_nat.induct)
  case (1 n)
  then show ?case
    by (subst string_of_nat.simps) (cases "n < 10", auto)
qed

lemma parse_digits_append:
  "parse_digits m acc (s @ t) = result_bind (parse_digits m acc s) (\<lambda>b. parse_digits m b t)"
  by (induction s arbitrary: acc) (auto split: option.splits)

lemma parse_digits_string_of_nat: "n \<le> m \<Longrightarrow> parse_digits m 0 (string_of_nat n) = Inr n"
proof (induction n rule: string_of_nat.induct)
  case (1 n)
  show ?case
  proof (cases "n < 10")
    case True
    with 1 show ?thesis
      by (subst string_of_nat.simps) simp
  next
    case False
    have "n div 10 \<le> m" using "1.prems" by (meson div_le_dividend le_trans)
    with False "1.IH" have ih: "parse_digits m 0 (string_of_nat (n div 10)) = Inr (n div 10)"
      by blast
    have "n div 10 * 10 \<le> m" "n div 10 * 10 + n mod 10 = n"
      using "1.prems" by (auto intro: order_trans [of _ n])
    with False ih "1.prems" show ?thesis
      by (subst string_of_nat.simps) (simp add: parse_digits_append)
  qed
qed

theorem parse_uint_string_of_nat:
  assumes "n \<le> m"
  shows "parse_uint m (string_of_nat n) = Inr n"
proof -
  obtain d s where hd: "string_of_nat n = digit_char d # s" and d: "d < 10"
    using string_of_nat_hd by blast
  have "parse_uint m (string_of_nat n) = parse_digits m 0 (string_of_nat n)"
    using digit_char_neq_sign [OF d] unfolding hd by (simp add: parse_uint_def)
  with parse_digits_string_of_nat [OF assms] show ?thesis by simp
qed

lemma parse_digits_bound: "acc \<le> m \<Longrightarrow> parse_digits m acc s = Inr n \<Longrightarrow> n \<le> m"
  by (induction s arbitrary: acc)
    (auto split: option.splits if_splits simp: not_less)

lemma parse_uint_bound: "parse_uint m s = Inr n \<Longrightarrow> n \<le> m"
  unfolding parse_uint_def
  by (auto split: list.splits if_splits simp del: parse_digits.simps
      dest: parse_digits_bound [OF le0])

lemma saturating_add_le [simp]: "saturating_add a b \<le> usize_max"
  by (simp add: saturating_add_def)

lemma saturating_mul_le [simp]: "saturating_mul a b \<le> usize_max"
  by (simp add: saturating_mul_def)

end
