(* ===== verification/Kinds.thy ===== *)
theory Kinds
  imports Prelude
begin

text \<open>
  The enumerations of \<open>src/config.rs\<close>: the layer a value came from, the quote provider and the
  verifier, the ACME challenge and the DNS provider, each with the spellings it is parsed from
  and printed as. A failed parse carries the token (trimmed, in lower case) that its message
  quotes. The interface \<open>token_enum\<close> says what the configuration layers rely on: what is printed
  can be read back, and reading ignores ASCII case.
\<close>

subsection \<open>Layers\<close>

datatype Source = Default | File | Discovered | Env | Cli

fun source_display :: "Source \<Rightarrow> string" where
  "source_display Default = ''default''"
| "source_display File = ''file''"
| "source_display Discovered = ''discovered''"
| "source_display Env = ''env''"
| "source_display Cli = ''cli''"

fun route_rank :: "Source \<Rightarrow> nat" where
  "route_rank Discovered = 1"
| "route_rank Env = 1"
| "route_rank Cli = 1"
| "route_rank File = 0"
| "route_rank Default = 0"

subsection \<open>Booleans\<close>

definition parse_bool_token :: "string \<Rightarrow> bool option" where
  "parse_bool_token s =
     (let t = to_ascii_lowercase (trim s) in
      if t = ''1'' \<or> t = ''true'' \<or> t = ''yes'' \<or> t = ''on'' then Some True
      else if t = ''0'' \<or> t = ''false'' \<or> t = ''no'' \<or> t = ''off'' then Some False
      else None)"

subsection \<open>Providers and verifiers\<close>

datatype KindError =
    UnknownTeeProvider string
  | UnknownVerifier string
  | UnknownAcmeChallenge string
  | UnknownDnsProvider string

datatype TeeProviderKind = TeeMock | Tdx | SevSnp | Sgx | TrustZone | AwsNitro | TeeTpm

datatype VerifierKind = VerMock | Maa | Ita | AmdSnp | VerTpm | Nvidia | Dcap

fun tee_is_mock :: "TeeProviderKind \<Rightarrow> bool" where
  "tee_is_mock TeeMock = True"
| "tee_is_mock _ = False"

fun tee_as_str :: "TeeProviderKind \<Rightarrow> string" where
  "tee_as_str TeeMock = ''mock''"
| "tee_as_str Tdx = ''tdx''"
| "tee_as_str SevSnp = ''sev_snp''"
| "tee_as_str Sgx = ''sgx''"
| "tee_as_str TrustZone = ''trustzone''"
| "tee_as_str AwsNitro = ''aws_nitro''"
| "tee_as_str TeeTpm = ''tpm''"

fun verifier_is_mock :: "VerifierKind \<Rightarrow> bool" where
  "verifier_is_mock VerMock = True"
| "verifier_is_mock _ = False"

fun verifier_as_str :: "VerifierKind \<Rightarrow> string" where
  "verifier_as_str VerMock = ''mock''"
| "verifier_as_str Maa = ''maa''"
| "verifier_as_str Ita = ''ita''"
| "verifier_as_str AmdSnp = ''amd_snp''"
| "verifier_as_str VerTpm = ''tpm''"
| "verifier_as_str Nvidia = ''nvidia''"
| "verifier_as_str Dcap = ''dcap''"

definition tee_from_str :: "string \<Rightarrow> KindError + TeeProviderKind" where
  "tee_from_str s =
     (let t = to_ascii_lowercase (trim s) in
      if t = ''mock'' then Ok TeeMock
      else if t = ''tdx'' then Ok Tdx
      else if t = ''sev_snp'' \<or> t = ''sevsnp'' \<or> t = ''snp'' then Ok SevSnp
      else if t = ''sgx'' then Ok Sgx
      else if t = ''trustzone'' \<or> t = ''trust_zone'' then Ok TrustZone
      else if t = ''aws_nitro'' \<or> t = ''nitro'' then Ok AwsNitro
      else if t = ''tpm'' then Ok TeeTpm
      else Err (UnknownTeeProvider t))"

definition verifier_from_str :: "string \<Rightarrow> KindError + VerifierKind" where
  "verifier_from_str s =
     (let t = to_ascii_lowercase (trim s) in
      if t = ''mock'' then Ok VerMock
      else if t = ''maa'' then Ok Maa
      else if t = ''ita'' then Ok Ita
      else if t = ''amd_snp'' \<or> t = ''amdsnp'' \<or> t = ''sev_snp'' \<or> t = ''snp'' then Ok AmdSnp
      else if t = ''tpm'' then Ok VerTpm
      else if t = ''nvidia'' \<or> t = ''nvidia_gpu'' then Ok Nvidia
      else if t = ''dcap'' then Ok Dcap
      else Err (UnknownVerifier t))"

subsection \<open>ACME challenge and DNS provider\<close>

datatype AcmeChallenge = TlsAlpn01 | Http01 | Dns01

fun challenge_as_str :: "AcmeChallenge \<Rightarrow> string" where
  "challenge_as_str TlsAlpn01 = ''tls-alpn-01''"
| "challenge_as_str Http01 = ''http-01''"
| "challenge_as_str Dns01 = ''dns-01''"

definition challenge_from_str :: "string \<Rightarrow> KindError + AcmeChallenge" where
  "challenge_from_str s =
     (let t = to_ascii_lowercase (trim s) in
      if t = ''tls-alpn-01'' \<or> t = ''tls_alpn_01'' \<or> t = ''tlsalpn01'' \<or> t = ''tls-alpn''
      then Ok TlsAlpn01
      else if t = ''http-01'' \<or> t = ''http_01'' \<or> t = ''http01'' \<or> t = ''http'' then Ok Http01
      else if t = ''dns-01'' \<or> t = ''dns_01'' \<or> t = ''dns01'' \<or> t = ''dns'' then Ok Dns01
      else Err (UnknownAcmeChallenge t))"

datatype DnsProviderKind = Manual | Cloudflare

fun dns_as_str :: "DnsProviderKind \<Rightarrow> string" where
  "dns_as_str Manual = ''manual''"
| "dns_as_str Cloudflare = ''cloudflare''"

definition dns_from_str :: "string \<Rightarrow> KindError + DnsProviderKind" where
  "dns_from_str s =
     (let t = to_ascii_lowercase (trim s) in
      if t = ''manual'' \<or> t = ''hook'' then Ok Manual
      else if t = ''cloudflare'' \<or> t = ''cf'' then Ok Cloudflare
      else Err (UnknownDnsProvider t))"

subsection \<open>Printing and deserializing\<close>

text \<open>
  \<open>Display\<close> writes the token to the formatter; \<open>Deserialize\<close> reads a string, which may fail in the
  format itself, and parses it.
\<close>

datatype DeError = DeFormat string | DeCustom KindError

definition tee_fmt :: "TeeProviderKind \<Rightarrow> string \<Rightarrow> string" where
  "tee_fmt k f = f @ tee_as_str k"

definition verifier_fmt :: "VerifierKind \<Rightarrow> string \<Rightarrow> string" where
  "verifier_fmt k f = f @ verifier_as_str k"

definition challenge_fmt :: "AcmeChallenge \<Rightarrow> string \<Rightarrow> string" where
  "challenge_fmt k f = f @ challenge_as_str k"

definition dns_fmt :: "DnsProviderKind \<Rightarrow> string \<Rightarrow> string" where
  "dns_fmt k f = f @ dns_as_str k"

definition tee_deserialize :: "string + string \<Rightarrow> DeError + TeeProviderKind" where
  "tee_deserialize d = result_bind (map_err DeFormat d) (\<lambda>s. map_err DeCustom (tee_from_str s))"

definition verifier_deserialize :: "string + string \<Rightarrow> DeError + VerifierKind" where
  "verifier_deserialize d = result_bind (map_err DeFormat d) (\<lambda>s. map_err DeCustom (verifier_from_str s))"

definition challenge_deserialize :: "string + string \<Rightarrow> DeError + AcmeChallenge" where
  "challenge_deserialize d = result_bind (map_err DeFormat d) (\<lambda>s. map_err DeCustom (challenge_from_str s))"

definition dns_deserialize :: "string + string \<Rightarrow> DeError + DnsProviderKind" where
  "dns_deserialize d = result_bind (map_err DeFormat d) (\<lambda>s. map_err DeCustom (dns_from_str s))"

section \<open>Lemmas\<close>

locale token_enum =
  fixes from_str :: "string \<Rightarrow> 'err + 'k"
    and as_str :: "'k \<Rightarrow> string"
    and to_fmt :: "'k \<Rightarrow> string \<Rightarrow> string"
    and deser :: "string + string \<Rightarrow> 'de + 'k"
  assumes round_trip: "from_str (as_str k) = Ok k"
    and case_blind: "from_str (to_ascii_lowercase s) = from_str s"
    and fmt_as_str: "to_fmt k f = f @ as_str k"
    and deser_parses: "deser (Ok s) = Ok k \<longleftrightarrow> from_str s = Ok k"
begin

lemma deser_fmt: "deser (Ok (to_fmt k [])) = Ok k"
  by (simp add: deser_parses fmt_as_str round_trip)

lemma as_str_inj: "as_str k = as_str l \<longleftrightarrow> k = l"
  by (metis round_trip sum.inject(2))

lemma reads_any_case: "to_ascii_lowercase s = as_str k \<Longrightarrow> from_str s = Ok k"
  by (metis case_blind round_trip)

lemma as_str_round_trip: "from_str s = Ok k \<Longrightarrow> from_str (as_str k) = from_str s"
  by (simp add: round_trip)

end

lemma deserialize_Ok: "result_bind (map_err DeFormat (Ok s)) (\<lambda>s. map_err DeCustom (p s)) = Ok k \<longleftrightarrow> p s = Ok k"
  by (simp add: result_bind_eq_Ok map_err_eq_Ok)

lemmas kind_deser = deserialize_Ok tee_deserialize_def verifier_deserialize_def challenge_deserialize_def dns_deserialize_def

interpretation tee: token_enum tee_from_str tee_as_str tee_fmt tee_deserialize
proof
  show "tee_from_str (tee_as_str k) = Ok k" for k
    by (induction k) code_simp+
next
  show "tee_from_str (to_ascii_lowercase s) = tee_from_str s" for s
    by (simp add: tee_from_str_def trim_to_ascii_lowercase)
qed (simp_all add: tee_fmt_def kind_deser)

interpretation verifier: token_enum verifier_from_str verifier_as_str verifier_fmt verifier_deserialize
proof
  show "verifier_from_str (verifier_as_str k) = Ok k" for k
    by (induction k) code_simp+
next
  show "verifier_from_str (to_ascii_lowercase s) = verifier_from_str s" for s
    by (simp add: verifier_from_str_def trim_to_ascii_lowercase)
qed (simp_all add: verifier_fmt_def kind_deser)

interpretation challenge: token_enum challenge_from_str challenge_as_str challenge_fmt challenge_deserialize
proof
  show "challenge_from_str (challenge_as_str k) = Ok k" for k
    by (induction k) code_simp+
next
  show "challenge_from_str (to_ascii_lowercase s) = challenge_from_str s" for s
    by (simp add: challenge_from_str_def trim_to_ascii_lowercase)
qed (simp_all add: challenge_fmt_def kind_deser)

interpretation dns: token_enum dns_from_str dns_as_str dns_fmt dns_deserialize
proof
  show "dns_from_str (dns_as_str k) = Ok k" for k
    by (induction k) code_simp+
next
  show "dns_from_str (to_ascii_lowercase s) = dns_from_str s" for s
    by (simp add: dns_from_str_def trim_to_ascii_lowercase)
qed (simp_all add: dns_fmt_def kind_deser)

lemma route_rank_le [simp]: "route_rank s \<le> 1"
  by (cases s) simp_all

lemma parse_bool_token_case_blind: "parse_bool_token (to_ascii_lowercase s) = parse_bool_token s"
  by (simp add: parse_bool_token_def trim_to_ascii_lowercase)

end
