(* ===== verification/Routing.thy ===== *)
theory Routing
  imports Kinds
begin

text \<open>
  Routes and the route table of \<open>src/config.rs\<close>. A table is built by a stable sort, most
  specific route first, and a request takes the first route that matches it. The specification
  of that pair of operations is \<open>best_route\<close>, one scan that keeps the best match seen; the
  lemmas below show that sorting once and searching linearly computes it.
\<close>

record Route =
  r_name :: string
  r_host :: string
  r_path_prefix :: string
  r_upstream :: string
  r_strict_attestation :: "bool option"
  r_source :: Source

record RouteTable =
  rt_routes :: "Route list"

definition specificity :: "Route \<Rightarrow> nat \<times> nat \<times> nat" where
  "specificity r =
     (if r_host r \<noteq> [] then 1 else 0, length (r_path_prefix r), route_rank (r_source r))"

definition path_prefix_matches :: "string \<Rightarrow> string \<Rightarrow> bool" where
  "path_prefix_matches pre path =
     (let p = trim_end_matches (CHR ''/'') pre in
      if p = [] then True
      else (case strip_prefix path p of
              Some rest \<Rightarrow> rest = [] \<or> starts_with rest ''/''
            | None \<Rightarrow> False))"

definition route_matches :: "Route \<Rightarrow> string \<Rightarrow> string \<Rightarrow> bool" where
  "route_matches r host path =
     (if r_host r \<noteq> [] \<and> \<not> eq_ignore_ascii_case host (r_host r) then False
      else if \<not> path_prefix_matches (r_path_prefix r) path then False
      else True)"

definition route_table_new :: "Route list \<Rightarrow> RouteTable" where
  "route_table_new rs = \<lparr>rt_routes = sort_key (\<lambda>r. Reverse (specificity r)) rs\<rparr>"

definition route_table_select :: "RouteTable \<Rightarrow> string \<Rightarrow> string \<Rightarrow> Route option" where
  "route_table_select t host path = List.find (\<lambda>r. route_matches r host path) (rt_routes t)"

definition route_table_is_empty :: "RouteTable \<Rightarrow> bool" where
  "route_table_is_empty t \<longleftrightarrow> rt_routes t = []"

text \<open>The specification: among the matching routes, the first of those that are most specific.\<close>

fun best_route :: "(Route \<Rightarrow> bool) \<Rightarrow> Route list \<Rightarrow> Route option" where
  "best_route P [] = None"
| "best_route P (r # rs) =
     (if P r then
        (case best_route P rs of
           None \<Rightarrow> Some r
         | Some q \<Rightarrow> if specificity r < specificity q then Some q else Some r)
      else best_route P rs)"

section \<open>Lemmas\<close>

subsection \<open>Matching\<close>

lemma path_prefix_matches_cases:
  "path_prefix_matches pre path \<longleftrightarrow>
     (let p = trim_end_matches (CHR ''/'') pre in
      p = [] \<or> path = p \<or> (\<exists>rest. path = p @ CHR ''/'' # rest))"
proof (cases "strip_prefix path (trim_end_matches (CHR ''/'') pre)")
  case None
  then have "path \<noteq> trim_end_matches (CHR ''/'') pre @ t" for t
    by (auto simp: strip_prefix_eq_None)
  with None show ?thesis
    by (auto simp: path_prefix_matches_def Let_def)
next
  case (Some rest)
  then have "path = trim_end_matches (CHR ''/'') pre @ rest"
    by (simp add: strip_prefix_eq_Some)
  with Some show ?thesis
    by (auto simp: path_prefix_matches_def Let_def starts_with_iff)
qed

lemma split_char_prefix_iff:
  "prefix (split_char c p) (split_char c s) \<longleftrightarrow> s = p \<or> (\<exists>rest. s = p @ c # rest)"
proof
  assume "prefix (split_char c p) (split_char c s)"
  then obtain zs where zs: "split_char c s = split_char c p @ zs"
    by (auto simp: prefix_def)
  show "s = p \<or> (\<exists>rest. s = p @ c # rest)"
  proof (cases "zs = []")
    case True
    with zs have "s = p" by (metis append_Nil2 join_split_char)
    then show ?thesis ..
  next
    case False
    have "s = join [c] (split_char c p @ zs)"
      by (metis zs join_split_char)
    with False have "s = p @ [c] @ join [c] zs"
      by (simp add: join_append join_split_char)
    then show ?thesis by auto
  qed
qed (auto simp: split_by_append_sep)

lemma route_matches_iff:
  "route_matches r host path \<longleftrightarrow>
     (r_host r = [] \<or> eq_ignore_ascii_case host (r_host r)) \<and> path_prefix_matches (r_path_prefix r) path"
  by (simp add: route_matches_def)

subsection \<open>Selection\<close>

lemma find_insort_key:
  "sorted (map f ys) \<Longrightarrow>
   List.find P (insort_key f x ys) =
     (if P x then (case List.find P ys of None \<Rightarrow> Some x | Some y \<Rightarrow> if f x \<le> f y then Some x else Some y)
      else List.find P ys)"
proof (induction ys)
  case (Cons y ys)
  have "f y \<le> f z" if "List.find P ys = Some z" for z
    using Cons.prems that by (auto simp: find_Some_iff)
  with Cons show ?case
    by (auto split: option.splits)
qed simp

lemma find_sort_best_route:
  "List.find P (sort_key (\<lambda>r. Reverse (specificity r)) rs) = best_route P rs"
proof (induction rs)
  case (Cons r rs)
  have "List.find P (sort_key (\<lambda>r. Reverse (specificity r)) (r # rs)) =
      (if P r then (case best_route P rs of None \<Rightarrow> Some r
         | Some y \<Rightarrow> if specificity y \<le> specificity r then Some r else Some y)
       else best_route P rs)"
    by (simp add: find_insort_key Cons.IH split: option.split)
  then show ?case
    by (auto simp: not_less split: option.splits)
qed simp

lemma best_route_Some:
  "best_route P rs = Some r \<Longrightarrow> r \<in> set rs \<and> P r \<and> (\<forall>q \<in> set rs. P q \<longrightarrow> specificity q \<le> specificity r)"
proof (induction rs arbitrary: r)
  case (Cons x xs)
  show ?case
  proof (cases "best_route P xs")
    case None
    have "\<forall>q \<in> set xs. \<not> P q"
      using None by (induction xs) (auto split: if_splits option.splits)
    with Cons.prems None show ?thesis
      by (auto split: if_splits)
  next
    case (Some y)
    with Cons.IH [of y] Cons.prems show ?thesis
      by (fastforce split: if_splits)
  qed
qed simp

lemma best_route_None: "best_route P rs = None \<longleftrightarrow> (\<forall>r \<in> set rs. \<not> P r)"
  by (induction rs) (auto split: option.splits)

lemma select_new: "route_table_select (route_table_new rs) host path =
    best_route (\<lambda>r. route_matches r host path) rs"
  by (simp add: route_table_select_def route_table_new_def find_sort_best_route)

lemma set_route_table_new [simp]: "set (rt_routes (route_table_new rs)) = set rs"
  by (simp add: route_table_new_def)

lemma select_SomeD:
  "route_table_select (route_table_new rs) host path = Some r \<Longrightarrow>
     r \<in> set rs \<and> route_matches r host path
     \<and> (\<forall>q \<in> set rs. route_matches q host path \<longrightarrow> specificity q \<le> specificity r)"
  unfolding select_new by (rule best_route_Some)

lemma specificity_le_iff:
  "specificity q \<le> specificity r \<longleftrightarrow>
     (r_host q = [] \<and> r_host r \<noteq> [])
     \<or> ((r_host q = [] \<longleftrightarrow> r_host r = []) \<and>
         (length (r_path_prefix q) < length (r_path_prefix r)
          \<or> length (r_path_prefix q) = length (r_path_prefix r)
            \<and> route_rank (r_source q) \<le> route_rank (r_source r)))"
  by (auto simp: specificity_def)

lemma route_matches_case_blind [simp]:
  "route_matches r (to_ascii_lowercase host) path = route_matches r host path"
  by (simp add: route_matches_iff)

section \<open>Properties\<close>

definition example_route :: "string \<Rightarrow> string \<Rightarrow> string \<Rightarrow> Source \<Rightarrow> Route" where
  "example_route host pre up src =
     \<lparr>r_name = ''r'', r_host = host, r_path_prefix = pre, r_upstream = up,
      r_strict_attestation = None, r_source = src\<rparr>"

text \<open>
  C10: A table built from a list of routes selects, for every request, exactly what the
  specification scan selects: the first, in the order of the list, of the most specific routes
  that match.
\<close>

theorem select_refines_best_route:
  "route_table_select (route_table_new rs) host path =
     best_route (\<lambda>r. route_matches r host path) rs"
  by (rule select_new)

text \<open>
  A selected route is one of the configured routes, matches the request, and no other
  configured route that matches is more specific.
\<close>

theorem select_most_specific:
  assumes "route_table_select (route_table_new rs) host path = Some r"
  shows "r \<in> set rs \<and> route_matches r host path
    \<and> (\<forall>q \<in> set rs. route_matches q host path \<longrightarrow> specificity q \<le> specificity r)"
  using assms by (rule select_SomeD)

theorem select_most_specific_witness:
  "specificity (example_route [] [] ''http://d'' File)
     \<le> specificity (example_route [] ''/v1'' ''http://v1'' File)"
proof -
  have "route_table_select (route_table_new
      [example_route [] [] ''http://d'' File, example_route [] ''/v1'' ''http://v1'' File])
      ''any'' ''/v1/foo'' = Some (example_route [] ''/v1'' ''http://v1'' File)"
    by code_simp
  from select_most_specific [OF this] show ?thesis
    by (simp add: route_matches_iff path_prefix_matches_cases example_route_def
        trim_end_matches_def)
qed

text \<open>
  A request is rejected (no route selected) exactly when no configured route matches it.
\<close>

theorem select_none_iff:
  "route_table_select (route_table_new rs) host path = None \<longleftrightarrow>
     \<not> list_ex (\<lambda>r. route_matches r host path) rs"
  by (auto simp: select_new best_route_None list_ex_iff)

text \<open>
  C39: A path prefix matches on segment boundaries. With its trailing slashes removed, the prefix
  is empty or its slash-separated segments are an initial part of the segments of the path.
\<close>

theorem path_prefix_matches_segments:
  "path_prefix_matches pre path \<longleftrightarrow>
     trim_end_matches (CHR ''/'') pre = []
     \<or> prefix (split_char (CHR ''/'') (trim_end_matches (CHR ''/'') pre)) (split_char (CHR ''/'') path)"
  by (simp add: path_prefix_matches_cases split_char_prefix_iff Let_def)

text \<open>
  A discovered route overrides a file route with the same host and path prefix: whatever the
  order of the routes and the request, the file route is never the one selected.
\<close>

theorem discovered_overrides_file:
  assumes "f \<in> set rs" "d \<in> set rs" "r_source f = File" "r_source d = Discovered"
    "r_host d = r_host f" "r_path_prefix d = r_path_prefix f"
  shows "route_table_select (route_table_new rs) host path \<noteq> Some f"
proof
  assume sel: "route_table_select (route_table_new rs) host path = Some f"
  then have "route_matches d host path"
    using select_SomeD [OF sel] assms(5,6) by (simp add: route_matches_iff)
  with select_SomeD [OF sel] assms(2) have "specificity d \<le> specificity f"
    by blast
  with assms(3-6) show False
    by (simp add: specificity_le_iff)
qed

theorem discovered_overrides_file_witness:
  "route_table_select (route_table_new
      [example_route [] ''/api'' ''http://file'' File,
       example_route [] ''/api'' ''http://disc'' Discovered]) ''h'' ''/api/x''
     \<noteq> Some (example_route [] ''/api'' ''http://file'' File)"
  by (rule discovered_overrides_file [where d = "example_route [] ''/api'' ''http://disc'' Discovered"])
    (simp_all add: example_route_def)

text \<open>
  When a route that names a host matches, the selected route names a host too, and its path
  prefix is at least as long: a host match beats every catch-all, then the longer prefix wins.
\<close>

theorem host_match_beats_catch_all:
  assumes "q \<in> set rs" "route_matches q host path" "r_host q \<noteq> []"
  shows "\<exists>r. route_table_select (route_table_new rs) host path = Some r
    \<and> r_host r \<noteq> [] \<and> length (r_path_prefix q) \<le> length (r_path_prefix r)"
proof -
  obtain r where r: "route_table_select (route_table_new rs) host path = Some r"
    using assms(1,2) by (metis best_route_None not_None_eq select_new)
  with select_SomeD [OF r] assms have "specificity q \<le> specificity r"
    by blast
  with r assms(3) show ?thesis
    by (auto simp: specificity_le_iff)
qed

theorem host_match_beats_catch_all_witness:
  "\<exists>r. route_table_select (route_table_new
      [example_route [] ''/v1/long'' ''http://any'' File, example_route ''Api'' ''/v1'' ''http://api'' File])
      ''api'' ''/v1/long/x'' = Some r \<and> r_host r \<noteq> [] \<and> 3 \<le> length (r_path_prefix r)"
proof -
  have "route_matches (example_route ''Api'' ''/v1'' ''http://api'' File) ''api'' ''/v1/long/x''"
    by code_simp
  from host_match_beats_catch_all [OF _ this,
      of "[example_route [] ''/v1/long'' ''http://any'' File, example_route ''Api'' ''/v1'' ''http://api'' File]"]
  show ?thesis by (simp add: example_route_def numeral_3_eq_3)
qed

text \<open>
  The length that decides between two matching prefixes counts trailing slashes, which matching
  ignores: a route for the prefix ``/api'' written with trailing slashes is selected over the
  longer prefix ``/api/v1''.
\<close>

lemma trailing_slashes_outrank_longer_prefix:
  "route_table_select (route_table_new
      [example_route [] ''/api////'' ''http://short'' File, example_route [] ''/api/v1'' ''http://long'' File])
      ''h'' ''/api/v1/x'' = Some (example_route [] ''/api////'' ''http://short'' File)"
  by code_simp

end
