(* ===== verification/Rust_Maps.thy ===== *)
theory Rust_Maps
  imports Prelude
begin

text \<open>
  The two maps of the Rust standard library the server uses. \<open>BTreeMap\<close>, whose iteration order
  is the ascending order of its keys and reaches the route table, is an association list with
  strictly ascending keys; \<open>HashMap\<close>, which the sources only look up, insert into and remove
  from, is a partial function. The interface \<open>keyed_store\<close> holds the laws their clients rely
  on, and the lemmas on sequences of insertions and removals are proved once inside it.
\<close>

type_synonym ('k, 'v) btree = "('k \<times> 'v) list"

definition bt_wf :: "('k::linorder, 'v) btree \<Rightarrow> bool" where
  "bt_wf m \<longleftrightarrow> sorted_wrt (<) (map fst m)"

definition bt_get :: "('k, 'v) btree \<Rightarrow> 'k \<Rightarrow> 'v option" where
  "bt_get m k = map_of m k"

fun bt_insert :: "'k::linorder \<Rightarrow> 'v \<Rightarrow> ('k, 'v) btree \<Rightarrow> ('k, 'v) btree" where
  "bt_insert k v [] = [(k, v)]"
| "bt_insert k v ((l, w) # m) =
     (if k < l then (k, v) # (l, w) # m
      else if k = l then (k, v) # m
      else (l, w) # bt_insert k v m)"

definition bt_remove :: "'k \<Rightarrow> ('k, 'v) btree \<Rightarrow> ('k, 'v) btree" where
  "bt_remove k m = filter (\<lambda>e. fst e \<noteq> k) m"

definition bt_keys :: "('k, 'v) btree \<Rightarrow> 'k list" where
  "bt_keys m = map fst m"

definition bt_values :: "('k, 'v) btree \<Rightarrow> 'v list" where
  "bt_values m = map snd m"

definition bt_of_list :: "('k::linorder \<times> 'v) list \<Rightarrow> ('k, 'v) btree" where
  "bt_of_list es = fold (\<lambda>e. bt_insert (fst e) (snd e)) es []"

definition hm_insert :: "'k \<Rightarrow> 'v \<Rightarrow> ('k \<rightharpoonup> 'v) \<Rightarrow> ('k \<rightharpoonup> 'v)" where
  "hm_insert k v m = m(k \<mapsto> v)"

definition hm_remove :: "'k \<Rightarrow> ('k \<rightharpoonup> 'v) \<Rightarrow> ('k \<rightharpoonup> 'v)" where
  "hm_remove k m = m(k := None)"

section \<open>The interface\<close>

locale keyed_store =
  fixes lookup :: "'m \<Rightarrow> 'k \<Rightarrow> 'v option"
    and ins :: "'k \<Rightarrow> 'v \<Rightarrow> 'm \<Rightarrow> 'm"
    and del :: "'k \<Rightarrow> 'm \<Rightarrow> 'm"
    and wf :: "'m \<Rightarrow> bool"
  assumes lookup_ins: "wf m \<Longrightarrow> lookup (ins k v m) l = (if l = k then Some v else lookup m l)"
    and lookup_del: "wf m \<Longrightarrow> lookup (del k m) l = (if l = k then None else lookup m l)"
    and wf_ins: "wf m \<Longrightarrow> wf (ins k v m)"
    and wf_del: "wf m \<Longrightarrow> wf (del k m)"
begin

lemma wf_ins_all: "wf m \<Longrightarrow> wf (fold (\<lambda>e. ins (fst e) (snd e)) es m)"
  by (induction es arbitrary: m) (auto simp: wf_ins)

lemma wf_del_all: "wf m \<Longrightarrow> wf (fold del ks m)"
  by (induction ks arbitrary: m) (auto simp: wf_del)

lemma lookup_ins_all:
  "wf m \<Longrightarrow> lookup (fold (\<lambda>e. ins (fst e) (snd e)) es m) l
     = (case map_of (rev es) l of None \<Rightarrow> lookup m l | Some v \<Rightarrow> Some v)"
proof (induction es arbitrary: m)
  case (Cons e es)
  then show ?case
    by (cases e) (auto simp: wf_ins lookup_ins map_add_def split: option.splits)
qed simp

lemma lookup_del_all:
  "wf m \<Longrightarrow> lookup (fold del ks m) l = (if l \<in> set ks then None else lookup m l)"
  by (induction ks arbitrary: m) (auto simp: wf_del lookup_del)

text \<open>Entries added under keys that were free are gone once their keys are removed.\<close>

lemma teardown:
  assumes "wf m" and "\<And>k. k \<in> fst ` set es \<Longrightarrow> lookup m k = None"
  shows "lookup (fold del (map fst es) (fold (\<lambda>e. ins (fst e) (snd e)) es m)) l = lookup m l"
proof (cases "l \<in> fst ` set es")
  case True
  with assms show ?thesis by (auto simp: lookup_del_all wf_ins_all)
next
  case False
  then have "map_of (rev es) l = None"
    by (simp add: map_of_eq_None_iff)
  with False assms show ?thesis
    by (simp add: lookup_del_all wf_ins_all lookup_ins_all)
qed

lemma lookup_ins_del: "wf m \<Longrightarrow> lookup m k = None \<Longrightarrow> lookup (del k (ins k v m)) = lookup m"
  by (rule ext) (simp add: lookup_del wf_ins lookup_ins)

end

section \<open>\<open>BTreeMap\<close> and \<open>HashMap\<close> provide it\<close>

lemma bt_wf_Nil [simp]: "bt_wf []"
  by (simp add: bt_wf_def)

lemma bt_wf_Cons: "bt_wf (e # m) \<longleftrightarrow> (\<forall>k \<in> fst ` set m. fst e < k) \<and> bt_wf m"
  by (auto simp: bt_wf_def)

lemma set_bt_insert_keys: "fst ` set (bt_insert k v m) = insert k (fst ` set m)"
  by (induction m rule: bt_insert.induct) auto

lemma bt_get_insert: "bt_get (bt_insert k v m) l = (if l = k then Some v else bt_get m l)"
  by (induction k v m rule: bt_insert.induct) (auto simp: bt_get_def)

lemma bt_wf_insert: "bt_wf m \<Longrightarrow> bt_wf (bt_insert k v m)"
proof (induction k v m rule: bt_insert.induct)
  case (2 k v l w m)
  then show ?case
    by (auto simp: bt_wf_Cons set_bt_insert_keys)
qed (simp add: bt_wf_def)

lemma bt_get_remove: "bt_get (bt_remove k m) l = (if l = k then None else bt_get m l)"
  by (induction m) (auto simp: bt_get_def bt_remove_def)

lemma bt_wf_remove: "bt_wf m \<Longrightarrow> bt_wf (bt_remove k m)"
  by (induction m) (auto simp: bt_remove_def bt_wf_Cons)

interpretation bt: keyed_store bt_get bt_insert bt_remove bt_wf
  by unfold_locales (simp_all add: bt_get_insert bt_get_remove bt_wf_insert bt_wf_remove)

interpretation hm: keyed_store "\<lambda>m. m" hm_insert hm_remove "\<lambda>_. True"
  by unfold_locales (simp_all add: hm_insert_def hm_remove_def)

lemma bt_wf_of_list [simp]: "bt_wf (bt_of_list es)"
  by (simp add: bt_of_list_def bt.wf_ins_all)

lemma bt_get_of_list: "bt_get (bt_of_list es) k = map_of (rev es) k"
  by (simp add: bt_of_list_def bt.lookup_ins_all) (simp add: bt_get_def split: option.splits)

lemma bt_wf_distinct: "bt_wf m \<Longrightarrow> distinct (map fst m) \<and> sorted (map fst m)"
  by (simp add: bt_wf_def strict_sorted_iff)

lemma bt_get_Some_iff: "bt_wf m \<Longrightarrow> bt_get m k = Some v \<longleftrightarrow> (k, v) \<in> set m"
  by (simp add: bt_get_def bt_wf_distinct)

lemma bt_get_None_iff: "bt_get m k = None \<longleftrightarrow> k \<notin> fst ` set m"
  by (simp add: bt_get_def map_of_eq_None_iff)

text \<open>Two trees with the same entries are equal: \<open>PartialEq\<close> of \<open>BTreeMap\<close> compares contents.\<close>

lemma bt_eqI:
  assumes "bt_wf m" "bt_wf n" "\<And>k. bt_get m k = bt_get n k"
  shows "m = n"
proof -
  have dom: "fst ` set m = fst ` set n"
    using assms(3) by (metis bt_get_None_iff equalityI subsetI)
  then have keys: "map fst m = map fst n"
    using assms(1,2) by (intro sorted_distinct_set_unique) (auto simp: bt_wf_distinct)
  have "map snd m = map snd n"
  proof (rule nth_equalityI)
    show "length (map snd m) = length (map snd n)"
      using keys by (metis length_map)
    fix i assume i: "i < length (map snd m)"
    with keys have i': "i < length n" by (metis length_map)
    have "bt_get m (fst (m ! i)) = Some (snd (m ! i))"
      using i assms(1) by (simp add: bt_get_Some_iff)
    moreover have "bt_get n (fst (n ! i)) = Some (snd (n ! i))"
      using i' assms(2) by (simp add: bt_get_Some_iff)
    moreover have "fst (m ! i) = fst (n ! i)"
      using keys i i' by (metis length_map nth_map)
    ultimately show "map snd m ! i = map snd n ! i"
      using i i' assms(3) by simp
  qed
  with keys show ?thesis
    by (metis zip_map_fst_snd)
qed

lemma set_bt_values: "bt_wf m \<Longrightarrow> set (bt_values m) = {v. \<exists>k. bt_get m k = Some v}"
  by (force simp: bt_values_def bt_get_Some_iff)

end
