(* ===== verification/Socket_Addr.thy ===== *)
theory Socket_Addr
  imports Prelude
begin

text \<open>
  \<open>std::net::SocketAddr\<close> and its \<open>FromStr\<close>: the recursive-descent parser of the standard library
  for \<open>a.b.c.d:port\<close> and \<open>[ipv6%scope]:port\<close>. A parser takes the remaining input and returns the
  value and the rest, or None with the input untouched.
\<close>

datatype SocketAddr =
    SocketV4 "nat list" nat
  | SocketV6 "nat list" nat nat

type_synonym 'a parser = "string \<Rightarrow> ('a \<times> string) option"

definition digit_in :: "nat \<Rightarrow> char \<Rightarrow> nat option" where
  "digit_in radix c =
     (let n = byte_of c;
          d = (if 48 \<le> n \<and> n \<le> 57 then Some (n - 48)
               else if 97 \<le> n \<and> n \<le> 122 then Some (n - 87)
               else if 65 \<le> n \<and> n \<le> 90 then Some (n - 55)
               else None)
      in case d of None \<Rightarrow> None | Some v \<Rightarrow> if v < radix then Some v else None)"

fun digits_value :: "nat \<Rightarrow> nat \<Rightarrow> string \<Rightarrow> nat" where
  "digits_value radix acc [] = acc"
| "digits_value radix acc (c # s) =
     digits_value radix (acc * radix + (case digit_in radix c of None \<Rightarrow> 0 | Some d \<Rightarrow> d)) s"

definition read_number :: "nat \<Rightarrow> nat option \<Rightarrow> bool \<Rightarrow> nat \<Rightarrow> nat parser" where
  "read_number radix max_digits allow_zero_prefix bound s =
     (let ds = takeWhile (\<lambda>c. digit_in radix c \<noteq> None) s;
          rest = dropWhile (\<lambda>c. digit_in radix c \<noteq> None) s;
          v = digits_value radix 0 ds
      in if (case max_digits of None \<Rightarrow> False | Some k \<Rightarrow> k < length ds) then None
         else if ds = [] then None
         else if \<not> allow_zero_prefix \<and> take 1 ds = ''0'' \<and> 1 < length ds then None
         else if bound < v then None
         else Some (v, rest))"

definition read_given_char :: "char \<Rightarrow> unit parser" where
  "read_given_char c s = (case s of [] \<Rightarrow> None | d # t \<Rightarrow> if d = c then Some ((), t) else None)"

definition read_separator :: "char \<Rightarrow> nat \<Rightarrow> 'a parser \<Rightarrow> 'a parser" where
  "read_separator sep i inner s =
     (if 0 < i then (case read_given_char sep s of None \<Rightarrow> None | Some (_, t) \<Rightarrow> inner t)
      else inner s)"

fun read_octets :: "nat \<Rightarrow> nat \<Rightarrow> nat list parser" where
  "read_octets 0 i s = Some ([], s)"
| "read_octets (Suc n) i s =
     (case read_separator (CHR ''.'') i (read_number 10 (Some 3) False 255) s of
        None \<Rightarrow> None
      | Some (v, t) \<Rightarrow>
          (case read_octets n (Suc i) t of None \<Rightarrow> None | Some (vs, u) \<Rightarrow> Some (v # vs, u)))"

definition read_ipv4_addr :: "nat list parser" where
  "read_ipv4_addr s = read_octets 4 0 s"

fun read_groups :: "nat \<Rightarrow> nat \<Rightarrow> string \<Rightarrow> nat list \<times> bool \<times> string" where
  "read_groups 0 i s = ([], False, s)"
| "read_groups (Suc n) i s =
     (case (if 0 < n then read_separator (CHR '':'') i read_ipv4_addr s else None) of
        Some (os, t) \<Rightarrow> ([os ! 0 * 256 + os ! 1, os ! 2 * 256 + os ! 3], True, t)
      | None \<Rightarrow>
          (case read_separator (CHR '':'') i (read_number 16 (Some 4) True 65535) s of
             None \<Rightarrow> ([], False, s)
           | Some (g, t) \<Rightarrow>
               (case read_groups n (Suc i) t of (gs, v4, u) \<Rightarrow> (g # gs, v4, u))))"

definition read_ipv6_addr :: "nat list parser" where
  "read_ipv6_addr s =
     (case read_groups 8 0 s of (head, v4, t) \<Rightarrow>
        if length head = 8 then Some (head, t)
        else if v4 then None
        else (case read_given_char (CHR '':'') t of None \<Rightarrow> None | Some (_, t1) \<Rightarrow>
              (case read_given_char (CHR '':'') t1 of None \<Rightarrow> None | Some (_, t2) \<Rightarrow>
               (case read_groups (8 - (length head + 1)) 0 t2 of (tail, _, t3) \<Rightarrow>
                  Some (head @ replicate (8 - length head - length tail) 0 @ tail, t3)))))"

definition read_port :: "nat parser" where
  "read_port s =
     (case read_given_char (CHR '':'') s of None \<Rightarrow> None
      | Some (_, t) \<Rightarrow> read_number 10 None True 65535 t)"

definition read_scope_id :: "nat parser" where
  "read_scope_id s =
     (case read_given_char (CHR ''%'') s of None \<Rightarrow> None
      | Some (_, t) \<Rightarrow> read_number 10 None True u32_max t)"

definition read_socket_addr_v4 :: "SocketAddr parser" where
  "read_socket_addr_v4 s =
     (case read_ipv4_addr s of None \<Rightarrow> None | Some (ip, t) \<Rightarrow>
      (case read_port t of None \<Rightarrow> None | Some (port, u) \<Rightarrow> Some (SocketV4 ip port, u)))"

definition read_socket_addr_v6 :: "SocketAddr parser" where
  "read_socket_addr_v6 s =
     (case read_given_char (CHR ''['') s of None \<Rightarrow> None | Some (_, t) \<Rightarrow>
      (case read_ipv6_addr t of None \<Rightarrow> None | Some (ip, u) \<Rightarrow>
       (case (case read_scope_id u of None \<Rightarrow> (0, u) | Some (sc, v) \<Rightarrow> (sc, v)) of (scope, v) \<Rightarrow>
        (case read_given_char (CHR '']'') v of None \<Rightarrow> None | Some (_, w) \<Rightarrow>
         (case read_port w of None \<Rightarrow> None | Some (port, x) \<Rightarrow> Some (SocketV6 ip scope port, x))))))"

definition parse_socket_addr :: "string \<Rightarrow> SocketAddr option" where
  "parse_socket_addr s =
     (case option_or (read_socket_addr_v4 s) (read_socket_addr_v6 s) of
        Some (a, []) \<Rightarrow> Some a
      | _ \<Rightarrow> None)"

section \<open>Lemmas\<close>

lemma read_number_bound: "read_number radix md z bound s = Some (v, t) \<Longrightarrow> v \<le> bound"
  by (auto simp: read_number_def Let_def not_less split: if_splits)

lemma read_octets_shape:
  "read_octets n i s = Some (vs, t) \<Longrightarrow> length vs = n \<and> (\<forall>v \<in> set vs. v \<le> 255)"
proof (induction n i s arbitrary: vs t rule: read_octets.induct)
  case (2 n i s)
  from "2.prems" obtain v u ws where
    v: "read_separator (CHR ''.'') i (read_number 10 (Some 3) False 255) s = Some (v, u)"
    and ws: "read_octets n (Suc i) u = Some (ws, t)" and vs: "vs = v # ws"
    by (auto split: option.splits)
  from v have "v \<le> 255"
    by (auto simp: read_separator_def split: option.splits if_splits dest: read_number_bound)
  with "2.IH" [OF v refl ws] vs show ?case by simp
qed simp

text \<open>The addresses of the type: octets, 16-bit groups and ports, and a 32-bit scope.\<close>

fun addr_ok :: "SocketAddr \<Rightarrow> bool" where
  "addr_ok (SocketV4 ip port) \<longleftrightarrow> length ip = 4 \<and> list_all (\<lambda>v. v \<le> 255) ip \<and> port \<le> 65535"
| "addr_ok (SocketV6 ip scope port) \<longleftrightarrow>
     length ip = 8 \<and> list_all (\<lambda>v. v \<le> 65535) ip \<and> scope \<le> u32_max \<and> port \<le> 65535"

lemma read_separator_bound:
  "read_separator sep i (read_number radix md z bound) s = Some (v, t) \<Longrightarrow> v \<le> bound"
  by (auto simp: read_separator_def split: option.splits if_splits dest: read_number_bound)

lemma read_ipv4_groups:
  assumes "read_separator sep i read_ipv4_addr s = Some (os, t)"
  shows "os ! 0 * 256 + os ! 1 \<le> 65535 \<and> os ! 2 * 256 + os ! 3 \<le> 65535"
proof -
  obtain u where "read_octets 4 0 u = Some (os, t)"
    using assms by (auto simp: read_separator_def read_ipv4_addr_def split: option.splits if_splits)
  from read_octets_shape [OF this] have "os ! k \<le> 255" if "k < 4" for k
    using that nth_mem by metis
  from this [of 0] this [of 1] this [of 2] this [of 3] show ?thesis
    by simp
qed

lemma read_groups_shape:
  "read_groups n i s = (gs, v4, t) \<Longrightarrow> length gs \<le> n \<and> list_all (\<lambda>g. g \<le> 65535) gs"
proof (induction n i s arbitrary: gs v4 t rule: read_groups.induct)
  case (2 n i s)
  show ?case
  proof (cases "if 0 < n then read_separator (CHR '':'') i read_ipv4_addr s else None")
    case None
    show ?thesis
    proof (cases "read_separator (CHR '':'') i (read_number 16 (Some 4) True 65535) s")
      case g: (Some a)
      obtain g u gs' v4' t' where a: "a = (g, u)" "read_groups n (Suc i) u = (gs', v4', t')"
        by (cases a; cases "read_groups n (Suc i) (snd a)") auto
      with "2.IH" [OF None g a(1) [symmetric] a(2)] "2.prems" None g read_separator_bound show ?thesis
        by fastforce
    qed (use "2.prems" None in simp)
  next
    case (Some a)
    then obtain os u where a: "a = (os, u)" "0 < n" "read_separator (CHR '':'') i read_ipv4_addr s = Some (os, u)"
      by (cases a) (auto split: if_splits)
    with "2.prems" Some read_ipv4_groups [OF a(3)] show ?thesis
      by auto
  qed
qed simp

lemma read_ipv6_addr_shape:
  assumes "read_ipv6_addr s = Some (ip, t)"
  shows "length ip = 8 \<and> list_all (\<lambda>g. g \<le> 65535) ip"
proof -
  obtain gs v4 u where g: "read_groups 8 0 s = (gs, v4, u)"
    by (cases "read_groups 8 0 s")
  note shape = read_groups_shape [OF g]
  show ?thesis
  proof (cases "length gs = 8")
    case True
    with assms g shape show ?thesis by (simp add: read_ipv6_addr_def)
  next
    case False
    with assms g obtain u' gs' v4' where g': "read_groups (8 - (length gs + 1)) 0 u' = (gs', v4', t)"
      and ip: "ip = gs @ replicate (8 - length gs - length gs') 0 @ gs'"
      by (auto simp: read_ipv6_addr_def split: if_splits option.splits prod.splits)
    from False shape read_groups_shape [OF g'] ip show ?thesis
      by (auto simp: list_all_iff)
  qed
qed

lemma read_port_bound: "read_port s = Some (port, t) \<Longrightarrow> port \<le> 65535"
  by (auto simp: read_port_def split: option.splits dest: read_number_bound)

lemma parse_socket_addr_ok: "parse_socket_addr s = Some a \<Longrightarrow> addr_ok a"
proof -
  assume p: "parse_socket_addr s = Some a"
  have v4: "addr_ok b" if "read_socket_addr_v4 s = Some (b, t)" for b t
    using that
    by (auto simp: read_socket_addr_v4_def read_ipv4_addr_def list_all_iff
        split: option.splits dest!: read_port_bound read_octets_shape)
  have v6: "addr_ok b" if "read_socket_addr_v6 s = Some (b, t)" for b t
    using that
    by (auto simp: read_socket_addr_v6_def read_scope_id_def
        split: option.splits prod.splits dest: read_port_bound read_number_bound read_ipv6_addr_shape)
  from p v4 v6 show "addr_ok a"
    by (cases "read_socket_addr_v4 s") (auto simp: parse_socket_addr_def split: option.splits list.splits)
qed

lemma parse_default_listen: "parse_socket_addr ''127.0.0.1:8443'' = Some (SocketV4 [127, 0, 0, 1] 8443)"
  by code_simp

lemma parse_v6_loopback:
  "parse_socket_addr ''[::1]:443'' = Some (SocketV6 [0, 0, 0, 0, 0, 0, 0, 1] 0 443)"
  by code_simp

lemma parse_rejects_leading_zero: "parse_socket_addr ''127.0.0.01:80'' = None"
  by code_simp

end
