(* ===== verification/Tls_Config.thy ===== *)
theory Tls_Config
  imports Kinds Socket_Addr
begin

text \<open>
  The \<open>[server.tls]\<close> block of \<open>src/config.rs\<close>: the ACME and DNS settings and
  \<open>TlsConfig::validate\<close>, which classifies the block into exactly one certificate source. Each
  message of \<open>validate\<close> is one constructor of \<open>TlsConfigError\<close>; the two branches that panic
  are constructors too, and shown to be unreachable.
\<close>

record AcmeDnsConfig =
  dns_provider :: DnsProviderKind
  dns_hook_command :: "string option"
  dns_cleanup_command :: "string option"
  dns_api_token :: "string option"
  dns_api_token_env :: "string option"
  dns_zone_id :: "string option"
  dns_propagation_secs :: nat

definition default_dns_propagation_secs :: nat where
  "default_dns_propagation_secs = 60"

definition acme_dns_config_default :: AcmeDnsConfig where
  "acme_dns_config_default =
     \<lparr>dns_provider = Manual, dns_hook_command = None, dns_cleanup_command = None,
      dns_api_token = None, dns_api_token_env = None, dns_zone_id = None,
      dns_propagation_secs = default_dns_propagation_secs\<rparr>"

definition resolve_cf_token :: "(string \<Rightarrow> string option) \<Rightarrow> AcmeDnsConfig \<Rightarrow> string option" where
  "resolve_cf_token env c =
     (case option_filter (\<lambda>t. t \<noteq> []) (dns_api_token c) of
        Some t \<Rightarrow> Some t
      | None \<Rightarrow>
          (case dns_api_token_env c of
             None \<Rightarrow> None
           | Some var \<Rightarrow> option_filter (\<lambda>t. t \<noteq> []) (env var)))"

record AcmeConfig =
  acme_enabled :: bool
  acme_domains :: "string list"
  acme_contact :: "string option"
  acme_challenge :: AcmeChallenge
  acme_directory_url :: "string option"
  acme_staging :: bool
  acme_cache_dir :: "string option"
  acme_http01_listen :: "SocketAddr option"
  acme_dns :: AcmeDnsConfig

record TlsConfig =
  tls_cert_path :: "string option"
  tls_key_path :: "string option"
  tls_acme :: "AcmeConfig option"

datatype TlsMode = TlsStatic string string | TlsAcme AcmeConfig

datatype TlsConfigError =
    MutuallyExclusive
  | NoCertSource
  | KeyPathMissing
  | CertPathMissing
  | DomainsEmpty
  | WildcardNeedsDns01 AcmeChallenge
  | Unreachable
  | AcmeExpectFailed

definition is_wildcard :: "string \<Rightarrow> bool" where
  "is_wildcard d \<longleftrightarrow> starts_with d ''*.''"

definition tls_validate :: "TlsConfig \<Rightarrow> TlsConfigError + TlsMode" where
  "tls_validate t =
     (let acme_is_enabled = (case tls_acme t of None \<Rightarrow> False | Some a \<Rightarrow> acme_enabled a);
          has_static = (tls_cert_path t \<noteq> None \<or> tls_key_path t \<noteq> None)
      in case (acme_is_enabled, has_static) of
           (True, True) \<Rightarrow> Err MutuallyExclusive
         | (False, False) \<Rightarrow> Err NoCertSource
         | (False, True) \<Rightarrow>
             (case (tls_cert_path t, tls_key_path t) of
                (Some cert_path, Some key_path) \<Rightarrow> Ok (TlsStatic cert_path key_path)
              | (Some _, None) \<Rightarrow> Err KeyPathMissing
              | (None, Some _) \<Rightarrow> Err CertPathMissing
              | (None, None) \<Rightarrow> Err Unreachable)
         | (True, False) \<Rightarrow>
             (case tls_acme t of
                None \<Rightarrow> Err AcmeExpectFailed
              | Some acme \<Rightarrow>
                  if acme_domains acme = [] then Err DomainsEmpty
                  else if acme_challenge acme \<noteq> Dns01 \<and> list_ex is_wildcard (acme_domains acme)
                  then Err (WildcardNeedsDns01 (acme_challenge acme))
                  else Ok (TlsAcme acme)))"

section \<open>Lemmas\<close>

lemma tls_validate_no_panic:
  "tls_validate t \<noteq> Err Unreachable" "tls_validate t \<noteq> Err AcmeExpectFailed"
  by (auto simp: tls_validate_def Let_def split: option.splits if_splits bool.splits)

lemma tls_validate_acme:
  "tls_validate t = Ok (TlsAcme a) \<longleftrightarrow>
     tls_acme t = Some a \<and> acme_enabled a \<and> tls_cert_path t = None \<and> tls_key_path t = None
     \<and> acme_domains a \<noteq> [] \<and> (acme_challenge a = Dns01 \<or> \<not> list_ex is_wildcard (acme_domains a))"
  by (auto simp: tls_validate_def Let_def split: option.splits if_splits bool.splits)

lemma tls_validate_static:
  "tls_validate t = Ok (TlsStatic c k) \<longleftrightarrow>
     tls_cert_path t = Some c \<and> tls_key_path t = Some k
     \<and> (case tls_acme t of None \<Rightarrow> True | Some a \<Rightarrow> \<not> acme_enabled a)"
  by (auto simp: tls_validate_def Let_def split: option.splits if_splits bool.splits)

lemma tls_validate_err_cases:
  "tls_validate t = Err e \<Longrightarrow> e \<notin> {Unreachable, AcmeExpectFailed}"
  using tls_validate_no_panic by auto

end
