(* ===== verification/Config.thy ===== *)
theory Config
  imports Routing Rust_Maps Tls_Config
begin

text \<open>
  The layered configuration of \<open>src/config.rs\<close>: the resolved configuration, the partial layers,
  the file layer and its TPM policy, the environment layer, layer resolution with provenance,
  and the validation that runs before the server starts.

  The process environment and the file system are the record \<open>World\<close>. The libraries the code
  calls (toml, hex, rustls-pemfile, x509-parser) are the record \<open>Libs\<close>, each a function from
  its input to its result or to the text of its error.
\<close>

definition DEFAULT_MAX_BODY_BYTES :: nat where
  "DEFAULT_MAX_BODY_BYTES = 4 * 1024 * 1024"

definition DEFAULT_LISTEN :: string where
  "DEFAULT_LISTEN = ''127.0.0.1:8443''"

definition DEFAULT_DOCKER_SOCKET :: string where
  "DEFAULT_DOCKER_SOCKET = ''unix:///var/run/docker.sock''"

definition DEFAULT_DOCKER_POLL_SECS :: nat where
  "DEFAULT_DOCKER_POLL_SECS = 10"

definition DEFAULT_ATB_TTL_SECS :: nat where
  "DEFAULT_ATB_TTL_SECS = 300"

definition DEFAULT_ATB_EVICTION_INTERVAL_SECS :: nat where
  "DEFAULT_ATB_EVICTION_INTERVAL_SECS = 60"

definition DEFAULT_ATB_MAX_SESSIONS :: nat where
  "DEFAULT_ATB_MAX_SESSIONS = 10000"

definition DEFAULT_TEE_PROVIDER :: TeeProviderKind where
  "DEFAULT_TEE_PROVIDER = TeeMock"

definition DEFAULT_VERIFIER :: VerifierKind where
  "DEFAULT_VERIFIER = VerMock"

definition DEFAULT_RATE_LIMIT_MAX_REQUESTS :: nat where
  "DEFAULT_RATE_LIMIT_MAX_REQUESTS = 0"

definition DEFAULT_RATE_LIMIT_WINDOW_SECS :: nat where
  "DEFAULT_RATE_LIMIT_WINDOW_SECS = 60"

definition ENV_CONFIG_PATH :: string where
  "ENV_CONFIG_PATH = ''ARCHETYPE_PROXY_CONFIG''"

definition DEFAULT_CONFIG_PATH :: string where
  "DEFAULT_CONFIG_PATH = ''./archetype-proxy.toml''"

record World =
  w_env :: "string \<Rightarrow> string option"
  w_exists :: "string \<Rightarrow> bool"
  w_read_to_string :: "string \<Rightarrow> string + string"
  w_read :: "string \<Rightarrow> string + bytes"

subsection \<open>Resolved configuration\<close>

record TpmConfig =
  tpm_expected_pcrs :: "(nat, bytes) btree"
  tpm_pinned_ak_sec1 :: "bytes option"
  tpm_pcr_selection :: "nat list option"
  tpm_trusted_ek_root_paths :: "string list"
  tpm_allow_unpinned_ak :: bool

record ServerConfig =
  srv_listen :: SocketAddr
  srv_max_body_bytes :: nat
  srv_tls :: "TlsConfig option"

record AttestationConfig =
  att_allow_mock :: bool
  att_strict_attestation :: bool
  att_atb_ttl_secs :: nat
  att_atb_eviction_interval_secs :: nat
  att_atb_max_sessions :: nat
  att_tee_provider :: TeeProviderKind
  att_verifier :: VerifierKind
  att_verifier_endpoint :: "string option"
  att_verifier_api_key :: "string option"
  att_tpm :: "TpmConfig option"

record RateLimitConfig =
  rl_max_requests :: nat
  rl_window_secs :: nat

record DockerDiscoveryConfig =
  docker_enabled :: bool
  docker_socket :: string
  docker_poll_secs :: nat

record KubernetesDiscoveryConfig =
  k8s_enabled :: bool
  k8s_namespace :: "string option"

record DiscoveryConfig =
  disc_docker :: DockerDiscoveryConfig
  disc_kubernetes :: KubernetesDiscoveryConfig

record StaticConfig =
  st_server :: ServerConfig
  st_attestation :: AttestationConfig
  st_discovery :: DiscoveryConfig
  st_rate_limit :: RateLimitConfig

type_synonym Provenance = "(string, Source) btree"

record Config =
  cfg_static :: StaticConfig
  cfg_file_routes :: "Route list"
  cfg_provenance :: Provenance

definition provenance_record :: "string \<Rightarrow> Source \<Rightarrow> Provenance \<Rightarrow> Provenance" where
  "provenance_record field source p = bt_insert field source p"

definition provenance_get :: "Provenance \<Rightarrow> string \<Rightarrow> Source option" where
  "provenance_get p field = bt_get p field"

definition initial_routes :: "Config \<Rightarrow> RouteTable" where
  "initial_routes c = route_table_new (cfg_file_routes c)"

subsection \<open>Layers\<close>

record PartialStatic =
  ps_listen :: "SocketAddr option"
  ps_max_body_bytes :: "nat option"
  ps_tls :: "TlsConfig option"
  ps_allow_mock :: "bool option"
  ps_strict_attestation :: "bool option"
  ps_atb_ttl_secs :: "nat option"
  ps_atb_eviction_interval_secs :: "nat option"
  ps_atb_max_sessions :: "nat option"
  ps_tee_provider :: "TeeProviderKind option"
  ps_verifier :: "VerifierKind option"
  ps_verifier_endpoint :: "string option"
  ps_verifier_api_key :: "string option"
  ps_tpm :: "TpmConfig option"
  ps_rate_limit_max_requests :: "nat option"
  ps_rate_limit_window_secs :: "nat option"
  ps_docker_enabled :: "bool option"
  ps_docker_socket :: "string option"
  ps_docker_poll_secs :: "nat option"
  ps_kubernetes_enabled :: "bool option"
  ps_kubernetes_namespace :: "string option option"

definition partial_static_default :: PartialStatic where
  "partial_static_default =
     \<lparr>ps_listen = None, ps_max_body_bytes = None, ps_tls = None, ps_allow_mock = None,
      ps_strict_attestation = None, ps_atb_ttl_secs = None, ps_atb_eviction_interval_secs = None,
      ps_atb_max_sessions = None, ps_tee_provider = None, ps_verifier = None,
      ps_verifier_endpoint = None, ps_verifier_api_key = None, ps_tpm = None,
      ps_rate_limit_max_requests = None, ps_rate_limit_window_secs = None,
      ps_docker_enabled = None, ps_docker_socket = None, ps_docker_poll_secs = None,
      ps_kubernetes_enabled = None, ps_kubernetes_namespace = None\<rparr>"

definition namespace_layer :: "string option \<Rightarrow> string option option" where
  "namespace_layer v = map_option (\<lambda>s. if s = [] then None else Some s) v"

subsection \<open>Errors\<close>

datatype EnvReason =
    IntReason IntErrorKind
  | InvalidPcrIndex IntErrorKind
  | KindReason KindError
  | AddrReason
  | ExpectedBoolean
  | ExpectedHex string
  | ExpectedPairs

datatype ValidationMessage =
    TpmPolicyMissing VerifierKind TeeProviderKind
  | TpmTrustModeMissing VerifierKind TeeProviderKind
  | RootPemUnparseable string string
  | RootPemEmpty string
  | RootNotX509 string string

datatype ConfigError =
    ReadError string string
  | ParseError string string
  | EnvError string string EnvReason
  | ValidationError ValidationMessage

subsection \<open>The file\<close>

record FileServer =
  fs_listen :: "SocketAddr option"
  fs_max_body_bytes :: "nat option"
  fs_tls :: "TlsConfig option"

record FileTpm =
  ft_expected_pcrs :: "(string, string) btree"
  ft_pinned_ak_sec1_hex :: "string option"
  ft_pcr_selection :: "nat list option"
  ft_trusted_ek_root_paths :: "string list"
  ft_allow_unpinned_ak :: bool

record FileAttestation =
  fa_allow_mock :: "bool option"
  fa_strict_attestation :: "bool option"
  fa_atb_ttl_secs :: "nat option"
  fa_atb_eviction_interval_secs :: "nat option"
  fa_atb_max_sessions :: "nat option"
  fa_tee_provider :: "TeeProviderKind option"
  fa_verifier :: "VerifierKind option"
  fa_verifier_endpoint :: "string option"
  fa_verifier_api_key :: "string option"
  fa_tpm :: "FileTpm option"

record FileRateLimit =
  frl_max_requests :: "nat option"
  frl_window_secs :: "nat option"

record FileDiscovery =
  fd_docker :: "bool option"
  fd_docker_socket :: "string option"
  fd_docker_poll_secs :: "nat option"
  fd_kubernetes :: "bool option"
  fd_kubernetes_namespace :: "string option"

record FileRoute =
  fr_name :: "string option"
  fr_host :: string
  fr_path_prefix :: string
  fr_upstream :: string
  fr_strict_attestation :: "bool option"

record FileConfig =
  fc_server :: FileServer
  fc_attestation :: FileAttestation
  fc_rate_limit :: FileRateLimit
  fc_discovery :: FileDiscovery
  fc_upstream :: "string option"
  fc_routes :: "FileRoute list"

record Libs =
  lib_toml :: "string \<Rightarrow> string + FileConfig"
  lib_hex_decode :: "string \<Rightarrow> string + bytes"
  lib_pem_certs :: "bytes \<Rightarrow> (string + bytes) list"
  lib_x509 :: "bytes \<Rightarrow> string + unit"

definition decode_hex_field :: "Libs \<Rightarrow> string \<Rightarrow> string \<Rightarrow> ConfigError + bytes" where
  "decode_hex_field l v field =
     map_err (\<lambda>e. EnvError field v (ExpectedHex e)) (lib_hex_decode l (trim v))"

fun resolve_pcrs :: "Libs \<Rightarrow> (string \<times> string) list \<Rightarrow> (nat, bytes) btree \<Rightarrow> ConfigError + (nat, bytes) btree" where
  "resolve_pcrs l [] pcrs = Ok pcrs"
| "resolve_pcrs l ((idx_str, hex_str) # es) pcrs =
     result_bind (map_err (\<lambda>e. EnvError ''attestation.tpm.expected_pcrs'' idx_str (InvalidPcrIndex e))
                   (parse_uint u32_max (trim idx_str)))
       (\<lambda>idx. result_bind (decode_hex_field l hex_str
                  (''attestation.tpm.expected_pcrs['' @ string_of_nat idx @ '']''))
         (\<lambda>bs. resolve_pcrs l es (bt_insert idx bs pcrs)))"

definition file_tpm_resolve :: "Libs \<Rightarrow> FileTpm \<Rightarrow> ConfigError + TpmConfig" where
  "file_tpm_resolve l t =
     result_bind (resolve_pcrs l (ft_expected_pcrs t) [])
       (\<lambda>pcrs. result_bind
          (case ft_pinned_ak_sec1_hex t of
             Some h \<Rightarrow> result_bind (decode_hex_field l h ''attestation.tpm.pinned_ak_sec1_hex'') (\<lambda>b. Ok (Some b))
           | None \<Rightarrow> Ok None)
          (\<lambda>pinned. Ok \<lparr>tpm_expected_pcrs = pcrs, tpm_pinned_ak_sec1 = pinned,
             tpm_pcr_selection = ft_pcr_selection t,
             tpm_trusted_ek_root_paths = ft_trusted_ek_root_paths t,
             tpm_allow_unpinned_ak = ft_allow_unpinned_ak t\<rparr>))"

definition file_route :: "nat \<Rightarrow> FileRoute \<Rightarrow> Route" where
  "file_route i r =
     \<lparr>r_name = unwrap_or (''route-'' @ string_of_nat i) (fr_name r), r_host = fr_host r,
      r_path_prefix = fr_path_prefix r, r_upstream = fr_upstream r,
      r_strict_attestation = fr_strict_attestation r, r_source = File\<rparr>"

definition upstream_default_route :: "string \<Rightarrow> Route" where
  "upstream_default_route target =
     \<lparr>r_name = ''upstream-default'', r_host = [], r_path_prefix = [], r_upstream = target,
      r_strict_attestation = None, r_source = File\<rparr>"

definition file_routes_of :: "FileConfig \<Rightarrow> Route list" where
  "file_routes_of fc =
     map (\<lambda>(i, r). file_route i r) (enumerate 0 (fc_routes fc)) @
     (case fc_upstream fc of None \<Rightarrow> [] | Some target \<Rightarrow> [upstream_default_route target])"

definition partial_of_file :: "FileConfig \<Rightarrow> TpmConfig option \<Rightarrow> PartialStatic" where
  "partial_of_file fc tpm =
     \<lparr>ps_listen = fs_listen (fc_server fc), ps_max_body_bytes = fs_max_body_bytes (fc_server fc),
      ps_tls = fs_tls (fc_server fc), ps_allow_mock = fa_allow_mock (fc_attestation fc),
      ps_strict_attestation = fa_strict_attestation (fc_attestation fc),
      ps_atb_ttl_secs = fa_atb_ttl_secs (fc_attestation fc),
      ps_atb_eviction_interval_secs = fa_atb_eviction_interval_secs (fc_attestation fc),
      ps_atb_max_sessions = fa_atb_max_sessions (fc_attestation fc),
      ps_tee_provider = fa_tee_provider (fc_attestation fc),
      ps_verifier = fa_verifier (fc_attestation fc),
      ps_verifier_endpoint = fa_verifier_endpoint (fc_attestation fc),
      ps_verifier_api_key = fa_verifier_api_key (fc_attestation fc), ps_tpm = tpm,
      ps_rate_limit_max_requests = frl_max_requests (fc_rate_limit fc),
      ps_rate_limit_window_secs = frl_window_secs (fc_rate_limit fc),
      ps_docker_enabled = fd_docker (fc_discovery fc),
      ps_docker_socket = fd_docker_socket (fc_discovery fc),
      ps_docker_poll_secs = fd_docker_poll_secs (fc_discovery fc),
      ps_kubernetes_enabled = fd_kubernetes (fc_discovery fc),
      ps_kubernetes_namespace = namespace_layer (fd_kubernetes_namespace (fc_discovery fc))\<rparr>"

definition read_file :: "Libs \<Rightarrow> World \<Rightarrow> string \<Rightarrow> ConfigError + (PartialStatic \<times> Route list)" where
  "read_file l w path =
     (if \<not> w_exists w path then Ok (partial_static_default, [])
      else result_bind (map_err (ReadError path) (w_read_to_string w path))
        (\<lambda>raw. result_bind (map_err (ParseError path) (lib_toml l raw))
          (\<lambda>fc. result_bind
             (case fa_tpm (fc_attestation fc) of
                Some t \<Rightarrow> result_bind (file_tpm_resolve l t) (\<lambda>c. Ok (Some c))
              | None \<Rightarrow> Ok None)
             (\<lambda>tpm. Ok (partial_of_file fc tpm, file_routes_of fc)))))"

subsection \<open>The environment\<close>

definition env_var :: "World \<Rightarrow> string \<Rightarrow> string option" where
  "env_var w name = option_filter (\<lambda>s. s \<noteq> []) (w_env w name)"

definition env_parse :: "World \<Rightarrow> (string \<Rightarrow> EnvReason + 'a) \<Rightarrow> string \<Rightarrow> ConfigError + 'a option" where
  "env_parse w from_str name =
     (case env_var w name of
        None \<Rightarrow> Ok None
      | Some v \<Rightarrow> map_err (EnvError name v) (result_bind (from_str v) (\<lambda>a. Ok (Some a))))"

definition env_parse_bool :: "World \<Rightarrow> string \<Rightarrow> ConfigError + bool option" where
  "env_parse_bool w name =
     (case env_var w name of
        None \<Rightarrow> Ok None
      | Some v \<Rightarrow>
          (case parse_bool_token v of
             Some b \<Rightarrow> Ok (Some b)
           | None \<Rightarrow> Err (EnvError name v ExpectedBoolean)))"

definition addr_from_str :: "string \<Rightarrow> EnvReason + SocketAddr" where
  "addr_from_str s = ok_or AddrReason (parse_socket_addr s)"

definition usize_from_str :: "string \<Rightarrow> EnvReason + nat" where
  "usize_from_str s = map_err IntReason (parse_uint usize_max s)"

definition u64_from_str :: "string \<Rightarrow> EnvReason + nat" where
  "u64_from_str s = map_err IntReason (parse_uint u64_max s)"

definition trimmed_pieces :: "(char \<Rightarrow> bool) \<Rightarrow> string \<Rightarrow> string list" where
  "trimmed_pieces p s = filter (\<lambda>t. t \<noteq> []) (map trim (split_by p s))"

fun env_pcrs :: "Libs \<Rightarrow> string list \<Rightarrow> (nat, bytes) btree \<Rightarrow> ConfigError + (nat, bytes) btree" where
  "env_pcrs l [] pcrs = Ok pcrs"
| "env_pcrs l (pair # ps) pcrs =
     result_bind (ok_or (EnvError ''ARCHETYPE_PROXY_TPM_EXPECTED_PCRS'' pair ExpectedPairs)
                   (split_once (CHR '':'') pair))
       (\<lambda>(idx_s, hex_s).
          result_bind (map_err (\<lambda>e. EnvError ''ARCHETYPE_PROXY_TPM_EXPECTED_PCRS'' idx_s (InvalidPcrIndex e))
                        (parse_uint u32_max (trim idx_s)))
            (\<lambda>idx. result_bind (decode_hex_field l hex_s ''ARCHETYPE_PROXY_TPM_EXPECTED_PCRS'')
              (\<lambda>bs. env_pcrs l ps (bt_insert idx bs pcrs))))"

definition env_selection :: "string \<Rightarrow> ConfigError + nat list" where
  "env_selection raw =
     map_result (\<lambda>s. map_err (\<lambda>e. EnvError ''ARCHETYPE_PROXY_TPM_PCR_SELECTION'' s (InvalidPcrIndex e))
                       (parse_uint u32_max s))
       (trimmed_pieces (\<lambda>c. c = CHR '','') raw)"

definition read_tpm_env :: "Libs \<Rightarrow> World \<Rightarrow> ConfigError + TpmConfig option" where
  "read_tpm_env l w =
     (let pcrs_raw = env_var w ''ARCHETYPE_PROXY_TPM_EXPECTED_PCRS'';
          ak_raw = env_var w ''ARCHETYPE_PROXY_TPM_PINNED_AK_SEC1_HEX'';
          sel_raw = env_var w ''ARCHETYPE_PROXY_TPM_PCR_SELECTION'';
          roots_raw = env_var w ''ARCHETYPE_PROXY_TPM_TRUSTED_EK_ROOT_PATHS'';
          allow_raw = env_var w ''ARCHETYPE_PROXY_TPM_ALLOW_UNPINNED_AK''
      in if pcrs_raw = None \<and> ak_raw = None \<and> sel_raw = None \<and> roots_raw = None \<and> allow_raw = None
         then Ok None
         else
           result_bind (case pcrs_raw of None \<Rightarrow> Ok [] | Some raw \<Rightarrow>
                          env_pcrs l (trimmed_pieces (\<lambda>c. c = CHR '','') raw) [])
             (\<lambda>pcrs. result_bind (case ak_raw of None \<Rightarrow> Ok None | Some h \<Rightarrow>
                          result_bind (decode_hex_field l h ''ARCHETYPE_PROXY_TPM_PINNED_AK_SEC1_HEX'')
                            (\<lambda>b. Ok (Some b)))
              (\<lambda>pinned. result_bind (case sel_raw of None \<Rightarrow> Ok None | Some raw \<Rightarrow>
                          result_bind (env_selection raw) (\<lambda>sel. Ok (Some sel)))
               (\<lambda>selection.
                  let roots = (case roots_raw of None \<Rightarrow> []
                               | Some raw \<Rightarrow> trimmed_pieces (\<lambda>c. c = CHR '','' \<or> c = CHR '':'') raw)
                  in result_bind (case allow_raw of None \<Rightarrow> Ok False | Some v \<Rightarrow>
                          ok_or (EnvError ''ARCHETYPE_PROXY_TPM_ALLOW_UNPINNED_AK'' v ExpectedBoolean)
                            (parse_bool_token v))
                (\<lambda>allow. Ok (Some \<lparr>tpm_expected_pcrs = pcrs, tpm_pinned_ak_sec1 = pinned,
                   tpm_pcr_selection = selection, tpm_trusted_ek_root_paths = roots,
                   tpm_allow_unpinned_ak = allow\<rparr>))))))"

definition read_env :: "Libs \<Rightarrow> World \<Rightarrow> ConfigError + PartialStatic" where
  "read_env l w =
     result_bind (env_parse w addr_from_str ''ARCHETYPE_PROXY_LISTEN'') (\<lambda>listen.
     result_bind (env_parse w usize_from_str ''ARCHETYPE_PROXY_MAX_BODY_BYTES'') (\<lambda>max_body.
     result_bind (env_parse_bool w ''ARCHETYPE_PROXY_ALLOW_MOCK'') (\<lambda>allow_mock.
     result_bind (env_parse_bool w ''ARCHETYPE_PROXY_STRICT_ATTESTATION'') (\<lambda>strict.
     result_bind (env_parse w u64_from_str ''ARCHETYPE_PROXY_ATB_TTL_SECS'') (\<lambda>ttl.
     result_bind (env_parse w u64_from_str ''ARCHETYPE_PROXY_ATB_EVICTION_INTERVAL_SECS'') (\<lambda>evict.
     result_bind (env_parse w usize_from_str ''ARCHETYPE_PROXY_ATB_MAX_SESSIONS'') (\<lambda>sessions.
     result_bind (env_parse w (\<lambda>s. map_err KindReason (tee_from_str s)) ''ARCHETYPE_PROXY_TEE_PROVIDER'') (\<lambda>tee.
     result_bind (env_parse w (\<lambda>s. map_err KindReason (verifier_from_str s)) ''ARCHETYPE_PROXY_VERIFIER'') (\<lambda>ver.
     result_bind (read_tpm_env l w) (\<lambda>tpm.
     result_bind (env_parse w usize_from_str ''ARCHETYPE_PROXY_RATE_LIMIT_MAX_REQUESTS'') (\<lambda>rl_max.
     result_bind (env_parse w u64_from_str ''ARCHETYPE_PROXY_RATE_LIMIT_WINDOW_SECS'') (\<lambda>rl_win.
     result_bind (env_parse_bool w ''ARCHETYPE_PROXY_DOCKER'') (\<lambda>docker.
     result_bind (env_parse w u64_from_str ''ARCHETYPE_PROXY_DOCKER_POLL_SECS'') (\<lambda>poll.
     result_bind (env_parse_bool w ''ARCHETYPE_PROXY_KUBERNETES'') (\<lambda>kube.
     Ok \<lparr>ps_listen = listen, ps_max_body_bytes = max_body, ps_tls = None, ps_allow_mock = allow_mock,
        ps_strict_attestation = strict, ps_atb_ttl_secs = ttl, ps_atb_eviction_interval_secs = evict,
        ps_atb_max_sessions = sessions, ps_tee_provider = tee, ps_verifier = ver,
        ps_verifier_endpoint = env_var w ''ARCHETYPE_PROXY_VERIFIER_ENDPOINT'',
        ps_verifier_api_key = env_var w ''ARCHETYPE_PROXY_VERIFIER_API_KEY'', ps_tpm = tpm,
        ps_rate_limit_max_requests = rl_max, ps_rate_limit_window_secs = rl_win,
        ps_docker_enabled = docker, ps_docker_socket = env_var w ''ARCHETYPE_PROXY_DOCKER_SOCKET'',
        ps_docker_poll_secs = poll, ps_kubernetes_enabled = kube,
        ps_kubernetes_namespace =
          namespace_layer (w_env w ''ARCHETYPE_PROXY_KUBERNETES_NAMESPACE'')\<rparr>)))))))))))))))"

subsection \<open>Resolution\<close>

definition resolve :: "string \<Rightarrow> 'a \<Rightarrow> (Source \<times> 'a option) list \<Rightarrow> Provenance \<Rightarrow> 'a \<times> Provenance" where
  "resolve field dflt layers prov =
     fold (\<lambda>(source, candidate) (val, p).
             case candidate of
               Some v \<Rightarrow> (v, provenance_record field source p)
             | None \<Rightarrow> (val, p))
       layers (dflt, provenance_record field Default prov)"

definition config_path :: "World \<Rightarrow> string option \<Rightarrow> string" where
  "config_path w explicit =
     unwrap_or DEFAULT_CONFIG_PATH (option_or explicit (w_env w ENV_CONFIG_PATH))"

definition resolve_field ::
  "string \<Rightarrow> 'a \<Rightarrow> (PartialStatic \<Rightarrow> 'a option) \<Rightarrow> PartialStatic \<Rightarrow> PartialStatic \<Rightarrow> PartialStatic
     \<Rightarrow> Provenance \<Rightarrow> 'a \<times> Provenance" where
  "resolve_field name dflt accessor file env cli prov =
     resolve name dflt [(File, accessor file), (Env, accessor env), (Cli, accessor cli)] prov"

definition resolve_layers ::
  "PartialStatic \<times> Route list \<Rightarrow> PartialStatic \<Rightarrow> PartialStatic \<Rightarrow> Config" where
  "resolve_layers file env cli =
     (let (fp, file_routes) = file;
          prov = [];
          (listen, prov) = resolve_field ''server.listen'' (the (parse_socket_addr DEFAULT_LISTEN)) ps_listen fp env cli prov;
          (max_body_bytes, prov) = resolve_field ''server.max_body_bytes'' DEFAULT_MAX_BODY_BYTES ps_max_body_bytes fp env cli prov;
          (allow_mock, prov) = resolve_field ''attestation.allow_mock'' True ps_allow_mock fp env cli prov;
          (strict, prov) = resolve_field ''attestation.strict_attestation'' False ps_strict_attestation fp env cli prov;
          (ttl, prov) = resolve_field ''attestation.atb_ttl_secs'' DEFAULT_ATB_TTL_SECS ps_atb_ttl_secs fp env cli prov;
          (evict, prov) = resolve_field ''attestation.atb_eviction_interval_secs'' DEFAULT_ATB_EVICTION_INTERVAL_SECS ps_atb_eviction_interval_secs fp env cli prov;
          (sessions, prov) = resolve_field ''attestation.atb_max_sessions'' DEFAULT_ATB_MAX_SESSIONS ps_atb_max_sessions fp env cli prov;
          (tee, prov) = resolve_field ''attestation.tee_provider'' DEFAULT_TEE_PROVIDER ps_tee_provider fp env cli prov;
          (ver, prov) = resolve_field ''attestation.verifier'' DEFAULT_VERIFIER ps_verifier fp env cli prov;
          (endpoint, prov) = resolve_field ''attestation.verifier_endpoint'' None
             (\<lambda>p. map_option Some (ps_verifier_endpoint p)) fp env cli prov;
          (api_key, prov) = resolve_field ''attestation.verifier_api_key'' None
             (\<lambda>p. map_option Some (ps_verifier_api_key p)) fp env cli prov;
          (tpm, prov) = resolve_field ''attestation.tpm'' None (\<lambda>p. map_option Some (ps_tpm p)) fp env cli prov;
          (tls, prov) = resolve_field ''server.tls'' None (\<lambda>p. map_option Some (ps_tls p)) fp env cli prov;
          (rl_max, prov) = resolve_field ''rate_limit.max_requests'' DEFAULT_RATE_LIMIT_MAX_REQUESTS ps_rate_limit_max_requests fp env cli prov;
          (rl_win, prov) = resolve_field ''rate_limit.window_secs'' DEFAULT_RATE_LIMIT_WINDOW_SECS ps_rate_limit_window_secs fp env cli prov;
          (docker, prov) = resolve_field ''discovery.docker'' False ps_docker_enabled fp env cli prov;
          (socket, prov) = resolve_field ''discovery.docker.socket'' DEFAULT_DOCKER_SOCKET ps_docker_socket fp env cli prov;
          (poll, prov) = resolve_field ''discovery.docker.poll_secs'' DEFAULT_DOCKER_POLL_SECS ps_docker_poll_secs fp env cli prov;
          (kube, prov) = resolve_field ''discovery.kubernetes'' False ps_kubernetes_enabled fp env cli prov;
          (ns, prov) = resolve_field ''discovery.kubernetes.namespace'' None ps_kubernetes_namespace fp env cli prov
      in \<lparr>cfg_static =
            \<lparr>st_server = \<lparr>srv_listen = listen, srv_max_body_bytes = max_body_bytes, srv_tls = tls\<rparr>,
             st_attestation =
               \<lparr>att_allow_mock = allow_mock, att_strict_attestation = strict, att_atb_ttl_secs = ttl,
                att_atb_eviction_interval_secs = evict, att_atb_max_sessions = sessions,
                att_tee_provider = tee, att_verifier = ver, att_verifier_endpoint = endpoint,
                att_verifier_api_key = api_key, att_tpm = tpm\<rparr>,
             st_discovery =
               \<lparr>disc_docker = \<lparr>docker_enabled = docker, docker_socket = socket, docker_poll_secs = poll\<rparr>,
                disc_kubernetes = \<lparr>k8s_enabled = kube, k8s_namespace = ns\<rparr>\<rparr>,
             st_rate_limit = \<lparr>rl_max_requests = rl_max, rl_window_secs = rl_win\<rparr>\<rparr>,
          cfg_file_routes = file_routes,
          cfg_provenance = prov\<rparr>)"

subsection \<open>Validation\<close>

definition pem_armor :: bytes where
  "pem_armor = map (\<lambda>c. of_char c) ''-----BEGIN ''"

fun any_window :: "bytes \<Rightarrow> bytes \<Rightarrow> bool" where
  "any_window p [] = (p = [])"
| "any_window p (b # bs) = (take (length p) (b # bs) = p \<or> any_window p bs)"

definition load_cert_der :: "Libs \<Rightarrow> World \<Rightarrow> string \<Rightarrow> ConfigError + bytes list" where
  "load_cert_der l w path =
     result_bind (map_err (ReadError path) (w_read w path))
       (\<lambda>bs. result_bind
          (if any_window pem_armor bs
           then result_bind (map_err (\<lambda>e. ValidationError (RootPemUnparseable path e))
                              (map_result id (lib_pem_certs l bs)))
                  (\<lambda>certs. if certs = [] then Err (ValidationError (RootPemEmpty path)) else Ok certs)
           else Ok [bs])
          (\<lambda>ders. result_bind
             (map_result (\<lambda>der. map_err (\<lambda>e. ValidationError (RootNotX509 path e)) (lib_x509 l der)) ders)
             (\<lambda>_. Ok ders)))"

definition trusted_ek_roots_der :: "Libs \<Rightarrow> World \<Rightarrow> TpmConfig \<Rightarrow> ConfigError + bytes list" where
  "trusted_ek_roots_der l w t =
     result_bind (map_result (load_cert_der l w) (tpm_trusted_ek_root_paths t)) (\<lambda>ds. Ok (concat ds))"

definition config_validate :: "Libs \<Rightarrow> World \<Rightarrow> Config \<Rightarrow> ConfigError + unit" where
  "config_validate l w c =
     (let att = st_attestation (cfg_static c);
          uses_tpm = (att_verifier att = VerTpm \<or> att_tee_provider att = TeeTpm)
      in if uses_tpm then
           (case option_filter (\<lambda>t. tpm_expected_pcrs t \<noteq> []) (att_tpm att) of
              None \<Rightarrow> Err (ValidationError (TpmPolicyMissing (att_verifier att) (att_tee_provider att)))
            | Some tpm \<Rightarrow>
                let has_pin = (tpm_pinned_ak_sec1 tpm \<noteq> None);
                    has_roots = (tpm_trusted_ek_root_paths tpm \<noteq> [])
                in if \<not> has_pin \<and> \<not> has_roots \<and> \<not> tpm_allow_unpinned_ak tpm
                   then Err (ValidationError (TpmTrustModeMissing (att_verifier att) (att_tee_provider att)))
                   else if has_roots then result_bind (trusted_ek_roots_der l w tpm) (\<lambda>_. Ok ())
                   else Ok ())
         else Ok ())"

definition config_load :: "Libs \<Rightarrow> World \<Rightarrow> PartialStatic \<Rightarrow> string option \<Rightarrow> ConfigError + Config" where
  "config_load l w cli path =
     result_bind (read_file l w (config_path w path))
       (\<lambda>file. result_bind (read_env l w)
         (\<lambda>env. let cfg = resolve_layers file env cli
                in result_bind (config_validate l w cfg) (\<lambda>_. Ok cfg)))"

section \<open>Lemmas\<close>

subsection \<open>Resolution\<close>

definition layered :: "'a \<Rightarrow> 'a option \<Rightarrow> 'a option \<Rightarrow> 'a option \<Rightarrow> 'a" where
  "layered dflt file env cli = unwrap_or dflt (option_or cli (option_or env file))"

definition layer_source :: "'a option \<Rightarrow> 'a option \<Rightarrow> 'a option \<Rightarrow> Source" where
  "layer_source file env cli =
     (if cli \<noteq> None then Cli else if env \<noteq> None then Env else if file \<noteq> None then File else Default)"

lemma default_listen_parses [simp]:
  "the (parse_socket_addr DEFAULT_LISTEN) = SocketV4 [127, 0, 0, 1] 8443"
  by (simp add: DEFAULT_LISTEN_def parse_default_listen)

lemma bt_insert_overwrite [simp]: "bt_insert k v (bt_insert k w m) = bt_insert k v m"
  by (induction m) auto

lemma resolve_field_eq:
  "resolve_field name dflt acc file env cli prov =
     (layered dflt (acc file) (acc env) (acc cli),
      bt_insert name (layer_source (acc file) (acc env) (acc cli)) prov)"
  by (auto simp: resolve_field_def resolve_def layered_def layer_source_def provenance_record_def
      split: option.splits)

lemma layered_map_Some: "layered None (map_option Some f) (map_option Some e) (map_option Some c)
    = option_or c (option_or e f)"
  by (cases c; cases e; cases f) (auto simp: layered_def)

lemma layer_source_map_Some [simp]:
  "layer_source (map_option Some f) (map_option Some e) (map_option Some c) = layer_source f e c"
  by (auto simp: layer_source_def)

text \<open>
  Every resolution over any list of layers, lowest precedence first, takes the value of the last
  layer that has one and records that layer.
\<close>

lemma resolve_silent_suffix:
  "(\<And>s v. (s, v) \<in> set ys \<Longrightarrow> v = None) \<Longrightarrow> resolve field d (xs @ ys) prov = resolve field d xs prov"
proof (induction ys rule: rev_induct)
  case (snoc y ys)
  then obtain s where "y = (s, None)"
    by (cases y) auto
  moreover have "resolve field d (xs @ ys) prov = resolve field d xs prov"
    using snoc by auto
  ultimately show ?case
    by (simp add: resolve_def split_beta flip: append_assoc)
qed simp

lemma resolve_last_layer:
  "resolve field d (xs @ [(s, Some v)]) prov =
     (v, provenance_record field s (snd (resolve field d xs prov)))"
  by (simp add: resolve_def split_beta)

subsection \<open>The resolved configuration, field by field\<close>

lemmas resolve_layers_unfold = resolve_layers_def resolve_field_eq Let_def prod.case

text \<open>The specification: every field taken from the highest layer that sets it.\<close>

definition static_spec :: "PartialStatic \<Rightarrow> PartialStatic \<Rightarrow> PartialStatic \<Rightarrow> StaticConfig" where
  "static_spec f e c =
     \<lparr>st_server =
        \<lparr>srv_listen = layered (SocketV4 [127, 0, 0, 1] 8443) (ps_listen f) (ps_listen e) (ps_listen c),
         srv_max_body_bytes =
           layered DEFAULT_MAX_BODY_BYTES (ps_max_body_bytes f) (ps_max_body_bytes e) (ps_max_body_bytes c),
         srv_tls = option_or (ps_tls c) (option_or (ps_tls e) (ps_tls f))\<rparr>,
      st_attestation =
        \<lparr>att_allow_mock = layered True (ps_allow_mock f) (ps_allow_mock e) (ps_allow_mock c),
         att_strict_attestation =
           layered False (ps_strict_attestation f) (ps_strict_attestation e) (ps_strict_attestation c),
         att_atb_ttl_secs = layered DEFAULT_ATB_TTL_SECS (ps_atb_ttl_secs f) (ps_atb_ttl_secs e) (ps_atb_ttl_secs c),
         att_atb_eviction_interval_secs =
           layered DEFAULT_ATB_EVICTION_INTERVAL_SECS (ps_atb_eviction_interval_secs f)
             (ps_atb_eviction_interval_secs e) (ps_atb_eviction_interval_secs c),
         att_atb_max_sessions =
           layered DEFAULT_ATB_MAX_SESSIONS (ps_atb_max_sessions f) (ps_atb_max_sessions e) (ps_atb_max_sessions c),
         att_tee_provider = layered TeeMock (ps_tee_provider f) (ps_tee_provider e) (ps_tee_provider c),
         att_verifier = layered VerMock (ps_verifier f) (ps_verifier e) (ps_verifier c),
         att_verifier_endpoint =
           option_or (ps_verifier_endpoint c) (option_or (ps_verifier_endpoint e) (ps_verifier_endpoint f)),
         att_verifier_api_key =
           option_or (ps_verifier_api_key c) (option_or (ps_verifier_api_key e) (ps_verifier_api_key f)),
         att_tpm = option_or (ps_tpm c) (option_or (ps_tpm e) (ps_tpm f))\<rparr>,
      st_discovery =
        \<lparr>disc_docker =
           \<lparr>docker_enabled = layered False (ps_docker_enabled f) (ps_docker_enabled e) (ps_docker_enabled c),
            docker_socket =
              layered DEFAULT_DOCKER_SOCKET (ps_docker_socket f) (ps_docker_socket e) (ps_docker_socket c),
            docker_poll_secs =
              layered DEFAULT_DOCKER_POLL_SECS (ps_docker_poll_secs f) (ps_docker_poll_secs e) (ps_docker_poll_secs c)\<rparr>,
         disc_kubernetes =
           \<lparr>k8s_enabled = layered False (ps_kubernetes_enabled f) (ps_kubernetes_enabled e) (ps_kubernetes_enabled c),
            k8s_namespace =
              layered None (ps_kubernetes_namespace f) (ps_kubernetes_namespace e) (ps_kubernetes_namespace c)\<rparr>\<rparr>,
      st_rate_limit =
        \<lparr>rl_max_requests =
           layered 0 (ps_rate_limit_max_requests f) (ps_rate_limit_max_requests e) (ps_rate_limit_max_requests c),
         rl_window_secs =
           layered DEFAULT_RATE_LIMIT_WINDOW_SECS (ps_rate_limit_window_secs f) (ps_rate_limit_window_secs e)
             (ps_rate_limit_window_secs c)\<rparr>\<rparr>"

lemma resolve_layers_static: "cfg_static (resolve_layers (f, rs) e c) = static_spec f e c"
  unfolding resolve_layers_unfold static_spec_def
  by (simp add: layered_map_Some DEFAULT_TEE_PROVIDER_def DEFAULT_VERIFIER_def
      DEFAULT_RATE_LIMIT_MAX_REQUESTS_def)

lemma resolve_layers_routes [simp]: "cfg_file_routes (resolve_layers (f, rs) e c) = rs"
  unfolding resolve_layers_unfold by simp

definition provenance_table :: "PartialStatic \<Rightarrow> PartialStatic \<Rightarrow> PartialStatic \<Rightarrow> (string \<times> Source) list" where
  "provenance_table f e c =
     [(''discovery.kubernetes.namespace'',
         layer_source (ps_kubernetes_namespace f) (ps_kubernetes_namespace e) (ps_kubernetes_namespace c)),
      (''discovery.kubernetes'',
         layer_source (ps_kubernetes_enabled f) (ps_kubernetes_enabled e) (ps_kubernetes_enabled c)),
      (''discovery.docker.poll_secs'',
         layer_source (ps_docker_poll_secs f) (ps_docker_poll_secs e) (ps_docker_poll_secs c)),
      (''discovery.docker.socket'', layer_source (ps_docker_socket f) (ps_docker_socket e) (ps_docker_socket c)),
      (''discovery.docker'', layer_source (ps_docker_enabled f) (ps_docker_enabled e) (ps_docker_enabled c)),
      (''rate_limit.window_secs'',
         layer_source (ps_rate_limit_window_secs f) (ps_rate_limit_window_secs e) (ps_rate_limit_window_secs c)),
      (''rate_limit.max_requests'',
         layer_source (ps_rate_limit_max_requests f) (ps_rate_limit_max_requests e) (ps_rate_limit_max_requests c)),
      (''server.tls'', layer_source (ps_tls f) (ps_tls e) (ps_tls c)),
      (''attestation.tpm'', layer_source (ps_tpm f) (ps_tpm e) (ps_tpm c)),
      (''attestation.verifier_api_key'',
         layer_source (ps_verifier_api_key f) (ps_verifier_api_key e) (ps_verifier_api_key c)),
      (''attestation.verifier_endpoint'',
         layer_source (ps_verifier_endpoint f) (ps_verifier_endpoint e) (ps_verifier_endpoint c)),
      (''attestation.verifier'', layer_source (ps_verifier f) (ps_verifier e) (ps_verifier c)),
      (''attestation.tee_provider'', layer_source (ps_tee_provider f) (ps_tee_provider e) (ps_tee_provider c)),
      (''attestation.atb_max_sessions'',
         layer_source (ps_atb_max_sessions f) (ps_atb_max_sessions e) (ps_atb_max_sessions c)),
      (''attestation.atb_eviction_interval_secs'',
         layer_source (ps_atb_eviction_interval_secs f) (ps_atb_eviction_interval_secs e)
           (ps_atb_eviction_interval_secs c)),
      (''attestation.atb_ttl_secs'', layer_source (ps_atb_ttl_secs f) (ps_atb_ttl_secs e) (ps_atb_ttl_secs c)),
      (''attestation.strict_attestation'',
         layer_source (ps_strict_attestation f) (ps_strict_attestation e) (ps_strict_attestation c)),
      (''attestation.allow_mock'', layer_source (ps_allow_mock f) (ps_allow_mock e) (ps_allow_mock c)),
      (''server.max_body_bytes'', layer_source (ps_max_body_bytes f) (ps_max_body_bytes e) (ps_max_body_bytes c)),
      (''server.listen'', layer_source (ps_listen f) (ps_listen e) (ps_listen c))]"

lemma resolve_layers_provenance:
  "provenance_get (cfg_provenance (resolve_layers (f, rs) e c)) field = map_of (provenance_table f e c) field"
  unfolding resolve_layers_unfold provenance_get_def provenance_table_def Config.simps bt_get_insert
  by (simp add: bt_get_def)

end
