(* ===== verification/Cli.thy ===== *)
theory Cli
  imports Config
begin

text \<open>
  \<open>src/cli.rs\<close>: the parsed command line and its methods. Parsing \<open>argv\<close> itself is the clap
  derive macro; the record holds its result.
\<close>

datatype LogLevel = LogOff | LogError | LogWarn | LogInfo | LogDebug | LogTrace

fun log_level_as_str :: "LogLevel \<Rightarrow> string" where
  "log_level_as_str LogOff = ''off''"
| "log_level_as_str LogError = ''error''"
| "log_level_as_str LogWarn = ''warn''"
| "log_level_as_str LogInfo = ''info''"
| "log_level_as_str LogDebug = ''debug''"
| "log_level_as_str LogTrace = ''trace''"

datatype Commands = Dump

record Args =
  arg_config_path :: "string option"
  arg_config :: "string option"
  arg_listen :: "SocketAddr option"
  arg_max_body_bytes :: "nat option"
  arg_docker :: bool
  arg_kubernetes :: bool
  arg_log_level :: "LogLevel option"
  arg_verbose :: nat
  arg_command :: "Commands option"

definition args_config_path :: "Args \<Rightarrow> string option" where
  "args_config_path a = option_or (arg_config a) (arg_config_path a)"

definition args_dump :: "Args \<Rightarrow> bool" where
  "args_dump a \<longleftrightarrow> arg_command a = Some Dump"

definition args_level :: "Args \<Rightarrow> LogLevel" where
  "args_level a =
     (case arg_log_level a of
        Some level \<Rightarrow> level
      | None \<Rightarrow>
          if arg_verbose a = 0 then LogInfo
          else if arg_verbose a = 1 then LogDebug
          else LogTrace)"

definition args_log_directive :: "Args \<Rightarrow> string" where
  "args_log_directive a = ''archetype_proxy_server='' @ log_level_as_str (args_level a)"

definition args_overrides :: "Args \<Rightarrow> PartialStatic" where
  "args_overrides a =
     partial_static_default
       \<lparr>ps_listen := arg_listen a,
        ps_max_body_bytes := arg_max_body_bytes a,
        ps_docker_enabled := (if arg_docker a then Some True else None),
        ps_kubernetes_enabled := (if arg_kubernetes a then Some True else None)\<rparr>"

section \<open>Lemmas\<close>

lemma args_overrides_simps [simp]:
  "ps_listen (args_overrides a) = arg_listen a"
  "ps_max_body_bytes (args_overrides a) = arg_max_body_bytes a"
  "ps_docker_enabled (args_overrides a) = (if arg_docker a then Some True else None)"
  "ps_kubernetes_enabled (args_overrides a) = (if arg_kubernetes a then Some True else None)"
  "ps_allow_mock (args_overrides a) = None"
  "ps_tee_provider (args_overrides a) = None"
  "ps_verifier (args_overrides a) = None"
  "ps_tpm (args_overrides a) = None"
  "ps_tls (args_overrides a) = None"
  by (simp_all add: args_overrides_def partial_static_default_def)

end
