(* ===== verification/Hex_Ref.thy ===== *)
theory Hex_Ref
  imports Prelude
begin

text \<open>
  A reference hexadecimal codec. The server takes \<open>hex::encode\<close> and \<open>hex::decode\<close> from a
  library, which the model leaves as parameters; this theory gives one pair of functions with
  the documented behaviour, at which the hypotheses about the library are shown to hold.
\<close>

definition hex_digits :: string where
  "hex_digits = ''0123456789abcdef''"

definition hex_value :: "char \<Rightarrow> nat option" where
  "hex_value c = map_of (zip hex_digits [0..<16]) c"

fun hex_encode_ref :: "bytes \<Rightarrow> string" where
  "hex_encode_ref [] = []"
| "hex_encode_ref (b # bs) =
     hex_digits ! (unat b div 16) # hex_digits ! (unat b mod 16) # hex_encode_ref bs"

fun hex_decode_ref :: "string \<Rightarrow> string + bytes" where
  "hex_decode_ref [] = Ok []"
| "hex_decode_ref [c] = Err ''Odd number of digits''"
| "hex_decode_ref (c # d # s) =
     (case (hex_value c, hex_value d) of
        (Some x, Some y) \<Rightarrow> result_bind (hex_decode_ref s) (\<lambda>bs. Ok (of_nat (16 * x + y) # bs))
      | _ \<Rightarrow> Err ''Invalid character'')"

section \<open>Lemmas\<close>

lemma upt_16: "[0..<16] = [0, 1, 2, 3, 4, 5, 6, 7, 8, 9, 10, 11, 12, 13, 14, 15::nat]"
  by code_simp

lemma less_16_cases: "n < 16 \<longleftrightarrow> n \<in> {0, 1, 2, 3, 4, 5, 6, 7, 8, 9, 10, 11, 12, 13, 14, 15::nat}"
  by (simp, arith)

lemma hex_value_digit: "n < 16 \<Longrightarrow> hex_value (hex_digits ! n) = Some n"
  unfolding less_16_cases hex_value_def hex_digits_def upt_16 by auto

lemma hex_digit_in: "n < 16 \<Longrightarrow> hex_digits ! n \<in> set hex_digits"
  by (intro nth_mem) (simp add: hex_digits_def)

lemma unat_byte_bound: "unat (b :: byte) div 16 < 16"
proof -
  have "unat b < 2 ^ LENGTH(8)" by (rule unsigned_less)
  then show ?thesis by (simp add: less_mult_imp_div_less)
qed

lemma hex_encode_ref_chars: "list_all (\<lambda>c. c \<in> set hex_digits) (hex_encode_ref bs)"
  by (induction bs) (simp_all add: hex_digit_in unat_byte_bound)

lemma hex_round_trip_ref: "hex_decode_ref (hex_encode_ref bs) = Ok bs"
  by (induction bs) (simp_all add: hex_value_digit unat_byte_bound)

lemma length_hex_encode_ref: "length (hex_encode_ref bs) = 2 * length bs"
  by (induction bs) simp_all

lemma hex_digits_plain: "c \<in> set hex_digits \<Longrightarrow> plain_char c \<and> c \<noteq> CHR '','' \<and> c \<noteq> CHR '':''"
  unfolding hex_digits_def plain_char_def byte_of_def by auto

end
