(* ===== verification/Config_Facts.thy ===== *)
theory Config_Facts
  imports Cli Hex_Ref
begin

text \<open>
  What the configuration layers guarantee: precedence and provenance of every field, when the
  environment layer is silent, the shape of a decoded TPM policy, and that a configuration that
  loads has a usable TPM policy whenever a TPM provider or verifier is selected.
\<close>

subsection \<open>TPM policies\<close>

definition pcrs_ok :: "(nat, bytes) btree \<Rightarrow> bool" where
  "pcrs_ok m \<longleftrightarrow> bt_wf m \<and> list_all (\<lambda>i. i \<le> u32_max) (bt_keys m)"

lemma pcrs_ok_Nil [simp]: "pcrs_ok []"
  by (simp add: pcrs_ok_def bt_keys_def)

lemma pcrs_ok_insert: "pcrs_ok m \<Longrightarrow> i \<le> u32_max \<Longrightarrow> pcrs_ok (bt_insert i bs m)"
  using set_bt_insert_keys [of i bs m]
  by (auto simp: pcrs_ok_def bt_wf_insert bt_keys_def list_all_iff image_iff)

lemma resolve_pcrs_ok: "pcrs_ok m \<Longrightarrow> resolve_pcrs l es m = Ok m' \<Longrightarrow> pcrs_ok m'"
  by (induction l es m rule: resolve_pcrs.induct)
    (auto simp: result_bind_eq_Ok dest!: parse_uint_bound intro: pcrs_ok_insert)

lemma env_pcrs_ok: "pcrs_ok m \<Longrightarrow> env_pcrs l ps m = Ok m' \<Longrightarrow> pcrs_ok m'"
  by (induction l ps m rule: env_pcrs.induct)
    (auto simp: result_bind_eq_Ok dest!: parse_uint_bound intro: pcrs_ok_insert)

lemma file_tpm_resolve_ok: "file_tpm_resolve l t = Ok c \<Longrightarrow> pcrs_ok (tpm_expected_pcrs c)"
  using resolve_pcrs_ok [OF pcrs_ok_Nil]
  by (auto simp: file_tpm_resolve_def result_bind_eq_Ok split: option.splits)

lemma read_tpm_env_ok: "read_tpm_env l w = Ok (Some c) \<Longrightarrow> pcrs_ok (tpm_expected_pcrs c)"
  using env_pcrs_ok [OF pcrs_ok_Nil]
  by (auto simp: read_tpm_env_def Let_def result_bind_eq_Ok split: option.splits if_splits)

lemma read_file_tpm_ok: "read_file l w path = Ok (p, rs) \<Longrightarrow> ps_tpm p = Some c \<Longrightarrow> pcrs_ok (tpm_expected_pcrs c)"
  by (auto simp: read_file_def result_bind_eq_Ok partial_of_file_def partial_static_default_def
      split: if_splits option.splits dest!: file_tpm_resolve_ok)

lemma read_env_tpm: "read_env l w = Ok p \<Longrightarrow> read_tpm_env l w = Ok (ps_tpm p)"
  by (clarsimp simp: read_env_def result_bind_eq_Ok)

lemma read_env_tls: "read_env l w = Ok p \<Longrightarrow> ps_tls p = None"
  by (clarsimp simp: read_env_def result_bind_eq_Ok)

subsection \<open>Validation\<close>

definition uses_tpm :: "AttestationConfig \<Rightarrow> bool" where
  "uses_tpm att \<longleftrightarrow> att_verifier att = VerTpm \<or> att_tee_provider att = TeeTpm"

definition tpm_policy_usable :: "Libs \<Rightarrow> World \<Rightarrow> TpmConfig \<Rightarrow> bool" where
  "tpm_policy_usable l w t \<longleftrightarrow>
     tpm_expected_pcrs t \<noteq> []
     \<and> (tpm_pinned_ak_sec1 t \<noteq> None \<or> tpm_trusted_ek_root_paths t \<noteq> [] \<or> tpm_allow_unpinned_ak t)
     \<and> (tpm_trusted_ek_root_paths t = [] \<or> result_ok (trusted_ek_roots_der l w t) \<noteq> None)"

lemma config_validate_iff:
  "config_validate l w c = Ok () \<longleftrightarrow>
     \<not> uses_tpm (st_attestation (cfg_static c))
     \<or> (case att_tpm (st_attestation (cfg_static c)) of None \<Rightarrow> False | Some t \<Rightarrow> tpm_policy_usable l w t)"
  by (auto simp: config_validate_def uses_tpm_def tpm_policy_usable_def Let_def result_bind_eq_Ok
      result_ok_def split: option.splits sum.splits if_splits)

lemma config_load_Ok:
  "config_load l w cli path = Ok cfg \<longleftrightarrow>
     (\<exists>fp rs e. read_file l w (config_path w path) = Ok (fp, rs) \<and> read_env l w = Ok e
        \<and> cfg = resolve_layers (fp, rs) e cli \<and> config_validate l w cfg = Ok ())"
  by (auto simp: config_load_def result_bind_eq_Ok Let_def)

subsection \<open>Machine types\<close>

text \<open>
  The numbers of the model are unbounded; these predicates give each the width of its Rust type. That a file layer has
  them is what deserializing into the derived types guarantees, and for the command line
  clap's value parsers do.
\<close>

abbreviation opt_le :: "nat \<Rightarrow> nat option \<Rightarrow> bool" where
  "opt_le bound \<equiv> pred_option (\<lambda>n. n \<le> bound)"

definition tls_typed :: "TlsConfig \<Rightarrow> bool" where
  "tls_typed t \<longleftrightarrow>
     pred_option (\<lambda>a. pred_option addr_ok (acme_http01_listen a) \<and> dns_propagation_secs (acme_dns a) \<le> u64_max) (tls_acme t)"

definition selection_typed :: "nat list option \<Rightarrow> bool" where
  "selection_typed sel \<longleftrightarrow> pred_option (list_all (\<lambda>i. i \<le> u32_max)) sel"

definition tpm_typed :: "TpmConfig \<Rightarrow> bool" where
  "tpm_typed t \<longleftrightarrow> pcrs_ok (tpm_expected_pcrs t) \<and> selection_typed (tpm_pcr_selection t)"

definition file_typed :: "FileConfig \<Rightarrow> bool" where
  "file_typed fc \<longleftrightarrow>
     pred_option addr_ok (fs_listen (fc_server fc)) \<and> opt_le usize_max (fs_max_body_bytes (fc_server fc))
     \<and> pred_option tls_typed (fs_tls (fc_server fc))
     \<and> opt_le u64_max (fa_atb_ttl_secs (fc_attestation fc))
     \<and> opt_le u64_max (fa_atb_eviction_interval_secs (fc_attestation fc))
     \<and> opt_le usize_max (fa_atb_max_sessions (fc_attestation fc))
     \<and> pred_option (\<lambda>t. selection_typed (ft_pcr_selection t)) (fa_tpm (fc_attestation fc))
     \<and> opt_le usize_max (frl_max_requests (fc_rate_limit fc)) \<and> opt_le u64_max (frl_window_secs (fc_rate_limit fc))
     \<and> opt_le u64_max (fd_docker_poll_secs (fc_discovery fc))"

definition args_typed :: "Args \<Rightarrow> bool" where
  "args_typed a \<longleftrightarrow> pred_option addr_ok (arg_listen a) \<and> opt_le usize_max (arg_max_body_bytes a)"

definition layer_typed :: "PartialStatic \<Rightarrow> bool" where
  "layer_typed p \<longleftrightarrow>
     pred_option addr_ok (ps_listen p) \<and> opt_le usize_max (ps_max_body_bytes p) \<and> pred_option tls_typed (ps_tls p)
     \<and> opt_le u64_max (ps_atb_ttl_secs p) \<and> opt_le u64_max (ps_atb_eviction_interval_secs p)
     \<and> opt_le usize_max (ps_atb_max_sessions p) \<and> pred_option tpm_typed (ps_tpm p)
     \<and> opt_le usize_max (ps_rate_limit_max_requests p) \<and> opt_le u64_max (ps_rate_limit_window_secs p)
     \<and> opt_le u64_max (ps_docker_poll_secs p)"

definition static_typed :: "StaticConfig \<Rightarrow> bool" where
  "static_typed c \<longleftrightarrow>
     addr_ok (srv_listen (st_server c)) \<and> srv_max_body_bytes (st_server c) \<le> usize_max
     \<and> pred_option tls_typed (srv_tls (st_server c))
     \<and> att_atb_ttl_secs (st_attestation c) \<le> u64_max \<and> att_atb_eviction_interval_secs (st_attestation c) \<le> u64_max
     \<and> att_atb_max_sessions (st_attestation c) \<le> usize_max \<and> pred_option tpm_typed (att_tpm (st_attestation c))
     \<and> rl_max_requests (st_rate_limit c) \<le> usize_max \<and> rl_window_secs (st_rate_limit c) \<le> u64_max
     \<and> docker_poll_secs (disc_docker (st_discovery c)) \<le> u64_max"

lemma pred_option_or [simp]: "pred_option P c \<Longrightarrow> pred_option P f \<Longrightarrow> pred_option P (option_or c f)"
  by (cases c) auto

lemma layered_typed:
  "P d \<Longrightarrow> pred_option P f \<Longrightarrow> pred_option P e \<Longrightarrow> pred_option P c \<Longrightarrow> P (layered d f e c)"
  by (cases c; cases e; cases f) (auto simp: layered_def)

lemma layered_le: "d \<le> b \<Longrightarrow> opt_le b f \<Longrightarrow> opt_le b e \<Longrightarrow> opt_le b c \<Longrightarrow> layered d f e c \<le> b"
  by (rule layered_typed)

lemma layer_typed_default: "layer_typed partial_static_default"
  by (simp add: layer_typed_def partial_static_default_def)

lemma layer_typed_args: "args_typed a \<Longrightarrow> layer_typed (args_overrides a)"
  by (simp add: layer_typed_def args_typed_def args_overrides_def partial_static_default_def)

lemma file_tpm_resolve_typed: "file_tpm_resolve l t = Ok c \<Longrightarrow> selection_typed (ft_pcr_selection t) \<Longrightarrow> tpm_typed c"
  using file_tpm_resolve_ok [of l t c]
  by (auto simp: file_tpm_resolve_def tpm_typed_def result_bind_eq_Ok split: option.splits)

lemma layer_typed_file:
  assumes "\<And>raw fc. lib_toml l raw = Ok fc \<Longrightarrow> file_typed fc" "read_file l w path = Ok (p, rs)"
  shows "layer_typed p"
proof (cases "w_exists w path")
  case True
  with assms(2) obtain raw fc tpm where fc: "lib_toml l raw = Ok fc" and p: "p = partial_of_file fc tpm"
    and tpm: "(case fa_tpm (fc_attestation fc) of
        Some t \<Rightarrow> result_bind (file_tpm_resolve l t) (\<lambda>c. Ok (Some c)) | None \<Rightarrow> Ok None) = Ok tpm"
    by (auto simp: read_file_def result_bind_eq_Ok)
  from assms(1) [OF fc] have "file_typed fc" .
  moreover from this tpm have "pred_option tpm_typed tpm"
    by (auto simp: file_typed_def result_bind_eq_Ok split: option.splits intro: file_tpm_resolve_typed)
  ultimately show ?thesis
    by (simp add: p partial_of_file_def file_typed_def layer_typed_def)
qed (use assms(2) layer_typed_default in \<open>simp add: read_file_def\<close>)

lemma env_parse_typed:
  "env_parse w from_str name = Ok v \<Longrightarrow> (\<And>s x. from_str s = Ok x \<Longrightarrow> P x) \<Longrightarrow> pred_option P v"
  by (auto simp: env_parse_def result_bind_eq_Ok map_err_eq_Ok split: option.splits)

lemma env_number_typed:
  "env_parse w usize_from_str name = Ok v \<Longrightarrow> opt_le usize_max v"
  "env_parse w u64_from_str name = Ok v \<Longrightarrow> opt_le u64_max v"
  "env_parse w addr_from_str name = Ok a \<Longrightarrow> pred_option addr_ok a"
  by (erule env_parse_typed;
      auto simp: usize_from_str_def u64_from_str_def addr_from_str_def map_err_eq_Ok ok_or_def
        dest: parse_uint_bound parse_socket_addr_ok split: option.splits)+

lemma map_result_all: "map_result f xs = Ok ys \<Longrightarrow> (\<And>x y. f x = Ok y \<Longrightarrow> P y) \<Longrightarrow> list_all P ys"
  by (induction xs arbitrary: ys) (auto simp: result_bind_eq_Ok)

lemma env_selection_typed: "env_selection raw = Ok sel \<Longrightarrow> list_all (\<lambda>i. i \<le> u32_max) sel"
  unfolding env_selection_def
  by (erule map_result_all) (auto simp: map_err_eq_Ok dest: parse_uint_bound)

lemma read_tpm_env_typed: "read_tpm_env l w = Ok tpm \<Longrightarrow> pred_option tpm_typed tpm"
  using env_pcrs_ok [OF pcrs_ok_Nil]
  by (auto simp: read_tpm_env_def Let_def result_bind_eq_Ok tpm_typed_def selection_typed_def
      dest!: env_selection_typed split: option.splits if_splits)

lemma layer_typed_env: "read_env l w = Ok p \<Longrightarrow> layer_typed p"
  by (clarsimp simp: read_env_def result_bind_eq_Ok layer_typed_def env_number_typed read_tpm_env_typed)

lemma static_typed_layers:
  assumes "layer_typed f" "layer_typed e" "layer_typed c"
  shows "static_typed (static_spec f e c)"
  using assms unfolding layer_typed_def static_typed_def static_spec_def
  by (simp add: layered_typed layered_le DEFAULT_MAX_BODY_BYTES_def DEFAULT_ATB_TTL_SECS_def DEFAULT_ATB_EVICTION_INTERVAL_SECS_def
      DEFAULT_ATB_MAX_SESSIONS_def DEFAULT_RATE_LIMIT_WINDOW_SECS_def DEFAULT_DOCKER_POLL_SECS_def usize_max_def u64_max_def)

subsection \<open>Printing and reading a policy\<close>

definition print_pcr :: "(bytes \<Rightarrow> string) \<Rightarrow> nat \<times> bytes \<Rightarrow> string" where
  "print_pcr enc e = string_of_nat (fst e) @ CHR '':'' # enc (snd e)"

definition print_pcrs :: "(bytes \<Rightarrow> string) \<Rightarrow> (nat, bytes) btree \<Rightarrow> string" where
  "print_pcrs enc m = join '','' (map (print_pcr enc) m)"

lemma string_of_nat_plain:
  "list_all plain_char (string_of_nat n)" "CHR '':'' \<notin> set (string_of_nat n)" "CHR '','' \<notin> set (string_of_nat n)"
  using string_of_nat_digits [of _ n] digit_char_plain by (force simp: list_all_iff)+

lemma print_pcr_chars:
  assumes "list_all (\<lambda>c. c \<in> set hex_digits) (enc (snd e))"
  shows "list_all plain_char (print_pcr enc e)" "CHR '','' \<notin> set (print_pcr enc e)"
    "split_once (CHR '':'') (print_pcr enc e) = Some (string_of_nat (fst e), enc (snd e))"
proof -
  have colon: "plain_char (CHR '':'')" by code_simp
  show "list_all plain_char (print_pcr enc e)"
    using assms colon string_of_nat_plain(1) [of "fst e"] hex_digits_plain
    by (auto simp: print_pcr_def list_all_iff)
  show "CHR '','' \<notin> set (print_pcr enc e)"
    using assms string_of_nat_plain(3) [of "fst e"] hex_digits_plain
    by (auto simp: print_pcr_def list_all_iff)
  show "split_once (CHR '':'') (print_pcr enc e) = Some (string_of_nat (fst e), enc (snd e))"
    unfolding split_once_eq_Some by (simp add: print_pcr_def string_of_nat_plain)
qed

lemma env_pcrs_print:
  assumes "\<And>b. list_all (\<lambda>c. c \<in> set hex_digits) (enc b)" "\<And>b. lib_hex_decode l (enc b) = Ok b"
    and "list_all (\<lambda>i. i \<le> u32_max) (map fst es)"
  shows "env_pcrs l (map (print_pcr enc) es) acc = Ok (fold (\<lambda>e. bt_insert (fst e) (snd e)) es acc)"
  using assms(3)
proof (induction es arbitrary: acc)
  case (Cons e es)
  have "trim (enc (snd e)) = enc (snd e)"
    using assms(1) [of "snd e"] hex_digits_plain by (intro trim_plain) (auto simp: list_all_iff)
  with Cons assms(1,2) show ?case
    by (simp add: print_pcr_chars trim_plain string_of_nat_plain parse_uint_string_of_nat decode_hex_field_def)
qed simp

lemma trimmed_pieces_print:
  assumes "\<And>b. list_all (\<lambda>c. c \<in> set hex_digits) (enc b)"
  shows "trimmed_pieces (\<lambda>c. c = CHR '','') (print_pcrs enc m) = map (print_pcr enc) m"
proof (cases "m = []")
  case True
  then show ?thesis by (simp add: trimmed_pieces_def print_pcrs_def trim_plain)
next
  case False
  then have "split_char (CHR '','') (print_pcrs enc m) = map (print_pcr enc) m"
    unfolding print_pcrs_def using assms print_pcr_chars by (intro split_char_join) auto
  moreover have "map trim (map (print_pcr enc) m) = map (print_pcr enc) m"
    using assms by (auto intro!: trim_plain print_pcr_chars)
  moreover have "print_pcr enc e \<noteq> []" for e
    by (simp add: print_pcr_def)
  ultimately show ?thesis
    by (simp add: trimmed_pieces_def filter_id_conv del: map_map)
qed

lemma bt_of_list_wf: "bt_wf m \<Longrightarrow> bt_of_list m = m"
proof (rule bt_eqI)
  assume wf: "bt_wf m"
  fix k
  have "map_of (rev m) k = Some v \<longleftrightarrow> map_of m k = Some v" for v
    using bt_wf_distinct [OF wf] by (simp add: rev_map [symmetric])
  then have "map_of (rev m) k = map_of m k"
    by (metis option.exhaust)
  then show "bt_get (bt_of_list m) k = bt_get m k"
    unfolding bt_get_of_list by (simp add: bt_get_def)
qed simp_all

definition example_libs :: Libs where
  "example_libs =
     \<lparr>lib_toml = (\<lambda>_. Err ''no file''), lib_hex_decode = hex_decode_ref,
      lib_pem_certs = (\<lambda>_. []), lib_x509 = (\<lambda>_. Ok ())\<rparr>"

definition example_env :: "string \<Rightarrow> string option" where
  "example_env = map_of
     [(''ARCHETYPE_PROXY_VERIFIER'', ''tpm''), (''ARCHETYPE_PROXY_TPM_EXPECTED_PCRS'', ''7:ab, 0:00ff''),
      (''ARCHETYPE_PROXY_TPM_PINNED_AK_SEC1_HEX'', ''04ab'')]"

definition example_world :: World where
  "example_world =
     \<lparr>w_env = example_env, w_exists = (\<lambda>_. False), w_read_to_string = (\<lambda>_. Err ''absent''),
      w_read = (\<lambda>_. Err ''absent'')\<rparr>"

definition example_args :: Args where
  "example_args =
     \<lparr>arg_config_path = None, arg_config = None, arg_listen = None, arg_max_body_bytes = Some 1024,
      arg_docker = True, arg_kubernetes = False, arg_log_level = None, arg_verbose = 1,
      arg_command = None\<rparr>"

lemma example_load:
  "case config_load example_libs example_world (args_overrides example_args) None of
     Inl _ \<Rightarrow> False
   | Inr cfg \<Rightarrow> uses_tpm (st_attestation (cfg_static cfg)) \<and> att_tpm (st_attestation (cfg_static cfg)) \<noteq> None"
  by code_simp

section \<open>Properties\<close>

text \<open>
  C22: Layer resolution computes the specification: every field of the static configuration comes
  from the command line if it is set there, else from the environment, else from the file, else
  it has its default; the routes are those of the file; and the recorded provenance of every
  field is the layer its value came from, with no entry for any other name.
\<close>

theorem resolve_layers_precedence:
  "cfg_static (resolve_layers (f, rs) e c) = static_spec f e c
   \<and> cfg_file_routes (resolve_layers (f, rs) e c) = rs
   \<and> provenance_get (cfg_provenance (resolve_layers (f, rs) e c)) field = map_of (provenance_table f e c) field"
  by (simp add: resolve_layers_static resolve_layers_provenance)

text \<open>
  Over any list of layers, ordered from lowest to highest precedence, a field takes the value
  of the last layer that sets it, and that layer is the one recorded.
\<close>

theorem resolve_last_set_layer_wins:
  assumes "list_all (\<lambda>(_, v). v = None) ys"
  shows "fst (resolve field d (xs @ (s, Some v) # ys) prov) = v
    \<and> provenance_get (snd (resolve field d (xs @ (s, Some v) # ys) prov)) field = Some s"
proof -
  have "resolve field d ((xs @ [(s, Some v)]) @ ys) prov = resolve field d (xs @ [(s, Some v)]) prov"
    using assms by (intro resolve_silent_suffix) (auto simp: list_all_iff)
  then show ?thesis
    by (simp add: resolve_last_layer provenance_get_def provenance_record_def bt_get_insert)
qed

theorem resolve_last_set_layer_wins_witness:
  "fst (resolve ''f'' (0::nat) ([(File, Some 1)] @ (Env, Some 2) # [(Cli, None)]) []) = 2
   \<and> provenance_get (snd (resolve ''f'' (0::nat) ([(File, Some 1)] @ (Env, Some 2) # [(Cli, None)]) [])) ''f'' = Some Env"
  by (rule resolve_last_set_layer_wins) simp

text \<open>
  C13: A configuration that loads is never without a usable TPM policy when its provider or its
  verifier is the TPM: the expected PCR values are not empty, the attestation key is pinned,
  chained to a root or explicitly unpinned, and every configured root file was read and parsed.
\<close>

theorem loaded_tpm_policy_fails_closed:
  assumes "config_load l w cli path = Ok cfg" "uses_tpm (st_attestation (cfg_static cfg))"
  shows "\<exists>t. att_tpm (st_attestation (cfg_static cfg)) = Some t \<and> tpm_policy_usable l w t"
  using assms by (auto simp: config_load_Ok config_validate_iff split: option.splits)

theorem loaded_tpm_policy_fails_closed_witness:
  "case config_load example_libs example_world (args_overrides example_args) None of
     Inl _ \<Rightarrow> False
   | Inr cfg \<Rightarrow> (\<exists>t. att_tpm (st_attestation (cfg_static cfg)) = Some t
       \<and> tpm_policy_usable example_libs example_world t)"
  using example_load loaded_tpm_policy_fails_closed [of example_libs example_world "args_overrides example_args" None]
  by (auto split: sum.splits)



text \<open>
  C40: A TPM policy survives the environment encoding: printing an ascending map of PCR values as
  comma-separated index and hexadecimal pairs and reading the result gives the map back, for any
  hexadecimal codec whose encoder emits lower-case digits and whose decoder inverts it.
\<close>

theorem env_pcrs_round_trip:
  assumes "\<And>b. list_all (\<lambda>c. c \<in> set hex_digits) (enc b)"
    and "\<And>b. lib_hex_decode l (enc b) = Ok b"
    and "pcrs_ok m"
  shows "env_pcrs l (trimmed_pieces (\<lambda>c. c = CHR '','') (print_pcrs enc m)) [] = Ok m"
proof -
  have "env_pcrs l (map (print_pcr enc) m) [] = Ok (bt_of_list m)"
    using assms unfolding bt_of_list_def pcrs_ok_def bt_keys_def by (intro env_pcrs_print) auto
  with assms show ?thesis
    by (simp add: trimmed_pieces_print bt_of_list_wf pcrs_ok_def)
qed

theorem env_pcrs_round_trip_witness:
  "env_pcrs example_libs (trimmed_pieces (\<lambda>c. c = CHR '','')
     (print_pcrs hex_encode_ref [(0, [0, 255]), (7, [171])])) [] = Ok [(0, [0, 255]), (7, [171])]"
  by (rule env_pcrs_round_trip)
    (simp_all add: hex_encode_ref_chars hex_round_trip_ref example_libs_def pcrs_ok_def bt_wf_def
      bt_keys_def u32_max_def)

text \<open>
  With no variable set the environment layer is silent: it sets no field and raises no error.
\<close>

theorem silent_environment:
  assumes "\<And>name. w_env w name = None"
  shows "read_env l w = Ok partial_static_default"
  using assms
  by (simp add: read_env_def env_parse_def env_parse_bool_def env_var_def read_tpm_env_def
      namespace_layer_def partial_static_default_def)

theorem silent_environment_witness:
  "read_env example_libs (example_world\<lparr>w_env := (\<lambda>_. None)\<rparr>) = Ok partial_static_default"
  by (rule silent_environment) simp

end
