(* ===== verification/Attestation.thy ===== *)
theory Attestation
  imports Config_Facts
begin

text \<open>
  Selection of the TEE provider and the quote verifier and the guard against mock attestation in a
  release build (\<open>src/attestation.rs\<close>), with the order in which \<open>main\<close> runs them. The
  providers and verifiers of the openhttpa crates are parameters, one field of \<open>AttestationLib\<close> per
  constructor the code calls; the cargo features compiled in are a set.
\<close>

datatype AttestationMode = Secure | Insecure bool

datatype FatalError =
    MockInRelease bool TeeProviderKind VerifierKind
  | FeatureMissing string string string
  | MaaNeedsEndpoint
  | ItaNeedsEndpoint
  | ItaNeedsApiKey
  | VerifierUnsupported VerifierKind
  | TpmSectionMissing
  | TpmPcrsEmpty
  | TpmRootsError ConfigError

definition INSECURE_DEV_ENV :: string where
  "INSECURE_DEV_ENV = ''ARCHETYPE_PROXY_INSECURE_DEV''"

definition uses_mock :: "AttestationConfig \<Rightarrow> bool" where
  "uses_mock cfg \<longleftrightarrow> att_allow_mock cfg \<or> tee_is_mock (att_tee_provider cfg) \<or> verifier_is_mock (att_verifier cfg)"

definition startup_attestation_decision :: "bool \<Rightarrow> AttestationConfig \<Rightarrow> bool \<Rightarrow> FatalError + AttestationMode" where
  "startup_attestation_decision is_release cfg insecure_dev_env =
     (if \<not> uses_mock cfg then Ok Secure
      else if \<not> is_release then Ok (Insecure False)
      else if insecure_dev_env then Ok (Insecure True)
      else Err (MockInRelease (att_allow_mock cfg) (att_tee_provider cfg) (att_verifier cfg)))"

definition insecure_dev_env_set :: "World \<Rightarrow> bool" where
  "insecure_dev_env_set w \<longleftrightarrow> w_env w INSECURE_DEV_ENV = Some ''1''"

definition feature_error :: "string \<Rightarrow> string \<Rightarrow> string \<Rightarrow> FatalError" where
  "feature_error kind val feature = FeatureMissing kind val feature"

record ('p, 'v, 'pol) AttestationLib =
  al_mock_tee :: 'p
  al_tdx_tee :: 'p
  al_sev_snp_tee :: 'p
  al_sgx_tee :: 'p
  al_trustzone_tee :: 'p
  al_aws_nitro_tee :: 'p
  al_tpm_tee :: 'p
  al_mock_verifier :: 'v
  al_maa_verifier :: "string \<Rightarrow> 'v"
  al_ita_verifier :: "string \<Rightarrow> string \<Rightarrow> 'v"
  al_sev_snp_verifier :: 'v
  al_tpm_verifier :: "'pol \<Rightarrow> 'v"
  al_from_pcrs :: "(nat \<Rightarrow> bytes option) \<Rightarrow> 'pol"
  al_with_pinned_ak :: "bytes \<Rightarrow> 'pol \<Rightarrow> 'pol"
  al_with_trusted_ek_roots :: "bytes list \<Rightarrow> 'pol \<Rightarrow> 'pol"
  al_allow_unpinned_ak :: "bool \<Rightarrow> 'pol \<Rightarrow> 'pol"

definition build_tee_provider ::
  "('p, 'v, 'pol) AttestationLib \<Rightarrow> string set \<Rightarrow> AttestationConfig \<Rightarrow> FatalError + 'p" where
  "build_tee_provider lib features cfg =
     (case att_tee_provider cfg of
        TeeMock \<Rightarrow> Ok (al_mock_tee lib)
      | Tdx \<Rightarrow> if ''tdx'' \<in> features then Ok (al_tdx_tee lib)
               else Err (feature_error ''tee_provider'' ''tdx'' ''tdx'')
      | SevSnp \<Rightarrow> if ''sev_snp'' \<in> features then Ok (al_sev_snp_tee lib)
               else Err (feature_error ''tee_provider'' ''sev_snp'' ''sev_snp'')
      | Sgx \<Rightarrow> if ''sgx'' \<in> features then Ok (al_sgx_tee lib)
               else Err (feature_error ''tee_provider'' ''sgx'' ''sgx'')
      | TrustZone \<Rightarrow> if ''trustzone'' \<in> features then Ok (al_trustzone_tee lib)
               else Err (feature_error ''tee_provider'' ''trustzone'' ''trustzone'')
      | AwsNitro \<Rightarrow> if ''aws_nitro'' \<in> features then Ok (al_aws_nitro_tee lib)
               else Err (feature_error ''tee_provider'' ''aws_nitro'' ''aws_nitro'')
      | TeeTpm \<Rightarrow> if ''tpm'' \<in> features then Ok (al_tpm_tee lib)
               else Err (feature_error ''tee_provider'' ''tpm'' ''tpm''))"

definition build_tpm_verifier ::
  "('p, 'v, 'pol) AttestationLib \<Rightarrow> Libs \<Rightarrow> World \<Rightarrow> AttestationConfig \<Rightarrow> FatalError + 'v" where
  "build_tpm_verifier lib l w cfg =
     result_bind (ok_or TpmSectionMissing (att_tpm cfg)) (\<lambda>tpm.
       if tpm_expected_pcrs tpm = [] then Err TpmPcrsEmpty
       else
         let policy = al_from_pcrs lib (map_of (tpm_expected_pcrs tpm));
             policy = (case tpm_pinned_ak_sec1 tpm of Some ak \<Rightarrow> al_with_pinned_ak lib ak policy | None \<Rightarrow> policy)
         in result_bind (map_err TpmRootsError (trusted_ek_roots_der l w tpm)) (\<lambda>roots.
              let policy = (if roots \<noteq> [] then al_with_trusted_ek_roots lib roots policy else policy);
                  policy = (if tpm_allow_unpinned_ak tpm then al_allow_unpinned_ak lib True policy else policy)
              in Ok (al_tpm_verifier lib policy)))"

definition build_verifier ::
  "('p, 'v, 'pol) AttestationLib \<Rightarrow> string set \<Rightarrow> Libs \<Rightarrow> World \<Rightarrow> AttestationConfig \<Rightarrow> FatalError + 'v" where
  "build_verifier lib features l w cfg =
     (case att_verifier cfg of
        VerMock \<Rightarrow> Ok (al_mock_verifier lib)
      | Maa \<Rightarrow> if ''maa'' \<in> features
               then result_bind (ok_or MaaNeedsEndpoint (att_verifier_endpoint cfg)) (\<lambda>endpoint.
                      Ok (al_maa_verifier lib endpoint))
               else Err (feature_error ''verifier'' ''maa'' ''maa'')
      | Ita \<Rightarrow> if ''ita'' \<in> features
               then result_bind (ok_or ItaNeedsEndpoint (att_verifier_endpoint cfg)) (\<lambda>endpoint.
                      result_bind (ok_or ItaNeedsApiKey (att_verifier_api_key cfg)) (\<lambda>api_key.
                        Ok (al_ita_verifier lib api_key endpoint)))
               else Err (feature_error ''verifier'' ''ita'' ''ita'')
      | AmdSnp \<Rightarrow> if ''amd_snp'' \<in> features then Ok (al_sev_snp_verifier lib)
               else Err (feature_error ''verifier'' ''amd_snp'' ''amd_snp'')
      | VerTpm \<Rightarrow> if ''tpm'' \<in> features then build_tpm_verifier lib l w cfg
               else Err (feature_error ''verifier'' ''tpm'' ''tpm'')
      | Nvidia \<Rightarrow> Err (VerifierUnsupported Nvidia)
      | Dcap \<Rightarrow> Err (VerifierUnsupported Dcap))"

text \<open>
  The attestation part of \<open>main\<close>: the guard, then the provider, then the verifier; any error
  ends the process with status 1.
\<close>

definition main_attestation ::
  "('p, 'v, 'pol) AttestationLib \<Rightarrow> string set \<Rightarrow> bool \<Rightarrow> Libs \<Rightarrow> World \<Rightarrow> AttestationConfig \<Rightarrow>
     FatalError + (AttestationMode \<times> 'p \<times> 'v)" where
  "main_attestation lib features is_release l w cfg =
     result_bind (startup_attestation_decision is_release cfg (insecure_dev_env_set w)) (\<lambda>mode.
       result_bind (build_tee_provider lib features cfg) (\<lambda>tee.
         result_bind (build_verifier lib features l w cfg) (\<lambda>verifier.
           Ok (mode, tee, verifier))))"

text \<open>\<open>warn_tpm_unpinned_ak\<close>: whether the warning about an unauthenticated key is logged.\<close>

definition warn_tpm_unpinned_ak :: "AttestationConfig \<Rightarrow> bool" where
  "warn_tpm_unpinned_ak cfg \<longleftrightarrow>
     att_verifier cfg = VerTpm
     \<and> (case att_tpm cfg of None \<Rightarrow> False | Some t \<Rightarrow> tpm_allow_unpinned_ak t)"

section \<open>Lemmas\<close>

lemma load_cert_der_nonempty: "load_cert_der l w path = Ok ds \<Longrightarrow> ds \<noteq> []"
  by (auto simp: load_cert_der_def result_bind_eq_Ok split: if_splits)

lemma trusted_ek_roots_der_nonempty:
  "trusted_ek_roots_der l w t = Ok roots \<Longrightarrow> roots = [] \<longleftrightarrow> tpm_trusted_ek_root_paths t = []"
proof -
  have "map_result (load_cert_der l w) ps = Ok dss \<Longrightarrow> concat dss = [] \<longleftrightarrow> ps = []" for ps dss
    by (induction ps arbitrary: dss) (auto simp: result_bind_eq_Ok dest: load_cert_der_nonempty)
  then show "trusted_ek_roots_der l w t = Ok roots \<Longrightarrow> ?thesis"
    by (auto simp: trusted_ek_roots_der_def result_bind_eq_Ok)
qed

text \<open>The feature a kind needs: its own name.\<close>

definition needs_feature :: "AttestationConfig \<Rightarrow> string set" where
  "needs_feature cfg =
     (if tee_is_mock (att_tee_provider cfg) then {} else {tee_as_str (att_tee_provider cfg)}) \<union>
     (if verifier_is_mock (att_verifier cfg) then {} else {verifier_as_str (att_verifier cfg)})"

lemma build_tee_provider_Ok:
  "build_tee_provider lib features cfg = Ok tee \<Longrightarrow>
     tee_is_mock (att_tee_provider cfg) \<or> tee_as_str (att_tee_provider cfg) \<in> features"
  by (auto simp: build_tee_provider_def split: TeeProviderKind.splits if_splits)

lemma build_verifier_Ok:
  "build_verifier lib features l w cfg = Ok v \<Longrightarrow>
     verifier_is_mock (att_verifier cfg) \<or> verifier_as_str (att_verifier cfg) \<in> features"
  by (auto simp: build_verifier_def split: VerifierKind.splits if_splits)

lemma startup_Ok_iff:
  "startup_attestation_decision is_release cfg dev = Ok mode \<longleftrightarrow>
     (if uses_mock cfg then mode = Insecure is_release \<and> (is_release \<longrightarrow> dev) else mode = Secure)"
  by (auto simp: startup_attestation_decision_def)

text \<open>A library whose providers and verifiers are their own description, for the witnesses.\<close>

datatype DemoPolicy = DemoPolicy "bytes option" "bytes option" "bytes list" bool

definition demo_lib :: "(string, string \<times> DemoPolicy option, DemoPolicy) AttestationLib" where
  "demo_lib =
     \<lparr>al_mock_tee = ''mock'', al_tdx_tee = ''tdx'', al_sev_snp_tee = ''sev_snp'', al_sgx_tee = ''sgx'',
      al_trustzone_tee = ''trustzone'', al_aws_nitro_tee = ''aws_nitro'', al_tpm_tee = ''tpm'',
      al_mock_verifier = (''mock'', None), al_maa_verifier = (\<lambda>e. (''maa '' @ e, None)),
      al_ita_verifier = (\<lambda>k e. (''ita '' @ e, None)), al_sev_snp_verifier = (''amd_snp'', None),
      al_tpm_verifier = (\<lambda>pol. (''tpm'', Some pol)),
      al_from_pcrs = (\<lambda>m. DemoPolicy (m 0) None [] False),
      al_with_pinned_ak = (\<lambda>ak pol. case pol of DemoPolicy m _ r u \<Rightarrow> DemoPolicy m (Some ak) r u),
      al_with_trusted_ek_roots = (\<lambda>r pol. case pol of DemoPolicy m a _ u \<Rightarrow> DemoPolicy m a r u),
      al_allow_unpinned_ak = (\<lambda>u pol. case pol of DemoPolicy m a r _ \<Rightarrow> DemoPolicy m a r u)\<rparr>"

definition example_attestation :: AttestationConfig where
  "example_attestation =
     \<lparr>att_allow_mock = False, att_strict_attestation = True, att_atb_ttl_secs = 3600,
      att_atb_eviction_interval_secs = 60, att_atb_max_sessions = 10, att_tee_provider = SevSnp,
      att_verifier = AmdSnp, att_verifier_endpoint = None, att_verifier_api_key = None, att_tpm = None\<rparr>"

section \<open>Properties\<close>

text \<open>
  C9: A release build that gets past the attestation part of startup without the environment
  variable \<open>ARCHETYPE_PROXY_INSECURE_DEV=1\<close> runs no mock in any of the three ways one can be
  configured, reports itself secure, and was compiled with the features of the provider and the
  verifier it selected.
\<close>
theorem release_boot_is_attested:
  assumes "main_attestation lib features True l w cfg = Ok (mode, tee, verifier)"
    and "w_env w INSECURE_DEV_ENV \<noteq> Some ''1''"
  shows "mode = Secure \<and> \<not> att_allow_mock cfg \<and> att_tee_provider cfg \<noteq> TeeMock \<and> att_verifier cfg \<noteq> VerMock
    \<and> needs_feature cfg \<subseteq> features"
proof -
  have "\<not> uses_mock cfg" and m: "mode = Secure"
    and b: "build_tee_provider lib features cfg = Ok tee" "build_verifier lib features l w cfg = Ok verifier"
    using assms by (auto simp: main_attestation_def result_bind_eq_Ok startup_Ok_iff insecure_dev_env_set_def
        split: if_splits)
  then have nm: "\<not> att_allow_mock cfg" "\<not> tee_is_mock (att_tee_provider cfg)" "\<not> verifier_is_mock (att_verifier cfg)"
    by (simp_all add: uses_mock_def)
  with build_tee_provider_Ok [OF b(1)] build_verifier_Ok [OF b(2)] m show ?thesis
    by (auto simp: needs_feature_def)
qed

theorem release_boot_is_attested_witness:
  "needs_feature example_attestation \<subseteq> {''sev_snp'', ''amd_snp''}"
proof -
  have boot: "main_attestation demo_lib {''sev_snp'', ''amd_snp''} True example_libs example_world example_attestation
      = Ok (Secure, ''sev_snp'', (''amd_snp'', None))"
    by code_simp
  have "w_env example_world INSECURE_DEV_ENV \<noteq> Some ''1''"
    by (simp add: example_world_def example_env_def INSECURE_DEV_ENV_def)
  from release_boot_is_attested [OF boot this] show ?thesis by (elim conjE)
qed

text \<open>
  C32: Loading the configuration is what keeps the TPM verifier from failing or from being built
  open: after a successful load, selecting the TPM verifier in a build that has it always
  gives a verifier, whose policy has the configured PCR values, and pins the
  attestation key, trusts at least one root certificate, or was told to accept any key, in which case
  the warning is logged.
\<close>
theorem loaded_tpm_verifier_builds:
  assumes "config_load l w cli path = Ok cfg" and "att = st_attestation (cfg_static cfg)"
    and "att_verifier att = VerTpm" and "''tpm'' \<in> features"
  shows "\<exists>t roots. att_tpm att = Some t \<and> trusted_ek_roots_der l w t = Ok roots \<and> tpm_expected_pcrs t \<noteq> []
    \<and> (tpm_pinned_ak_sec1 t \<noteq> None \<or> roots \<noteq> [] \<or> warn_tpm_unpinned_ak att)
    \<and> build_verifier lib features l w att =
        Ok (al_tpm_verifier lib
             ((if tpm_allow_unpinned_ak t then al_allow_unpinned_ak lib True else id)
               ((if roots = [] then id else al_with_trusted_ek_roots lib roots)
                 ((case tpm_pinned_ak_sec1 t of None \<Rightarrow> id | Some ak \<Rightarrow> al_with_pinned_ak lib ak)
                   (al_from_pcrs lib (map_of (tpm_expected_pcrs t)))))))"
proof -
  have "uses_tpm (st_attestation (cfg_static cfg))" and "config_validate l w cfg = Ok ()"
    using assms by (auto simp: uses_tpm_def config_load_Ok)
  then obtain t where t: "att_tpm att = Some t" "tpm_policy_usable l w t"
    using assms(2) by (auto simp: config_validate_iff split: option.splits)
  then obtain roots where roots: "trusted_ek_roots_der l w t = Ok roots"
    by (cases "tpm_trusted_ek_root_paths t = []")
      (auto simp: tpm_policy_usable_def trusted_ek_roots_der_def result_ok_def result_bind_def split: sum.splits)
  with t trusted_ek_roots_der_nonempty [OF roots] assms(3,4) show ?thesis
    by (auto simp: tpm_policy_usable_def build_verifier_def build_tpm_verifier_def result_bind_def ok_or_def
        map_err_def warn_tpm_unpinned_ak_def Let_def split: option.splits)
qed

theorem loaded_tpm_verifier_builds_witness:
  "case config_load example_libs example_world (args_overrides example_args) None of
     Inl _ \<Rightarrow> False
   | Inr cfg \<Rightarrow> (\<exists>v. build_verifier demo_lib {''tpm''} example_libs example_world (st_attestation (cfg_static cfg)) = Ok v)"
proof -
  have "case config_load example_libs example_world (args_overrides example_args) None of
     Inl _ \<Rightarrow> False | Inr cfg \<Rightarrow> att_verifier (st_attestation (cfg_static cfg)) = VerTpm"
    by code_simp
  then obtain cfg where cfg: "config_load example_libs example_world (args_overrides example_args) None = Ok cfg"
    and ver: "att_verifier (st_attestation (cfg_static cfg)) = VerTpm"
    by (cases "config_load example_libs example_world (args_overrides example_args) None") simp_all
  have "''tpm'' \<in> {''tpm''}" by simp
  from loaded_tpm_verifier_builds [OF cfg refl ver this, of demo_lib]
  have "\<exists>v. build_verifier demo_lib {''tpm''} example_libs example_world (st_attestation (cfg_static cfg)) = Ok v"
    by (elim exE conjE) (rule exI)
  then show ?thesis by (simp only: cfg sum.case)
qed

end
