(* ===== verification/Dump.thy ===== *)
theory Dump
  imports Config_Facts
begin

text \<open>
  \<open>Config::dump\<close> of \<open>src/config.rs\<close>: the human-readable listing of the resolved configuration
  with the layer each value came from. Printing of socket addresses, padding and numbers follow the
  standard library; the escaping of \<open>{:?}\<close> on strings, which depends on Unicode tables, is the
  parameter \<open>dbg\<close>.
\<close>

section \<open>Printing\<close>

definition show_bool :: "bool \<Rightarrow> string" where
  "show_bool b = (if b then ''true'' else ''false'')"

text \<open>\<open>{:<n}\<close> pads with spaces on the right to \<open>n\<close> characters.\<close>

definition pad_right :: "nat \<Rightarrow> string \<Rightarrow> string" where
  "pad_right n s = s @ replicate (n - length (filter (\<lambda>c. \<not> is_continuation c) s)) (CHR '' '')"

definition hex_digit :: "nat \<Rightarrow> char" where
  "hex_digit d = (if d < 10 then char_of (48 + d) else char_of (87 + d))"

fun show_hex :: "nat \<Rightarrow> string" where
  "show_hex n = (if n < 16 then [hex_digit n] else show_hex (n div 16) @ [hex_digit (n mod 16)])"

declare show_hex.simps [simp del]

definition show_ipv4 :: "nat list \<Rightarrow> string" where
  "show_ipv4 octets = join ''.'' (map string_of_nat octets)"

text \<open>The first of the longest runs of zero segments, as start and length.\<close>

fun zero_runs :: "nat \<Rightarrow> nat \<Rightarrow> nat \<Rightarrow> nat \<Rightarrow> nat \<Rightarrow> nat list \<Rightarrow> nat \<times> nat" where
  "zero_runs i cstart clen lstart llen [] = (lstart, llen)"
| "zero_runs i cstart clen lstart llen (s # ss) =
     (if s = 0 then
        (let cstart' = (if clen = 0 then i else cstart);
             clen' = clen + 1
         in if llen < clen' then zero_runs (Suc i) cstart' clen' cstart' clen' ss
            else zero_runs (Suc i) cstart' clen' lstart llen ss)
      else zero_runs (Suc i) 0 0 lstart llen ss)"

definition show_segments :: "nat list \<Rightarrow> string" where
  "show_segments ss = join '':'' (map show_hex ss)"

definition show_ipv6 :: "nat list \<Rightarrow> string" where
  "show_ipv6 ss =
     (if take 6 ss = [0, 0, 0, 0, 0, 65535]
      then ''::ffff:'' @ show_ipv4 [ss ! 6 div 256, ss ! 6 mod 256, ss ! 7 div 256, ss ! 7 mod 256]
      else
        (let (start, len) = zero_runs 0 0 0 0 0 ss
         in if 1 < len then show_segments (take start ss) @ ''::'' @ show_segments (drop (start + len) ss)
            else show_segments ss))"

fun show_socket_addr :: "SocketAddr \<Rightarrow> string" where
  "show_socket_addr (SocketV4 octets port) = show_ipv4 octets @ '':'' @ string_of_nat port"
| "show_socket_addr (SocketV6 segments scope port) =
     ''['' @ show_ipv6 segments @ (if scope = 0 then [] else ''%'' @ string_of_nat scope) @ '']:'' @ string_of_nat port"

text \<open>The error messages of \<open>TlsConfig::validate\<close>.\<close>

fun tls_config_message :: "TlsConfigError \<Rightarrow> string" where
  "tls_config_message MutuallyExclusive =
     ''[server.tls]: static cert_path/key_path and [server.tls.acme] enabled=true are mutually exclusive ''
       @ em_dash @ '' configure exactly one cert source''"
| "tls_config_message NoCertSource =
     ''[server.tls] is present but configures no cert source: set cert_path+key_path OR [server.tls.acme] enabled=true''"
| "tls_config_message KeyPathMissing = ''[server.tls]: cert_path is set but key_path is missing''"
| "tls_config_message CertPathMissing = ''[server.tls]: key_path is set but cert_path is missing''"
| "tls_config_message DomainsEmpty = ''[server.tls.acme]: enabled=true but `domains` is empty''"
| "tls_config_message (WildcardNeedsDns01 challenge) =
     ''[server.tls.acme]: wildcard domain requires challenge='' @ in_quotes ''dns-01''
       @ '' (got challenge='' @ in_quotes (challenge_as_str challenge) @ '')''"
| "tls_config_message Unreachable = ''has_static implies at least one is Some''"
| "tls_config_message AcmeExpectFailed = ''acme_enabled implies Some''"

section \<open>The dump\<close>

definition dump_line :: "Provenance \<Rightarrow> string \<Rightarrow> string \<Rightarrow> string" where
  "dump_line p field val =
     ''  '' @ pad_right 28 field @ '' = '' @ pad_right 30 val @ '' ['' @ source_display (unwrap_or Default (provenance_get p field)) @ '']'' @ newline"

definition dump_tpm :: "Provenance \<Rightarrow> TpmConfig option \<Rightarrow> string" where
  "dump_tpm p tpm =
     dump_line p ''attestation.tpm.expected_pcrs''
       (case tpm of
          None \<Rightarrow> ''<none>''
        | Some t \<Rightarrow>
            string_of_nat (length (tpm_expected_pcrs t)) @ '' PCR(s) [''
              @ join '','' (map string_of_nat (bt_keys (tpm_expected_pcrs t))) @ '']'') @
     dump_line p ''attestation.tpm.pinned_ak''
       (case tpm of
          None \<Rightarrow> ''<none>''
        | Some t \<Rightarrow> (case tpm_pinned_ak_sec1 t of Some _ \<Rightarrow> ''<set>'' | None \<Rightarrow> ''<none>'')) @
     dump_line p ''attestation.tpm.trusted_ek_roots''
       (case tpm of None \<Rightarrow> ''<none>'' | Some t \<Rightarrow> string_of_nat (length (tpm_trusted_ek_root_paths t))) @
     dump_line p ''attestation.tpm.allow_unpinned_ak''
       (show_bool (case tpm of None \<Rightarrow> False | Some t \<Rightarrow> tpm_allow_unpinned_ak t))"

definition dump_tls :: "(string \<Rightarrow> string) \<Rightarrow> TlsConfig option \<Rightarrow> string" where
  "dump_tls dbg tls =
     (case tls of
        None \<Rightarrow> ''<none>''
      | Some t \<Rightarrow>
          (case tls_validate t of
             Ok (TlsStatic cert_path key_path) \<Rightarrow> ''static cert='' @ cert_path @ '' key='' @ key_path
           | Ok (TlsAcme a) \<Rightarrow>
               ''acme challenge='' @ challenge_as_str (acme_challenge a)
                 @ '' domains=['' @ join '', '' (map dbg (acme_domains a)) @ '']''
                 @ '' staging='' @ show_bool (acme_staging a)
           | Err e \<Rightarrow> ''<invalid: '' @ tls_config_message e @ ''>''))"

definition dump_route :: "(string \<Rightarrow> string) \<Rightarrow> Route \<Rightarrow> string" where
  "dump_route dbg r =
     ''  - '' @ r_name r @ '' host='' @ dbg (r_host r) @ '' prefix='' @ dbg (r_path_prefix r)
       @ '' -> '' @ r_upstream r @ '' ['' @ source_display (r_source r) @ '']'' @ newline"

definition dump :: "(string \<Rightarrow> string) \<Rightarrow> Config \<Rightarrow> string" where
  "dump dbg c =
     (let s = cfg_static c;
          p = cfg_provenance c;
          att = st_attestation s;
          docker = disc_docker (st_discovery s);
          kube = disc_kubernetes (st_discovery s)
      in ''static config (boot-time only):'' @ newline @
         dump_line p ''server.listen'' (show_socket_addr (srv_listen (st_server s))) @
         dump_line p ''server.max_body_bytes'' (string_of_nat (srv_max_body_bytes (st_server s))) @
         dump_line p ''attestation.allow_mock'' (show_bool (att_allow_mock att)) @
         dump_line p ''attestation.strict_attestation'' (show_bool (att_strict_attestation att)) @
         dump_line p ''attestation.atb_ttl_secs'' (string_of_nat (att_atb_ttl_secs att)) @
         dump_line p ''attestation.atb_eviction_interval_secs'' (string_of_nat (att_atb_eviction_interval_secs att)) @
         dump_line p ''attestation.atb_max_sessions'' (string_of_nat (att_atb_max_sessions att)) @
         dump_line p ''attestation.tee_provider'' (tee_as_str (att_tee_provider att)) @
         dump_line p ''attestation.verifier'' (verifier_as_str (att_verifier att)) @
         dump_line p ''attestation.verifier_endpoint'' (unwrap_or ''<none>'' (att_verifier_endpoint att)) @
         dump_tpm p (att_tpm att) @
         dump_line p ''server.tls'' (dump_tls dbg (srv_tls (st_server s))) @
         dump_line p ''rate_limit.max_requests'' (string_of_nat (rl_max_requests (st_rate_limit s))) @
         dump_line p ''rate_limit.window_secs'' (string_of_nat (rl_window_secs (st_rate_limit s))) @
         dump_line p ''discovery.docker'' (show_bool (docker_enabled docker)) @
         dump_line p ''discovery.docker.socket'' (docker_socket docker) @
         dump_line p ''discovery.docker.poll_secs'' (string_of_nat (docker_poll_secs docker)) @
         dump_line p ''discovery.kubernetes'' (show_bool (k8s_enabled kube)) @
         dump_line p ''discovery.kubernetes.namespace'' (unwrap_or ''<all>'' (k8s_namespace kube)) @
         ''dynamic routes (file): '' @ string_of_nat (length (cfg_file_routes c)) @ newline @
         concat (map (dump_route dbg) (cfg_file_routes c)))"

section \<open>Secrets\<close>

text \<open>
  A configuration without what must not be printed: the verifier's API key, the expected PCR
  values and the attestation key, and the contact and DNS credentials of ACME.
\<close>

definition redact_tpm :: "TpmConfig \<Rightarrow> TpmConfig" where
  "redact_tpm t =
     t\<lparr>tpm_expected_pcrs := map (\<lambda>e. (fst e, [])) (tpm_expected_pcrs t),
       tpm_pinned_ak_sec1 := map_option (\<lambda>_. []) (tpm_pinned_ak_sec1 t), tpm_pcr_selection := None,
       tpm_trusted_ek_root_paths := map (\<lambda>_. []) (tpm_trusted_ek_root_paths t)\<rparr>"

definition redact_acme :: "AcmeConfig \<Rightarrow> AcmeConfig" where
  "redact_acme a =
     a\<lparr>acme_contact := None, acme_directory_url := None, acme_cache_dir := None, acme_http01_listen := None,
       acme_dns := acme_dns_config_default\<rparr>"

definition redact_attestation :: "AttestationConfig \<Rightarrow> AttestationConfig" where
  "redact_attestation a = a\<lparr>att_verifier_api_key := None, att_tpm := map_option redact_tpm (att_tpm a)\<rparr>"

definition redact_server :: "ServerConfig \<Rightarrow> ServerConfig" where
  "redact_server s = s\<lparr>srv_tls := map_option (\<lambda>t. t\<lparr>tls_acme := map_option redact_acme (tls_acme t)\<rparr>) (srv_tls s)\<rparr>"

definition redact :: "Config \<Rightarrow> Config" where
  "redact c =
     c\<lparr>cfg_static := (cfg_static c)\<lparr>st_server := redact_server (st_server (cfg_static c)),
         st_attestation := redact_attestation (st_attestation (cfg_static c))\<rparr>\<rparr>"

lemma dump_tpm_redact: "dump_tpm p (map_option redact_tpm t) = dump_tpm p t"
  by (cases t) (simp_all add: dump_tpm_def redact_tpm_def bt_keys_def comp_def split: option.split)

lemma dump_tls_redact:
  "dump_tls dbg (map_option (\<lambda>t. t\<lparr>tls_acme := map_option redact_acme (tls_acme t)\<rparr>) tls) = dump_tls dbg tls"
proof (cases tls)
  case (Some t)
  obtain c k a where t: "t = \<lparr>tls_cert_path = c, tls_key_path = k, tls_acme = a\<rparr>"
    by (cases t)
  show ?thesis
    unfolding Some t
    by (cases a; cases c; cases k) (auto simp: dump_tls_def tls_validate_def redact_acme_def split: bool.split)
qed simp

section \<open>Properties\<close>

text \<open>
  C37: The configuration dump discloses no secret: it is the same text for a configuration
  whose verifier API key, PCR values, attestation key, root paths, ACME contact, directory,
  cache and DNS credentials have been removed.
\<close>
theorem dump_hides_secrets: "dump dbg c = dump dbg (redact c)"
  by (simp add: dump_def Let_def redact_def redact_attestation_def redact_server_def dump_tpm_redact dump_tls_redact)

section \<open>Where the code falls short of its comments\<close>

text \<open>
  The four TPM lines look up names under which no layer is ever recorded: the source of the whole
  section is kept as \<open>attestation.tpm\<close>. They are tagged as defaults whatever layer set them.
\<close>

lemma tpm_lines_tagged_default:
  assumes "config_load l w cli path = Ok cfg"
  shows "dump_tpm (cfg_provenance cfg) t = dump_tpm [] t"
proof -
  obtain fp rs e where "cfg = resolve_layers (fp, rs) e cli"
    using assms by (auto simp: config_load_Ok)
  then have "provenance_get (cfg_provenance cfg) f = None" if "f \<notin> fst ` set (provenance_table fp e cli)" for f
    using that by (simp add: resolve_layers_provenance map_of_eq_None_iff)
  then have "dump_line (cfg_provenance cfg) f v = dump_line [] f v" if "f \<notin> fst ` set (provenance_table fp e cli)" for f v
    using that by (simp add: dump_line_def provenance_get_def bt_get_def)
  moreover have "f \<notin> fst ` set (provenance_table fp e cli)"
    if "f \<in> {''attestation.tpm.expected_pcrs'', ''attestation.tpm.pinned_ak'', ''attestation.tpm.trusted_ek_roots'',
        ''attestation.tpm.allow_unpinned_ak''}" for f
    using that by (auto simp: provenance_table_def)
  ultimately show ?thesis
    by (simp add: dump_tpm_def)
qed

end
