(* ===== verification/Tls.thy ===== *)
theory Tls
  imports Config
begin

text \<open>
  Termination of the public TLS listener (\<open>src/tls.rs\<close>): loading a certificate and key from
  disk, the two kinds of certificate source, the server configuration, and the swappable ACME
  resolver. PEM parsing, key loading and the key comparison of rustls are parameters (\<open>TlsLib\<close>);
  the resolver's \<open>HashMap\<close> of validation certificates is a partial function.
\<close>

definition ACME_TLS_ALPN_NAME :: bytes where
  "ACME_TLS_ALPN_NAME = map of_char ''acme-tls/1''"

datatype TlsError =
    TlsRead string string string
  | TlsNoCerts string
  | TlsNoKey string
  | TlsPem string string string
  | TlsKey string string
  | TlsKeyMismatch string string string
  | TlsConfigFailed string

datatype KeysMatch = KeysEqual | KeysUnknown | KeysError string

record ('cert, 'key, 'sk) TlsLib =
  tl_certs :: "bytes \<Rightarrow> (string + 'cert) list"
  tl_private_key :: "bytes \<Rightarrow> string + 'key option"
  tl_any_supported_type :: "'key \<Rightarrow> string + 'sk"
  tl_keys_match :: "'cert list \<Rightarrow> 'sk \<Rightarrow> KeysMatch"

text \<open>A \<open>CertifiedKey\<close> is its chain and its signing key.\<close>

type_synonym ('cert, 'sk) certified = "'cert list \<times> 'sk"

definition load_certified_key ::
  "('cert, 'key, 'sk) TlsLib \<Rightarrow> World \<Rightarrow> string \<Rightarrow> string \<Rightarrow> TlsError + ('cert, 'sk) certified" where
  "load_certified_key l w cert_path key_path =
     result_bind (map_err (TlsRead ''certificate'' cert_path) (w_read w cert_path)) (\<lambda>cert_pem.
     result_bind (map_err (TlsRead ''private key'' key_path) (w_read w key_path)) (\<lambda>key_pem.
     result_bind (map_err (TlsPem ''certificate'' cert_path) (map_result id (tl_certs l cert_pem))) (\<lambda>certs.
     if certs = [] then Err (TlsNoCerts cert_path)
     else
     result_bind (map_err (TlsPem ''private key'' key_path) (tl_private_key l key_pem)) (\<lambda>key_opt.
     result_bind (ok_or (TlsNoKey key_path) key_opt) (\<lambda>key.
     result_bind (map_err (TlsKey key_path) (tl_any_supported_type l key)) (\<lambda>signing_key.
     (case tl_keys_match l certs signing_key of
        KeysError e \<Rightarrow> Err (TlsKeyMismatch cert_path key_path e)
      | _ \<Rightarrow> Ok (certs, signing_key))))))))"

section \<open>The ACME resolver\<close>

record 'ck AcmeResolver =
  ar_current :: "'ck option"
  ar_challenges :: "string \<rightharpoonup> 'ck"

definition acme_resolver_empty :: "'ck AcmeResolver" where
  "acme_resolver_empty = \<lparr>ar_current = None, ar_challenges = Map.empty\<rparr>"

definition resolver_store :: "'ck \<Rightarrow> 'ck AcmeResolver \<Rightarrow> 'ck AcmeResolver" where
  "resolver_store certified r = r\<lparr>ar_current := Some certified\<rparr>"

definition resolver_current :: "'ck AcmeResolver \<Rightarrow> 'ck option" where
  "resolver_current r = ar_current r"

definition set_challenge :: "string \<Rightarrow> 'ck \<Rightarrow> 'ck AcmeResolver \<Rightarrow> 'ck AcmeResolver" where
  "set_challenge domain certified r = r\<lparr>ar_challenges := hm_insert domain certified (ar_challenges r)\<rparr>"

definition clear_challenge :: "string \<Rightarrow> 'ck AcmeResolver \<Rightarrow> 'ck AcmeResolver" where
  "clear_challenge domain r = r\<lparr>ar_challenges := hm_remove domain (ar_challenges r)\<rparr>"

record ClientHello =
  ch_alpn :: "bytes list option"
  ch_server_name :: "string option"

definition is_acme_alpn :: "ClientHello \<Rightarrow> bool" where
  "is_acme_alpn hello =
     (case ch_alpn hello of None \<Rightarrow> False | Some ps \<Rightarrow> list_ex (\<lambda>proto. proto = ACME_TLS_ALPN_NAME) ps)"

definition acme_resolve :: "'ck AcmeResolver \<Rightarrow> ClientHello \<Rightarrow> 'ck option" where
  "acme_resolve r hello =
     (if is_acme_alpn hello then
        (case ch_server_name hello of
           Some name \<Rightarrow> ar_challenges r name
         | None \<Rightarrow> None)
      else ar_current r)"

section \<open>The server configuration\<close>

datatype 'ck Resolver = StaticCertResolver 'ck | DynamicResolver "'ck AcmeResolver"

definition static_resolve :: "'ck \<Rightarrow> ClientHello \<Rightarrow> 'ck option" where
  "static_resolve ck hello = Some ck"

fun resolver_resolve :: "'ck Resolver \<Rightarrow> ClientHello \<Rightarrow> 'ck option" where
  "resolver_resolve (StaticCertResolver ck) hello = static_resolve ck hello"
| "resolver_resolve (DynamicResolver r) hello = acme_resolve r hello"

datatype 'ck CertSource = StaticFiles string string | Dynamic "'ck AcmeResolver"

fun into_resolver ::
  "('cert, 'key, 'sk) TlsLib \<Rightarrow> World \<Rightarrow> ('cert, 'sk) certified CertSource \<Rightarrow> TlsError + ('cert, 'sk) certified Resolver" where
  "into_resolver l w (StaticFiles cert_path key_path) =
     result_bind (load_certified_key l w cert_path key_path) (\<lambda>certified. Ok (StaticCertResolver certified))"
| "into_resolver l w (Dynamic r) = Ok (DynamicResolver r)"

record 'ck RustlsConfig =
  rc_resolver :: "'ck Resolver"
  rc_alpn_protocols :: "bytes list"

definition config_with_resolver :: "'ck Resolver \<Rightarrow> bool \<Rightarrow> 'ck RustlsConfig" where
  "config_with_resolver resolver acme_tls_alpn =
     \<lparr>rc_resolver = resolver,
      rc_alpn_protocols = [map of_char ''h2'', map of_char ''http/1.1''] @ (if acme_tls_alpn then [ACME_TLS_ALPN_NAME] else [])\<rparr>"

definition server_config ::
  "('cert, 'key, 'sk) TlsLib \<Rightarrow> World \<Rightarrow> ('cert, 'sk) certified CertSource \<Rightarrow> TlsError + ('cert, 'sk) certified RustlsConfig" where
  "server_config l w source =
     result_bind (into_resolver l w source) (\<lambda>resolver. Ok (config_with_resolver resolver False))"

section \<open>Lemmas\<close>

lemma load_certified_key_Ok:
  "load_certified_key l w cp kp = Ok (certs, sk) \<Longrightarrow>
     certs \<noteq> [] \<and> (\<forall>e. tl_keys_match l certs sk \<noteq> KeysError e)
     \<and> (\<exists>cpem kpem key. w_read w cp = Ok cpem \<and> w_read w kp = Ok kpem
          \<and> map_result id (tl_certs l cpem) = Ok certs \<and> tl_private_key l kpem = Ok (Some key)
          \<and> tl_any_supported_type l key = Ok sk)"
  by (auto simp: load_certified_key_def result_bind_def map_err_def ok_or_def
      split: sum.splits option.splits if_splits KeysMatch.splits)

text \<open>Steps on the challenge map: \<open>Some ck\<close> installs, \<open>None\<close> clears.\<close>

definition challenge_step :: "string \<times> 'ck option \<Rightarrow> 'ck AcmeResolver \<Rightarrow> 'ck AcmeResolver" where
  "challenge_step = (\<lambda>(domain, c) r. case c of Some ck \<Rightarrow> set_challenge domain ck r | None \<Rightarrow> clear_challenge domain r)"

lemma challenge_step_fields [simp]:
  "ar_current (challenge_step st r) = ar_current r"
  "ar_challenges (challenge_step (d, c) r) = (ar_challenges r)(d := c)"
  by (auto simp: challenge_step_def set_challenge_def clear_challenge_def hm_insert_def hm_remove_def
      split: option.split prod.split)

lemma challenge_steps:
  "ar_current (fold challenge_step sts r) = ar_current r"
  "ar_challenges (fold challenge_step sts r) n = (case map_of (rev sts) n of None \<Rightarrow> ar_challenges r n | Some c \<Rightarrow> c)"
  by (induction sts arbitrary: r) (auto simp: fun_upd_apply split: option.splits)

section \<open>Properties\<close>

text \<open>
  C28: The two uses of the ACME resolver do not mix. Whatever validation certificates are installed
  and removed, an ordinary handshake gets the production certificate and none before there is one; a
  validation handshake gets the certificate last installed for its server name, none once that
  was removed or without a name, and never the production certificate instead.
\<close>
theorem acme_resolver_isolated:
  "acme_resolve (fold challenge_step sts (acme_resolver_empty\<lparr>ar_current := c\<rparr>)) hello =
     (if is_acme_alpn hello
      then Option.bind (ch_server_name hello) (\<lambda>n. Option.bind (map_of (rev sts) n) id)
      else c)"
  by (auto simp: acme_resolve_def challenge_steps acme_resolver_empty_def split: option.splits)

text \<open>
  A server configuration from files is built only from a readable, non-empty certificate
  chain and a supported key that is not known to belong to another certificate; the listener then
  serves that chain to every client and does not offer the validation protocol.
\<close>
theorem static_server_config_checked:
  assumes "server_config l w (StaticFiles cp kp) = Ok cfg"
  shows "\<exists>certs sk. rc_resolver cfg = StaticCertResolver (certs, sk) \<and> certs \<noteq> []
    \<and> (\<forall>e. tl_keys_match l certs sk \<noteq> KeysError e)
    \<and> resolver_resolve (rc_resolver cfg) hello = Some (certs, sk)
    \<and> ACME_TLS_ALPN_NAME \<notin> set (rc_alpn_protocols cfg)"
  using assms
  by (auto simp: server_config_def result_bind_eq_Ok config_with_resolver_def static_resolve_def
      ACME_TLS_ALPN_NAME_def dest!: load_certified_key_Ok)

definition toy_tls :: "(bytes, bytes, bytes) TlsLib" where
  "toy_tls =
     \<lparr>tl_certs = (\<lambda>b. [Ok b]), tl_private_key = (\<lambda>b. Ok (Some b)), tl_any_supported_type = Ok,
      tl_keys_match = (\<lambda>certs sk. if certs = [sk] then KeysEqual else KeysError ''mismatch'')\<rparr>"

definition toy_tls_world :: World where
  "toy_tls_world =
     \<lparr>w_env = (\<lambda>_. None), w_exists = (\<lambda>_. True), w_read_to_string = (\<lambda>_. Err ''absent''), w_read = (\<lambda>_. Ok [1])\<rparr>"

theorem static_server_config_checked_witness:
  "\<exists>certs sk. resolver_resolve (StaticCertResolver ([[1]], [1 :: byte])) \<lparr>ch_alpn = None, ch_server_name = None\<rparr> = Some (certs, sk)
     \<and> certs \<noteq> []"
proof -
  have "server_config toy_tls toy_tls_world (StaticFiles ''c'' ''k'') =
      Ok \<lparr>rc_resolver = StaticCertResolver ([[1]], [1]), rc_alpn_protocols = [map of_char ''h2'', map of_char ''http/1.1'']\<rparr>"
    by (simp add: server_config_def load_certified_key_def toy_tls_def toy_tls_world_def config_with_resolver_def
        result_bind_def map_err_def ok_or_def)
  from static_server_config_checked [OF this, of "\<lparr>ch_alpn = None, ch_server_name = None\<rparr>"] show ?thesis
    by (simp add: static_resolve_def)
qed

end
