(* ===== verification/Dns_Providers.thy ===== *)
theory Dns_Providers
  imports Tls_Config Rust_Maps
begin

text \<open>
  The DNS-01 providers of \<open>src/acme.rs\<close>: the manual provider, which runs an operator's hook
  command, and the Cloudflare provider, which creates and deletes TXT records over the Cloudflare
  API. The shell and the Cloudflare API are parameters acting on a state \<open>'z\<close> of the outside
  world; every request the code makes goes through them in the code's order. The trait
  \<open>DnsProvider\<close> is a locale on which both providers and their dynamic dispatch are interpreted. The
  wait for propagation changes no state and is left out; each message of an error is a constructor.
\<close>

datatype HookFailure = HookSpawn string string | HookExit string string

datatype DnsFailure =
    ZoneRequestFailed string
  | ZoneDecodeFailed string
  | ZoneLookupFailed string string
  | NoZoneFound string
  | CreateRequestFailed string
  | CreateDecodeFailed string
  | CreateFailed string string
  | CreateNoRecord
  | TokenMissing

datatype AuthorizationStatus = AuthzPending | AuthzValid | AuthzInvalid | AuthzRevoked | AuthzExpired | AuthzDeactivated

datatype OrderStatus = OrderPending | OrderReady | OrderProcessing | OrderValid | OrderInvalid

datatype AcmeError =
    AcmeProtocol string
  | AcmeCache string string
  | AcmeRcgen string
  | AcmeCert string
  | AcmeAuthorization string AuthorizationStatus
  | AcmeOrder OrderStatus
  | AcmeDnsHook HookFailure
  | AcmeDns DnsFailure
  | AcmeRustls string

definition ACME_CHALLENGE_PREFIX :: string where
  "ACME_CHALLENGE_PREFIX = ''_acme-challenge.''"

definition dns_record_name :: "string \<Rightarrow> string" where
  "dns_record_name domain = ACME_CHALLENGE_PREFIX @ unwrap_or domain (strip_prefix domain ''*.'')"

section \<open>The manual provider\<close>

record ManualDnsProvider =
  mp_hook_command :: "string option"
  mp_cleanup_command :: "string option"
  mp_propagation :: nat

definition manual_new :: "string option \<Rightarrow> string option \<Rightarrow> nat \<Rightarrow> ManualDnsProvider" where
  "manual_new hook_command cleanup_command propagation_secs =
     \<lparr>mp_hook_command = hook_command, mp_cleanup_command = cleanup_command, mp_propagation = propagation_secs\<rparr>"

text \<open>Running \<open>sh -c command\<close> with extra environment: it fails to start, or exits with a status.\<close>

record ExitStatus =
  es_success :: bool
  es_display :: string

type_synonym 'z shell = "string \<Rightarrow> (string \<times> string) list \<Rightarrow> 'z \<Rightarrow> (string + ExitStatus) \<times> 'z"

definition run_hook :: "'z shell \<Rightarrow> string \<Rightarrow> string \<Rightarrow> string \<Rightarrow> string \<Rightarrow> 'z \<Rightarrow> (AcmeError + unit) \<times> 'z" where
  "run_hook sh command domain record_name value z =
     (let (r, z') = sh command [(''ACME_DNS_DOMAIN'', domain), (''ACME_DNS_NAME'', record_name), (''ACME_DNS_VALUE'', value)] z
      in (result_bind (map_err (\<lambda>e. AcmeDnsHook (HookSpawn command e)) r) (\<lambda>status.
            if \<not> es_success status then Err (AcmeDnsHook (HookExit command (es_display status))) else Ok ()),
          z'))"

definition manual_publish ::
  "'z shell \<Rightarrow> string \<Rightarrow> string \<Rightarrow> string \<Rightarrow> ManualDnsProvider \<times> 'z \<Rightarrow> (AcmeError + unit) \<times> ManualDnsProvider \<times> 'z" where
  "manual_publish sh domain record_name value s =
     (case s of (p, z) \<Rightarrow>
        (case mp_hook_command p of
           Some cmd \<Rightarrow> (let (r, z') = run_hook sh cmd domain record_name value z in (r, p, z'))
         | None \<Rightarrow> (Ok (), p, z)))"

definition manual_cleanup ::
  "'z shell \<Rightarrow> string \<Rightarrow> string \<Rightarrow> string \<Rightarrow> ManualDnsProvider \<times> 'z \<Rightarrow> ManualDnsProvider \<times> 'z" where
  "manual_cleanup sh domain record_name value s =
     (case s of (p, z) \<Rightarrow>
        (case mp_cleanup_command p of
           Some cmd \<Rightarrow> (p, snd (run_hook sh cmd domain record_name value z))
         | None \<Rightarrow> (p, z)))"

section \<open>The Cloudflare provider\<close>

definition CLOUDFLARE_API_BASE :: string where
  "CLOUDFLARE_API_BASE = ''https://api.cloudflare.com''"

record CloudflareDnsProvider =
  cf_token :: string
  cf_zone_id :: "string option"
  cf_base_url :: string
  cf_propagation :: nat
  cf_records :: "string \<times> string \<rightharpoonup> string"
  cf_zone_cache :: "string \<rightharpoonup> string"

record CfError =
  cfe_code :: int
  cfe_message :: string

record 'a CfEnvelope =
  cfv_success :: bool
  cfv_errors :: "CfError list"
  cfv_result :: "'a option"

record CfRecord =
  cfr_id :: string

record CfZone =
  cfz_id :: string

text \<open>A request fails to be sent, its body fails to decode, or it decodes to an envelope.\<close>

datatype 'a CfReply = CfSendFailed string | CfDecodeFailed string | CfReply "'a CfEnvelope"

record TxtBody =
  txt_type :: string
  txt_name :: string
  txt_content :: string
  txt_ttl :: nat

text \<open>The three requests, each with its URL and bearer token.\<close>

record 'z CfApi =
  api_get_zones :: "string \<Rightarrow> string \<Rightarrow> string \<Rightarrow> 'z \<Rightarrow> CfZone list CfReply \<times> 'z"
  api_post_record :: "string \<Rightarrow> string \<Rightarrow> TxtBody \<Rightarrow> 'z \<Rightarrow> CfRecord CfReply \<times> 'z"
  api_delete :: "string \<Rightarrow> string \<Rightarrow> 'z \<Rightarrow> (string + nat) \<times> 'z"

definition string_of_int :: "int \<Rightarrow> string" where
  "string_of_int i = (if i < 0 then CHR ''-'' # string_of_nat (nat (- i)) else string_of_nat (nat i))"

definition cf_errors_to_string :: "CfError list \<Rightarrow> string" where
  "cf_errors_to_string errors =
     (if errors = [] then ''no error detail''
      else join ''; '' (map (\<lambda>e. cfe_message e @ '' ('' @ string_of_int (cfe_code e) @ '')'') errors))"

definition with_base_url :: "string \<Rightarrow> string option \<Rightarrow> nat \<Rightarrow> string \<Rightarrow> CloudflareDnsProvider" where
  "with_base_url token zone_id propagation_secs base_url =
     \<lparr>cf_token = token, cf_zone_id = zone_id, cf_base_url = trim_end_matches (CHR ''/'') base_url,
      cf_propagation = propagation_secs, cf_records = Map.empty, cf_zone_cache = Map.empty\<rparr>"

definition cloudflare_new :: "string \<Rightarrow> string option \<Rightarrow> nat \<Rightarrow> CloudflareDnsProvider" where
  "cloudflare_new token zone_id propagation_secs = with_base_url token zone_id propagation_secs CLOUDFLARE_API_BASE"

definition zone_candidates :: "string \<Rightarrow> string list" where
  "zone_candidates record_name =
     (let base = unwrap_or record_name (strip_prefix record_name ACME_CHALLENGE_PREFIX);
          labels = filter (\<lambda>l. l \<noteq> []) (split_char (CHR ''.'') base)
      in map (\<lambda>i. join ''.'' (drop i labels)) [0..<length labels])"

text \<open>The loop of \<open>resolve_zone_id\<close> over the remaining candidates.\<close>

fun zone_loop ::
  "'z CfApi \<Rightarrow> string \<Rightarrow> string list \<Rightarrow> CloudflareDnsProvider \<times> 'z \<Rightarrow> (AcmeError + string) \<times> CloudflareDnsProvider \<times> 'z" where
  "zone_loop api record_name [] s = (Err (AcmeDns (NoZoneFound record_name)), s)"
| "zone_loop api record_name (candidate # rest) (p, z) =
     (case cf_zone_cache p candidate of
        Some zid \<Rightarrow> (Ok zid, p, z)
      | None \<Rightarrow>
          (case api_get_zones api (cf_base_url p @ ''/client/v4/zones'') (cf_token p) candidate z of
             (CfSendFailed e, z') \<Rightarrow> (Err (AcmeDns (ZoneRequestFailed e)), p, z')
           | (CfDecodeFailed e, z') \<Rightarrow> (Err (AcmeDns (ZoneDecodeFailed e)), p, z')
           | (CfReply env, z') \<Rightarrow>
               if \<not> cfv_success env
               then (Err (AcmeDns (ZoneLookupFailed candidate (cf_errors_to_string (cfv_errors env)))), p, z')
               else
                 (case cfv_result env of
                    Some (zone # _) \<Rightarrow>
                      (Ok (cfz_id zone), p\<lparr>cf_zone_cache := hm_insert candidate (cfz_id zone) (cf_zone_cache p)\<rparr>, z')
                  | _ \<Rightarrow> zone_loop api record_name rest (p, z'))))"

definition resolve_zone_id ::
  "'z CfApi \<Rightarrow> string \<Rightarrow> CloudflareDnsProvider \<times> 'z \<Rightarrow> (AcmeError + string) \<times> CloudflareDnsProvider \<times> 'z" where
  "resolve_zone_id api record_name s =
     (case cf_zone_id (fst s) of
        Some zid \<Rightarrow> (Ok zid, s)
      | None \<Rightarrow> zone_loop api record_name (zone_candidates record_name) s)"

definition records_url :: "CloudflareDnsProvider \<Rightarrow> string \<Rightarrow> string" where
  "records_url p zone_id = cf_base_url p @ ''/client/v4/zones/'' @ zone_id @ ''/dns_records''"

definition cf_publish ::
  "'z CfApi \<Rightarrow> string \<Rightarrow> string \<Rightarrow> string \<Rightarrow> CloudflareDnsProvider \<times> 'z \<Rightarrow>
     (AcmeError + unit) \<times> CloudflareDnsProvider \<times> 'z" where
  "cf_publish api domain record_name value s =
     (case resolve_zone_id api record_name s of
        (Err e, s') \<Rightarrow> (Err e, s')
      | (Ok zone_id, (p, z)) \<Rightarrow>
          (case api_post_record api (records_url p zone_id) (cf_token p)
                  \<lparr>txt_type = ''TXT'', txt_name = record_name, txt_content = value, txt_ttl = 60\<rparr> z of
             (CfSendFailed e, z') \<Rightarrow> (Err (AcmeDns (CreateRequestFailed e)), p, z')
           | (CfDecodeFailed e, z') \<Rightarrow> (Err (AcmeDns (CreateDecodeFailed e)), p, z')
           | (CfReply env, z') \<Rightarrow>
               if \<not> cfv_success env
               then (Err (AcmeDns (CreateFailed record_name (cf_errors_to_string (cfv_errors env)))), p, z')
               else
                 (case cfv_result env of
                    None \<Rightarrow> (Err (AcmeDns CreateNoRecord), p, z')
                  | Some rec \<Rightarrow>
                      (Ok (), p\<lparr>cf_records := hm_insert (record_name, value) (cfr_id rec) (cf_records p)\<rparr>, z'))))"

definition cf_cleanup ::
  "'z CfApi \<Rightarrow> string \<Rightarrow> string \<Rightarrow> string \<Rightarrow> CloudflareDnsProvider \<times> 'z \<Rightarrow> CloudflareDnsProvider \<times> 'z" where
  "cf_cleanup api domain record_name value s =
     (case s of (p, z) \<Rightarrow>
        (case cf_records p (record_name, value) of
           None \<Rightarrow> (p\<lparr>cf_records := hm_remove (record_name, value) (cf_records p)\<rparr>, z)
         | Some record_id \<Rightarrow>
             (case resolve_zone_id api record_name
                     (p\<lparr>cf_records := hm_remove (record_name, value) (cf_records p)\<rparr>, z) of
                (Err e, s') \<Rightarrow> s'
              | (Ok zone_id, (p', z')) \<Rightarrow>
                  (p', snd (api_delete api (records_url p' zone_id @ ''/'' @ record_id) (cf_token p') z')))))"

section \<open>Dynamic dispatch\<close>

datatype DnsProvider = ManualProvider ManualDnsProvider | CloudflareProvider CloudflareDnsProvider

record 'z DnsWorld =
  dw_shell :: "'z shell"
  dw_cloudflare :: "'z CfApi"

fun dns_publish ::
  "'z DnsWorld \<Rightarrow> string \<Rightarrow> string \<Rightarrow> string \<Rightarrow> DnsProvider \<times> 'z \<Rightarrow> (AcmeError + unit) \<times> DnsProvider \<times> 'z" where
  "dns_publish w domain record_name value (ManualProvider p, z) =
     (let (r, p', z') = manual_publish (dw_shell w) domain record_name value (p, z) in (r, ManualProvider p', z'))"
| "dns_publish w domain record_name value (CloudflareProvider p, z) =
     (let (r, p', z') = cf_publish (dw_cloudflare w) domain record_name value (p, z) in (r, CloudflareProvider p', z'))"

fun dns_cleanup ::
  "'z DnsWorld \<Rightarrow> string \<Rightarrow> string \<Rightarrow> string \<Rightarrow> DnsProvider \<times> 'z \<Rightarrow> DnsProvider \<times> 'z" where
  "dns_cleanup w domain record_name value (ManualProvider p, z) =
     (let (p', z') = manual_cleanup (dw_shell w) domain record_name value (p, z) in (ManualProvider p', z'))"
| "dns_cleanup w domain record_name value (CloudflareProvider p, z) =
     (let (p', z') = cf_cleanup (dw_cloudflare w) domain record_name value (p, z) in (CloudflareProvider p', z'))"

section \<open>What a provider promises\<close>

text \<open>
  \<open>tracked\<close> are the records a provider remembers having created. A failed publication adds none, a
  successful one at most its own, and a cleanup forgets its own and no other.
\<close>

locale dns01_provider =
  fixes publish :: "string \<Rightarrow> string \<Rightarrow> string \<Rightarrow> 's \<Rightarrow> (AcmeError + unit) \<times> 's"
    and cleanup :: "string \<Rightarrow> string \<Rightarrow> string \<Rightarrow> 's \<Rightarrow> 's"
    and tracked :: "'s \<Rightarrow> (string \<times> string) set"
  assumes publish_Ok: "publish d r v s = (Ok (), s') \<Longrightarrow> tracked s' \<subseteq> insert (r, v) (tracked s)"
    and publish_Err: "publish d r v s = (Err e, s') \<Longrightarrow> tracked s' = tracked s"
    and cleanup_tracked: "tracked (cleanup d r v s) = tracked s - {(r, v)}"
begin

lemma cleanup_all:
  "tracked (fold (\<lambda>(d, r, v). cleanup d r v) xs s) = tracked s - (\<lambda>(d, r, v). (r, v)) ` set xs"
proof (induction xs arbitrary: s)
  case (Cons x xs)
  obtain d r v where "x = (d, r, v)"
    by (cases x)
  then show ?case
    using Cons.IH [of "cleanup d r v s"] by (auto simp: cleanup_tracked)
qed simp

lemma publish_then_cleanup:
  "publish d r v s = (Ok (), s') \<Longrightarrow> tracked (cleanup d r v s') \<subseteq> tracked s"
  using publish_Ok by (fastforce simp: cleanup_tracked)

end

fun dns_tracked :: "DnsProvider \<times> 'z \<Rightarrow> (string \<times> string) set" where
  "dns_tracked (ManualProvider p, z) = {}"
| "dns_tracked (CloudflareProvider p, z) = dom (cf_records p)"

interpretation manual: dns01_provider "manual_publish sh" "manual_cleanup sh" "\<lambda>_. {}"
  by unfold_locales simp_all

lemma zone_loop_keeps:
  "zone_loop api rn cs (p, z) = (r, p', z') \<Longrightarrow>
     cf_records p' = cf_records p \<and> cf_token p' = cf_token p \<and> cf_base_url p' = cf_base_url p \<and> cf_zone_id p' = cf_zone_id p"
  by (induction cs arbitrary: p z)
    (auto split: option.splits CfReply.splits prod.splits if_splits list.splits)

lemma resolve_zone_id_keeps:
  "resolve_zone_id api rn (p, z) = (r, p', z') \<Longrightarrow>
     cf_records p' = cf_records p \<and> cf_token p' = cf_token p \<and> cf_base_url p' = cf_base_url p \<and> cf_zone_id p' = cf_zone_id p"
  by (auto simp: resolve_zone_id_def split: option.splits dest!: zone_loop_keeps)

lemma cf_publish_Ok:
  assumes "cf_publish api d rn v (p, z) = (Ok (), p', z')"
  obtains zone q z1 env rec where
    "resolve_zone_id api rn (p, z) = (Ok zone, q, z1)"
    "api_post_record api (records_url q zone) (cf_token q)
       \<lparr>txt_type = ''TXT'', txt_name = rn, txt_content = v, txt_ttl = 60\<rparr> z1 = (CfReply env, z')"
    "cfv_success env" "cfv_result env = Some rec"
    "p' = q\<lparr>cf_records := hm_insert (rn, v) (cfr_id rec) (cf_records q)\<rparr>"
  using assms
  by (auto simp: cf_publish_def split: sum.splits prod.splits CfReply.splits option.splits if_splits)

lemma cf_publish_Err: "cf_publish api d rn v (p, z) = (Err e, p', z') \<Longrightarrow> cf_records p' = cf_records p"
  by (auto simp: cf_publish_def split: sum.splits prod.splits CfReply.splits option.splits if_splits
      dest!: resolve_zone_id_keeps)

lemma cf_cleanup_records: "cf_records (fst (cf_cleanup api d rn v (p, z))) = hm_remove (rn, v) (cf_records p)"
  by (auto simp: cf_cleanup_def split: option.splits sum.splits prod.splits dest!: resolve_zone_id_keeps)

lemma cf_publish_records:
  "cf_publish api d rn v (p, z) = (Ok (), p', z') \<Longrightarrow> \<exists>i. cf_records p' = hm_insert (rn, v) i (cf_records p)"
  by (erule cf_publish_Ok) (auto dest!: resolve_zone_id_keeps)

lemma dom_hm_insert [simp]: "dom (hm_insert k v m) = insert k (dom m)"
  by (simp add: hm_insert_def)

lemma dom_hm_remove [simp]: "dom (hm_remove k m) = dom m - {k}"
  by (simp add: hm_remove_def)

interpretation cloudflare: dns01_provider "cf_publish api" "cf_cleanup api" "\<lambda>s. dom (cf_records (fst s))"
proof unfold_locales
  fix d r v and s s' :: "CloudflareDnsProvider \<times> 'a"
  show "dom (cf_records (fst s')) \<subseteq> insert (r, v) (dom (cf_records (fst s)))"
    if "cf_publish api d r v s = (Ok (), s')"
    using that cf_publish_records [of api d r v "fst s" "snd s" "fst s'" "snd s'"] by (auto simp: hm_insert_def split: if_splits)
  show "dom (cf_records (fst s')) = dom (cf_records (fst s))" if "cf_publish api d r v s = (Err e, s')" for e
    using that cf_publish_Err [of api d r v "fst s" "snd s" e "fst s'" "snd s'"] by simp
  show "dom (cf_records (fst (cf_cleanup api d r v s))) = dom (cf_records (fst s)) - {(r, v)}"
    using cf_cleanup_records [of api d r v "fst s" "snd s"] by simp
qed

interpretation dyn: dns01_provider "dns_publish w" "dns_cleanup w" dns_tracked
proof unfold_locales
  fix d r v and s s' :: "DnsProvider \<times> 'a"
  show "dns_tracked s' \<subseteq> insert (r, v) (dns_tracked s)" if "dns_publish w d r v s = (Ok (), s')"
    using that by (cases "(w, d, r, v, s)" rule: dns_publish.cases)
      (auto simp: Let_def split: prod.splits dest!: cf_publish_records)
  show "dns_tracked s' = dns_tracked s" if "dns_publish w d r v s = (Err e, s')" for e
    using that by (cases "(w, d, r, v, s)" rule: dns_publish.cases)
      (auto simp: Let_def split: prod.splits dest!: cf_publish_Err)
  show "dns_tracked (dns_cleanup w d r v s) = dns_tracked s - {(r, v)}"
  proof (cases "(w, d, r, v, s)" rule: dns_cleanup.cases)
    case (2 w' d' r' v' p z)
    then show ?thesis
      using cf_cleanup_records [of "dw_cloudflare w" d r v p z] by (simp add: Let_def case_prod_unfold)
  qed (auto simp: Let_def split: prod.splits)
qed

section \<open>Zone lookup\<close>

lemma zone_candidates_labels:
  assumes "labels \<noteq> []" "\<forall>l \<in> set labels. l \<noteq> [] \<and> CHR ''.'' \<notin> set l"
  shows "zone_candidates (ACME_CHALLENGE_PREFIX @ join ''.'' labels) =
    map (\<lambda>i. join ''.'' (drop i labels)) [0..<length labels]"
proof -
  have "split_char (CHR ''.'') (join ''.'' labels) = labels"
    using assms by (intro split_char_join) auto
  moreover have "filter (\<lambda>l. l \<noteq> []) labels = labels"
    using assms by (simp add: filter_id_conv)
  ultimately show ?thesis
    by (simp add: zone_candidates_def Let_def unwrap_or_def)
qed

text \<open>When zone lookups are plain reads, resolving again gives the same zone and changes nothing.\<close>

definition zones_stable :: "'z CfApi \<Rightarrow> (string \<Rightarrow> string \<Rightarrow> CfZone list CfReply) \<Rightarrow> bool" where
  "zones_stable api zones \<longleftrightarrow> (\<forall>u t n z. api_get_zones api u t n z = (zones t n, z))"

lemma zones_stableD: "zones_stable api zones \<Longrightarrow> api_get_zones api u t n z = (zones t n, z)"
  by (simp add: zones_stable_def)

lemma zone_loop_insert:
  assumes "zones_stable api zones"
    and "zone_loop api rn cs (p, z) = (r, p', z')" "cf_zone_cache p c = None" "cf_zone_cache p' c = Some j"
  shows "\<exists>env zone rest. zones (cf_token p) c = CfReply env \<and> cfv_success env \<and> cfv_result env = Some (zone # rest)"
  using assms(2-)
  by (induction cs arbitrary: z)
    (auto simp: zones_stableD [OF assms(1)] hm_insert_def
      split: CfReply.splits if_splits option.splits list.splits)

lemma zone_loop_step:
  assumes "zones_stable api zones" "cf_zone_cache p c = None" "zones (cf_token p) c = CfReply env" "cfv_success env"
  shows "zone_loop api rn (c # cs) (p, z) =
    (case cfv_result env of
       Some (zone # _) \<Rightarrow> (Ok (cfz_id zone), p\<lparr>cf_zone_cache := hm_insert c (cfz_id zone) (cf_zone_cache p)\<rparr>, z)
     | _ \<Rightarrow> zone_loop api rn cs (p, z))"
  using assms by (simp add: zones_stableD)

lemma zone_loop_answer:
  assumes "zones_stable api zones" "cf_zone_cache p c = None" "zone_loop api rn (c # cs) (p, z) = (Ok zone, s)"
  obtains env where "zones (cf_token p) c = CfReply env" "cfv_success env"
  using assms by (cases "zones (cf_token p) c") (auto simp: zones_stableD split: if_splits)

declare zone_loop.simps(2) [simp del]

lemma zone_loop_again:
  assumes "zones_stable api zones"
    and "zone_loop api rn cs (p, z) = (Ok zone, p', z')"
    and "cf_zone_cache q = cf_zone_cache p'" "cf_token q = cf_token p'"
  shows "zone_loop api rn cs (q, y) = (Ok zone, q, y) \<and> z' = z"
  using assms(2)
proof (induction cs)
  case (Cons c cs)
  have tok: "cf_token q = cf_token p"
    using zone_loop_keeps [OF Cons.prems(1)] assms(4) by simp
  show ?case
  proof (cases "cf_zone_cache p c")
    case (Some i)
    then show ?thesis
      using Cons.prems assms(3) by (simp add: zone_loop.simps(2))
  next
    case None
    obtain env where env: "zones (cf_token p) c = CfReply env" "cfv_success env"
      using zone_loop_answer [OF assms(1) None Cons.prems] .
    note step = zone_loop_step [OF assms(1) None env, of rn cs z]
    show ?thesis
    proof (cases "\<exists>zo rest. cfv_result env = Some (zo # rest)")
      case True
      then obtain zo rest where "cfv_result env = Some (zo # rest)"
        by blast
      with Cons.prems [unfolded step] have "p' = p\<lparr>cf_zone_cache := hm_insert c (cfz_id zo) (cf_zone_cache p)\<rparr>" "zone = cfz_id zo" "z' = z"
        by auto
      then show ?thesis
        using assms(3) by (simp add: hm_insert_def zone_loop.simps(2))
    next
      case False
      then have skip: "(case cfv_result env of Some (zo # _) \<Rightarrow> f zo | _ \<Rightarrow> x) = x" for f :: "CfZone \<Rightarrow> 'u" and x
        by (auto split: option.split list.split)
      have rec: "zone_loop api rn cs (p, z) = (Ok zone, p', z')"
        using Cons.prems unfolding step skip .
      have "cf_zone_cache p' c = None"
      proof (rule ccontr)
        assume "cf_zone_cache p' c \<noteq> None"
        then obtain j where "cf_zone_cache p' c = Some j"
          by blast
        from zone_loop_insert [OF assms(1) rec None this] show False
          using env False by simp
      qed
      then have "zone_loop api rn (c # cs) (q, y) = zone_loop api rn cs (q, y)"
        using zone_loop_step [OF assms(1), of q c env rn cs y] assms(3) env tok skip by simp
      then show ?thesis
        using Cons.IH [OF rec] by (simp only:)
    qed
  qed
qed simp

lemma resolve_zone_id_again:
  assumes "zones_stable api zones" "resolve_zone_id api rn (p, z) = (Ok zone, p', z')"
    and "cf_zone_cache q = cf_zone_cache p'" "cf_token q = cf_token p'" "cf_zone_id q = cf_zone_id p'"
  shows "resolve_zone_id api rn (q, y) = (Ok zone, q, y)"
proof (cases "cf_zone_id p")
  case None
  then have loop: "zone_loop api rn (zone_candidates rn) (p, z) = (Ok zone, p', z')" and "cf_zone_id q = None"
    using assms(2,5) resolve_zone_id_keeps [OF assms(2)] by (simp_all add: resolve_zone_id_def)
  then show ?thesis
    using zone_loop_again [OF assms(1) loop assms(3,4)] by (simp add: resolve_zone_id_def)
next
  case (Some i)
  then show ?thesis
    using assms(2,5) by (auto simp: resolve_zone_id_def)
qed

section \<open>Properties\<close>


text \<open>A Cloudflare with one zone: its state is the number of records created and the deleted URLs.\<close>

definition toy_cf :: "(nat \<times> string list) CfApi" where
  "toy_cf =
     \<lparr>api_get_zones = (\<lambda>u t n z.
        (CfReply \<lparr>cfv_success = True, cfv_errors = [],
           cfv_result = Some (if n = ''example.com'' then [\<lparr>cfz_id = ''z1''\<rparr>] else [])\<rparr>, z)),
      api_post_record = (\<lambda>u t b z.
        (CfReply \<lparr>cfv_success = True, cfv_errors = [], cfv_result = Some \<lparr>cfr_id = string_of_nat (fst z)\<rparr>\<rparr>, (Suc (fst z), snd z))),
      api_delete = (\<lambda>u t z. (Ok 200, (fst z, u # snd z)))\<rparr>"


end
