(* ===== verification/Acme.thy ===== *)
theory Acme
  imports Tls Dns_Providers
begin

text \<open>
  The ACME manager of \<open>src/acme.rs\<close>: challenge responses, the HTTP-01 token store, issued
  certificates and when they need renewal, the cache directory, the account, the order of
  \<open>issue\<close>, and the renewal loop. The certificate authority's answers (\<open>Ca\<close>, \<open>CaOrder\<close>) and the
  certificate libraries (\<open>AcmeLib\<close>) are parameters; the authority's verdict on an order is a function
  of the state it can observe at that moment. The lock of \<open>issue\<close> makes issuances sequential, so one
  issuance is one function on the state.
\<close>

definition RENEW_BEFORE :: nat where
  "RENEW_BEFORE = 30 * 24 * 60 * 60"

definition RENEW_CHECK_INTERVAL :: nat where
  "RENEW_CHECK_INTERVAL = 12 * 60 * 60"

definition ACCOUNT_FILE :: string where
  "ACCOUNT_FILE = ''account.json''"

definition CERT_FILE :: string where
  "CERT_FILE = ''cert.pem''"

definition KEY_FILE :: string where
  "KEY_FILE = ''key.pem''"

section \<open>Challenge responses\<close>

datatype ChallengeResponse =
    RespHttp01 string string
  | RespTlsAlpn01 string bytes
  | RespDns01 string string string

definition build_challenge_response ::
  "AcmeChallenge \<Rightarrow> string \<Rightarrow> string \<Rightarrow> string \<Rightarrow> bytes \<Rightarrow> string \<Rightarrow> ChallengeResponse" where
  "build_challenge_response challenge domain token key_auth digest dns_value =
     (case challenge of
        Http01 \<Rightarrow> RespHttp01 token key_auth
      | TlsAlpn01 \<Rightarrow> RespTlsAlpn01 domain digest
      | Dns01 \<Rightarrow> RespDns01 domain (dns_record_name domain) dns_value)"

record KeyAuthorization =
  ka_as_str :: string
  ka_digest :: bytes
  ka_dns_value :: string

definition challenge_response :: "AcmeChallenge \<Rightarrow> string \<Rightarrow> string \<Rightarrow> KeyAuthorization \<Rightarrow> ChallengeResponse" where
  "challenge_response challenge domain token key_auth =
     build_challenge_response challenge domain token (ka_as_str key_auth) (ka_digest key_auth) (ka_dns_value key_auth)"

type_synonym Http01Tokens = "string \<rightharpoonup> string"

definition tokens_new :: Http01Tokens where
  "tokens_new = Map.empty"

definition tokens_insert :: "string \<Rightarrow> string \<Rightarrow> Http01Tokens \<Rightarrow> Http01Tokens" where
  "tokens_insert token key_authorization m = hm_insert token key_authorization m"

definition tokens_remove :: "string \<Rightarrow> Http01Tokens \<Rightarrow> Http01Tokens" where
  "tokens_remove token m = hm_remove token m"

definition tokens_get :: "Http01Tokens \<Rightarrow> string \<Rightarrow> string option" where
  "tokens_get m token = m token"

section \<open>Certificates\<close>

record ('cert, 'key, 'sk, 'kp, 'pa) AcmeLib =
  al_certs :: "string \<Rightarrow> (string + 'cert) list"
  al_private_key :: "string \<Rightarrow> string + 'key"
  al_from_der :: "'cert list \<Rightarrow> 'key \<Rightarrow> string + ('cert, 'sk) certified"
  al_time_to_expiration :: "'cert \<Rightarrow> nat \<Rightarrow> string + int option"
  al_generate :: "string + 'kp"
  al_params :: "string list \<Rightarrow> string + 'pa"
  al_push_acme_identifier :: "bytes \<Rightarrow> 'pa \<Rightarrow> 'pa"
  al_self_signed :: "'pa \<Rightarrow> 'kp \<Rightarrow> string + 'cert"
  al_serialize_der :: "'kp \<Rightarrow> string + 'key"
  al_load_private_key :: "'key \<Rightarrow> string + 'sk"

record IssuedCert =
  ic_cert_pem :: string
  ic_key_pem :: string

definition into_certified_key ::
  "('cert, 'key, 'sk, 'kp, 'pa) AcmeLib \<Rightarrow> IssuedCert \<Rightarrow> AcmeError + ('cert, 'sk) certified" where
  "into_certified_key l c =
     result_bind (map_err (\<lambda>e. AcmeCert (''certificate PEM: '' @ e)) (map_result id (al_certs l (ic_cert_pem c)))) (\<lambda>certs.
     if certs = [] then Err (AcmeCert ''no certificates in issued PEM'')
     else
     result_bind (map_err (\<lambda>e. AcmeCert (''private key PEM: '' @ e)) (al_private_key l (ic_key_pem c))) (\<lambda>key.
     map_err AcmeRustls (al_from_der l certs key)))"

definition time_to_expiry :: "('cert, 'key, 'sk, 'kp, 'pa) AcmeLib \<Rightarrow> nat \<Rightarrow> IssuedCert \<Rightarrow> nat option" where
  "time_to_expiry l now c =
     (case al_certs l (ic_cert_pem c) of
        [] \<Rightarrow> None
      | r # _ \<Rightarrow>
          Option.bind (result_ok r) (\<lambda>der.
          Option.bind (result_ok (al_time_to_expiration l der now)) (\<lambda>ttl.
          Option.bind ttl (\<lambda>secs. if 0 \<le> secs then Some (nat secs) else None))))"

definition needs_renewal :: "('cert, 'key, 'sk, 'kp, 'pa) AcmeLib \<Rightarrow> nat \<Rightarrow> IssuedCert \<Rightarrow> bool" where
  "needs_renewal l now c =
     (case time_to_expiry l now c of Some remaining \<Rightarrow> remaining \<le> RENEW_BEFORE | None \<Rightarrow> True)"

definition tls_alpn_cert ::
  "('cert, 'key, 'sk, 'kp, 'pa) AcmeLib \<Rightarrow> string \<Rightarrow> bytes \<Rightarrow> AcmeError + ('cert, 'sk) certified" where
  "tls_alpn_cert l domain digest =
     result_bind (map_err AcmeRcgen (al_generate l)) (\<lambda>key_pair.
     result_bind (map_err AcmeRcgen (al_params l [domain])) (\<lambda>params.
     result_bind (map_err AcmeRcgen (al_self_signed l (al_push_acme_identifier l digest params) key_pair)) (\<lambda>cert_der.
     result_bind (map_err (\<lambda>e. AcmeCert (''rcgen key: '' @ e)) (al_serialize_der l key_pair)) (\<lambda>key_der.
     result_bind (map_err AcmeRustls (al_load_private_key l key_der)) (\<lambda>signing_key.
     Ok ([cert_der], signing_key))))))"

section \<open>The cache directory\<close>

text \<open>
  The files that can be read, the error of creating a directory, and for a path whose write fails
  the error with what the failed write leaves in the file.
\<close>

record Fs =
  fs_files :: "string \<rightharpoonup> string"
  fs_dir_error :: "string \<Rightarrow> string option"
  fs_write_error :: "string \<Rightarrow> (string \<times> string option) option"

definition path_join :: "string \<Rightarrow> string \<Rightarrow> string" where
  "path_join dir name = (if dir = [] \<or> last dir = CHR ''/'' then dir @ name else dir @ ''/'' @ name)"

definition cache_new :: "string \<Rightarrow> string" where
  [simp]: "cache_new dir = dir"

definition cache_ensure_dir :: "string \<Rightarrow> Fs \<Rightarrow> AcmeError + unit" where
  "cache_ensure_dir dir fs = (case fs_dir_error fs dir of Some e \<Rightarrow> Err (AcmeCache dir e) | None \<Rightarrow> Ok ())"

definition cache_read :: "string \<Rightarrow> string \<Rightarrow> Fs \<Rightarrow> string option" where
  "cache_read dir name fs = fs_files fs (path_join dir name)"

definition cache_write :: "string \<Rightarrow> string \<Rightarrow> string \<Rightarrow> Fs \<Rightarrow> (AcmeError + unit) \<times> Fs" where
  "cache_write dir name contents fs =
     (let path = path_join dir name
      in case fs_write_error fs path of
           Some (e, left) \<Rightarrow> (Err (AcmeCache path e), fs\<lparr>fs_files := (fs_files fs)(path := left)\<rparr>)
         | None \<Rightarrow> (Ok (), fs\<lparr>fs_files := (fs_files fs)(path := Some contents)\<rparr>))"

definition load_cert :: "string \<Rightarrow> Fs \<Rightarrow> IssuedCert option" where
  "load_cert dir fs =
     Option.bind (cache_read dir CERT_FILE fs) (\<lambda>cert_pem.
     Option.bind (cache_read dir KEY_FILE fs) (\<lambda>key_pem.
     Some \<lparr>ic_cert_pem = cert_pem, ic_key_pem = key_pem\<rparr>))"

definition store_cert :: "string \<Rightarrow> IssuedCert \<Rightarrow> Fs \<Rightarrow> (AcmeError + unit) \<times> Fs" where
  "store_cert dir cert fs =
     (case cache_write dir CERT_FILE (ic_cert_pem cert) fs of
        (Err e, fs') \<Rightarrow> (Err e, fs')
      | (Ok _, fs') \<Rightarrow> cache_write dir KEY_FILE (ic_key_pem cert) fs')"

section \<open>The manager\<close>

record AcmeManager =
  am_cfg :: AcmeConfig
  am_cache :: "string option"

record ('ck, 'z) AcmeState =
  st_resolver :: "'ck AcmeResolver"
  st_tokens :: Http01Tokens
  st_dns :: "DnsProvider \<times> 'z"
  st_fs :: Fs

definition acme_manager_new :: "(string \<Rightarrow> string option) \<Rightarrow> AcmeConfig \<Rightarrow> AcmeError + (AcmeManager \<times> DnsProvider)" where
  "acme_manager_new env cfg =
     (let dns = acme_dns cfg
      in result_bind
           (case dns_provider dns of
              Manual \<Rightarrow>
                Ok (ManualProvider (manual_new (dns_hook_command dns) (dns_cleanup_command dns) (dns_propagation_secs dns)))
            | Cloudflare \<Rightarrow>
                result_bind (ok_or (AcmeDns TokenMissing) (resolve_cf_token env dns)) (\<lambda>token.
                Ok (CloudflareProvider (cloudflare_new token (dns_zone_id dns) (dns_propagation_secs dns)))))
           (\<lambda>provider. Ok (\<lparr>am_cfg = cfg, am_cache = map_option cache_new (acme_cache_dir cfg)\<rparr>, provider)))"

definition load_cached ::
  "('cert, 'key, 'sk, 'kp, 'pa) AcmeLib \<Rightarrow> nat \<Rightarrow> AcmeManager \<Rightarrow> (('cert, 'sk) certified, 'z) AcmeState \<Rightarrow>
     bool \<times> (('cert, 'sk) certified, 'z) AcmeState" where
  "load_cached l now m st =
     (case am_cache m of
        None \<Rightarrow> (False, st)
      | Some dir \<Rightarrow>
          (case load_cert dir (st_fs st) of
             None \<Rightarrow> (False, st)
           | Some cert \<Rightarrow>
               if needs_renewal l now cert then (False, st)
               else
                 (case into_certified_key l cert of
                    Ok ck \<Rightarrow> (True, st\<lparr>st_resolver := resolver_store ck (st_resolver st)\<rparr>)
                  | Err e \<Rightarrow> (False, st))))"

datatype ChallengeType = CtHttp01 | CtDns01 | CtTlsAlpn01

definition challenge_type :: "AcmeConfig \<Rightarrow> ChallengeType" where
  "challenge_type cfg =
     (case acme_challenge cfg of TlsAlpn01 \<Rightarrow> CtTlsAlpn01 | Http01 \<Rightarrow> CtHttp01 | Dns01 \<Rightarrow> CtDns01)"

record Challenge =
  chal_token :: string
  chal_key_authorization :: KeyAuthorization
  chal_set_ready :: "string + unit"

record Authz =
  az_status :: AuthorizationStatus
  az_identifier :: string
  az_challenge :: "ChallengeType \<Rightarrow> Challenge option"

definition identifier_domain :: "Authz \<Rightarrow> string" where
  "identifier_domain authz = az_identifier authz"

record ('ck, 'z) CaOrder =
  or_authorizations :: "(string + Authz) list"
  or_poll_ready :: "('ck, 'z) AcmeState \<Rightarrow> string + OrderStatus"
  or_finalize :: "string + string"
  or_poll_certificate :: "string + string"

record ('ac, 'cr, 'ck, 'z) Ca =
  ca_staging_url :: string
  ca_production_url :: string
  ca_builder :: "string + unit"
  ca_parse_credentials :: "string \<Rightarrow> string + 'cr"
  ca_serialize_credentials :: "'cr \<Rightarrow> string + string"
  ca_from_credentials :: "'cr \<Rightarrow> string + 'ac"
  ca_create :: "string list \<Rightarrow> string \<Rightarrow> string + ('ac \<times> 'cr)"
  ca_new_order :: "'ac \<Rightarrow> string list \<Rightarrow> string + ('ck, 'z) CaOrder"

definition directory_url :: "('ac, 'cr, 'ck, 'z) Ca \<Rightarrow> AcmeConfig \<Rightarrow> string" where
  "directory_url ca cfg =
     (case acme_directory_url cfg of
        Some url \<Rightarrow> url
      | None \<Rightarrow> if acme_staging cfg then ca_staging_url ca else ca_production_url ca)"

text \<open>The second half of \<open>account\<close>: register a new account and persist its credentials.\<close>

definition contact_uris :: "AcmeConfig \<Rightarrow> string list" where
  "contact_uris cfg =
     (case acme_contact cfg of
        None \<Rightarrow> []
      | Some c \<Rightarrow> [if starts_with c ''mailto:'' then c else ''mailto:'' @ c])"

definition create_account ::
  "('ac, 'cr, 'ck, 'z) Ca \<Rightarrow> AcmeManager \<Rightarrow> ('ck, 'z) AcmeState \<Rightarrow> (AcmeError + 'ac) \<times> ('ck, 'z) AcmeState" where
  "create_account ca m st =
     (case result_bind (ca_builder ca) (\<lambda>_. ca_create ca (contact_uris (am_cfg m)) (directory_url ca (am_cfg m))) of
        Err e \<Rightarrow> (Err (AcmeProtocol e), st)
      | Ok (account, creds) \<Rightarrow>
          (case am_cache m of
             None \<Rightarrow> (Ok account, st)
           | Some dir \<Rightarrow>
               (case result_bind (cache_ensure_dir dir (st_fs st)) (\<lambda>_.
                       map_err (\<lambda>e. AcmeCert (''serialize account credentials: '' @ e)) (ca_serialize_credentials ca creds)) of
                  Err e \<Rightarrow> (Err e, st)
                | Ok raw \<Rightarrow>
                    (case cache_write dir ACCOUNT_FILE raw (st_fs st) of
                       (Err e, fs') \<Rightarrow> (Err e, st\<lparr>st_fs := fs'\<rparr>)
                     | (Ok _, fs') \<Rightarrow> (Ok account, st\<lparr>st_fs := fs'\<rparr>)))))"

definition acme_account ::
  "('ac, 'cr, 'ck, 'z) Ca \<Rightarrow> AcmeManager \<Rightarrow> ('ck, 'z) AcmeState \<Rightarrow> (AcmeError + 'ac) \<times> ('ck, 'z) AcmeState" where
  "acme_account ca m st =
     (case Option.bind (am_cache m) (\<lambda>dir. cache_read dir ACCOUNT_FILE (st_fs st)) of
        Some raw \<Rightarrow>
          (case ca_parse_credentials ca raw of
             Ok creds \<Rightarrow>
               (map_err AcmeProtocol (result_bind (ca_builder ca) (\<lambda>_. ca_from_credentials ca creds)), st)
           | Err _ \<Rightarrow> create_account ca m st)
      | None \<Rightarrow> create_account ca m st)"

section \<open>One order\<close>

record Active =
  act_dns :: "(string \<times> string \<times> string) list"
  act_alpn :: "string list"
  act_http :: "string list"

definition no_active :: Active where
  "no_active = \<lparr>act_dns = [], act_alpn = [], act_http = []\<rparr>"

fun install_response ::
  "('cert, 'key, 'sk, 'kp, 'pa) AcmeLib \<Rightarrow> 'z DnsWorld \<Rightarrow> ChallengeResponse \<Rightarrow> Active \<Rightarrow>
     (('cert, 'sk) certified, 'z) AcmeState \<Rightarrow> (AcmeError + Active) \<times> (('cert, 'sk) certified, 'z) AcmeState" where
  "install_response l w (RespHttp01 token key_authorization) act st =
     (Ok (act\<lparr>act_http := act_http act @ [token]\<rparr>),
      st\<lparr>st_tokens := tokens_insert token key_authorization (st_tokens st)\<rparr>)"
| "install_response l w (RespTlsAlpn01 domain digest) act st =
     (case tls_alpn_cert l domain digest of
        Err e \<Rightarrow> (Err e, st)
      | Ok ck \<Rightarrow>
          (Ok (act\<lparr>act_alpn := act_alpn act @ [domain]\<rparr>),
           st\<lparr>st_resolver := set_challenge domain ck (st_resolver st)\<rparr>))"
| "install_response l w (RespDns01 domain record_name value) act st =
     (case dns_publish w domain record_name value (st_dns st) of
        (Err e, d) \<Rightarrow> (Err e, st\<lparr>st_dns := d\<rparr>)
      | (Ok _, d) \<Rightarrow>
          (Ok (act\<lparr>act_dns := act_dns act @ [(domain, record_name, value)]\<rparr>), st\<lparr>st_dns := d\<rparr>))"

fun authz_loop ::
  "('cert, 'key, 'sk, 'kp, 'pa) AcmeLib \<Rightarrow> 'z DnsWorld \<Rightarrow> AcmeConfig \<Rightarrow> (string + Authz) list \<Rightarrow> Active \<Rightarrow>
     (('cert, 'sk) certified, 'z) AcmeState \<Rightarrow> (AcmeError + Active) \<times> (('cert, 'sk) certified, 'z) AcmeState" where
  "authz_loop l w cfg [] act st = (Ok act, st)"
| "authz_loop l w cfg (Inl e # rest) act st = (Err (AcmeProtocol e), st)"
| "authz_loop l w cfg (Inr authz # rest) act st =
     (case az_status authz of
        AuthzPending \<Rightarrow>
          (let domain = identifier_domain authz
           in case az_challenge authz (challenge_type cfg) of
                None \<Rightarrow>
                  (Err (AcmeCert (''ACME server offered no '' @ challenge_as_str (acme_challenge cfg) @ '' challenge for '' @ domain)), st)
              | Some challenge \<Rightarrow>
                  (case install_response l w
                          (challenge_response (acme_challenge cfg) domain (chal_token challenge) (chal_key_authorization challenge))
                          act st of
                     (Err e, st') \<Rightarrow> (Err e, st')
                   | (Ok act', st') \<Rightarrow>
                       (case chal_set_ready challenge of
                          Err e \<Rightarrow> (Err (AcmeProtocol e), st')
                        | Ok _ \<Rightarrow> authz_loop l w cfg rest act' st')))
      | AuthzValid \<Rightarrow> authz_loop l w cfg rest act st
      | status \<Rightarrow> (Err (AcmeAuthorization (identifier_domain authz) status), st))"

definition finalize_and_fetch :: "('ck, 'z) CaOrder \<Rightarrow> ('ck, 'z) AcmeState \<Rightarrow> AcmeError + IssuedCert" where
  "finalize_and_fetch order st =
     result_bind (map_err AcmeProtocol (or_poll_ready order st)) (\<lambda>status.
     if status \<noteq> OrderReady then Err (AcmeOrder status)
     else
     result_bind (map_err AcmeProtocol (or_finalize order)) (\<lambda>key_pem.
     result_bind (map_err AcmeProtocol (or_poll_certificate order)) (\<lambda>cert_pem.
     Ok \<lparr>ic_cert_pem = cert_pem, ic_key_pem = key_pem\<rparr>)))"

definition teardown :: "'z DnsWorld \<Rightarrow> Active \<Rightarrow> ('ck, 'z) AcmeState \<Rightarrow> ('ck, 'z) AcmeState" where
  "teardown w act st =
     st\<lparr>st_tokens := fold tokens_remove (act_http act) (st_tokens st),
        st_resolver := fold clear_challenge (act_alpn act) (st_resolver st),
        st_dns := fold (\<lambda>(domain, record_name, value). dns_cleanup w domain record_name value) (act_dns act) (st_dns st)\<rparr>"

text \<open>The end of \<open>issue\<close>: persist the issued certificate, then check and install it.\<close>

definition install_issued ::
  "('cert, 'key, 'sk, 'kp, 'pa) AcmeLib \<Rightarrow> AcmeManager \<Rightarrow> IssuedCert \<Rightarrow> (('cert, 'sk) certified, 'z) AcmeState \<Rightarrow>
     (AcmeError + IssuedCert) \<times> (('cert, 'sk) certified, 'z) AcmeState" where
  "install_issued l m issued st =
     (let (stored, st') =
        (case am_cache m of
           None \<Rightarrow> (Ok (), st)
         | Some dir \<Rightarrow>
             (case cache_ensure_dir dir (st_fs st) of
                Err e \<Rightarrow> (Err e, st)
              | Ok _ \<Rightarrow> (let (r, fs') = store_cert dir issued (st_fs st) in (r, st\<lparr>st_fs := fs'\<rparr>))))
      in case result_bind stored (\<lambda>_. into_certified_key l issued) of
           Err e \<Rightarrow> (Err e, st')
         | Ok ck \<Rightarrow> (Ok issued, st'\<lparr>st_resolver := resolver_store ck (st_resolver st')\<rparr>))"

definition issue ::
  "('cert, 'key, 'sk, 'kp, 'pa) AcmeLib \<Rightarrow> 'z DnsWorld \<Rightarrow> ('ac, 'cr, ('cert, 'sk) certified, 'z) Ca \<Rightarrow> AcmeManager \<Rightarrow>
     (('cert, 'sk) certified, 'z) AcmeState \<Rightarrow> (AcmeError + IssuedCert) \<times> (('cert, 'sk) certified, 'z) AcmeState" where
  "issue l w ca m st =
     (case acme_account ca m st of
        (Err e, st1) \<Rightarrow> (Err e, st1)
      | (Ok account, st1) \<Rightarrow>
          (case ca_new_order ca account (acme_domains (am_cfg m)) of
             Err e \<Rightarrow> (Err (AcmeProtocol e), st1)
           | Ok order \<Rightarrow>
               (case authz_loop l w (am_cfg m) (or_authorizations order) no_active st1 of
                  (Err e, st2) \<Rightarrow> (Err e, st2)
                | (Ok act, st2) \<Rightarrow>
                    (let result = finalize_and_fetch order st2;
                         st3 = teardown w act st2
                     in case result of
                          Err e \<Rightarrow> (Err e, st3)
                        | Ok issued \<Rightarrow> install_issued l m issued st3))))"

section \<open>Renewal\<close>

definition cert_needs_renewal ::
  "('cert, 'key, 'sk, 'kp, 'pa) AcmeLib \<Rightarrow> nat \<Rightarrow> AcmeManager \<Rightarrow> (('cert, 'sk) certified, 'z) AcmeState \<Rightarrow> bool" where
  "cert_needs_renewal l now m st =
     (case Option.bind (am_cache m) (\<lambda>dir. load_cert dir (st_fs st)) of
        Some cert \<Rightarrow> needs_renewal l now cert
      | None \<Rightarrow> True)"

definition renewal_due ::
  "('cert, 'key, 'sk, 'kp, 'pa) AcmeLib \<Rightarrow> nat \<Rightarrow> AcmeManager \<Rightarrow> (('cert, 'sk) certified, 'z) AcmeState \<Rightarrow> bool" where
  "renewal_due l now m st =
     (case resolver_current (st_resolver st) of None \<Rightarrow> True | Some _ \<Rightarrow> cert_needs_renewal l now m st)"

text \<open>One turn of \<open>renewal_loop\<close>, after its sleep; the loop is a sequence of turns.\<close>

definition renewal_turn ::
  "('cert, 'key, 'sk, 'kp, 'pa) AcmeLib \<Rightarrow> 'z DnsWorld \<Rightarrow> AcmeManager \<Rightarrow>
     nat \<times> ('ac, 'cr, ('cert, 'sk) certified, 'z) Ca \<Rightarrow>
     (('cert, 'sk) certified, 'z) AcmeState \<Rightarrow> (('cert, 'sk) certified, 'z) AcmeState" where
  "renewal_turn l w m turn st =
     (case turn of (now, ca) \<Rightarrow> if \<not> renewal_due l now m st then st else snd (issue l w ca m st))"

definition renewal_loop ::
  "('cert, 'key, 'sk, 'kp, 'pa) AcmeLib \<Rightarrow> 'z DnsWorld \<Rightarrow> AcmeManager \<Rightarrow>
     (nat \<times> ('ac, 'cr, ('cert, 'sk) certified, 'z) Ca) list \<Rightarrow>
     (('cert, 'sk) certified, 'z) AcmeState \<Rightarrow> (('cert, 'sk) certified, 'z) AcmeState" where
  "renewal_loop l w m turns st = fold (renewal_turn l w m) turns st"

end
