(* ===== verification/Acme_Facts.thy ===== *)
theory Acme_Facts
  imports Acme
begin

text \<open>
  Correctness of the ACME manager: which challenge responses are in place when the authority decides and
  which remain afterwards, when an issuance succeeds, and that the certificate the listener serves
  survives every failed renewal.
\<close>

section \<open>What each step of an order changes\<close>

lemma create_account_keeps:
  "create_account ca m st = (r, st') \<Longrightarrow>
     st_resolver st' = st_resolver st \<and> st_tokens st' = st_tokens st \<and> st_dns st' = st_dns st"
  by (auto simp: create_account_def split: sum.splits prod.splits option.splits)

lemma acme_account_keeps:
  "acme_account ca m st = (r, st') \<Longrightarrow>
     st_resolver st' = st_resolver st \<and> st_tokens st' = st_tokens st \<and> st_dns st' = st_dns st"
  by (auto simp: acme_account_def split: sum.splits option.splits dest!: create_account_keeps)

lemma install_response_current:
  "install_response l w resp act st = (r, st') \<Longrightarrow> ar_current (st_resolver st') = ar_current (st_resolver st)"
  by (cases resp) (auto simp: set_challenge_def split: sum.splits prod.splits)

lemma authz_loop_current:
  "authz_loop l w cfg azs act st = (r, st') \<Longrightarrow> ar_current (st_resolver st') = ar_current (st_resolver st)"
  by (induction l w cfg azs act st rule: authz_loop.induct)
    (auto simp: Let_def split: AuthorizationStatus.splits option.splits sum.splits prod.splits dest: install_response_current)

lemma fold_clear_challenge:
  "ar_current (fold clear_challenge ds r) = ar_current r"
  "ar_challenges (fold clear_challenge ds r) = fold hm_remove ds (ar_challenges r)"
  by (induction ds arbitrary: r) (auto simp: clear_challenge_def)

lemma teardown_fields [simp]:
  "ar_current (st_resolver (teardown w act st)) = ar_current (st_resolver st)"
  "st_fs (teardown w act st) = st_fs st"
  by (simp_all add: teardown_def fold_clear_challenge)

lemma install_issued_keeps:
  "install_issued l m issued st = (r, st') \<Longrightarrow>
     ar_challenges (st_resolver st') = ar_challenges (st_resolver st) \<and> st_tokens st' = st_tokens st \<and> st_dns st' = st_dns st"
  by (auto simp: install_issued_def Let_def resolver_store_def split: option.splits sum.splits prod.splits)

lemma install_issued_Err:
  "install_issued l m issued st = (Err e, st') \<Longrightarrow> ar_current (st_resolver st') = ar_current (st_resolver st)"
  by (auto simp: install_issued_def Let_def split: option.splits sum.splits prod.splits)

lemma install_issued_Ok:
  "install_issued l m issued st = (Ok c, st') \<Longrightarrow>
     c = issued \<and> (\<exists>ck. into_certified_key l issued = Ok ck \<and> ar_current (st_resolver st') = Some ck)"
  by (auto simp: install_issued_def Let_def resolver_store_def result_bind_eq_Ok split: option.splits sum.splits prod.splits)

text \<open>The ways an issuance can end.\<close>

lemma issue_cases [consumes 1, case_names Account NewOrder Authorization Finalize Issued]:
  assumes "issue l w ca m st = (r, st')"
  obtains
    e where "acme_account ca m st = (Err e, st')" "r = Err e"
  | ac e where "acme_account ca m st = (Ok ac, st')" "r = Err e"
  | ac st1 ord e where "acme_account ca m st = (Ok ac, st1)" "ca_new_order ca ac (acme_domains (am_cfg m)) = Ok ord"
      "authz_loop l w (am_cfg m) (or_authorizations ord) no_active st1 = (Err e, st')" "r = Err e"
  | ac st1 ord act st2 e where "acme_account ca m st = (Ok ac, st1)" "ca_new_order ca ac (acme_domains (am_cfg m)) = Ok ord"
      "authz_loop l w (am_cfg m) (or_authorizations ord) no_active st1 = (Ok act, st2)"
      "finalize_and_fetch ord st2 = Err e" "r = Err e" "st' = teardown w act st2"
  | ac st1 ord act st2 issued where "acme_account ca m st = (Ok ac, st1)" "ca_new_order ca ac (acme_domains (am_cfg m)) = Ok ord"
      "authz_loop l w (am_cfg m) (or_authorizations ord) no_active st1 = (Ok act, st2)"
      "finalize_and_fetch ord st2 = Ok issued" "install_issued l m issued (teardown w act st2) = (r, st')"
proof -
  obtain r1 st1 where acc: "acme_account ca m st = (r1, st1)"
    by (cases "acme_account ca m st")
  show thesis
  proof (cases r1)
    case (Inl e)
    then show thesis
      using acc assms that(1) by (auto simp: issue_def)
  next
    case (Inr ac)
    note acc = acc [unfolded Inr]
    show thesis
    proof (cases "ca_new_order ca ac (acme_domains (am_cfg m))")
      case (Inl e)
      then show thesis
        using acc assms that(2) by (auto simp: issue_def)
    next
      case ord: (Inr ord)
      obtain r2 st2 where loop: "authz_loop l w (am_cfg m) (or_authorizations ord) no_active st1 = (r2, st2)"
        by (cases "authz_loop l w (am_cfg m) (or_authorizations ord) no_active st1")
      show thesis
      proof (cases r2)
        case (Inl e)
        then show thesis
          using acc ord loop assms that(3) by (auto simp: issue_def)
      next
        case (Inr act)
        note loop = loop [unfolded Inr]
        show thesis
        proof (cases "finalize_and_fetch ord st2")
          case (Inl e)
          then show thesis
            using that(4) [OF acc ord loop Inl] assms by (simp add: issue_def Let_def acc ord loop)
        next
          case (Inr issued)
          then show thesis
            using that(5) [OF acc ord loop Inr] assms by (simp add: issue_def Let_def acc ord loop)
        qed
      qed
    qed
  qed
qed

lemma issue_Err_current:
  "issue l w ca m st = (Err e, st') \<Longrightarrow> ar_current (st_resolver st') = ar_current (st_resolver st)"
  by (erule issue_cases) (auto dest!: acme_account_keeps authz_loop_current install_issued_Err)

lemma issue_Ok_current:
  "issue l w ca m st = (Ok c, st') \<Longrightarrow> \<exists>ck. into_certified_key l c = Ok ck \<and> ar_current (st_resolver st') = Some ck"
  by (erule issue_cases) (auto dest!: install_issued_Ok)

section \<open>A completed authorization loop\<close>

text \<open>The responses an order calls for, and installing them one after the other.\<close>

fun pending_responses :: "AcmeConfig \<Rightarrow> (string + Authz) list \<Rightarrow> ChallengeResponse list" where
  "pending_responses cfg [] = []"
| "pending_responses cfg (Inl e # rest) = pending_responses cfg rest"
| "pending_responses cfg (Inr authz # rest) =
     (case (az_status authz, az_challenge authz (challenge_type cfg)) of
        (AuthzPending, Some c) \<Rightarrow>
          challenge_response (acme_challenge cfg) (identifier_domain authz) (chal_token c) (chal_key_authorization c)
            # pending_responses cfg rest
      | _ \<Rightarrow> pending_responses cfg rest)"

fun install_all ::
  "('cert, 'key, 'sk, 'kp, 'pa) AcmeLib \<Rightarrow> 'z DnsWorld \<Rightarrow> ChallengeResponse list \<Rightarrow> Active \<Rightarrow>
     (('cert, 'sk) certified, 'z) AcmeState \<Rightarrow> (AcmeError + Active) \<times> (('cert, 'sk) certified, 'z) AcmeState" where
  "install_all l w [] act st = (Ok act, st)"
| "install_all l w (resp # rest) act st =
     (case install_response l w resp act st of
        (Err e, st') \<Rightarrow> (Err e, st')
      | (Ok act', st') \<Rightarrow> install_all l w rest act' st')"

lemma authz_loop_Ok:
  "authz_loop l w cfg azs act st = (Ok act', st') \<Longrightarrow> install_all l w (pending_responses cfg azs) act st = (Ok act', st')"
proof (induction azs arbitrary: act st)
  case (Cons a azs)
  show ?case
  proof (cases a)
    case (Inr authz)
    then show ?thesis
      using Cons.prems Cons.IH
      by (auto simp: Let_def split: AuthorizationStatus.splits option.splits sum.splits prod.splits)
  qed (use Cons.prems in simp)
qed simp

lemma install_all_step:
  assumes "install_all l w (resp # rest) act st = (Ok act', st')"
  obtains act1 st1 where "install_response l w resp act st = (Ok act1, st1)" "install_all l w rest act1 st1 = (Ok act', st')"
  using assms by (auto split: sum.splits prod.splits)

section \<open>Challenge responses are removed\<close>

text \<open>Every challenge response in place is on the list of active ones.\<close>

definition covered :: "Active \<Rightarrow> ('ck, 'z) AcmeState \<Rightarrow> bool" where
  "covered act st \<longleftrightarrow>
     dom (st_tokens st) \<subseteq> set (act_http act)
     \<and> dom (ar_challenges (st_resolver st)) \<subseteq> set (act_alpn act)
     \<and> dns_tracked (st_dns st) \<subseteq> (\<lambda>(d, r, v). (r, v)) ` set (act_dns act)"

definition no_challenges :: "('ck, 'z) AcmeState \<Rightarrow> bool" where
  "no_challenges st \<longleftrightarrow>
     st_tokens st = Map.empty \<and> ar_challenges (st_resolver st) = Map.empty \<and> dns_tracked (st_dns st) = {}"

lemma no_challenges_covered: "no_challenges st \<longleftrightarrow> covered no_active st"
  by (auto simp: no_challenges_def covered_def no_active_def)

lemma install_response_covered:
  assumes "install_response l w resp act st = (Ok act', st')" "covered act st"
  shows "covered act' st'"
proof (cases resp)
  case (RespDns01 d r v)
  with assms(1) obtain s where s: "dns_publish w d r v (st_dns st) = (Ok (), s)"
      "act' = act\<lparr>act_dns := act_dns act @ [(d, r, v)]\<rparr>" "st' = st\<lparr>st_dns := s\<rparr>"
    by (auto split: sum.splits prod.splits)
  from dyn.publish_Ok [OF s(1)] assms(2) s(2,3) show ?thesis
    by (auto simp: covered_def)
next
  case (RespHttp01 token ka)
  with assms(1) have "act' = act\<lparr>act_http := act_http act @ [token]\<rparr>" "st' = st\<lparr>st_tokens := hm_insert token ka (st_tokens st)\<rparr>"
    by (auto simp: tokens_insert_def)
  with assms(2) show ?thesis
    by (simp add: covered_def subset_insertI2)
next
  case (RespTlsAlpn01 d dig)
  with assms(1) obtain ck where "act' = act\<lparr>act_alpn := act_alpn act @ [d]\<rparr>" "st' = st\<lparr>st_resolver := set_challenge d ck (st_resolver st)\<rparr>"
    by (auto split: sum.splits)
  with assms(2) show ?thesis
    by (simp add: covered_def set_challenge_def subset_insertI2)
qed

lemma install_all_covered:
  "install_all l w rs act st = (Ok act', st') \<Longrightarrow> covered act st \<Longrightarrow> covered act' st'"
proof (induction rs arbitrary: act st)
  case (Cons r rs)
  from Cons.prems(1) obtain act1 st1 where
    "install_response l w r act st = (Ok act1, st1)" "install_all l w rs act1 st1 = (Ok act', st')"
    by (rule install_all_step)
  with Cons show ?case
    using install_response_covered by blast
qed simp

lemma dom_fold_hm_remove: "dom (fold hm_remove ks m) = dom m - set ks"
  by (induction ks arbitrary: m) auto

lemma teardown_no_challenges:
  assumes "covered act st"
  shows "no_challenges (teardown w act st)"
proof -
  have "dom (fold tokens_remove (act_http act) (st_tokens st)) = {}"
    using assms dom_fold_hm_remove [of "act_http act" "st_tokens st"]
    by (simp add: covered_def tokens_remove_def [abs_def])
  moreover have "dom (fold hm_remove (act_alpn act) (ar_challenges (st_resolver st))) = {}"
    using assms by (auto simp: covered_def dom_fold_hm_remove)
  moreover have "dns_tracked (fold (\<lambda>(d, r, v). dns_cleanup w d r v) (act_dns act) (st_dns st)) = {}"
    using assms by (simp add: covered_def dyn.cleanup_all)
  ultimately show ?thesis
    by (simp add: no_challenges_def teardown_def fold_clear_challenge)
qed

section \<open>Challenge responses are in place\<close>

fun response_key :: "ChallengeResponse \<Rightarrow> nat \<times> string \<times> string" where
  "response_key (RespHttp01 token ka) = (0, token, [])"
| "response_key (RespTlsAlpn01 domain digest) = (1, domain, [])"
| "response_key (RespDns01 domain rn v) = (2, rn, v)"

text \<open>
  What the authority sees: the token's body over HTTP, the validation certificate in a handshake
  with the validation protocol, and for DNS that the provider holds the record it created; an operator's own DNS
  is not observed.
\<close>

fun response_visible ::
  "('cert, 'key, 'sk, 'kp, 'pa) AcmeLib \<Rightarrow> (('cert, 'sk) certified, 'z) AcmeState \<Rightarrow> ChallengeResponse \<Rightarrow> bool" where
  "response_visible l st (RespHttp01 token ka) \<longleftrightarrow> tokens_get (st_tokens st) token = Some ka"
| "response_visible l st (RespTlsAlpn01 domain digest) \<longleftrightarrow>
     (\<exists>ck. tls_alpn_cert l domain digest = Ok ck
        \<and> acme_resolve (st_resolver st) \<lparr>ch_alpn = Some [ACME_TLS_ALPN_NAME], ch_server_name = Some domain\<rparr> = Some ck)"
| "response_visible l st (RespDns01 domain rn v) \<longleftrightarrow>
     (case fst (st_dns st) of ManualProvider _ \<Rightarrow> True | CloudflareProvider p \<Rightarrow> (rn, v) \<in> dom (cf_records p))"

lemma dns_publish_records:
  "dns_publish w d r v (CloudflareProvider p, z) = (Ok u, s) \<Longrightarrow>
     \<exists>p' i z'. s = (CloudflareProvider p', z') \<and> cf_records p' = hm_insert (r, v) i (cf_records p)"
  by (auto simp: Let_def split: prod.splits dest!: cf_publish_records)

lemma install_response_visible:
  assumes "install_response l w resp act st = (Ok act', st')"
  shows "response_visible l st' resp"
proof (cases resp)
  case (RespDns01 d r v)
  then obtain s where s: "dns_publish w d r v (st_dns st) = (Ok (), s)" "st' = st\<lparr>st_dns := s\<rparr>"
    using assms by (auto split: sum.splits prod.splits)
  show ?thesis
  proof (cases "st_dns st")
    case (Pair q z)
    then show ?thesis
      using s RespDns01 by (cases q) (auto simp: Let_def split: prod.splits dest!: cf_publish_records)
  qed
qed (use assms in \<open>auto simp: tokens_insert_def tokens_get_def hm_insert_def set_challenge_def acme_resolve_def
    is_acme_alpn_def split: sum.splits\<close>)

lemma install_response_keeps:
  assumes "install_response l w resp act st = (Ok act', st')" "response_visible l st q"
    and "response_key resp = response_key q \<Longrightarrow> resp = q"
  shows "response_visible l st' q"
proof (cases "resp = q")
  case True
  with install_response_visible [OF assms(1)] show ?thesis
    by simp
next
  case False
  with assms(3) have ne: "response_key resp \<noteq> response_key q"
    by blast
  show ?thesis
  proof (cases resp)
    case (RespDns01 d r v)
    then obtain s where s: "dns_publish w d r v (st_dns st) = (Ok (), s)" "st' = st\<lparr>st_dns := s\<rparr>"
      using assms(1) by (auto split: sum.splits prod.splits)
    obtain p z where pz: "st_dns st = (p, z)"
      by (cases "st_dns st")
    show ?thesis
    proof (cases q)
      case q: (RespDns01 d' r' v')
      show ?thesis
      proof (cases p)
        case (ManualProvider mp)
        then show ?thesis
          using s pz q by (auto simp: Let_def split: prod.splits)
      next
        case (CloudflareProvider cp)
        from dns_publish_records [OF s(1) [unfolded pz CloudflareProvider]] show ?thesis
          using s(2) assms(2) q pz CloudflareProvider by auto
      qed
    qed (use s assms(2) in auto)
  next
    case (RespHttp01 token ka)
    with assms(1,2) ne show ?thesis
      by (cases q) (auto simp: tokens_insert_def tokens_get_def hm_insert_def)
  next
    case (RespTlsAlpn01 d dig)
    with assms(1,2) ne show ?thesis
      by (cases q)
        (auto simp: set_challenge_def hm_insert_def acme_resolve_def is_acme_alpn_def split: sum.splits)
  qed
qed

lemma install_all_visible:
  assumes "install_all l w rs act st = (Ok act', st')" "inj_on response_key S" "set rs \<subseteq> S" "q \<in> S"
    and "q \<in> set rs \<or> response_visible l st q"
  shows "response_visible l st' q"
  using assms(1,3,5)
proof (induction rs arbitrary: act st)
  case (Cons r rs)
  from Cons.prems(1) obtain act1 st1 where
    step: "install_response l w r act st = (Ok act1, st1)" "install_all l w rs act1 st1 = (Ok act', st')"
    by (rule install_all_step)
  have "response_key r = response_key q \<Longrightarrow> r = q"
    using assms(2,4) Cons.prems(2) by (simp add: inj_on_def)
  then have "q \<in> set rs \<or> response_visible l st1 q"
    using Cons.prems(3) install_response_visible [OF step(1)] install_response_keeps [OF step(1)] by auto
  then show ?case
    using Cons.IH [OF step(2)] Cons.prems(2) by simp
qed simp

lemma install_response_fs: "install_response l w r act st = (x, st') \<Longrightarrow> st_fs st' = st_fs st"
  by (cases r) (auto split: sum.splits prod.splits)

lemma install_all_fs: "install_all l w rs act st = (Ok act', st') \<Longrightarrow> st_fs st' = st_fs st"
  by (induction rs arbitrary: act st) (auto elim!: install_all_step dest: install_response_fs simp del: install_all.simps(2))

section \<open>The cache\<close>

lemma path_join_eq [simp]: "path_join dir a = path_join dir b \<longleftrightarrow> a = b"
  by (auto simp: path_join_def)

definition cache_writable :: "string option \<Rightarrow> Fs \<Rightarrow> bool" where
  "cache_writable cache fs \<longleftrightarrow>
     (case cache of
        None \<Rightarrow> True
      | Some dir \<Rightarrow>
          fs_dir_error fs dir = None
          \<and> fs_write_error fs (path_join dir CERT_FILE) = None \<and> fs_write_error fs (path_join dir KEY_FILE) = None)"

lemma create_account_writable:
  "create_account ca m st = (r, st') \<Longrightarrow> cache_writable c (st_fs st') = cache_writable c (st_fs st)"
  by (auto simp: create_account_def cache_write_def cache_writable_def Let_def
      split: sum.splits prod.splits option.splits)

lemma acme_account_writable:
  "acme_account ca m st = (r, st') \<Longrightarrow> cache_writable c (st_fs st') = cache_writable c (st_fs st)"
  by (auto simp: acme_account_def split: sum.splits option.splits dest: create_account_writable)

lemma install_issued_writable:
  assumes "cache_writable (am_cache m) (st_fs st)" "into_certified_key l issued = Ok ck"
  shows "\<exists>st'. install_issued l m issued st = (Ok issued, st') \<and> ar_current (st_resolver st') = Some ck
    \<and> (case am_cache m of None \<Rightarrow> True | Some dir \<Rightarrow> load_cert dir (st_fs st') = Some issued)"
  using assms
  by (auto simp: install_issued_def cache_writable_def cache_ensure_dir_def store_cert_def cache_write_def Let_def
      load_cert_def cache_read_def resolver_store_def CERT_FILE_def KEY_FILE_def split: option.splits)

lemma renewal_turn_current:
  assumes "ar_current (st_resolver st) = Some ck"
  shows "ar_current (st_resolver (renewal_turn l w m turn st)) = Some ck
    \<or> (\<exists>c ck'. into_certified_key l c = Ok ck' \<and> ar_current (st_resolver (renewal_turn l w m turn st)) = Some ck')"
proof -
  obtain now ca where turn: "turn = (now, ca)"
    by (cases turn)
  obtain r st' where i: "issue l w ca m st = (r, st')"
    by (cases "issue l w ca m st")
  show ?thesis
    using assms turn i
    by (cases r) (auto simp: renewal_turn_def dest!: issue_Err_current issue_Ok_current)
qed

section \<open>Properties\<close>




section \<open>Concrete orders\<close>

text \<open>
  A manager for one domain with a cache, an operator's DNS, and an authority that asks for one
  HTTP-01 token and declares the order ready when it sees it. Certificates are their PEM text.
\<close>

definition toy_acme_lib :: "(string, string, string, unit, string list \<times> bytes) AcmeLib" where
  "toy_acme_lib =
     \<lparr>al_certs = (\<lambda>pem. if pem = [] then [] else [Ok pem]), al_private_key = Ok, al_from_der = (\<lambda>cs k. Ok (cs, k)),
      al_time_to_expiration = (\<lambda>c now. Ok (Some (7776000 - int now))), al_generate = Ok (), al_params = (\<lambda>ds. Ok (ds, [])),
      al_push_acme_identifier = (\<lambda>dig p. (fst p, dig)), al_self_signed = (\<lambda>p kp. Ok (concat (fst p))),
      al_serialize_der = (\<lambda>kp. Ok ''k''), al_load_private_key = Ok\<rparr>"

definition toy_dns_world :: "(nat \<times> string list) DnsWorld" where
  "toy_dns_world =
     \<lparr>dw_shell = (\<lambda>c e z. (Ok \<lparr>es_success = True, es_display = ''0''\<rparr>, z)), dw_cloudflare = toy_cf\<rparr>"

definition toy_authz :: "string \<Rightarrow> Authz" where
  "toy_authz tok =
     \<lparr>az_status = AuthzPending, az_identifier = ''example.com'',
      az_challenge = (\<lambda>ct. if ct = CtHttp01
        then Some \<lparr>chal_token = tok, chal_key_authorization = \<lparr>ka_as_str = tok @ ''.k'', ka_digest = [], ka_dns_value = ''v''\<rparr>,
               chal_set_ready = Ok ()\<rparr>
        else None)\<rparr>"

definition toy_order :: "(string + Authz) list \<Rightarrow> (string list \<times> string, nat \<times> string list) CaOrder" where
  "toy_order azs =
     \<lparr>or_authorizations = azs,
      or_poll_ready = (\<lambda>s. if tokens_get (st_tokens s) ''t1'' = Some ''t1.k'' then Ok OrderReady else Ok OrderInvalid),
      or_finalize = Ok ''key'', or_poll_certificate = Ok ''chain''\<rparr>"

definition toy_ca :: "(string + Authz) list \<Rightarrow> (unit, string, string list \<times> string, nat \<times> string list) Ca" where
  "toy_ca azs =
     \<lparr>ca_staging_url = ''staging'', ca_production_url = ''production'', ca_builder = Ok (), ca_parse_credentials = Ok,
      ca_serialize_credentials = Ok, ca_from_credentials = (\<lambda>_. Ok ()), ca_create = (\<lambda>cs u. Ok ((), u)),
      ca_new_order = (\<lambda>_ _. Ok (toy_order azs))\<rparr>"

definition toy_manager :: AcmeManager where
  "toy_manager =
     \<lparr>am_cfg = \<lparr>acme_enabled = True, acme_domains = [''example.com''], acme_contact = None, acme_challenge = Http01,
        acme_directory_url = None, acme_staging = False, acme_cache_dir = Some ''/c'', acme_http01_listen = None,
        acme_dns = acme_dns_config_default\<rparr>,
      am_cache = Some ''/c''\<rparr>"

definition toy_state :: "(string list \<times> string, nat \<times> string list) AcmeState" where
  "toy_state =
     \<lparr>st_resolver = acme_resolver_empty, st_tokens = tokens_new, st_dns = (ManualProvider (manual_new None None 0), (0, [])),
      st_fs = \<lparr>fs_files = Map.empty, fs_dir_error = (\<lambda>_. None), fs_write_error = (\<lambda>_. None)\<rparr>\<rparr>"

lemma toy_account:
  "acme_account (toy_ca azs) toy_manager toy_state =
     (Ok (), toy_state\<lparr>st_fs := (st_fs toy_state)\<lparr>fs_files := [''/c/account.json'' \<mapsto> ''production'']\<rparr>\<rparr>)"
  by (simp add: acme_account_def create_account_def toy_ca_def toy_manager_def toy_state_def cache_read_def
      cache_ensure_dir_def cache_write_def directory_url_def path_join_def ACCOUNT_FILE_def Let_def)

lemma toy_loop:
  "authz_loop toy_acme_lib toy_dns_world (am_cfg toy_manager) [Inr (toy_authz ''t1'')] no_active s =
     (Ok \<lparr>act_dns = [], act_alpn = [], act_http = [''t1'']\<rparr>, s\<lparr>st_tokens := hm_insert ''t1'' ''t1.k'' (st_tokens s)\<rparr>)"
  by (simp add: toy_authz_def toy_manager_def challenge_type_def challenge_response_def build_challenge_response_def
      no_active_def tokens_insert_def Let_def)

lemma toy_no_challenges: "no_challenges toy_state"
  by (simp add: no_challenges_def toy_state_def tokens_new_def acme_resolver_empty_def)

lemma toy_new_order: "ca_new_order (toy_ca azs) x ds = Ok (toy_order azs)"
  by (simp add: toy_ca_def)

lemma toy_order_authorizations: "or_authorizations (toy_order azs) = azs"
  by (simp add: toy_order_def)


lemma toy_pending: "pending_responses (am_cfg toy_manager) [Inr (toy_authz ''t1'')] = [RespHttp01 ''t1'' ''t1.k'']"
  by (simp add: toy_authz_def toy_manager_def challenge_type_def challenge_response_def build_challenge_response_def)



section \<open>Where the code falls short of its comments\<close>

text \<open>
  A failure inside the authorization loop returns before the teardown: the token of the first
  authorization stays in the store.
\<close>

lemma early_failure_leaves_token:
  "case issue toy_acme_lib toy_dns_world (toy_ca [Inr (toy_authz ''t1''), Inl ''timeout'']) toy_manager toy_state of
     (r, st) \<Rightarrow> r = Err (AcmeProtocol ''timeout'') \<and> tokens_get (st_tokens st) ''t1'' = Some ''t1.k''"
  by code_simp

text \<open>Without a cache directory a renewal is due at every turn, however fresh the served certificate is.\<close>

lemma no_cache_always_due: "am_cache m = None \<Longrightarrow> renewal_due l now m st"
  by (simp add: renewal_due_def cert_needs_renewal_def split: option.split)

end
