(* ===== verification/Labels.thy ===== *)
theory Labels
  imports Routing Rust_Maps
begin

text \<open>
  Container labels to routes (\<open>src/discovery/labels.rs\<close>). The grouping loop over the label
  map, the loop over the grouped fields and the implicit route are translated as written; the
  label map is the \<open>BTreeMap\<close> the Docker provider collects. The lemmas relate the two loops to
  a declarative reading of the label schema (\<open>label_field\<close>, \<open>label_names\<close>).
\<close>

definition ENABLE_KEY :: string where "ENABLE_KEY = ''archetype.enable''"
definition GLOBAL_STRICT_KEY :: string where "GLOBAL_STRICT_KEY = ''archetype.attestation.strict''"
definition IMPLICIT_UPSTREAM_KEY :: string where "IMPLICIT_UPSTREAM_KEY = ''archetype.upstream''"
definition ROUTE_PREFIX :: string where "ROUTE_PREFIX = ''archetype.route.''"

datatype LabelWarning =
    MalformedRouteLabel string
  | RouteMissingUpstream string
  | NoRoutesDeclared string

type_synonym labels = "(string, string) btree"
type_synonym grouped = "(string, (string, string) btree) btree"

definition label_short :: "string \<Rightarrow> string" where
  "label_short cid = take_chars 12 cid"

text \<open>One turn of the loop that groups \<open>archetype.route.<name>.<field>\<close> by name.\<close>

definition group_label :: "string \<times> string \<Rightarrow> grouped \<times> LabelWarning list \<Rightarrow> grouped \<times> LabelWarning list" where
  "group_label = (\<lambda>(k, v) (g, ws).
     case strip_prefix k ROUTE_PREFIX of
       None \<Rightarrow> (g, ws)
     | Some rest \<Rightarrow>
         (case rsplit_once (CHR ''.'') rest of
            None \<Rightarrow> (g, ws @ [MalformedRouteLabel k])
          | Some (name, field) \<Rightarrow>
              (bt_insert name
                 (bt_insert (to_ascii_lowercase field) v (unwrap_or [] (bt_get g name))) g, ws)))"

definition group_labels :: "labels \<Rightarrow> grouped \<times> LabelWarning list" where
  "group_labels labels = fold group_label labels ([], [])"

definition explicit_route :: "string \<Rightarrow> bool option \<Rightarrow> string \<Rightarrow> (string, string) btree \<Rightarrow> string \<Rightarrow> Route" where
  "explicit_route cid global_strict name flds upstream =
     \<lparr>r_name = ''docker/'' @ label_short cid @ ''/'' @ name,
      r_host = unwrap_or [] (bt_get flds ''host''),
      r_path_prefix = unwrap_or [] (bt_get flds ''pathprefix''),
      r_upstream = upstream,
      r_strict_attestation = option_or (Option.bind (bt_get flds ''strict'') parse_bool_token) global_strict,
      r_source = Discovered\<rparr>"

fun explicit_routes ::
  "string \<Rightarrow> bool option \<Rightarrow> grouped \<Rightarrow> Route list \<times> LabelWarning list \<Rightarrow> Route list \<times> LabelWarning list" where
  "explicit_routes cid gs [] acc = acc"
| "explicit_routes cid gs ((name, flds) # g) (rs, ws) =
     (case bt_get flds ''upstream'' of
        None \<Rightarrow> explicit_routes cid gs g (rs, ws @ [RouteMissingUpstream name])
      | Some upstream \<Rightarrow>
          explicit_routes cid gs g (rs @ [explicit_route cid gs name flds upstream], ws))"

definition implicit_route :: "string \<Rightarrow> bool option \<Rightarrow> labels \<Rightarrow> string \<Rightarrow> Route" where
  "implicit_route cid global_strict labels upstream =
     \<lparr>r_name = ''docker/'' @ label_short cid,
      r_host = unwrap_or [] (bt_get labels ''archetype.host''),
      r_path_prefix = unwrap_or [] (bt_get labels ''archetype.pathprefix''),
      r_upstream = upstream,
      r_strict_attestation = global_strict,
      r_source = Discovered\<rparr>"

definition routes_from_labels :: "string \<Rightarrow> labels \<Rightarrow> Route list \<times> LabelWarning list" where
  "routes_from_labels cid labels =
     (if Option.bind (bt_get labels ENABLE_KEY) parse_bool_token \<noteq> Some True then ([], [])
      else
        let global_strict = Option.bind (bt_get labels GLOBAL_STRICT_KEY) parse_bool_token;
            (grouped, warnings) = group_labels labels;
            (routes, warnings) = explicit_routes cid global_strict grouped ([], warnings)
        in if routes = [] then
             (case bt_get labels IMPLICIT_UPSTREAM_KEY of
                Some upstream \<Rightarrow> ([implicit_route cid global_strict labels upstream], warnings)
              | None \<Rightarrow> ([], warnings @ [NoRoutesDeclared (label_short cid)]))
           else (routes, warnings))"

section \<open>The label schema, read declaratively\<close>

text \<open>A route label's name and lower-cased field.\<close>

definition label_key :: "string \<Rightarrow> (string \<times> string) option" where
  "label_key k =
     Option.bind (strip_prefix k ROUTE_PREFIX) (\<lambda>rest.
       map_option (\<lambda>(n, f). (n, to_ascii_lowercase f)) (rsplit_once (CHR ''.'') rest))"

text \<open>The value of field \<open>f\<close> of route \<open>n\<close>: that of the last label, in key order, that sets it.\<close>

definition label_field :: "labels \<Rightarrow> string \<Rightarrow> string \<Rightarrow> string option" where
  "label_field labels n f =
     map_of (rev (map (\<lambda>(k, v). (label_key k, v)) labels)) (Some (n, f))"

definition label_names :: "labels \<Rightarrow> string list" where
  "label_names labels = sort (remdups (List.map_filter (\<lambda>(k, _). map_option fst (label_key k)) labels))"

definition label_route :: "string \<Rightarrow> labels \<Rightarrow> bool option \<Rightarrow> string \<Rightarrow> Route option" where
  "label_route cid labels gs n =
     map_option (\<lambda>upstream.
       \<lparr>r_name = ''docker/'' @ label_short cid @ ''/'' @ n,
        r_host = unwrap_or [] (label_field labels n ''host''),
        r_path_prefix = unwrap_or [] (label_field labels n ''pathprefix''),
        r_upstream = upstream,
        r_strict_attestation = option_or (Option.bind (label_field labels n ''strict'') parse_bool_token) gs,
        r_source = Discovered\<rparr>)
       (label_field labels n ''upstream'')"

definition label_warnings :: "string \<Rightarrow> labels \<Rightarrow> bool \<Rightarrow> LabelWarning list" where
  "label_warnings cid labels none =
     map (\<lambda>(k, _). MalformedRouteLabel k)
       (filter (\<lambda>(k, _). starts_with k ROUTE_PREFIX \<and> label_key k = None) labels) @
     map RouteMissingUpstream (filter (\<lambda>n. label_field labels n ''upstream'' = None) (label_names labels)) @
     (if none then [NoRoutesDeclared (label_short cid)] else [])"

definition label_routes_spec :: "string \<Rightarrow> labels \<Rightarrow> Route list \<times> LabelWarning list" where
  "label_routes_spec cid labels =
     (if Option.bind (bt_get labels ENABLE_KEY) parse_bool_token = Some True then
        let gs = Option.bind (bt_get labels GLOBAL_STRICT_KEY) parse_bool_token;
            explicit = List.map_filter (label_route cid labels gs) (label_names labels);
            implicit = map (implicit_route cid gs labels)
              (case bt_get labels IMPLICIT_UPSTREAM_KEY of None \<Rightarrow> [] | Some u \<Rightarrow> [u]);
            routes = (if explicit = [] then implicit else explicit)
        in (routes, label_warnings cid labels (routes = []))
      else ([], []))"

section \<open>The grouping loop\<close>

lemma group_label_key:
  "fst (group_label (k, v) (g, ws)) =
     (case label_key k of
        None \<Rightarrow> g
      | Some (n, f) \<Rightarrow> bt_insert n (bt_insert f v (unwrap_or [] (bt_get g n))) g)"
  by (simp add: group_label_def label_key_def split: option.split)

definition grouped_field :: "grouped \<Rightarrow> string \<Rightarrow> string \<Rightarrow> string option" where
  "grouped_field g n f = Option.bind (bt_get g n) (\<lambda>m. bt_get m f)"

definition grouped_wf :: "grouped \<Rightarrow> bool" where
  "grouped_wf g \<longleftrightarrow> bt_wf g \<and> (\<forall>n m. bt_get g n = Some m \<longrightarrow> bt_wf m)"

lemma bt_get_Nil [simp]: "bt_get [] k = None"
  by (simp add: bt_get_def)

lemma group_label_step:
  assumes "grouped_wf g"
  shows "grouped_wf (fst (group_label (k, v) (g, ws)))"
    and "grouped_field (fst (group_label (k, v) (g, ws))) n f =
           (if label_key k = Some (n, f) then Some v else grouped_field g n f)"
    and "set (bt_keys (fst (group_label (k, v) (g, ws)))) =
           set (bt_keys g) \<union> set (case map_option fst (label_key k) of None \<Rightarrow> [] | Some y \<Rightarrow> [y])"
proof -
  have wf: "bt_wf (unwrap_or [] (bt_get g n))" for n
    using assms by (auto simp: grouped_wf_def bt_wf_def unwrap_or_def split: option.splits)
  show "grouped_wf (fst (group_label (k, v) (g, ws)))"
    using assms wf
    by (auto simp: group_label_key grouped_wf_def bt_get_insert bt_wf_insert split: option.split if_splits)
  show "grouped_field (fst (group_label (k, v) (g, ws))) n f =
          (if label_key k = Some (n, f) then Some v else grouped_field g n f)"
    using assms wf [of n]
    by (auto simp: group_label_key grouped_wf_def grouped_field_def bt_get_insert unwrap_or_def
        split: option.splits)
  show "set (bt_keys (fst (group_label (k, v) (g, ws)))) =
          set (bt_keys g) \<union> set (case map_option fst (label_key k) of None \<Rightarrow> [] | Some y \<Rightarrow> [y])"
    by (auto simp: group_label_key bt_keys_def set_bt_insert_keys split: option.splits)
qed

lemma map_filter_snoc:
  "List.map_filter f (xs @ [x]) = List.map_filter f xs @ (case f x of None \<Rightarrow> [] | Some y \<Rightarrow> [y])"
  by (simp add: map_filter_def split: option.split)

lemma label_field_snoc:
  "label_field (ls @ [(k, v)]) n f = (if label_key k = Some (n, f) then Some v else label_field ls n f)"
  by (auto simp: label_field_def)

lemma group_labels_snoc: "group_labels (ls @ [e]) = group_label e (group_labels ls)"
  by (simp add: group_labels_def)

lemma group_labels_inv:
  "grouped_wf (fst (group_labels ls))"
  "grouped_field (fst (group_labels ls)) n f = label_field ls n f"
  "set (bt_keys (fst (group_labels ls))) = set (List.map_filter (\<lambda>(k, _). map_option fst (label_key k)) ls)"
proof (induction ls rule: rev_induct)
  case Nil
  show "grouped_wf (fst (group_labels []))"
    and "grouped_field (fst (group_labels [])) n f = label_field [] n f"
    and "set (bt_keys (fst (group_labels []))) = set (List.map_filter (\<lambda>(k, _). map_option fst (label_key k)) [])"
    by (simp_all add: group_labels_def grouped_wf_def bt_wf_def bt_get_def grouped_field_def
        label_field_def bt_keys_def)
next
  case (snoc e ls)
  obtain k v where e: "e = (k, v)" by (cases e)
  obtain g ws where g: "group_labels ls = (g, ws)" by (cases "group_labels ls")
  note step = group_label_step [of g k v ws, folded e]
  show "grouped_wf (fst (group_labels (ls @ [e])))"
    and "grouped_field (fst (group_labels (ls @ [e]))) n f = label_field (ls @ [e]) n f"
    and "set (bt_keys (fst (group_labels (ls @ [e])))) =
           set (List.map_filter (\<lambda>(k, _). map_option fst (label_key k)) (ls @ [e]))"
    using snoc step unfolding group_labels_snoc g
    by (auto simp: e label_field_snoc map_filter_snoc split: if_splits)
qed

lemma group_labels_warnings:
  "snd (group_labels ls) =
     map (\<lambda>(k, _). MalformedRouteLabel k)
       (filter (\<lambda>(k, _). starts_with k ROUTE_PREFIX \<and> label_key k = None) ls)"
proof (induction ls rule: rev_induct)
  case Nil
  show ?case by (simp add: group_labels_def)
next
  case (snoc e ls)
  then show ?case
    by (cases "group_labels ls")
      (auto simp: group_labels_snoc group_label_def label_key_def strip_prefix_def
        split: option.splits prod.splits)
qed

lemma bt_keys_group_labels: "bt_keys (fst (group_labels ls)) = label_names ls"
proof (rule sorted_distinct_set_unique)
  have "bt_wf (fst (group_labels ls))"
    using group_labels_inv(1) [of ls] by (simp add: grouped_wf_def)
  then show "sorted (bt_keys (fst (group_labels ls)))" and "distinct (bt_keys (fst (group_labels ls)))"
    by (auto dest: bt_wf_distinct simp: bt_keys_def)
qed (simp_all add: label_names_def group_labels_inv(3))

section \<open>The route loop\<close>

lemma explicit_routes_eq:
  "explicit_routes cid gs g (rs, ws) =
     (rs @ List.map_filter (\<lambda>(n, m). map_option (explicit_route cid gs n m) (bt_get m ''upstream'')) g,
      ws @ map (RouteMissingUpstream \<circ> fst) (filter (\<lambda>(n, m). bt_get m ''upstream'' = None) g))"
  by (induction g arbitrary: rs ws) (auto simp: map_filter_simps split: option.splits)

lemma grouped_entry:
  assumes "(n, m) \<in> set (fst (group_labels ls))"
  shows "bt_get m f = label_field ls n f"
proof -
  have "bt_wf (fst (group_labels ls))"
    using group_labels_inv(1) [of ls] by (simp add: grouped_wf_def)
  with assms have "bt_get (fst (group_labels ls)) n = Some m"
    by (simp add: bt_get_Some_iff)
  then show ?thesis
    by (simp add: grouped_field_def flip: group_labels_inv(2))
qed

lemma explicit_routes_group_labels:
  "explicit_routes cid gs (fst (group_labels ls)) ([], ws) =
     (List.map_filter (label_route cid ls gs) (label_names ls),
      ws @ map RouteMissingUpstream (filter (\<lambda>n. label_field ls n ''upstream'' = None) (label_names ls)))"
proof -
  let ?g = "fst (group_labels ls)"
  have "List.map_filter (\<lambda>(n, m). map_option (explicit_route cid gs n m) (bt_get m ''upstream'')) ?g =
        List.map_filter (\<lambda>e. label_route cid ls gs (fst e)) ?g"
    unfolding map_filter_def
    by (rule map_cong [OF filter_cong])
      (auto simp: label_route_def explicit_route_def grouped_entry)
  moreover have "filter (\<lambda>(n, m). bt_get m ''upstream'' = None) ?g =
        filter (\<lambda>e. label_field ls (fst e) ''upstream'' = None) ?g"
    by (rule filter_cong) (auto simp: grouped_entry)
  ultimately show ?thesis
    by (simp add: explicit_routes_eq map_filter_def filter_map comp_def bt_keys_def
        flip: bt_keys_group_labels)
qed

section \<open>Properties\<close>


end
