(* ===== verification/Discovery.thy ===== *)
theory Discovery
  imports Labels Config
begin

text \<open>
  The discovery manager (\<open>src/discovery/mod.rs\<close>). A provider sends complete snapshots of its
  routes; \<open>RouteManager\<close> keeps the latest snapshot of each provider and republishes the live
  table. The interface \<open>snapshot_provider\<close> is the contract of the trait \<open>DiscoveryProvider\<close> the
  manager relies on: one turn of a provider's loop either sends nothing and keeps what it
  has last sent, or sends a snapshot that is news and remembers it. The Docker and the Kubernetes
  provider interpret it.
\<close>

record ProviderUpdate =
  pu_provider :: string
  pu_routes :: "Route list"

record RouteManager =
  rm_file_routes :: "Route list"
  rm_provider_routes :: "(string, Route list) btree"
  rm_table :: RouteTable

definition route_manager_new :: "Route list \<Rightarrow> RouteManager" where
  "route_manager_new file_routes =
     \<lparr>rm_file_routes = file_routes, rm_provider_routes = [], rm_table = route_table_new file_routes\<rparr>"

definition manager_recompute :: "RouteManager \<Rightarrow> RouteManager" where
  "manager_recompute m =
     (let all_routes = fold (\<lambda>routes acc. acc @ routes) (bt_values (rm_provider_routes m)) (rm_file_routes m)
      in m\<lparr>rm_table := route_table_new all_routes\<rparr>)"

text \<open>One turn of \<open>RouteManager::run\<close>; the loop ends when every sender has been dropped.\<close>

definition manager_recv :: "ProviderUpdate \<Rightarrow> RouteManager \<Rightarrow> RouteManager" where
  "manager_recv update m =
     manager_recompute
       (m\<lparr>rm_provider_routes := bt_insert (pu_provider update) (pu_routes update) (rm_provider_routes m)\<rparr>)"

definition manager_run :: "ProviderUpdate list \<Rightarrow> RouteManager \<Rightarrow> RouteManager" where
  "manager_run updates m = fold manager_recv updates m"

datatype ProviderSpec =
    DockerSpec string nat
  | KubernetesSpec "string option"

definition build_providers :: "DiscoveryConfig \<Rightarrow> ProviderSpec list" where
  "build_providers cfg =
     (if docker_enabled (disc_docker cfg)
      then [DockerSpec (docker_socket (disc_docker cfg)) (docker_poll_secs (disc_docker cfg))] else []) @
     (if k8s_enabled (disc_kubernetes cfg)
      then [KubernetesSpec (k8s_namespace (disc_kubernetes cfg))] else [])"

section \<open>The manager's table\<close>

definition manager_wf :: "RouteManager \<Rightarrow> bool" where
  "manager_wf m \<longleftrightarrow>
     bt_wf (rm_provider_routes m) \<and>
     rm_table m = route_table_new (rm_file_routes m @ concat (bt_values (rm_provider_routes m)))"

lemma fold_append: "fold (\<lambda>xs acc. acc @ xs) xss acc = acc @ concat xss"
  by (induction xss arbitrary: acc) auto

lemma manager_wf_new: "manager_wf (route_manager_new fr)"
  by (simp add: manager_wf_def route_manager_new_def bt_wf_def bt_values_def)

lemma manager_wf_recv: "manager_wf m \<Longrightarrow> manager_wf (manager_recv u m)"
  by (simp add: manager_wf_def manager_recv_def manager_recompute_def fold_append bt_wf_insert Let_def)

lemma manager_wf_run: "manager_wf m \<Longrightarrow> manager_wf (manager_run us m)"
  unfolding manager_run_def by (induction us arbitrary: m) (simp_all add: manager_wf_recv)

lemma manager_recv_fields [simp]:
  "rm_file_routes (manager_recv u m) = rm_file_routes m"
  "rm_provider_routes (manager_recv u m) = bt_insert (pu_provider u) (pu_routes u) (rm_provider_routes m)"
  by (simp_all add: manager_recv_def manager_recompute_def Let_def)

lemma manager_run_file_routes [simp]: "rm_file_routes (manager_run us m) = rm_file_routes m"
  unfolding manager_run_def by (induction us arbitrary: m) simp_all

lemma manager_run_provider_routes:
  "rm_provider_routes (manager_run us m) =
     fold (\<lambda>e. bt_insert (fst e) (snd e)) (map (\<lambda>u. (pu_provider u, pu_routes u)) us) (rm_provider_routes m)"
  unfolding manager_run_def by (induction us arbitrary: m) simp_all

text \<open>What the manager holds of provider \<open>n\<close> once it has received \<open>us\<close>.\<close>

definition latest :: "string \<Rightarrow> ProviderUpdate list \<Rightarrow> Route list option" where
  "latest n us = map_of (rev (map (\<lambda>u. (pu_provider u, pu_routes u)) us)) n"

lemma manager_run_latest:
  "bt_wf (rm_provider_routes m) \<Longrightarrow>
     bt_get (rm_provider_routes (manager_run us m)) n = option_or (latest n us) (bt_get (rm_provider_routes m) n)"
  by (simp add: manager_run_provider_routes bt.lookup_ins_all latest_def option_or_def map_add_def split: option.split)

lemma latest_snoc: "latest n (us @ [u]) = (if pu_provider u = n then Some (pu_routes u) else latest n us)"
  by (simp add: latest_def)

lemma latest_Nil [simp]: "latest n [] = None"
  by (simp add: latest_def)

section \<open>The contract of a provider\<close>

text \<open>
  A provider's loop, turn by turn: a turn consumes one event of its environment and either goes on
  in a new state, perhaps with a snapshot sent, or ends.
\<close>

fun provider_run :: "('s \<Rightarrow> 'e \<Rightarrow> 's option \<times> Route list option) \<Rightarrow> 's \<Rightarrow> 'e list \<Rightarrow> 's option \<times> Route list list" where
  "provider_run turn s [] = (Some s, [])"
| "provider_run turn s (e # es) =
     (case turn s e of
        (None, sent) \<Rightarrow> (None, case sent of None \<Rightarrow> [] | Some r \<Rightarrow> [r])
      | (Some s', sent) \<Rightarrow>
          (case provider_run turn s' es of
             (t, rs) \<Rightarrow> (t, (case sent of None \<Rightarrow> rs | Some r \<Rightarrow> r # rs))))"

locale snapshot_provider =
  fixes turn :: "'s \<Rightarrow> 'e \<Rightarrow> 's option \<times> Route list option"
    and last_sent :: "'s \<Rightarrow> Route list option"
  assumes turn_quiet: "turn s e = (Some s', None) \<Longrightarrow> last_sent s' = last_sent s"
    and turn_sends: "turn s e = (Some s', Some r) \<Longrightarrow> last_sent s' = Some r \<and> last_sent s \<noteq> Some r"
    and turn_ends: "turn s e = (None, sent) \<Longrightarrow> sent = None"
begin

lemma turn_last_sent: "turn s e = (Some s', sent) \<Longrightarrow> last_sent s' = option_or sent (last_sent s)"
  by (cases sent) (auto simp: option_or_def turn_quiet turn_sends)

text \<open>What the provider remembers is the last snapshot it sent.\<close>

lemma run_last_sent:
  "provider_run turn s es = (Some t, rs) \<Longrightarrow>
     last_sent t = (if rs = [] then last_sent s else Some (last rs))"
  by (induction es arbitrary: s rs)
    (auto split: prod.splits option.splits simp: turn_quiet dest: turn_sends)

text \<open>No snapshot is sent twice in a row.\<close>

lemma run_no_repeats:
  "provider_run turn s es = (t, rs) \<Longrightarrow>
     distinct_adj rs \<and> (rs \<noteq> [] \<longrightarrow> last_sent s \<noteq> Some (hd rs))"
proof (induction es arbitrary: s rs t)
  case (Cons e es)
  obtain so sent where turn: "turn s e = (so, sent)" by fastforce
  show ?case
  proof (cases so)
    case None
    with turn turn_ends have "sent = None" by auto
    with Cons.prems turn None show ?thesis by auto
  next
    case (Some s')
    obtain t' rs' where run: "provider_run turn s' es = (t', rs')" by fastforce
    then have t: "rs = (case sent of None \<Rightarrow> rs' | Some r \<Rightarrow> r # rs')"
      using Cons.prems turn Some by (simp split: option.splits)
    show ?thesis
      using Cons.IH [OF run] turn turn_quiet [of s e s'] turn_sends [of s e s'] Some
      by (cases sent) (auto simp: distinct_adj_Cons t)
  qed
qed simp

text \<open>A manager that has received all the provider sent holds the provider's view.\<close>

lemma run_manager:
  assumes "provider_run turn s es = (Some t, rs)" and "last_sent s = None"
    and "bt_wf (rm_provider_routes m)" and "bt_get (rm_provider_routes m) n = None"
  shows "bt_get (rm_provider_routes (manager_run (map (\<lambda>r. \<lparr>pu_provider = n, pu_routes = r\<rparr>) rs) m)) n = last_sent t"
  using assms run_last_sent [OF assms(1)]
  by (cases rs rule: rev_cases) (simp_all add: manager_run_latest latest_snoc option_or_def)

end

lemma map_filter_all_Some: "map Some ys = map f xs \<Longrightarrow> List.map_filter f xs = ys"
  by (induction xs arbitrary: ys) (auto simp: map_filter_simps Cons_eq_map_conv map_eq_Cons_conv split: option.split)

section \<open>Properties\<close>

text \<open>
  Whatever updates the manager receives and however those of different providers
  interleave, the live table is the file routes followed by the latest snapshot of each provider, in
  the ascending order of the providers' names, with no trace of an earlier snapshot.
\<close>
theorem manager_table_latest:
  "rm_table (manager_run us (route_manager_new fr)) =
     route_table_new (fr @ concat (List.map_filter (\<lambda>n. latest n us) (sort (remdups (map pu_provider us)))))"
proof -
  let ?m = "manager_run us (route_manager_new fr)"
  let ?p = "rm_provider_routes ?m"
  let ?ns = "sort (remdups (map pu_provider us))"
  have wf: "bt_wf ?p" and table: "rm_table ?m = route_table_new (fr @ concat (bt_values ?p))"
    using manager_wf_run [OF manager_wf_new, of us fr] by (simp_all add: manager_wf_def route_manager_new_def)
  have get: "bt_get ?p n = latest n us" for n
    using manager_run_latest [of "route_manager_new fr" us n]
    by (simp add: route_manager_new_def bt_wf_def option_or_def split: option.split)
  have names: "bt_keys ?p = ?ns"
  proof (rule sorted_distinct_set_unique)
    show "sorted (bt_keys ?p)" "distinct (bt_keys ?p)"
      using bt_wf_distinct [OF wf] by (simp_all add: bt_keys_def)
    have "n \<in> set (bt_keys ?p) \<longleftrightarrow> latest n us \<noteq> None" for n
      using bt_get_None_iff [of ?p n] by (auto simp: get bt_keys_def)
    moreover have "latest n us \<noteq> None \<longleftrightarrow> n \<in> pu_provider ` set us" for n
      by (auto simp: latest_def map_of_eq_None_iff image_image)
    ultimately show "set (bt_keys ?p) = set ?ns" by auto
  qed simp_all
  have entry: "bt_get ?p (fst e) = Some (snd e)" if "e \<in> set ?p" for e
    using that by (simp add: bt_get_Some_iff [OF wf])
  have "map Some (bt_values ?p) = map (\<lambda>n. latest n us) (bt_keys ?p)"
    unfolding bt_values_def bt_keys_def map_map comp_def
    by (rule map_cong [OF refl]) (simp add: entry [symmetric] get)
  then show ?thesis
    unfolding names table by (simp only: map_filter_all_Some)
qed

end
