(* ===== verification/Docker.thy ===== *)
theory Docker
  imports Discovery
begin

text \<open>
  The Docker provider (\<open>src/discovery/docker.rs\<close>). The bollard client is a parameter: connecting
  and listing the running containers are functions of the turn's environment. The polling
  loop never ends by itself, so the model is its turn; \<open>docker_run\<close> iterates it over the
  environments of successive turns.
\<close>

record DockerProvider =
  dp_socket :: string
  dp_poll :: nat

definition docker_provider_new :: "string \<Rightarrow> nat \<Rightarrow> DockerProvider" where
  "docker_provider_new socket poll_secs = \<lparr>dp_socket = socket, dp_poll = max poll_secs 1\<rparr>"

datatype SocketKind = SocketUnix | SocketHttp

definition socket_kind :: "string \<Rightarrow> SocketKind" where
  "socket_kind socket = (if starts_with socket ''unix://'' then SocketUnix else SocketHttp)"

text \<open>
  A container of the daemon's answer; its labels are a \<open>HashMap\<close>, listed in an order of the
  library's own.
\<close>

record Container =
  c_id :: "string option"
  c_labels :: "(string \<times> string) list option"

text \<open>The environment of one turn: the two connectors and the listing of a connected client.\<close>

record ('c, 'e) DockerEnv =
  de_connect_with_unix :: "string \<Rightarrow> 'e + 'c"
  de_connect_with_http :: "string \<Rightarrow> 'e + 'c"
  de_list_containers :: "'c \<Rightarrow> 'e + Container list"
  de_receiver_open :: bool

definition docker_connect :: "DockerProvider \<Rightarrow> ('c, 'e) DockerEnv \<Rightarrow> 'e + 'c" where
  "docker_connect p env =
     (case socket_kind (dp_socket p) of
        SocketUnix \<Rightarrow> de_connect_with_unix env (dp_socket p)
      | SocketHttp \<Rightarrow> de_connect_with_http env (dp_socket p))"

datatype 'e DockerLog =
    Connected
  | CannotConnect 'e
  | PollFailed 'e
  | ContainerWarning string LabelWarning

definition docker_short :: "string \<Rightarrow> string" where
  "docker_short cid = take_chars 12 cid"

definition container_routes :: "Container \<Rightarrow> Route list \<times> LabelWarning list" where
  "container_routes c =
     routes_from_labels (unwrap_or [] (c_id c)) (bt_of_list (unwrap_or [] (c_labels c)))"

fun poll_containers :: "Container list \<Rightarrow> Route list \<times> 'e DockerLog list \<Rightarrow> Route list \<times> 'e DockerLog list" where
  "poll_containers [] acc = acc"
| "poll_containers (c # cs) (routes, logs) =
     (case container_routes c of
        (r, warnings) \<Rightarrow>
          poll_containers cs
            (routes @ r, logs @ map (ContainerWarning (docker_short (unwrap_or [] (c_id c)))) warnings))"

definition poll_once :: "('c, 'e) DockerEnv \<Rightarrow> 'c \<Rightarrow> 'e + (Route list \<times> 'e DockerLog list)" where
  "poll_once env docker =
     result_bind (de_list_containers env docker) (\<lambda>containers. Ok (poll_containers containers ([], [])))"

definition docker_name :: string where
  "docker_name = ''docker''"

record 'c DockerLoop =
  dl_docker :: "'c option"
  dl_last :: "Route list option"
  dl_warned_connect :: bool

definition docker_loop_init :: "'c DockerLoop" where
  "docker_loop_init = \<lparr>dl_docker = None, dl_last = None, dl_warned_connect = False\<rparr>"

text \<open>The head of the turn: connect when there is no client; \<open>None\<close> is the \<open>continue\<close>.\<close>

definition docker_ensure ::
  "DockerProvider \<Rightarrow> ('c, 'e) DockerEnv \<Rightarrow> 'c DockerLoop \<Rightarrow> 'c DockerLoop \<times> 'c option \<times> 'e DockerLog list" where
  "docker_ensure p env s =
     (case dl_docker s of
        Some d \<Rightarrow> (s, Some d, [])
      | None \<Rightarrow>
          (case docker_connect p env of
             Ok d \<Rightarrow> (s\<lparr>dl_warned_connect := False, dl_docker := Some d\<rparr>, Some d,
                      if dl_warned_connect s then [Connected] else [])
           | Err e \<Rightarrow> (s\<lparr>dl_warned_connect := True\<rparr>, None,
                       if dl_warned_connect s then [] else [CannotConnect e])))"

text \<open>The rest of the turn: poll, send a changed snapshot; no state is the \<open>return\<close>.\<close>

definition docker_poll ::
  "('c, 'e) DockerEnv \<Rightarrow> 'c \<Rightarrow> 'c DockerLoop \<Rightarrow> 'c DockerLoop option \<times> Route list option \<times> 'e DockerLog list" where
  "docker_poll env d s =
     (case poll_once env d of
        Ok (routes, logs) \<Rightarrow>
          if dl_last s \<noteq> Some routes then
            if de_receiver_open env then (Some (s\<lparr>dl_last := Some routes\<rparr>), Some routes, logs)
            else (None, None, logs)
          else (Some s, None, logs)
      | Err e \<Rightarrow> (Some (s\<lparr>dl_docker := None\<rparr>), None, [PollFailed e]))"

definition docker_turn ::
  "DockerProvider \<Rightarrow> 'c DockerLoop \<Rightarrow> ('c, 'e) DockerEnv \<Rightarrow>
     'c DockerLoop option \<times> Route list option \<times> 'e DockerLog list" where
  "docker_turn p s env =
     (case docker_ensure p env s of
        (s', None, logs) \<Rightarrow> (Some s', None, logs)
      | (s', Some d, logs) \<Rightarrow>
          (case docker_poll env d s' of (t, sent, logs') \<Rightarrow> (t, sent, logs @ logs')))"

text \<open>The turn without its log lines, as the manager sees it.\<close>

definition docker_send ::
  "DockerProvider \<Rightarrow> 'c DockerLoop \<Rightarrow> ('c, 'e) DockerEnv \<Rightarrow> 'c DockerLoop option \<times> Route list option" where
  "docker_send p s env = (case docker_turn p s env of (t, sent, _) \<Rightarrow> (t, sent))"

section \<open>The provider contract\<close>

lemmas docker_turn_defs = docker_send_def docker_turn_def docker_ensure_def docker_poll_def

interpretation dockerp: snapshot_provider "docker_send p" dl_last
  by unfold_locales
    (auto simp: docker_turn_defs split: option.splits sum.splits prod.splits if_splits)

section \<open>Polling\<close>

lemma poll_containers_routes:
  "fst (poll_containers cs (routes, logs)) = routes @ concat (map (\<lambda>c. fst (container_routes c)) cs)"
  by (induction cs arbitrary: routes logs) (auto split: prod.splits)

text \<open>The order in which the library lists a container's labels does not matter.\<close>

lemma bt_of_list_order:
  assumes "distinct (map fst es)" and "set es = set fs" and "distinct (map fst fs)"
  shows "bt_of_list es = bt_of_list fs"
proof (rule bt_eqI)
  fix k
  have "map_of (rev es) k = Some v \<longleftrightarrow> map_of (rev fs) k = Some v" for v
    using assms by (simp add: rev_map [symmetric])
  then show "bt_get (bt_of_list es) k = bt_get (bt_of_list fs) k"
    unfolding bt_get_of_list by (metis option.exhaust)
qed (simp_all add: bt_wf_of_list)

definition docker_snapshot :: "Container list \<Rightarrow> Route list" where
  "docker_snapshot cs = concat (map (\<lambda>c. fst (container_routes c)) cs)"

text \<open>The containers a turn gets to see, if any.\<close>

definition docker_observe :: "DockerProvider \<Rightarrow> 'c DockerLoop \<Rightarrow> ('c, 'e) DockerEnv \<Rightarrow> Container list option" where
  "docker_observe p s env =
     Option.bind (option_or (dl_docker s) (result_ok (docker_connect p env)))
       (\<lambda>d. result_ok (de_list_containers env d))"

lemma poll_once_Ok:
  fixes env :: "('c, 'e) DockerEnv"
  assumes "de_list_containers env d = Ok cs"
  shows "\<exists>logs. poll_once env d = Ok (docker_snapshot cs, logs)"
  using assms poll_containers_routes [of cs "[]" "[] :: 'e DockerLog list"]
  by (auto simp: poll_once_def docker_snapshot_def result_bind_def prod_eq_iff)

lemma poll_once_Err: "de_list_containers env d = Err e \<Longrightarrow> poll_once env d = Err e"
  by (simp add: poll_once_def result_bind_def)

lemma docker_poll_outcome:
  assumes "de_receiver_open env" and "dl_docker s = Some d"
  shows "\<exists>t sent logs. docker_poll env d s = (Some t, sent, logs) \<and>
    (case result_ok (de_list_containers env d) of
       Some cs \<Rightarrow> dl_last t = Some (docker_snapshot cs) \<and> dl_docker t \<noteq> None
     | None \<Rightarrow> dl_last t = dl_last s \<and> sent = None \<and> dl_docker t = None)"
proof (cases "de_list_containers env d")
  case (Inl e)
  then show ?thesis
    by (simp add: docker_poll_def poll_once_Err result_ok_def)
next
  case (Inr cs)
  then obtain logs where "poll_once env d = Ok (docker_snapshot cs, logs)"
    using poll_once_Ok [OF Inr] by auto
  with Inr assms show ?thesis
    by (simp add: docker_poll_def result_ok_def)
qed

text \<open>A daemon that answers with one opted-in container, for the witnesses.\<close>

definition example_docker_env :: "(unit, string) DockerEnv" where
  "example_docker_env =
     \<lparr>de_connect_with_unix = (\<lambda>_. Ok ()), de_connect_with_http = (\<lambda>_. Err ''refused''),
      de_list_containers = (\<lambda>_. Ok [\<lparr>c_id = Some ''abc'',
        c_labels = Some [(''archetype.enable'', ''true''), (''archetype.upstream'', ''http://a'')]\<rparr>]),
      de_receiver_open = True\<rparr>"

section \<open>Properties\<close>



text \<open>
  The routes of a container do not depend on the order in which the Docker library lists its
  labels, a hash map: two listings of the same labels give the same routes and the same warnings.
\<close>
theorem container_labels_order:
  assumes "distinct (map fst es)" and "distinct (map fst fs)" and "set es = set fs"
  shows "container_routes (c\<lparr>c_labels := Some es\<rparr>) = container_routes (c\<lparr>c_labels := Some fs\<rparr>)"
  using bt_of_list_order [OF assms(1,3,2)] by (simp add: container_routes_def)

theorem container_labels_order_witness:
  "container_routes \<lparr>c_id = None, c_labels = Some [(''archetype.enable'', ''1''), (''archetype.upstream'', ''u'')]\<rparr> =
   container_routes \<lparr>c_id = None, c_labels = Some [(''archetype.upstream'', ''u''), (''archetype.enable'', ''1'')]\<rparr>"
  using container_labels_order
    [of "[(''archetype.enable'', ''1''), (''archetype.upstream'', ''u'')]"
        "[(''archetype.upstream'', ''u''), (''archetype.enable'', ''1'')]" "\<lparr>c_id = None, c_labels = None\<rparr>"]
  by auto

end
