(* ===== verification/Kubernetes.thy ===== *)
theory Kubernetes
  imports Discovery
begin

text \<open>
  The Kubernetes provider (\<open>src/discovery/k8s.rs\<close>): the annotation mapping, the type-erased
  reconciliation operations, the store of one resource kind with its re-list buffer, and the
  loop over the merged watch stream. The API client and the watch streams of kube-rs are the events
  the loop receives. Without the cargo feature the provider is a stub that returns at once.
\<close>

definition K8S_ENABLE :: string where "K8S_ENABLE = ''archetype.li/enable''"
definition K8S_UPSTREAM :: string where "K8S_UPSTREAM = ''archetype.li/upstream''"
definition K8S_HOST :: string where "K8S_HOST = ''archetype.li/host''"
definition K8S_PATH_PREFIX :: string where "K8S_PATH_PREFIX = ''archetype.li/path-prefix''"
definition K8S_STRICT :: string where "K8S_STRICT = ''archetype.li/strict''"

definition route_from_annotations :: "string \<Rightarrow> (string, string) btree \<Rightarrow> Route option" where
  "route_from_annotations object_name annotations =
     (if Option.bind (bt_get annotations K8S_ENABLE) parse_bool_token \<noteq> Some True then None
      else Option.bind (bt_get annotations K8S_UPSTREAM) (\<lambda>upstream. Some
        \<lparr>r_name = ''k8s/'' @ object_name,
         r_host = unwrap_or [] (bt_get annotations K8S_HOST),
         r_path_prefix = unwrap_or [] (bt_get annotations K8S_PATH_PREFIX),
         r_upstream = upstream,
         r_strict_attestation = Option.bind (bt_get annotations K8S_STRICT) parse_bool_token,
         r_source = Discovered\<rparr>))"

record KubernetesProvider =
  kp_namespace :: "string option"

definition kubernetes_provider_new :: "string option \<Rightarrow> KubernetesProvider" where
  "kubernetes_provider_new namespace = \<lparr>kp_namespace = namespace\<rparr>"

definition k8s_name :: string where
  "k8s_name = ''kubernetes''"

datatype Kind = KindService | KindIngress

datatype Op =
    OpInit
  | OpInitApply string "Route option"
  | OpInitDone
  | OpApply string "Route option"
  | OpDelete string

text \<open>The metadata of a watched object and the events of a watch stream.\<close>

record ObjectMeta =
  om_namespace :: "string option"
  om_name :: "string option"
  om_annotations :: "(string, string) btree option"

datatype WatchEvent =
    EvInit
  | EvInitApply ObjectMeta
  | EvInitDone
  | EvApply ObjectMeta
  | EvDelete ObjectMeta

definition object_key :: "ObjectMeta \<Rightarrow> string" where
  "object_key meta = unwrap_or [] (om_namespace meta) @ ''/'' @ unwrap_or [] (om_name meta)"

definition route_from_object :: "ObjectMeta \<Rightarrow> Route option" where
  "route_from_object meta =
     route_from_annotations (unwrap_or [] (om_name meta)) (unwrap_or [] (om_annotations meta))"

fun to_op :: "WatchEvent \<Rightarrow> Op" where
  "to_op EvInit = OpInit"
| "to_op EvInitDone = OpInitDone"
| "to_op (EvInitApply obj) = OpInitApply (object_key obj) (route_from_object obj)"
| "to_op (EvApply obj) = OpApply (object_key obj) (route_from_object obj)"
| "to_op (EvDelete obj) = OpDelete (object_key obj)"

record KindStore =
  ks_committed :: "(string, Route) btree"
  ks_buffer :: "(string, Route) btree option"

definition kind_store_default :: KindStore where
  "kind_store_default = \<lparr>ks_committed = [], ks_buffer = None\<rparr>"

fun kind_store_apply :: "KindStore \<Rightarrow> Op \<Rightarrow> KindStore \<times> bool" where
  "kind_store_apply s OpInit = (s\<lparr>ks_buffer := Some []\<rparr>, False)"
| "kind_store_apply s (OpInitApply key route) =
     (case (ks_buffer s, route) of
        (Some buf, Some r) \<Rightarrow> (s\<lparr>ks_buffer := Some (bt_insert key r buf)\<rparr>, False)
      | _ \<Rightarrow> (s, False))"
| "kind_store_apply s OpInitDone =
     (let new = unwrap_or [] (ks_buffer s)
      in (s\<lparr>ks_buffer := None, ks_committed := new\<rparr>, new \<noteq> ks_committed s))"
| "kind_store_apply s (OpApply key route) =
     (case route of
        Some r \<Rightarrow> (s\<lparr>ks_committed := bt_insert key r (ks_committed s)\<rparr>, bt_get (ks_committed s) key \<noteq> Some r)
      | None \<Rightarrow> (s\<lparr>ks_committed := bt_remove key (ks_committed s)\<rparr>, bt_get (ks_committed s) key \<noteq> None))"
| "kind_store_apply s (OpDelete key) =
     (s\<lparr>ks_committed := bt_remove key (ks_committed s)\<rparr>, bt_get (ks_committed s) key \<noteq> None)"

definition kind_store_routes :: "KindStore \<Rightarrow> Route list" where
  "kind_store_routes s = bt_values (ks_committed s)"

record K8sLoop =
  kl_svc :: KindStore
  kl_ing :: KindStore
  kl_last_sent :: "Route list option"

definition k8s_loop_init :: K8sLoop where
  "k8s_loop_init = \<lparr>kl_svc = kind_store_default, kl_ing = kind_store_default, kl_last_sent = None\<rparr>"

text \<open>
  What the loop gets from \<open>merged.next()\<close> and, with it, whether the manager still listens:
  an event of one of the two streams, a watch error, or the end of the streams.
\<close>

datatype MergedItem =
    Item Kind WatchEvent
  | WatchError
  | StreamsEnded

definition k8s_apply :: "Kind \<Rightarrow> Op \<Rightarrow> K8sLoop \<Rightarrow> K8sLoop \<times> bool" where
  "k8s_apply kind op s =
     (case kind of
        KindService \<Rightarrow> (case kind_store_apply (kl_svc s) op of (k, changed) \<Rightarrow> (s\<lparr>kl_svc := k\<rparr>, changed))
      | KindIngress \<Rightarrow> (case kind_store_apply (kl_ing s) op of (k, changed) \<Rightarrow> (s\<lparr>kl_ing := k\<rparr>, changed)))"

definition k8s_routes :: "K8sLoop \<Rightarrow> Route list" where
  "k8s_routes s = kind_store_routes (kl_svc s) @ kind_store_routes (kl_ing s)"

definition k8s_turn :: "K8sLoop \<Rightarrow> MergedItem \<times> bool \<Rightarrow> K8sLoop option \<times> Route list option" where
  "k8s_turn s = (\<lambda>(item, receiver_open).
     case item of
       StreamsEnded \<Rightarrow> (None, None)
     | WatchError \<Rightarrow> (Some s, None)
     | Item kind ev \<Rightarrow>
         (case k8s_apply kind (to_op ev) s of
            (s', changed) \<Rightarrow>
              if \<not> changed then (Some s', None)
              else
                let routes = k8s_routes s' in
                if kl_last_sent s' = Some routes then (Some s', None)
                else if receiver_open then (Some (s'\<lparr>kl_last_sent := Some routes\<rparr>), Some routes)
                else (None, None)))"

text \<open>
  \<open>run\<close> up to the loop: with the feature, the loop starts when the client can be built;
  without it, the provider returns.
\<close>

definition k8s_start :: "bool \<Rightarrow> 'e + 'client \<Rightarrow> K8sLoop option" where
  "k8s_start feature client = (if feature then map_option (\<lambda>_. k8s_loop_init) (result_ok client) else None)"

text \<open>
  The scope of the two API handles, the two watch streams tagged with their kind, and their merge: each turn of
  the schedule polls the Services (\<open>True\<close>) or the Ingresses first, a stream that has ended leaves the turn to the
  other, and the merge ends with both.
\<close>

datatype ApiScope = ApiNamespaced string | ApiAll

definition api_scope :: "KubernetesProvider \<Rightarrow> ApiScope" where
  "api_scope p = (case kp_namespace p of Some ns \<Rightarrow> ApiNamespaced ns | None \<Rightarrow> ApiAll)"

definition watch_stream :: "Kind \<Rightarrow> (string + WatchEvent) list \<Rightarrow> MergedItem list" where
  "watch_stream kind results = map (\<lambda>res. case res of Ok ev \<Rightarrow> Item kind ev | Err e \<Rightarrow> WatchError) results"

fun select_streams :: "bool list \<Rightarrow> MergedItem list \<Rightarrow> MergedItem list \<Rightarrow> MergedItem list" where
  "select_streams [] svc ing = []"
| "select_streams (b # w) [] [] = [StreamsEnded]"
| "select_streams (b # w) (i # svc) [] = i # select_streams w svc []"
| "select_streams (b # w) [] (j # ing) = j # select_streams w [] ing"
| "select_streams (b # w) (i # svc) (j # ing) =
     (if b then i # select_streams w svc (j # ing) else j # select_streams w (i # svc) ing)"

text \<open>\<open>watch\<close> is what the watcher of kube-rs yields for a scope and a kind.\<close>

definition k8s_run ::
  "bool \<Rightarrow> 'e + 'client \<Rightarrow> ('client \<Rightarrow> ApiScope \<Rightarrow> Kind \<Rightarrow> (string + WatchEvent) list) \<Rightarrow> KubernetesProvider \<Rightarrow> bool list \<Rightarrow>
     K8sLoop option \<times> Route list list" where
  "k8s_run feature client watch p schedule =
     (case (k8s_start feature client, client) of
        (Some s, Ok c) \<Rightarrow>
          provider_run k8s_turn s (map (\<lambda>i. (i, True))
            (select_streams schedule
               (watch_stream KindService (watch c (api_scope p) KindService))
               (watch_stream KindIngress (watch c (api_scope p) KindIngress))))
      | _ \<Rightarrow> (None, []))"

section \<open>The store of one kind\<close>

definition kind_store_wf :: "KindStore \<Rightarrow> bool" where
  "kind_store_wf s \<longleftrightarrow> bt_wf (ks_committed s) \<and> (\<forall>b. ks_buffer s = Some b \<longrightarrow> bt_wf b)"

lemma kind_store_wf_apply: "kind_store_wf s \<Longrightarrow> kind_store_wf (fst (kind_store_apply s op))"
  by (cases op)
    (auto simp: kind_store_wf_def Let_def bt_wf_insert bt_wf_remove unwrap_or_def bt_wf_def [of "[]"]
      split: option.splits)

lemma bt_insert_changes:
  "bt_wf m \<Longrightarrow> bt_insert k v m \<noteq> m \<longleftrightarrow> bt_get m k \<noteq> Some v"
  by (metis bt_eqI bt_get_insert bt_wf_insert)

lemma bt_remove_changes:
  "bt_wf m \<Longrightarrow> bt_remove k m \<noteq> m \<longleftrightarrow> bt_get m k \<noteq> None"
  by (metis bt_eqI bt_get_remove bt_wf_remove)

lemma kind_store_apply_changed:
  assumes "kind_store_wf s"
  shows "snd (kind_store_apply s op) \<longleftrightarrow> ks_committed (fst (kind_store_apply s op)) \<noteq> ks_committed s"
  using assms
  by (cases op)
    (auto simp: kind_store_wf_def Let_def bt_insert_changes bt_remove_changes split: option.splits)

fun kind_store_run :: "KindStore \<Rightarrow> Op list \<Rightarrow> KindStore" where
  "kind_store_run s [] = s"
| "kind_store_run s (op # ops) = kind_store_run (fst (kind_store_apply s op)) ops"

lemma kind_store_run_append: "kind_store_run s (as @ bs) = kind_store_run (kind_store_run s as) bs"
  by (induction as arbitrary: s) auto

lemma kind_store_wf_run: "kind_store_wf s \<Longrightarrow> kind_store_wf (kind_store_run s ops)"
  by (induction ops arbitrary: s) (auto simp: kind_store_wf_apply)

definition opted_in :: "ObjectMeta list \<Rightarrow> (string \<times> Route) list" where
  "opted_in objs = List.map_filter (\<lambda>m. map_option (Pair (object_key m)) (route_from_object m)) objs"

lemma kind_store_run_buffering:
  "ks_buffer s = Some b \<Longrightarrow>
     kind_store_run s (map (to_op \<circ> EvInitApply) objs) =
       s\<lparr>ks_buffer := Some (fold (\<lambda>e. bt_insert (fst e) (snd e)) (opted_in objs) b)\<rparr>"
proof (induction objs arbitrary: s b)
  case (Cons m objs)
  then show ?case
    by (cases "route_from_object m") (simp_all add: opted_in_def map_filter_simps)
qed (simp add: opted_in_def map_filter_simps)

text \<open>
  What the events of single objects, after a re-list, make of the routes by key; \<open>None\<close> for the
  events of a re-list.
\<close>

fun object_event :: "WatchEvent \<Rightarrow> (string \<Rightarrow> Route option) \<Rightarrow> (string \<Rightarrow> Route option)" where
  "object_event (EvApply m) live = live(object_key m := route_from_object m)"
| "object_event (EvDelete m) live = live(object_key m := None)"
| "object_event _ live = live"

fun is_object_event :: "WatchEvent \<Rightarrow> bool" where
  "is_object_event (EvApply _) = True"
| "is_object_event (EvDelete _) = True"
| "is_object_event _ = False"

lemma object_event_apply:
  "is_object_event ev \<Longrightarrow> bt_get (ks_committed (fst (kind_store_apply s (to_op ev)))) = object_event ev (bt_get (ks_committed s))"
  by (cases ev) (auto simp: bt_get_insert bt_get_remove fun_eq_iff split: option.split)

lemma object_events_run:
  "list_all is_object_event evs \<Longrightarrow>
     bt_get (ks_committed (kind_store_run s (map to_op evs))) = fold object_event evs (bt_get (ks_committed s))"
  by (induction evs arbitrary: s) (simp_all add: object_event_apply)

lemma relist_run:
  "ks_committed (kind_store_run s (map to_op (EvInit # map EvInitApply objs @ [EvInitDone]))) =
     bt_of_list (opted_in objs)"
  by (simp add: kind_store_run_append kind_store_run_buffering bt_of_list_def Let_def)

section \<open>The loop\<close>

interpretation k8sp: snapshot_provider k8s_turn kl_last_sent
  by unfold_locales
    (auto simp: k8s_turn_def k8s_apply_def Let_def
      split: MergedItem.splits Kind.splits prod.splits if_splits)

text \<open>In sync: what was last sent, or nothing at all, is what the two stores hold.\<close>

definition k8s_inv :: "K8sLoop \<Rightarrow> bool" where
  "k8s_inv s \<longleftrightarrow> kind_store_wf (kl_svc s) \<and> kind_store_wf (kl_ing s)
     \<and> unwrap_or [] (kl_last_sent s) = k8s_routes s"

lemma k8s_inv_init: "k8s_inv k8s_loop_init"
  by (simp add: k8s_inv_def k8s_loop_init_def kind_store_default_def kind_store_wf_def bt_wf_def
      k8s_routes_def kind_store_routes_def bt_values_def)

lemma k8s_apply_quiet:
  assumes "kind_store_wf (kl_svc s)" "kind_store_wf (kl_ing s)" "k8s_apply kind op s = (s', changed)"
  shows "kind_store_wf (kl_svc s')" "kind_store_wf (kl_ing s')" "kl_last_sent s' = kl_last_sent s"
    and "\<not> changed \<Longrightarrow> k8s_routes s' = k8s_routes s"
  using assms kind_store_wf_apply [of "kl_svc s" op] kind_store_wf_apply [of "kl_ing s" op]
    kind_store_apply_changed [of "kl_svc s" op] kind_store_apply_changed [of "kl_ing s" op]
  by (auto simp: k8s_apply_def k8s_routes_def kind_store_routes_def split: Kind.splits prod.splits)

lemma k8s_inv_turn:
  assumes "k8s_inv s" "k8s_turn s e = (Some s', sent)"
  shows "k8s_inv s'"
proof (cases e)
  case (Pair item recv)
  with assms k8s_apply_quiet [of s] show ?thesis
    by (cases item) (auto simp: k8s_inv_def k8s_turn_def Let_def k8s_routes_def split: prod.splits if_splits)
qed

definition kind_ops :: "Kind \<Rightarrow> MergedItem list \<Rightarrow> Op list" where
  "kind_ops kind items =
     List.map_filter (\<lambda>i. case i of Item k ev \<Rightarrow> if k = kind then Some (to_op ev) else None | _ \<Rightarrow> None) items"

lemma kind_ops_simps:
  "kind_ops kind [] = []"
  "kind_ops kind (Item k ev # items) = (if k = kind then to_op ev # kind_ops kind items else kind_ops kind items)"
  "kind_ops kind (WatchError # items) = kind_ops kind items"
  by (simp_all add: kind_ops_def map_filter_simps)

lemma k8s_apply_stores:
  "kl_svc (fst (k8s_apply kind op s)) = (if kind = KindService then fst (kind_store_apply (kl_svc s) op) else kl_svc s)"
  "kl_ing (fst (k8s_apply kind op s)) = (if kind = KindIngress then fst (kind_store_apply (kl_ing s) op) else kl_ing s)"
  by (auto simp: k8s_apply_def split: Kind.splits prod.splits)

lemma k8s_turn_goes_on:
  "\<exists>s' sent. k8s_turn s (Item kind ev, True) = (Some s', sent)
     \<and> kl_svc s' = kl_svc (fst (k8s_apply kind (to_op ev) s)) \<and> kl_ing s' = kl_ing (fst (k8s_apply kind (to_op ev) s))"
  by (auto simp: k8s_turn_def Let_def split: prod.splits)

lemma k8s_run_stores:
  assumes "StreamsEnded \<notin> set items" and "k8s_inv s"
  shows "\<exists>t rs. provider_run k8s_turn s (map (\<lambda>i. (i, True)) items) = (Some t, rs) \<and> k8s_inv t
    \<and> kl_svc t = kind_store_run (kl_svc s) (kind_ops KindService items)
    \<and> kl_ing t = kind_store_run (kl_ing s) (kind_ops KindIngress items)"
  using assms
proof (induction items arbitrary: s)
  case (Cons item items)
  show ?case
  proof (cases item)
    case (Item kind ev)
    obtain s' sent where turn: "k8s_turn s (Item kind ev, True) = (Some s', sent)"
      and st: "kl_svc s' = kl_svc (fst (k8s_apply kind (to_op ev) s))"
        "kl_ing s' = kl_ing (fst (k8s_apply kind (to_op ev) s))"
      using k8s_turn_goes_on by blast
    have "k8s_inv s'" using k8s_inv_turn Cons.prems(2) turn by blast
    with Cons.IH [of s'] Cons.prems(1) turn st show ?thesis
      by (cases kind) (auto simp: Item kind_ops_simps k8s_apply_stores)
  next
    case WatchError
    with Cons show ?thesis by (auto simp: k8s_turn_def kind_ops_simps)
  qed (use Cons.prems in simp)
qed (simp add: kind_ops_simps)

section \<open>Where routes come from\<close>

fun event_object :: "WatchEvent \<Rightarrow> ObjectMeta option" where
  "event_object (EvInitApply m) = Some m"
| "event_object (EvApply m) = Some m"
| "event_object (EvDelete m) = Some m"
| "event_object _ = None"

definition values_within :: "Route set \<Rightarrow> (string, Route) btree \<Rightarrow> bool" where
  "values_within R m \<longleftrightarrow> list_all (\<lambda>e. snd e \<in> R) m"

definition store_within :: "Route set \<Rightarrow> KindStore \<Rightarrow> bool" where
  "store_within R s \<longleftrightarrow> values_within R (ks_committed s) \<and> pred_option (values_within R) (ks_buffer s)"

lemma values_within_simps [simp]:
  "values_within R []"
  "values_within R m \<Longrightarrow> v \<in> R \<Longrightarrow> values_within R (bt_insert k v m)"
  "values_within R m \<Longrightarrow> values_within R (bt_remove k m)"
  by (simp add: values_within_def, induction k v m rule: bt_insert.induct) (auto simp: values_within_def bt_remove_def list_all_iff)

definition event_routes :: "WatchEvent \<Rightarrow> Route set" where
  "event_routes ev = {r. \<exists>m. event_object ev = Some m \<and> route_from_object m = Some r}"

lemma store_within_apply:
  "store_within R s \<Longrightarrow> event_routes ev \<subseteq> R \<Longrightarrow> store_within R (fst (kind_store_apply s (to_op ev)))"
  by (cases ev)
    (auto simp: store_within_def event_routes_def Let_def unwrap_or_def split: option.split)

definition loop_within :: "Route set \<Rightarrow> K8sLoop \<Rightarrow> bool" where
  "loop_within R s \<longleftrightarrow> store_within R (kl_svc s) \<and> store_within R (kl_ing s)"

lemma k8s_turn_within:
  assumes "loop_within R s" "\<And>kind ev. item = Item kind ev \<Longrightarrow> event_routes ev \<subseteq> R"
    and "k8s_turn s (item, recv) = (t, sent)"
  shows "pred_option (loop_within R) t \<and> pred_option (\<lambda>rs. set rs \<subseteq> R) sent"
proof (cases item)
  case (Item kind ev)
  have "loop_within R (fst (k8s_apply kind (to_op ev) s))"
    using assms(1) assms(2) [OF Item] by (simp add: loop_within_def k8s_apply_stores store_within_apply)
  moreover from this have "set (k8s_routes (fst (k8s_apply kind (to_op ev) s))) \<subseteq> R"
    by (auto simp: loop_within_def store_within_def values_within_def k8s_routes_def kind_store_routes_def bt_values_def list_all_iff)
  ultimately show ?thesis
    using assms(3) by (auto simp: Item k8s_turn_def Let_def loop_within_def split: prod.splits if_splits)
qed (use assms in \<open>auto simp: k8s_turn_def\<close>)

lemma k8s_run_within:
  assumes "loop_within R s" "\<And>kind ev. Item kind ev \<in> set items \<Longrightarrow> event_routes ev \<subseteq> R"
    and "provider_run k8s_turn s (map (\<lambda>i. (i, True)) items) = (t, rs)"
  shows "\<forall>snap \<in> set rs. set snap \<subseteq> R"
  using assms
proof (induction items arbitrary: s rs)
  case (Cons i items)
  obtain s' sent where turn: "k8s_turn s (i, True) = (s', sent)"
    by (cases "k8s_turn s (i, True)")
  have within: "pred_option (loop_within R) s' \<and> pred_option (\<lambda>rs. set rs \<subseteq> R) sent"
    by (rule k8s_turn_within [OF Cons.prems(1) _ turn], rule Cons.prems(2), force)
  show ?case
  proof (cases s')
    case (Some u)
    obtain rs' where "provider_run k8s_turn u (map (\<lambda>i. (i, True)) items) = (t, rs')"
      and rs: "rs = (case sent of None \<Rightarrow> rs' | Some x \<Rightarrow> x # rs')"
      using Cons.prems(3) turn Some by (auto split: prod.splits)
    then have "\<forall>snap \<in> set rs'. set snap \<subseteq> R"
      using Cons.IH [of u rs'] Cons.prems(2) within Some by auto
    with rs within show ?thesis by (cases sent) auto
  qed (use Cons.prems(3) turn within in \<open>auto split: option.splits\<close>)
qed simp

lemma select_streams_items: "Item kind ev \<in> set (select_streams w xs ys) \<Longrightarrow> Item kind ev \<in> set xs \<union> set ys"
  by (induction w xs ys rule: select_streams.induct) (auto split: if_splits)

lemma watch_stream_items: "Item kind ev \<in> set (watch_stream k results) \<longleftrightarrow> kind = k \<and> Ok ev \<in> set results"
  by (induction results) (auto simp: watch_stream_def split: sum.splits)

section \<open>Properties\<close>

text \<open>
  C23: A re-list is atomic and complete: until it is done the committed routes are untouched,
  whatever was listed so far; once done they are exactly the opted-in objects of the
  listing, whatever the store held before; and every later event of an object sets that object's
  route, an object that lost its opt-in or was deleted having none.
\<close>
theorem k8s_relist_then_events:
  assumes "list_all is_object_event evs"
  shows "ks_committed (kind_store_run s (map to_op (EvInit # map EvInitApply (take n objs)))) = ks_committed s
    \<and> bt_get (ks_committed (kind_store_run s (map to_op ((EvInit # map EvInitApply objs @ [EvInitDone]) @ evs)))) =
           fold object_event evs (map_of (rev (opted_in objs)))"
proof (rule conjI)
  show "ks_committed (kind_store_run s (map to_op (EvInit # map EvInitApply (take n objs)))) = ks_committed s"
    by (simp add: kind_store_run_buffering)
  show "bt_get (ks_committed (kind_store_run s (map to_op ((EvInit # map EvInitApply objs @ [EvInitDone]) @ evs)))) =
           fold object_event evs (map_of (rev (opted_in objs)))"
    unfolding map_append [of to_op "EvInit # _"] kind_store_run_append
      object_events_run [OF assms] relist_run
    by (simp add: bt_get_of_list [abs_def])
qed

text \<open>
  C24: However the events of the two watch streams interleave and whatever watch errors fall between
  them, the Kubernetes loop goes on, and the last snapshot it sent, nothing if it sent none,
  is what the two kinds' own events make of their stores: the Services' routes, then the Ingresses'.
\<close>
theorem k8s_snapshot_in_sync:
  assumes "StreamsEnded \<notin> set items"
  shows "\<exists>t rs. provider_run k8s_turn k8s_loop_init (map (\<lambda>i. (i, True)) items) = (Some t, rs)
    \<and> (if rs = [] then [] else last rs) =
        kind_store_routes (kind_store_run kind_store_default (kind_ops KindService items)) @
        kind_store_routes (kind_store_run kind_store_default (kind_ops KindIngress items))"
proof -
  obtain t rs where run: "provider_run k8s_turn k8s_loop_init (map (\<lambda>i. (i, True)) items) = (Some t, rs)"
    and t: "k8s_inv t" "kl_svc t = kind_store_run kind_store_default (kind_ops KindService items)"
      "kl_ing t = kind_store_run kind_store_default (kind_ops KindIngress items)"
    using k8s_run_stores [OF assms k8s_inv_init] by (auto simp: k8s_loop_init_def)
  have "kl_last_sent t = (if rs = [] then None else Some (last rs))"
    using k8sp.run_last_sent [OF run] by (simp add: k8s_loop_init_def)
  with run t show ?thesis by (auto simp: k8s_inv_def k8s_routes_def)
qed

text \<open>
  C25: A provider confined to a namespace takes routes from nowhere else. When the API yields only objects of the namespace it is
  asked for, every route of every snapshot sent comes from the annotations of an object of that namespace that the watch
  of Services or of Ingresses delivered, in whatever order the two are merged.
\<close>
theorem k8s_namespace_isolated:
  assumes "\<And>kind ev m. Ok ev \<in> set (watch c (ApiNamespaced ns) kind) \<Longrightarrow> event_object ev = Some m \<Longrightarrow> om_namespace m = Some ns"
    and "k8s_run feature (Ok c) watch (kubernetes_provider_new (Some ns)) w = (t, rs)"
    and "snap \<in> set rs" and "r \<in> set snap"
  shows "\<exists>kind ev m. Ok ev \<in> set (watch c (ApiNamespaced ns) kind) \<and> event_object ev = Some m
    \<and> om_namespace m = Some ns \<and> route_from_object m = Some r"
proof -
  let ?R = "\<Union>kind. \<Union>ev \<in> {ev. Ok ev \<in> set (watch c (ApiNamespaced ns) kind)}. event_routes ev"
  let ?items = "select_streams w (watch_stream KindService (watch c (ApiNamespaced ns) KindService))
    (watch_stream KindIngress (watch c (ApiNamespaced ns) KindIngress))"
  have feature: "feature" and run: "provider_run k8s_turn k8s_loop_init (map (\<lambda>i. (i, True)) ?items) = (t, rs)"
    using assms(2,3)
    by (auto simp: k8s_run_def k8s_start_def result_ok_def api_scope_def kubernetes_provider_new_def split: if_splits)
  have start: "loop_within ?R k8s_loop_init"
    by (simp add: loop_within_def store_within_def k8s_loop_init_def kind_store_default_def)
  have items: "event_routes ev \<subseteq> ?R" if "Item kind ev \<in> set ?items" for kind ev
    using select_streams_items [OF that] unfolding Un_iff watch_stream_items by blast
  have "r \<in> ?R"
    using k8s_run_within [OF start items run] assms(3,4) by (meson subsetD)
  then obtain kind ev m where "Ok ev \<in> set (watch c (ApiNamespaced ns) kind)" "event_object ev = Some m" "route_from_object m = Some r"
    by (auto simp: event_routes_def)
  with assms(1) show ?thesis by metis
qed

definition example_object :: "string \<Rightarrow> string \<Rightarrow> ObjectMeta" where
  "example_object name enabled =
     \<lparr>om_namespace = Some ''prod'', om_name = Some name,
      om_annotations = Some [(''archetype.li/enable'', enabled), (''archetype.li/upstream'', ''http://svc'')]\<rparr>"

definition example_objects :: "ObjectMeta list" where
  "example_objects = [example_object ''a'' ''true'', example_object ''b'' ''true'', example_object ''c'' ''no'']"

theorem k8s_relist_then_events_witness:
  "map (\<lambda>k. map_option r_name (bt_get (ks_committed (kind_store_run kind_store_default (map to_op
     ((EvInit # map EvInitApply example_objects @ [EvInitDone]) @ [EvApply (example_object ''b'' ''false'')])))) k))
     [''prod/a'', ''prod/b'', ''prod/c''] = [Some ''k8s/a'', None, None]"
proof -
  have "map (\<lambda>k. map_option r_name (fold object_event [EvApply (example_object ''b'' ''false'')]
      (map_of (rev (opted_in example_objects))) k)) [''prod/a'', ''prod/b'', ''prod/c''] = [Some ''k8s/a'', None, None]"
    by code_simp
  moreover have "list_all is_object_event [EvApply (example_object ''b'' ''false'')]" by simp
  ultimately show ?thesis
    by (simp only: k8s_relist_then_events)
qed

definition example_items :: "MergedItem list" where
  "example_items =
     [Item KindIngress EvInit, Item KindIngress (EvInitApply (example_object ''a'' ''1'')),
      WatchError, Item KindIngress EvInitDone]"

theorem k8s_snapshot_in_sync_witness:
  "\<exists>t rs. provider_run k8s_turn k8s_loop_init (map (\<lambda>i. (i, True)) example_items) = (Some t, rs)
    \<and> map r_name (if rs = [] then [] else last rs) = [''k8s/a'']"
proof -
  have names: "map r_name (kind_store_routes (kind_store_run kind_store_default (kind_ops KindService example_items)) @
        kind_store_routes (kind_store_run kind_store_default (kind_ops KindIngress example_items))) = [''k8s/a'']"
    by code_simp
  have "StreamsEnded \<notin> set example_items" by (simp add: example_items_def)
  from k8s_snapshot_in_sync [OF this] show ?thesis
    by (elim exE conjE) (intro exI conjI, assumption, simp only: names)
qed

definition example_watch :: "unit \<Rightarrow> ApiScope \<Rightarrow> Kind \<Rightarrow> (string + WatchEvent) list" where
  "example_watch c scope kind =
     (if scope = ApiNamespaced ''prod'' \<and> kind = KindService
      then [Ok EvInit, Ok (EvInitApply (example_object ''a'' ''1'')), Err ''gone'', Ok EvInitDone] else [])"

theorem k8s_namespace_isolated_witness:
  "\<exists>t rs r. k8s_run True (Ok () :: unit + unit) example_watch (kubernetes_provider_new (Some ''prod'')) (replicate 4 True) = (t, rs)
     \<and> r \<in> set (last rs)
     \<and> (\<exists>kind ev m. Ok ev \<in> set (example_watch () (ApiNamespaced ''prod'') kind) \<and> event_object ev = Some m
          \<and> om_namespace m = Some ''prod'' \<and> route_from_object m = Some r)"
proof -
  let ?run = "k8s_run True (Ok () :: unit + unit) example_watch (kubernetes_provider_new (Some ''prod'')) (replicate 4 True)"
  obtain t rs where run: "?run = (t, rs)"
    by (rule prod.exhaust)
  have "map (map r_name) (snd ?run) = [[''k8s/a'']]"
    by code_simp
  then have "map (map r_name) rs = [[''k8s/a'']]"
    unfolding run snd_conv .
  then obtain r where r: "rs = [[r]]"
    by (auto simp: map_eq_Cons_conv)
  have snap: "r \<in> set (last rs)" "[r] \<in> set rs" "r \<in> set [r]"
    by (simp_all add: r)
  have "\<exists>kind ev m. Ok ev \<in> set (example_watch () (ApiNamespaced ''prod'') kind) \<and> event_object ev = Some m
      \<and> om_namespace m = Some ''prod'' \<and> route_from_object m = Some r"
    by (rule k8s_namespace_isolated [OF _ run snap(2,3)]) (auto simp: example_watch_def example_object_def split: if_splits)
  with snap(1) run show ?thesis
    by (intro exI [of _ t] exI [of _ rs] exI [of _ r] conjI)
qed

end
