(* ===== verification/Live_Routes.thy ===== *)
theory Live_Routes
  imports Docker Kubernetes
begin

text \<open>
  The live route table under concurrency (\<open>src/main.rs\<close>, lines 143--157, with the three tasks of
  \<open>src/discovery\<close>). The Docker task, the Kubernetes task and the manager task interleave freely;
  they share the bounded channel of \<open>mpsc::channel(16)\<close>, into which a provider can send only while
  there is room. A step is one turn of one task.
\<close>

definition CHANNEL_CAPACITY :: nat where
  "CHANNEL_CAPACITY = 16"

record 'c Live =
  lv_docker :: "'c DockerLoop option"
  lv_k8s :: "K8sLoop option"
  lv_chan :: "ProviderUpdate list"
  lv_manager :: RouteManager

fun provider_name :: "ProviderSpec \<Rightarrow> string" where
  "provider_name (DockerSpec _ _) = docker_name"
| "provider_name (KubernetesSpec _) = k8s_name"

fun spawn_provider :: "bool \<Rightarrow> 'e + 'k \<Rightarrow> ProviderSpec \<Rightarrow> 'c Live \<Rightarrow> 'c Live" where
  "spawn_provider feature client (DockerSpec socket poll) s = s\<lparr>lv_docker := Some docker_loop_init\<rparr>"
| "spawn_provider feature client (KubernetesSpec namespace) s = s\<lparr>lv_k8s := k8s_start feature client\<rparr>"

definition live_start :: "bool \<Rightarrow> 'e + 'k \<Rightarrow> DiscoveryConfig \<Rightarrow> Route list \<Rightarrow> 'c Live" where
  "live_start feature client cfg file_routes =
     fold (spawn_provider feature client) (build_providers cfg)
       \<lparr>lv_docker = None, lv_k8s = None, lv_chan = [], lv_manager = route_manager_new file_routes\<rparr>"

inductive live_step :: "DockerProvider \<Rightarrow> 'c Live \<Rightarrow> 'c Live \<Rightarrow> bool" for p :: DockerProvider where
  docker_quiet:
    "lv_docker s = Some d \<Longrightarrow> de_receiver_open env \<Longrightarrow>
     docker_turn p d (env :: ('c, string) DockerEnv) = (d', None, logs) \<Longrightarrow>
     live_step p s (s\<lparr>lv_docker := d'\<rparr>)"
| docker_sends:
    "lv_docker s = Some d \<Longrightarrow> de_receiver_open env \<Longrightarrow>
     docker_turn p d (env :: ('c, string) DockerEnv) = (d', Some routes, logs) \<Longrightarrow>
     length (lv_chan s) < CHANNEL_CAPACITY \<Longrightarrow>
     live_step p s (s\<lparr>lv_docker := d',
       lv_chan := lv_chan s @ [\<lparr>pu_provider = ''docker'', pu_routes = routes\<rparr>]\<rparr>)"
| k8s_quiet:
    "lv_k8s s = Some k \<Longrightarrow> k8s_turn k (item, True) = (k', None) \<Longrightarrow>
     live_step p s (s\<lparr>lv_k8s := k'\<rparr>)"
| k8s_sends:
    "lv_k8s s = Some k \<Longrightarrow> k8s_turn k (item, True) = (k', Some routes) \<Longrightarrow>
     length (lv_chan s) < CHANNEL_CAPACITY \<Longrightarrow>
     live_step p s (s\<lparr>lv_k8s := k',
       lv_chan := lv_chan s @ [\<lparr>pu_provider = ''kubernetes'', pu_routes = routes\<rparr>]\<rparr>)"
| manager_turn:
    "lv_chan s = u # us \<Longrightarrow>
     live_step p s (s\<lparr>lv_chan := us, lv_manager := manager_recv u (lv_manager s)\<rparr>)"

inductive_cases live_stepE: "live_step p s t"

section \<open>What is on its way\<close>

text \<open>The snapshot of provider \<open>n\<close> that the manager holds or will hold once the channel is drained.\<close>

definition pending :: "string \<Rightarrow> 'c Live \<Rightarrow> Route list option" where
  "pending n s = option_or (latest n (lv_chan s)) (bt_get (rm_provider_routes (lv_manager s)) n)"

definition known :: "string set" where
  "known = {''docker'', ''kubernetes''}"

definition live_inv :: "Route list \<Rightarrow> 'c Live \<Rightarrow> bool" where
  "live_inv fr s \<longleftrightarrow>
     manager_wf (lv_manager s) \<and> rm_file_routes (lv_manager s) = fr
     \<and> length (lv_chan s) \<le> CHANNEL_CAPACITY
     \<and> pu_provider ` set (lv_chan s) \<subseteq> known \<and> fst ` set (rm_provider_routes (lv_manager s)) \<subseteq> known
     \<and> (\<forall>d. lv_docker s = Some d \<longrightarrow> pending ''docker'' s = dl_last d)
     \<and> (\<forall>k. lv_k8s s = Some k \<longrightarrow> pending ''kubernetes'' s = kl_last_sent k \<and> k8s_inv k)"

lemma latest_Cons:
  "latest n (u # us) = option_or (latest n us) (if pu_provider u = n then Some (pu_routes u) else None)"
  by (simp add: latest_def option_or_def map_add_def split: option.split)

lemma pending_send:
  "pending n (s\<lparr>lv_docker := x, lv_chan := lv_chan s @ [u]\<rparr>) =
     (if pu_provider u = n then Some (pu_routes u) else pending n s)"
  "pending n (s\<lparr>lv_k8s := y, lv_chan := lv_chan s @ [u]\<rparr>) =
     (if pu_provider u = n then Some (pu_routes u) else pending n s)"
  by (simp_all add: pending_def latest_snoc option_or_def)

lemma pending_quiet:
  "pending n (s\<lparr>lv_docker := x\<rparr>) = pending n s"
  "pending n (s\<lparr>lv_k8s := y\<rparr>) = pending n s"
  by (simp_all add: pending_def)

lemma pending_manager:
  "lv_chan s = u # us \<Longrightarrow>
     pending n (s\<lparr>lv_chan := us, lv_manager := manager_recv u (lv_manager s)\<rparr>) = pending n s"
  by (simp add: pending_def latest_Cons option_or_def bt_get_insert split: option.split)

lemma docker_turn_last:
  "docker_turn p d env = (Some d', sent, logs) \<Longrightarrow> dl_last d' = option_or sent (dl_last d)"
  by (rule dockerp.turn_last_sent [of p d env]) (simp add: docker_send_def)

lemma route_manager_new_fields:
  "rm_file_routes (route_manager_new fr) = fr" "rm_provider_routes (route_manager_new fr) = []"
  by (simp_all add: route_manager_new_def)

lemma live_inv_init: "live_inv fr (live_start feature client cfg fr)"
  using k8s_inv_init
  by (auto simp: live_inv_def live_start_def build_providers_def pending_def manager_wf_new
      route_manager_new_fields option_or_def k8s_start_def result_ok_def docker_loop_init_def
      k8s_loop_init_def split: sum.splits option.splits)

lemma live_inv_step:
  assumes "live_step p s t" and "live_inv fr s"
  shows "live_inv fr t"
  using assms
proof (cases rule: live_step.cases)
  case (docker_quiet d env d' logs)
  then show ?thesis using assms(2)
    by (auto simp: live_inv_def pending_quiet option_or_def dest: docker_turn_last)
next
  case (docker_sends d env d' routes logs)
  then show ?thesis using assms(2)
    by (auto simp: live_inv_def pending_send known_def option_or_def dest: docker_turn_last)
next
  case (k8s_quiet k item k')
  then show ?thesis using assms(2) k8s_inv_turn [of k]
    by (auto simp: live_inv_def pending_quiet option_or_def dest: k8sp.turn_last_sent)
next
  case (k8s_sends k item k' routes)
  then show ?thesis using assms(2) k8s_inv_turn [of k]
    by (auto simp: live_inv_def pending_send known_def option_or_def dest: k8sp.turn_last_sent)
next
  case (manager_turn u us)
  then show ?thesis using assms(2)
    by (auto simp: live_inv_def pending_manager manager_wf_recv set_bt_insert_keys)
qed

lemma live_inv_reachable:
  assumes "(live_step p)\<^sup>*\<^sup>* (live_start feature client cfg fr) s"
  shows "live_inv fr s"
  using assms by (induction rule: rtranclp_induct) (auto intro: live_inv_init live_inv_step)

lemma two_entries:
  assumes "bt_wf m" and "fst ` set m \<subseteq> {a, b}" and "a < b"
  shows "concat (bt_values m) = unwrap_or [] (bt_get m a) @ unwrap_or [] (bt_get m b)"
proof -
  have "map fst m = filter (\<lambda>n. n \<in> fst ` set m) [a, b]"
  proof (rule sorted_distinct_set_unique)
    show "set (map fst m) = set (filter (\<lambda>n. n \<in> fst ` set m) [a, b])"
      using assms(2) by (simp only: set_filter set_map list.set) blast
  qed (use bt_wf_distinct [OF assms(1)] assms(3) in \<open>simp_all add: less_imp_le less_imp_neq\<close>)
  then consider "map fst m = []" | "map fst m = [a]" | "map fst m = [b]" | "map fst m = [a, b]"
    by (simp split: if_splits)
  then show ?thesis
    using assms(3) by cases (auto simp: map_eq_Cons_conv bt_values_def bt_get_def)
qed

lemma live_select:
  assumes "(live_step p)\<^sup>*\<^sup>* (live_start feature client cfg fr) s"
    and "lv_chan s = []" and "lv_docker s = Some d" and "lv_k8s s = Some k"
  shows "route_table_select (rm_table (lv_manager s)) host path =
    best_route (\<lambda>r. route_matches r host path) (fr @ unwrap_or [] (dl_last d) @ k8s_routes k)"
proof -
  have inv: "live_inv fr s" by (rule live_inv_reachable [OF assms(1)])
  let ?m = "rm_provider_routes (lv_manager s)"
  have "bt_get ?m ''docker'' = dl_last d" "unwrap_or [] (bt_get ?m ''kubernetes'') = k8s_routes k"
    using inv assms(2-4) by (simp_all add: live_inv_def pending_def option_or_def k8s_inv_def)
  moreover have "concat (bt_values ?m) = unwrap_or [] (bt_get ?m ''docker'') @ unwrap_or [] (bt_get ?m ''kubernetes'')"
    using inv by (intro two_entries) (simp_all add: live_inv_def manager_wf_def known_def)
  ultimately show ?thesis
    using inv by (simp add: live_inv_def manager_wf_def select_new)
qed

section \<open>Properties\<close>

text \<open>
  C5: Whatever the Docker daemon and the Kubernetes API do and however the provider tasks and
  the manager interleave, once the channel is drained a request is routed by the file routes together with
  the routes of the last Docker snapshot and the routes the Kubernetes stores hold at that moment: no
  update is lost, reordered or applied twice.
\<close>
theorem live_table_in_sync:
  assumes "(live_step p)\<^sup>*\<^sup>* (live_start feature client cfg fr) s"
    and "lv_chan s = []" and "lv_docker s = Some d" and "lv_k8s s = Some k"
  shows "route_table_select (rm_table (lv_manager s)) host path =
    best_route (\<lambda>r. route_matches r host path) (fr @ unwrap_or [] (dl_last d) @ k8s_routes k)"
  using assms by (rule live_select)


definition example_discovery :: DiscoveryConfig where
  "example_discovery =
     \<lparr>disc_docker = \<lparr>docker_enabled = True, docker_socket = ''unix:///d'', docker_poll_secs = 5\<rparr>,
      disc_kubernetes = \<lparr>k8s_enabled = True, k8s_namespace = None\<rparr>\<rparr>"

abbreviation example_live :: "unit Live" where
  "example_live \<equiv> live_start True (Ok () :: string + unit) example_discovery []"

text \<open>One turn of the Docker task from the start, then one of the manager.\<close>

lemma example_live_run:
  "\<exists>s d routes. (live_step (docker_provider_new ''unix:///d'' 5))\<^sup>*\<^sup>* example_live s
     \<and> lv_chan s = [] \<and> lv_docker s = Some d \<and> lv_k8s s = Some k8s_loop_init
     \<and> dl_last d = Some routes \<and> map (\<lambda>r. (r_upstream r, r_host r, r_path_prefix r)) routes = [(''http://a'', [], [])]"
proof -
  let ?p = "docker_provider_new ''unix:///d'' 5"
  have "case docker_turn ?p docker_loop_init example_docker_env of (d, sent, _) \<Rightarrow>
      d \<noteq> None \<and> sent \<noteq> None \<and> dl_last (the d) = sent \<and> map (\<lambda>r. (r_upstream r, r_host r, r_path_prefix r)) (the sent) = [(''http://a'', [], [])]"
    by code_simp
  then obtain d routes logs where turn: "docker_turn ?p docker_loop_init example_docker_env = (Some d, Some routes, logs)"
    and d: "dl_last d = Some routes" "map (\<lambda>r. (r_upstream r, r_host r, r_path_prefix r)) routes = [(''http://a'', [], [])]"
    by (auto split: prod.splits option.splits)
  have start: "lv_docker example_live = Some docker_loop_init" "lv_k8s example_live = Some k8s_loop_init"
    "lv_chan example_live = []"
    by (simp_all add: live_start_def build_providers_def example_discovery_def k8s_start_def result_ok_def)
  let ?u = "\<lparr>pu_provider = ''docker'', pu_routes = routes\<rparr>"
  let ?s = "example_live\<lparr>lv_docker := Some d, lv_chan := lv_chan example_live @ [?u]\<rparr>"
  let ?t = "?s\<lparr>lv_chan := [], lv_manager := manager_recv ?u (lv_manager ?s)\<rparr>"
  have "live_step ?p example_live ?s"
    by (rule docker_sends [OF start(1) _ turn])
      (simp_all add: start example_docker_env_def CHANNEL_CAPACITY_def)
  moreover have "live_step ?p ?s ?t"
    by (rule manager_turn) (simp add: start)
  ultimately have "(live_step ?p)\<^sup>*\<^sup>* example_live ?t"
    by (meson converse_rtranclp_into_rtranclp r_into_rtranclp)
  then show ?thesis using d start
    by (intro exI [of _ ?t] exI [of _ d] exI [of _ routes]) simp
qed

theorem live_table_in_sync_witness:
  "\<exists>s :: unit Live. map_option r_upstream (route_table_select (rm_table (lv_manager s)) ''host'' ''/x'') = Some ''http://a''"
proof -
  obtain s d routes where s: "(live_step (docker_provider_new ''unix:///d'' 5))\<^sup>*\<^sup>* example_live s"
    "lv_chan s = []" "lv_docker s = Some d" "lv_k8s s = Some k8s_loop_init"
    and d: "dl_last d = Some routes" "map (\<lambda>r. (r_upstream r, r_host r, r_path_prefix r)) routes = [(''http://a'', [], [])]"
    using example_live_run by (elim exE conjE) (rule that)
  obtain r where r: "routes = [r]" "r_upstream r = ''http://a''" "r_host r = []" "r_path_prefix r = []" using d(2) by auto
  from live_table_in_sync [OF s] show ?thesis using d r
    by (intro exI [of _ s])
      (simp add: route_matches_iff path_prefix_matches_def trim_end_matches_def k8s_routes_def k8s_loop_init_def
        kind_store_routes_def kind_store_default_def bt_values_def)
qed



end
