(* ===== verification/Ws_Frames.thy ===== *)
theory Ws_Frames
  imports Prelude
begin

text \<open>
  The attested WebSocket wire format (\<open>src/ws.rs\<close>: constants, \<open>extract_counter\<close>,
  \<open>encode_outbound\<close>, \<open>decode_inbound\<close>), with the big-endian and UTF-8 conversions of the
  standard library it uses. The AEAD of the openhttpa crates is a parameter, \<open>Aead\<close>: sealing
  advances the counter of a bound key, opening checks and decrypts; what the code relies on of
  it is \<open>sealed_by\<close>.
\<close>

section \<open>Bytes\<close>

fun be_bytes :: "nat \<Rightarrow> nat \<Rightarrow> byte list" where
  "be_bytes 0 x = []"
| "be_bytes (Suc n) x = be_bytes n (x div 256) @ [of_nat x]"

definition be_nat :: "byte list \<Rightarrow> nat" where
  "be_nat bs = foldl (\<lambda>acc b. acc * 256 + unat b) 0 bs"

definition u64_from_be_bytes :: "byte list \<Rightarrow> 64 word" where
  "u64_from_be_bytes bs = of_nat (be_nat bs)"

definition u64_to_be_bytes :: "64 word \<Rightarrow> byte list" where
  "u64_to_be_bytes c = be_bytes 8 (unat c)"

definition xor_bytes :: "byte list \<Rightarrow> byte list \<Rightarrow> byte list" where
  "xor_bytes as bs = map (\<lambda>(a, b). semiring_bit_operations_class.xor a b) (zip as bs)"

definition bytes_of_string :: "string \<Rightarrow> byte list" where
  "bytes_of_string s = map of_char s"

definition string_of_bytes :: "byte list \<Rightarrow> string" where
  "string_of_bytes bs = map (\<lambda>b. char_of (unat b)) bs"

text \<open>\<open>String::from_utf8\<close>: the well-formed byte sequences of the Unicode standard.\<close>

definition in_range :: "byte \<Rightarrow> nat \<Rightarrow> nat \<Rightarrow> bool" where
  "in_range b lo hi \<longleftrightarrow> lo \<le> unat b \<and> unat b \<le> hi"

definition utf8_cont :: "byte \<Rightarrow> bool" where
  "utf8_cont b \<longleftrightarrow> in_range b 128 191"

fun utf8_valid :: "byte list \<Rightarrow> bool" where
  "utf8_valid [] = True"
| "utf8_valid (a # bs) =
     (if in_range a 0 127 then utf8_valid bs
      else (case bs of
        [] \<Rightarrow> False
      | b # cs \<Rightarrow>
          if in_range a 194 223 then utf8_cont b \<and> utf8_valid cs
          else (case cs of
            [] \<Rightarrow> False
          | c # ds \<Rightarrow>
              if in_range a 224 239
              then in_range b (if a = 224 then 160 else 128) (if a = 237 then 159 else 191)
                   \<and> utf8_cont c \<and> utf8_valid ds
              else (case ds of
                [] \<Rightarrow> False
              | d # es \<Rightarrow>
                  in_range a 240 244
                  \<and> in_range b (if a = 240 then 144 else 128) (if a = 244 then 143 else 191)
                  \<and> utf8_cont c \<and> utf8_cont d \<and> utf8_valid es))))"

section \<open>Frames\<close>

definition MSG_TEXT :: byte where "MSG_TEXT = 0"
definition MSG_BINARY :: byte where "MSG_BINARY = 1"
definition MIN_FRAME :: nat where "MIN_FRAME = 12 + 1 + 16"
definition MAX_WS_FRAME :: nat where "MAX_WS_FRAME = 16 * 1024 * 1024"

definition extract_counter :: "byte list \<Rightarrow> byte list \<Rightarrow> 64 word" where
  "extract_counter nonce iv = u64_from_be_bytes (xor_bytes (drop 4 (take 12 nonce)) (drop 4 (take 12 iv)))"

datatype InPayload = PText string | PBinary "byte list"

text \<open>
  The AEAD keys: \<open>'k\<close> opens (\<open>AeadKey\<close>), \<open>'b\<close> seals and carries its counter
  (\<open>BoundAeadKey\<close>, whose interior mutation is the new key returned).
\<close>

record ('k, 'b) Aead =
  ae_nonce_from_slice :: "byte list \<Rightarrow> string + byte list"
  ae_open_in_place :: "'k \<Rightarrow> byte list \<Rightarrow> byte list \<Rightarrow> byte list \<Rightarrow> string + byte list"
  ae_seal :: "'b \<Rightarrow> byte list \<Rightarrow> byte list \<Rightarrow> string + (byte list \<times> byte list \<times> 'b)"

datatype WsError =
    FrameTooShort nat
  | BadNonce string
  | NonceReplay
  | OpenFailed string
  | InvalidUtf8
  | UnknownMessageType byte
  | EmptyPlaintext
  | SealFailed string
  | DialFailed string
  | KeySetupFailed string
  | ClientRecvError string
  | UpstreamRecvError string
  | InboundOverCap
  | UpstreamTextOverCap
  | UpstreamBinaryOverCap
  | UpstreamSendFailed string
  | ClientSendFailed string

definition encode_outbound ::
  "('k, 'b) Aead \<Rightarrow> byte \<Rightarrow> byte list \<Rightarrow> 'b \<Rightarrow> byte list \<Rightarrow> WsError + (byte list \<times> 'b)" where
  "encode_outbound ae type_byte payload key aad =
     (let plaintext = type_byte # payload in
      result_bind (map_err SealFailed (ae_seal ae key aad plaintext)) (\<lambda>(nonce, ciphertext, key').
        Ok (nonce @ ciphertext, key')))"

definition parse_plaintext :: "byte list \<Rightarrow> WsError + InPayload" where
  "parse_plaintext plaintext =
     (case plaintext of
        [] \<Rightarrow> Err EmptyPlaintext
      | b # rest \<Rightarrow>
          if b = MSG_TEXT then
            (if utf8_valid rest then Ok (PText (string_of_bytes rest)) else Err InvalidUtf8)
          else if b = MSG_BINARY then Ok (PBinary rest)
          else Err (UnknownMessageType b))"

text \<open>The counter is the mutable argument: it is returned, advanced or not, with the result.\<close>

definition decode_inbound ::
  "('k, 'b) Aead \<Rightarrow> byte list \<Rightarrow> 'k \<Rightarrow> byte list \<Rightarrow> byte list \<Rightarrow> 64 word \<Rightarrow> 64 word \<times> (WsError + InPayload)" where
  "decode_inbound ae frame key iv aad last_counter =
     (if length frame < MIN_FRAME then (last_counter, Err (FrameTooShort (length frame)))
      else (case ae_nonce_from_slice ae (take 12 frame) of
        Err e \<Rightarrow> (last_counter, Err (BadNonce e))
      | Ok nonce \<Rightarrow>
          let counter = extract_counter (take 12 frame) iv in
          if counter \<le> last_counter then (last_counter, Err NonceReplay)
          else (counter,
            result_bind (map_err OpenFailed (ae_open_in_place ae key nonce aad (drop 12 frame))) parse_plaintext)))"

section \<open>What the code relies on of the AEAD\<close>

text \<open>The nonce of counter \<open>c\<close>: the IV with the counter mixed into its last eight bytes.\<close>

definition counter_nonce :: "byte list \<Rightarrow> 64 word \<Rightarrow> byte list" where
  "counter_nonce iv c = take 4 iv @ xor_bytes (drop 4 (take 12 iv)) (u64_to_be_bytes c)"

text \<open>
  The documented contract of a sealing key and the opening key with the same bytes: sealing at
  counter \<open>c\<close> uses that counter's nonce, adds a 16-byte tag, advances the counter, and
  the opening key recovers the plaintext under the same nonce and associated data.
\<close>

definition sealed_by ::
  "('k, 'b) Aead \<Rightarrow> 'k \<Rightarrow> byte list \<Rightarrow> (64 word \<Rightarrow> 'b) \<Rightarrow> bool" where
  "sealed_by ae key iv at \<longleftrightarrow>
     length iv = 12
     \<and> (\<forall>n. length n = 12 \<longrightarrow> ae_nonce_from_slice ae n = Ok n)
     \<and> (\<forall>c aad pt. c + 1 \<noteq> 0 \<longrightarrow> (\<exists>ct. ae_seal ae (at c) aad pt = Ok (counter_nonce iv c, ct, at (c + 1))
          \<and> length ct = length pt + 16 \<and> ae_open_in_place ae key (counter_nonce iv c) aad ct = Ok pt))"

section \<open>Lemmas\<close>

subsection \<open>Bytes\<close>

lemma length_be_bytes [simp]: "length (be_bytes n x) = n"
  by (induction n arbitrary: x) auto

lemma be_nat_snoc: "be_nat (bs @ [b]) = be_nat bs * 256 + unat b"
  by (simp add: be_nat_def)

lemma be_nat_be_bytes: "be_nat (be_bytes n x) = x mod 256 ^ n"
proof (induction n arbitrary: x)
  case (Suc n)
  have "unat (of_nat x :: byte) = x mod 256"
    by (simp add: unsigned_of_nat take_bit_eq_mod)
  then show ?case
    by (simp add: be_nat_snoc Suc mod_mult2_eq)
qed (simp add: be_nat_def)

lemma u64_be_round_trip: "u64_from_be_bytes (u64_to_be_bytes c) = c"
proof -
  have "unat c < 256 ^ 8"
    using unsigned_less [of c] by simp
  then show ?thesis
    by (simp add: u64_from_be_bytes_def u64_to_be_bytes_def be_nat_be_bytes)
qed

lemma length_xor_bytes [simp]: "length (xor_bytes as bs) = min (length as) (length bs)"
  by (simp add: xor_bytes_def)

lemma length_u64_to_be_bytes [simp]: "length (u64_to_be_bytes c) = 8"
  by (simp add: u64_to_be_bytes_def)

lemma xor_bytes_cancel: "length as = length bs \<Longrightarrow> xor_bytes (xor_bytes as bs) as = bs"
  by (induction as bs rule: list_induct2)
    (simp_all add: xor_bytes_def xor.commute xor.left_commute)

lemma length_counter_nonce: "length iv = 12 \<Longrightarrow> length (counter_nonce iv c) = 12"
  by (simp add: counter_nonce_def)

lemma extract_counter_append:
  "length n = 12 \<Longrightarrow> extract_counter (take 12 (n @ ct)) iv = extract_counter n iv"
  by (simp add: extract_counter_def)

lemma extract_counter_nonce: "length iv = 12 \<Longrightarrow> extract_counter (counter_nonce iv c) iv = c"
proof -
  assume iv: "length iv = 12"
  have "drop 4 (take 12 (counter_nonce iv c)) = xor_bytes (drop 4 (take 12 iv)) (u64_to_be_bytes c)"
    using length_counter_nonce [OF iv, of c] iv by (simp add: counter_nonce_def)
  then show ?thesis
    using iv by (simp add: extract_counter_def xor_bytes_cancel u64_be_round_trip)
qed

lemma string_of_bytes_of_string: "string_of_bytes (bytes_of_string s) = s"
proof -
  have "char_of (unat (of_nat (of_char c) :: byte)) = c" for c
    unfolding unsigned_of_nat by (simp add: char_of_take_bit_eq del: of_nat_of_char)
  then have "char_of (unat (of_char c :: byte)) = c" for c
    by (simp only: of_nat_of_char)
  then show ?thesis
    by (simp add: string_of_bytes_def bytes_of_string_def comp_def)
qed

subsection \<open>Frames\<close>

lemma decode_inbound_Ok:
  assumes "decode_inbound ae frame key iv aad lc = (lc', Ok p)"
  shows "lc < extract_counter (take 12 frame) iv \<and> lc' = extract_counter (take 12 frame) iv
    \<and> (\<exists>nonce pt. ae_nonce_from_slice ae (take 12 frame) = Ok nonce
        \<and> ae_open_in_place ae key nonce aad (drop 12 frame) = Ok pt \<and> parse_plaintext pt = Ok p)"
  using assms
  by (auto simp: decode_inbound_def Let_def result_bind_def map_err_def split: if_splits sum.splits)

lemma decode_inbound_mono: "lc \<le> fst (decode_inbound ae frame key iv aad lc)"
  by (auto simp: decode_inbound_def Let_def split: sum.split)

fun payload_type :: "InPayload \<Rightarrow> byte" where
  "payload_type (PText _) = MSG_TEXT"
| "payload_type (PBinary _) = MSG_BINARY"

fun payload_bytes :: "InPayload \<Rightarrow> byte list" where
  "payload_bytes (PText s) = bytes_of_string s"
| "payload_bytes (PBinary bs) = bs"

text \<open>A \<open>String\<close> is always valid UTF-8.\<close>

fun payload_ok :: "InPayload \<Rightarrow> bool" where
  "payload_ok (PText s) = utf8_valid (bytes_of_string s)"
| "payload_ok (PBinary _) = True"

lemma parse_plaintext_payload:
  "payload_ok p \<Longrightarrow> parse_plaintext (payload_type p # payload_bytes p) = Ok p"
  by (cases p) (simp_all add: parse_plaintext_def MSG_TEXT_def MSG_BINARY_def string_of_bytes_of_string)

lemma encode_sealed:
  assumes "sealed_by ae key iv at" and "c + 1 \<noteq> 0"
  shows "\<exists>ct. encode_outbound ae t bs (at c) aad = Ok (counter_nonce iv c @ ct, at (c + 1))
    \<and> length ct = length bs + 17 \<and> ae_open_in_place ae key (counter_nonce iv c) aad ct = Ok (t # bs)"
proof -
  obtain ct where "ae_seal ae (at c) aad (t # bs) = Ok (counter_nonce iv c, ct, at (c + 1))"
    "length ct = length (t # bs) + 16" "ae_open_in_place ae key (counter_nonce iv c) aad ct = Ok (t # bs)"
    using assms unfolding sealed_by_def by blast
  then show ?thesis
    by (simp add: encode_outbound_def result_bind_def map_err_def)
qed

lemma decode_sealed:
  assumes "sealed_by ae key iv at" and "lc < c"
    and "length ct = length bs + 17" and "ae_open_in_place ae key (counter_nonce iv c) aad ct = Ok pt"
  shows "decode_inbound ae (counter_nonce iv c @ ct) key iv aad lc = (c, parse_plaintext pt)"
proof -
  have iv: "length iv = 12" and n: "ae_nonce_from_slice ae (counter_nonce iv c) = Ok (counter_nonce iv c)"
    using assms(1) length_counter_nonce by (auto simp: sealed_by_def)
  then show ?thesis
    using assms(2-4) length_counter_nonce [OF iv, of c]
    by (simp add: decode_inbound_def MIN_FRAME_def extract_counter_nonce Let_def result_bind_def map_err_def
        not_le [THEN iffD2])
qed

section \<open>Sequences of frames\<close>

fun encode_all :: "('k, 'b) Aead \<Rightarrow> 'b \<Rightarrow> byte list \<Rightarrow> InPayload list \<Rightarrow> WsError + (byte list list \<times> 'b)" where
  "encode_all ae key aad [] = Ok ([], key)"
| "encode_all ae key aad (p # ps) =
     result_bind (encode_outbound ae (payload_type p) (payload_bytes p) key aad) (\<lambda>(frame, key').
       result_bind (encode_all ae key' aad ps) (\<lambda>(frames, key''). Ok (frame # frames, key'')))"

fun decode_all :: "('k, 'b) Aead \<Rightarrow> 'k \<Rightarrow> byte list \<Rightarrow> byte list \<Rightarrow> 64 word \<Rightarrow> byte list list \<Rightarrow> 64 word \<times> (WsError + InPayload list)" where
  "decode_all ae key iv aad lc [] = (lc, Ok [])"
| "decode_all ae key iv aad lc (f # fs) =
     (case decode_inbound ae f key iv aad lc of
        (lc', Err e) \<Rightarrow> (lc', Err e)
      | (lc', Ok p) \<Rightarrow>
          (case decode_all ae key iv aad lc' fs of
             (lc'', Err e) \<Rightarrow> (lc'', Err e)
           | (lc'', Ok ps) \<Rightarrow> (lc'', Ok (p # ps))))"

lemma decode_all_counters:
  assumes "decode_all ae key iv aad lc fs = (lc', Ok ps)"
  shows "sorted_wrt (<) (lc # map (\<lambda>f. extract_counter (take 12 f) iv) fs)"
  using assms
proof (induction fs arbitrary: lc ps)
  case (Cons f fs)
  then obtain l1 p ps' where d: "decode_inbound ae f key iv aad lc = (l1, Ok p)"
    and r: "decode_all ae key iv aad l1 fs = (lc', Ok ps')"
    by (auto split: prod.splits sum.splits)
  have "lc < extract_counter (take 12 f) iv" and "l1 = extract_counter (take 12 f) iv"
    using decode_inbound_Ok [OF d] by auto
  with Cons.IH [OF r] show ?case by (auto intro: less_trans)
qed simp

lemma counter_step:
  fixes c :: "64 word"
  assumes "unat c + Suc n < 2 ^ 64"
  shows "c + 1 \<noteq> 0" "c < c + 1" "unat (c + 1) + n < 2 ^ 64"
proof -
  have "unat (c + 1) = unat c + 1"
    using assms by (subst unat_plus_if_size) (simp add: word_size)
  then show "c < c + 1" "unat (c + 1) + n < 2 ^ 64"
    using assms by (simp_all add: word_less_nat_alt)
  then show "c + 1 \<noteq> 0" by auto
qed

lemma encode_decode_all:
  assumes "sealed_by ae key iv at" and "list_all payload_ok ps"
    and "lc < c" and "unat c + length ps < 2 ^ 64"
  shows "\<exists>fs. encode_all ae (at c) aad ps = Ok (fs, at (c + of_nat (length ps)))
    \<and> snd (decode_all ae key iv aad lc fs) = Ok ps"
  using assms(2-4)
proof (induction ps arbitrary: c lc)
  case (Cons p ps)
  have "unat c + Suc (length ps) < 2 ^ 64" using Cons.prems(3) by simp
  note step = counter_step [OF this]
  obtain ct where enc: "encode_outbound ae (payload_type p) (payload_bytes p) (at c) aad = Ok (counter_nonce iv c @ ct, at (c + 1))"
    and ct: "length ct = length (payload_bytes p) + 17"
      "ae_open_in_place ae key (counter_nonce iv c) aad ct = Ok (payload_type p # payload_bytes p)"
    using encode_sealed [OF assms(1) step(1)] by blast
  have dec: "decode_inbound ae (counter_nonce iv c @ ct) key iv aad lc = (c, Ok p)"
    using decode_sealed [OF assms(1) Cons.prems(2) ct] Cons.prems(1) by (simp add: parse_plaintext_payload)
  obtain fs where fs: "encode_all ae (at (c + 1)) aad ps = Ok (fs, at (c + 1 + of_nat (length ps)))"
    "snd (decode_all ae key iv aad c fs) = Ok ps"
    using Cons.IH [OF _ step(2,3)] Cons.prems(1) by auto
  then obtain l where "decode_all ae key iv aad c fs = (l, Ok ps)"
    by (metis prod.collapse)
  with enc dec fs(1) show ?case
    by (intro exI [of _ "(counter_nonce iv c @ ct) # fs"]) (simp add: result_bind_def add.assoc)
qed simp

section \<open>Properties\<close>

text \<open>
  C18: A replayed or reordered frame is never accepted. Whatever the AEAD, a sequence of frames all
  of which decode carries strictly ascending counters, above the counter the receiver
  started from; in particular no frame, and no two frames with the same nonce, can be accepted twice.
\<close>
theorem ws_no_replay:
  assumes "decode_all ae key iv aad lc fs = (lc', Ok ps)"
  shows "sorted_wrt (<) (lc # map (\<lambda>f. extract_counter (take 12 f) iv) fs)
    \<and> distinct fs \<and> distinct (map (take 12) fs)"
proof -
  have s: "sorted_wrt (<) (lc # map (\<lambda>f. extract_counter (take 12 f) iv) fs)"
    by (rule decode_all_counters [OF assms])
  then have "distinct (map (\<lambda>n. extract_counter n iv) (map (take 12) fs))"
    by (simp add: comp_def strict_sorted_iff)
  then have "distinct (map (take 12) fs)"
    unfolding distinct_map by (rule conjunct1)
  with s show ?thesis
    by (simp add: distinct_map)
qed

text \<open>
  C30: The two ends of the wire format agree. With an AEAD that keeps its documented contract,
  any sequence of text and binary payloads sealed under consecutive counters decodes, frame
  by frame and in order, to the same payloads, as long as the counter does not run past its 64 bits.
\<close>
theorem ws_stream_round_trip:
  assumes "sealed_by ae key iv at" and "list_all payload_ok ps"
    and "lc < c" and "unat c + length ps < 2 ^ 64"
  shows "\<exists>fs. encode_all ae (at c) aad ps = Ok (fs, at (c + of_nat (length ps)))
    \<and> snd (decode_all ae key iv aad lc fs) = Ok ps"
  using assms by (rule encode_decode_all)

text \<open>
  A frame the proxy seals for the client is 29 bytes longer than its payload. So a payload of
  exactly the cap, which the outbound check lets through, gives a frame that the same cap on
  inbound frames refuses.
\<close>
theorem ws_frame_length:
  assumes "sealed_by ae key iv at" and "c + 1 \<noteq> 0"
  shows "\<exists>frame. encode_outbound ae t payload (at c) aad = Ok (frame, at (c + 1))
    \<and> length frame = MIN_FRAME + length payload
    \<and> (length payload = MAX_WS_FRAME \<longrightarrow> length frame > MAX_WS_FRAME)"
proof -
  have "length iv = 12" using assms(1) by (simp add: sealed_by_def)
  then show ?thesis
    using encode_sealed [OF assms, of t payload aad] length_counter_nonce [of iv c]
    by (auto simp: MIN_FRAME_def)
qed

text \<open>An AEAD that keeps the contract, for the witnesses: the tag is sixteen zero bytes.\<close>

definition plain_aead :: "byte list \<Rightarrow> (unit, 64 word) Aead" where
  "plain_aead iv =
     \<lparr>ae_nonce_from_slice = Ok,
      ae_open_in_place = (\<lambda>_ _ _ ct. Ok (take (length ct - 16) ct)),
      ae_seal = (\<lambda>c _ pt. Ok (counter_nonce iv c, pt @ replicate 16 0, c + 1))\<rparr>"

lemma plain_aead_sealed: "length iv = 12 \<Longrightarrow> sealed_by (plain_aead iv) () iv id"
  by (simp add: sealed_by_def plain_aead_def)

theorem ws_stream_round_trip_witness:
  "\<exists>fs. encode_all (plain_aead (replicate 12 3)) 1 [] [PText ''hi'', PBinary [255]] = Ok (fs, 3)
    \<and> snd (decode_all (plain_aead (replicate 12 3)) () (replicate 12 3) [] 0 fs) = Ok [PText ''hi'', PBinary [255]]"
proof -
  have "utf8_valid (bytes_of_string ''hi'')" by code_simp
  then show ?thesis
    using ws_stream_round_trip [OF plain_aead_sealed, of "replicate 12 3" "[PText ''hi'', PBinary [255]]" 0 1 "[]"]
    by simp
qed

theorem ws_frame_length_witness:
  "\<exists>frame. encode_outbound (plain_aead (replicate 12 3)) MSG_BINARY [1, 2, 3] 1 [] = Ok (frame, 2)
    \<and> length frame = MIN_FRAME + 3"
  using ws_frame_length [OF plain_aead_sealed, of "replicate 12 3" 1 MSG_BINARY "[1, 2, 3]" "[]"]
  by auto

theorem ws_no_replay_witness:
  "distinct (map (take 12) (map (\<lambda>c. counter_nonce (replicate 12 3) c @ MSG_BINARY # replicate 16 0) [1, 4, 9]))"
proof -
  have "decode_all (plain_aead (replicate 12 3)) () (replicate 12 3) [] 0
      (map (\<lambda>c. counter_nonce (replicate 12 3) c @ MSG_BINARY # replicate 16 0) [1, 4, 9])
    = (9, Ok [PBinary [], PBinary [], PBinary []])"
    by code_simp
  from ws_no_replay [OF this] show ?thesis by (elim conjE)
qed

end
