(* ===== verification/Ws_Bridge.thy ===== *)
theory Ws_Bridge
  imports Ws_Frames Routing Rust_Maps
begin

text \<open>
  Attested WebSocket passthrough (\<open>src/ws.rs\<close>): recognising an upgrade, the upgrade handler with
  its session lookup, route selection and key extraction, the translation of the upstream URL, and
  the bridge. The two pump loops of \<open>run_bridge\<close> share no state and are joined by \<open>select!\<close>, so
  the bridge is a state machine whose events are what either socket yields next, in any
  order; the first loop to return ends it. The session registry, the AEAD and the sockets are
  parameters.
\<close>

section \<open>The upgrade\<close>

text \<open>The parts of a request the guard looks at; \<open>None\<close> is a header value that is not a \<open>str\<close>.\<close>

record WsRequest =
  wr_method :: string
  wr_upgrade :: "string option option"
  wr_has_base_id :: bool

definition is_attested_ws_upgrade :: "WsRequest \<Rightarrow> bool" where
  "is_attested_ws_upgrade req \<longleftrightarrow>
     (if wr_method req \<noteq> ''GET'' then False
      else
        let has_upgrade = (case Option.bind (wr_upgrade req) id of
              None \<Rightarrow> False | Some v \<Rightarrow> eq_ignore_ascii_case v ''websocket'')
        in has_upgrade \<and> wr_has_base_id req)"

record 'alg WsKeys =
  wk_server_write_key :: bytes
  wk_server_write_iv :: bytes
  wk_client_write_key :: bytes
  wk_client_write_iv :: bytes
  wk_algorithm :: 'alg

record SessionKeys =
  sk_server_write_key :: bytes
  sk_server_write_iv :: bytes
  sk_client_write_key :: bytes
  sk_client_write_iv :: bytes

text \<open>
  What the handler asks of a session of the registry; \<open>peek_keys\<close> fails when the keys are gone.
\<close>

record 'alg Session =
  se_id :: string
  se_is_alive :: bool
  se_algorithm :: 'alg
  se_peek_keys :: "SessionKeys option"

text \<open>
  \<open>WsKeys::from_session\<close>: \<open>Inl ()\<close> is the panic of slicing an IV of fewer than twelve bytes.
\<close>

definition ws_keys_from_session :: "'alg Session \<Rightarrow> unit + 'alg WsKeys option" where
  "ws_keys_from_session session =
     (case se_peek_keys session of
        None \<Rightarrow> Ok None
      | Some keys \<Rightarrow>
          if length (sk_server_write_iv keys) < 12 \<or> length (sk_client_write_iv keys) < 12 then Err ()
          else Ok (Some
            \<lparr>wk_server_write_key = sk_server_write_key keys,
             wk_server_write_iv = take 12 (sk_server_write_iv keys),
             wk_client_write_key = sk_client_write_key keys,
             wk_client_write_iv = take 12 (sk_client_write_iv keys),
             wk_algorithm = se_algorithm session\<rparr>))"

definition session_aad :: "'alg Session \<Rightarrow> bytes" where
  "session_aad session = bytes_of_string ''openhttpa:'' @ bytes_of_string (se_id session)"

definition build_upstream_ws_url :: "string \<Rightarrow> string \<Rightarrow> string option \<Rightarrow> string + string" where
  "build_upstream_ws_url upstream path query =
     (let base = trim_end_matches (CHR ''/'') upstream in
      result_bind
        (case strip_prefix base ''https://'' of
           Some rest \<Rightarrow> Ok (''wss://'' @ rest)
         | None \<Rightarrow>
             (case strip_prefix base ''http://'' of
                Some rest \<Rightarrow> Ok (''ws://'' @ rest)
              | None \<Rightarrow>
                  if starts_with base ''ws://'' \<or> starts_with base ''wss://'' then Ok base
                  else Err upstream))
        (\<lambda>ws_base. Ok (ws_base @ path @ (case query of Some q \<Rightarrow> CHR ''?'' # q | None \<Rightarrow> []))))"

record WsRequestMeta =
  wm_host :: string
  wm_path :: string
  wm_query :: "string option"
  wm_base_id :: "string option"

datatype 'alg UpgradeOutcome =
    HttpError nat string
  | Upgrade string "'alg WsKeys" bytes
  | HandlerPanic

definition ws_upgrade_handler ::
  "string \<Rightarrow> (string \<Rightarrow> 'id option) \<Rightarrow> ('id \<Rightarrow> 'alg Session option) \<Rightarrow> RouteTable \<Rightarrow> WsRequestMeta \<Rightarrow> 'alg UpgradeOutcome" where
  "ws_upgrade_handler hdr_base_id parse_id registry_get table meta =
     (case Option.bind (wm_base_id meta) parse_id of
        None \<Rightarrow> HttpError 401 (hdr_base_id @ '' header missing or invalid'')
      | Some atb_id \<Rightarrow>
     (case registry_get atb_id of
        None \<Rightarrow> HttpError 401 ''AtB session not found or expired''
      | Some session \<Rightarrow>
     if \<not> se_is_alive session then HttpError 401 ''AtB session not in attested state''
     else
     (case route_table_select table (wm_host meta) (wm_path meta) of
        None \<Rightarrow> HttpError 404 ''no route matched''
      | Some route \<Rightarrow>
     (case build_upstream_ws_url (r_upstream route) (wm_path meta) (wm_query meta) of
        Err e \<Rightarrow> HttpError 502 ''invalid upstream WS target''
      | Ok upstream_url \<Rightarrow>
     (case ws_keys_from_session session of
        Err _ \<Rightarrow> HandlerPanic
      | Ok None \<Rightarrow> HttpError 401 ''session keys unavailable''
      | Ok (Some keys) \<Rightarrow> Upgrade upstream_url keys (session_aad session))))))"

section \<open>The bridge\<close>

datatype AxumMessage = AxText string | AxBinary bytes | AxPing bytes | AxPong bytes | AxClose
datatype UpMessage = UpText string | UpBinary bytes | UpPing bytes | UpPong bytes | UpClose | UpFrame bytes

text \<open>
  What the loops capture: the keys, and the state that changes. The lists are what has been
  sent so far to the upstream and to the client.
\<close>

record ('k, 'b) BridgeEnv =
  be_aead :: "('k, 'b) Aead"
  be_in_key :: 'k
  be_in_iv :: bytes
  be_aad :: bytes

record 'b Bridge =
  br_last_counter :: "64 word"
  br_out_key :: 'b
  br_up :: "UpMessage list"
  br_down :: "AxumMessage list"

text \<open>
  The next item of a socket, none at its end, with the result the other socket would give
  to a send.
\<close>

datatype BridgeEvent =
    ClientNext "(string + AxumMessage) option" "string + unit"
  | UpstreamNext "(string + UpMessage) option" "string + unit"

text \<open>A turn gives the new state and, when the loop returned, its result.\<close>

definition send_up :: "UpMessage \<Rightarrow> string + unit \<Rightarrow> 'b Bridge \<Rightarrow> 'b Bridge \<times> (WsError + unit) option" where
  "send_up m sent s =
     (case sent of
        Err e \<Rightarrow> (s, Some (Err (UpstreamSendFailed e)))
      | Ok _ \<Rightarrow> (s\<lparr>br_up := br_up s @ [m]\<rparr>, None))"

definition send_down :: "AxumMessage \<Rightarrow> string + unit \<Rightarrow> 'b Bridge \<Rightarrow> 'b Bridge \<times> (WsError + unit) option" where
  "send_down m sent s =
     (case sent of
        Err e \<Rightarrow> (s, Some (Err (ClientSendFailed e)))
      | Ok _ \<Rightarrow> (s\<lparr>br_down := br_down s @ [m]\<rparr>, None))"

fun to_up :: "InPayload \<Rightarrow> UpMessage" where
  "to_up (PText t) = UpText t"
| "to_up (PBinary b) = UpBinary b"

definition client_to_upstream ::
  "('k, 'b) BridgeEnv \<Rightarrow> (string + AxumMessage) option \<Rightarrow> string + unit \<Rightarrow> 'b Bridge \<Rightarrow> 'b Bridge \<times> (WsError + unit) option" where
  "client_to_upstream env item sent s =
     (case item of
        None \<Rightarrow> (s, Some (Ok ()))
      | Some (Err e) \<Rightarrow> (s, Some (Err (ClientRecvError e)))
      | Some (Ok msg) \<Rightarrow>
          (case msg of
             AxBinary data \<Rightarrow>
               if length data > MAX_WS_FRAME then (s, Some (Err InboundOverCap))
               else
                 (case decode_inbound (be_aead env) data (be_in_key env) (be_in_iv env) (be_aad env) (br_last_counter s) of
                    (lc, Err e) \<Rightarrow> (s\<lparr>br_last_counter := lc\<rparr>, Some (Err e))
                  | (lc, Ok p) \<Rightarrow> send_up (to_up p) sent (s\<lparr>br_last_counter := lc\<rparr>))
           | AxPing p \<Rightarrow> send_up (UpPing p) sent s
           | AxPong p \<Rightarrow> send_up (UpPong p) sent s
           | AxClose \<Rightarrow> (fst (send_up UpClose sent s), Some (Ok ()))
           | AxText _ \<Rightarrow> (s, None)))"

definition seal_down ::
  "('k, 'b) BridgeEnv \<Rightarrow> byte \<Rightarrow> bytes \<Rightarrow> string + unit \<Rightarrow> 'b Bridge \<Rightarrow> 'b Bridge \<times> (WsError + unit) option" where
  "seal_down env type_byte payload sent s =
     (case encode_outbound (be_aead env) type_byte payload (br_out_key s) (be_aad env) of
        Err e \<Rightarrow> (s, Some (Err e))
      | Ok (frame, key) \<Rightarrow> send_down (AxBinary frame) sent (s\<lparr>br_out_key := key\<rparr>))"

definition upstream_to_client ::
  "('k, 'b) BridgeEnv \<Rightarrow> (string + UpMessage) option \<Rightarrow> string + unit \<Rightarrow> 'b Bridge \<Rightarrow> 'b Bridge \<times> (WsError + unit) option" where
  "upstream_to_client env item sent s =
     (case item of
        None \<Rightarrow> (s, Some (Ok ()))
      | Some (Err e) \<Rightarrow> (s, Some (Err (UpstreamRecvError e)))
      | Some (Ok msg) \<Rightarrow>
          (case msg of
             UpText t \<Rightarrow>
               if length t > MAX_WS_FRAME then (s, Some (Err UpstreamTextOverCap))
               else seal_down env MSG_TEXT (bytes_of_string t) sent s
           | UpBinary b \<Rightarrow>
               if length b > MAX_WS_FRAME then (s, Some (Err UpstreamBinaryOverCap))
               else seal_down env MSG_BINARY b sent s
           | UpPing p \<Rightarrow> send_down (AxPing p) sent s
           | UpPong p \<Rightarrow> send_down (AxPong p) sent s
           | UpClose \<Rightarrow> (fst (send_down AxClose sent s), Some (Ok ()))
           | UpFrame _ \<Rightarrow> (s, None)))"

fun bridge_turn :: "('k, 'b) BridgeEnv \<Rightarrow> BridgeEvent \<Rightarrow> 'b Bridge \<Rightarrow> 'b Bridge \<times> (WsError + unit) option" where
  "bridge_turn env (ClientNext item sent) s = client_to_upstream env item sent s"
| "bridge_turn env (UpstreamNext item sent) s = upstream_to_client env item sent s"

fun bridge_run :: "('k, 'b) BridgeEnv \<Rightarrow> BridgeEvent list \<Rightarrow> 'b Bridge \<Rightarrow> 'b Bridge \<times> (WsError + unit) option" where
  "bridge_run env [] s = (s, None)"
| "bridge_run env (e # es) s =
     (case bridge_turn env e s of
        (s', Some r) \<Rightarrow> (s', Some r)
      | (s', None) \<Rightarrow> bridge_run env es s')"

text \<open>
  \<open>run_bridge\<close> up to the loops: dial the upstream, then set up the two keys; the loops start
  with the inbound counter at zero.
\<close>

definition bridge_start ::
  "('k, 'b) Aead \<Rightarrow> (string \<Rightarrow> string + unit) \<Rightarrow> ('alg \<Rightarrow> bytes \<Rightarrow> bytes \<Rightarrow> string + 'b) \<Rightarrow> ('alg \<Rightarrow> bytes \<Rightarrow> string + 'k) \<Rightarrow>
     string \<Rightarrow> 'alg WsKeys \<Rightarrow> bytes \<Rightarrow> WsError + (('k, 'b) BridgeEnv \<times> 'b Bridge)" where
  "bridge_start ae connect bound_new key_new upstream_url keys aad =
     result_bind (map_err DialFailed (connect upstream_url)) (\<lambda>_.
     result_bind (map_err KeySetupFailed (bound_new (wk_algorithm keys) (wk_server_write_key keys) (wk_server_write_iv keys))) (\<lambda>out_key.
     result_bind (map_err KeySetupFailed (key_new (wk_algorithm keys) (wk_client_write_key keys))) (\<lambda>in_key.
       Ok (\<lparr>be_aead = ae, be_in_key = in_key, be_in_iv = wk_client_write_iv keys, be_aad = aad\<rparr>,
           \<lparr>br_last_counter = 0, br_out_key = out_key, br_up = [], br_down = []\<rparr>))))"

section \<open>What passes through\<close>

fun up_payload :: "UpMessage \<Rightarrow> InPayload option" where
  "up_payload (UpText t) = Some (PText t)"
| "up_payload (UpBinary b) = Some (PBinary b)"
| "up_payload _ = None"

fun sealed_frame :: "AxumMessage \<Rightarrow> bytes option" where
  "sealed_frame (AxBinary f) = Some f"
| "sealed_frame _ = None"

fun client_frame :: "BridgeEvent \<Rightarrow> bytes option" where
  "client_frame (ClientNext (Some (Inr (AxBinary f))) _) = Some f"
| "client_frame _ = None"

fun upstream_payload :: "BridgeEvent \<Rightarrow> InPayload option" where
  "upstream_payload (UpstreamNext (Some (Inr m)) _) = up_payload m"
| "upstream_payload _ = None"

text \<open>The application messages forwarded to the upstream, and the frames sealed for the client.\<close>

definition forwarded :: "'b Bridge \<Rightarrow> InPayload list" where
  "forwarded s = List.map_filter up_payload (br_up s)"

definition sealed :: "'b Bridge \<Rightarrow> bytes list" where
  "sealed s = List.map_filter sealed_frame (br_down s)"

definition client_frames :: "BridgeEvent list \<Rightarrow> bytes list" where
  "client_frames es = List.map_filter client_frame es"

definition upstream_payloads :: "BridgeEvent list \<Rightarrow> InPayload list" where
  "upstream_payloads es = List.map_filter upstream_payload es"

text \<open>
  \<open>select!\<close> as a schedule: each turn takes the next item of the client (\<open>True\<close>) or of the upstream
  together with the result of the send it leads to; a socket that has nothing left yields its end.
\<close>

fun bridge_events ::
  "bool list \<Rightarrow> ((string + AxumMessage) \<times> (string + unit)) list \<Rightarrow> ((string + UpMessage) \<times> (string + unit)) list \<Rightarrow>
     BridgeEvent list" where
  "bridge_events [] cs us = []"
| "bridge_events (True # w) [] us = ClientNext None (Ok ()) # bridge_events w [] us"
| "bridge_events (True # w) ((item, sent) # cs) us = ClientNext (Some item) sent # bridge_events w cs us"
| "bridge_events (False # w) cs [] = UpstreamNext None (Ok ()) # bridge_events w cs []"
| "bridge_events (False # w) cs ((item, sent) # us) = UpstreamNext (Some item) sent # bridge_events w cs us"

text \<open>
  The whole of \<open>run_bridge\<close> on two sockets that yield \<open>cs\<close> and \<open>us\<close>: the state the loops
  reached, if they started, and the result; \<open>None\<close> is a bridge still running when the schedule is used up.
\<close>

definition run_bridge ::
  "('k, 'b) Aead \<Rightarrow> (string \<Rightarrow> string + unit) \<Rightarrow> ('alg \<Rightarrow> bytes \<Rightarrow> bytes \<Rightarrow> string + 'b) \<Rightarrow> ('alg \<Rightarrow> bytes \<Rightarrow> string + 'k) \<Rightarrow>
     string \<Rightarrow> 'alg WsKeys \<Rightarrow> bytes \<Rightarrow> bool list \<Rightarrow>
     ((string + AxumMessage) \<times> (string + unit)) list \<Rightarrow> ((string + UpMessage) \<times> (string + unit)) list \<Rightarrow>
     'b Bridge option \<times> (WsError + unit) option" where
  "run_bridge ae connect bound_new key_new upstream_url keys aad w cs us =
     (case bridge_start ae connect bound_new key_new upstream_url keys aad of
        Err e \<Rightarrow> (None, Some (Err e))
      | Ok (env, s) \<Rightarrow> (case bridge_run env (bridge_events w cs us) s of (s', r) \<Rightarrow> (Some s', r)))"

text \<open>The items that end a loop whatever the state: the end of a socket, an error, and a close.\<close>

fun ends_bridge :: "BridgeEvent \<Rightarrow> bool" where
  "ends_bridge (ClientNext None _) = True"
| "ends_bridge (ClientNext (Some (Inl _)) _) = True"
| "ends_bridge (ClientNext (Some (Inr m)) _) = (m = AxClose)"
| "ends_bridge (UpstreamNext None _) = True"
| "ends_bridge (UpstreamNext (Some (Inl _)) _) = True"
| "ends_bridge (UpstreamNext (Some (Inr m)) _) = (m = UpClose)"

lemma map_filter_append: "List.map_filter f (xs @ ys) = List.map_filter f xs @ List.map_filter f ys"
  by (simp add: map_filter_def)

lemmas passing = forwarded_def sealed_def client_frames_def upstream_payloads_def map_filter_append map_filter_simps

lemma decode_all_snoc:
  "decode_all ae key iv aad lc fs = (l, Ok ps) \<Longrightarrow> decode_inbound ae f key iv aad l = (l', Ok p) \<Longrightarrow>
     decode_all ae key iv aad lc (fs @ [f]) = (l', Ok (ps @ [p]))"
  by (induction fs arbitrary: lc ps) (auto split: prod.splits sum.splits)

lemma encode_all_snoc:
  "encode_all ae key aad ps = Ok (fs, key') \<Longrightarrow> encode_outbound ae (payload_type p) (payload_bytes p) key' aad = Ok (f, key'') \<Longrightarrow>
     encode_all ae key aad (ps @ [p]) = Ok (fs @ [f], key'')"
  by (induction ps arbitrary: key fs) (auto simp: result_bind_eq_Ok split: prod.splits)

lemma up_payload_to_up [simp]: "up_payload (to_up p) = Some p"
  by (cases p) simp_all

lemmas turn_defs = client_to_upstream_def upstream_to_client_def seal_down_def send_up_def send_down_def

lemma turn_inbound:
  assumes "decode_all (be_aead env) (be_in_key env) (be_in_iv env) (be_aad env) lc fs = (br_last_counter s, Ok (forwarded s))"
    and "bridge_turn env e s = (s', r)"
  shows "r = None \<Longrightarrow> decode_all (be_aead env) (be_in_key env) (be_in_iv env) (be_aad env) lc (fs @ client_frames [e]) =
      (br_last_counter s', Ok (forwarded s'))"
    and "r \<noteq> None \<Longrightarrow> forwarded s' = forwarded s"
  using assms decode_all_snoc [OF assms(1)]
  by (cases e; auto simp: turn_defs passing split: option.splits sum.splits AxumMessage.splits UpMessage.splits prod.splits if_splits)+

lemma turn_outbound:
  assumes "encode_all (be_aead env) key (be_aad env) ps = Ok (sealed s, br_out_key s)"
    and "bridge_turn env e s = (s', r)"
  shows "r = None \<Longrightarrow> encode_all (be_aead env) key (be_aad env) (ps @ upstream_payloads [e]) = Ok (sealed s', br_out_key s')"
    and "r \<noteq> None \<Longrightarrow> sealed s' = sealed s"
  using assms encode_all_snoc [OF assms(1), of "PText _"] encode_all_snoc [OF assms(1), of "PBinary _"]
  by (cases e; auto simp: turn_defs passing split: option.splits sum.splits AxumMessage.splits UpMessage.splits prod.splits if_splits)+

lemma turn_down_no_text:
  "bridge_turn env e s = (s', r) \<Longrightarrow> AxText t \<notin> set (br_down s) \<Longrightarrow> AxText t \<notin> set (br_down s')"
  by (cases e) (auto simp: turn_defs split: option.splits sum.splits AxumMessage.splits UpMessage.splits prod.splits if_splits)

lemma run_inbound:
  assumes "decode_all (be_aead env) (be_in_key env) (be_in_iv env) (be_aad env) lc fs = (br_last_counter s, Ok (forwarded s))"
  shows "\<exists>gs l. prefix gs (fs @ client_frames es)
    \<and> decode_all (be_aead env) (be_in_key env) (be_in_iv env) (be_aad env) lc gs = (l, Ok (forwarded (fst (bridge_run env es s))))"
  using assms
proof (induction es arbitrary: s fs)
  case (Cons e es)
  obtain s' r where turn: "bridge_turn env e s = (s', r)" by (cases "bridge_turn env e s")
  show ?case
  proof (cases r)
    case None
    obtain gs l where "prefix gs ((fs @ client_frames [e]) @ client_frames es)"
      "decode_all (be_aead env) (be_in_key env) (be_in_iv env) (be_aad env) lc gs = (l, Ok (forwarded (fst (bridge_run env es s'))))"
      using Cons.IH [OF turn_inbound(1) [OF Cons.prems turn None]] by blast
    then show ?thesis using turn None
      by (intro exI [of _ gs] exI [of _ l]) (simp add: client_frames_def map_filter_simps split: option.splits)
  next
    case (Some _)
    with turn turn_inbound(2) [OF Cons.prems turn] Cons.prems show ?thesis
      by (intro exI [of _ fs] exI [of _ "br_last_counter s"]) simp
  qed
qed (auto simp: passing)

lemma run_outbound:
  assumes "encode_all (be_aead env) key (be_aad env) ps = Ok (sealed s, br_out_key s)"
  shows "\<exists>qs key'. prefix qs (ps @ upstream_payloads es)
    \<and> encode_all (be_aead env) key (be_aad env) qs = Ok (sealed (fst (bridge_run env es s)), key')"
  using assms
proof (induction es arbitrary: s ps)
  case (Cons e es)
  obtain s' r where turn: "bridge_turn env e s = (s', r)" by (cases "bridge_turn env e s")
  show ?case
  proof (cases r)
    case None
    obtain qs key' where "prefix qs ((ps @ upstream_payloads [e]) @ upstream_payloads es)"
      "encode_all (be_aead env) key (be_aad env) qs = Ok (sealed (fst (bridge_run env es s')), key')"
      using Cons.IH [OF turn_outbound(1) [OF Cons.prems turn None]] by blast
    then show ?thesis using turn None
      by (intro exI [of _ qs] exI [of _ key']) (simp add: upstream_payloads_def map_filter_simps split: option.splits)
  next
    case (Some _)
    with turn turn_outbound(2) [OF Cons.prems turn] Cons.prems show ?thesis
      by (intro exI [of _ ps] exI [of _ "br_out_key s"]) simp
  qed
qed (auto simp: passing)

lemma run_down_no_text:
  "AxText t \<notin> set (br_down s) \<Longrightarrow> AxText t \<notin> set (br_down (fst (bridge_run env es s)))"
  by (induction es arbitrary: s) (auto split: prod.splits option.splits dest: turn_down_no_text)

lemma ends_bridge_turn: "ends_bridge e \<Longrightarrow> bridge_turn env e s \<noteq> (s', None)"
  by (cases e rule: ends_bridge.cases) (auto simp: turn_defs)

lemma bridge_run_ends: "list_ex ends_bridge es \<Longrightarrow> snd (bridge_run env es s) \<noteq> None"
  by (induction es arbitrary: s) (auto split: prod.split option.split dest: ends_bridge_turn)

lemma bridge_run_append:
  "snd (bridge_run env es s) \<noteq> None \<Longrightarrow> bridge_run env (es @ rest) s = bridge_run env es s"
  by (induction es arbitrary: s) (auto split: prod.splits option.splits)

lemma bridge_events_end: "length cs + length us < length w \<Longrightarrow> list_ex ends_bridge (bridge_events w cs us)"
  by (induction w cs us rule: bridge_events.induct) auto

lemma ws_upgrade_handler_Upgrade:
  "ws_upgrade_handler hdr parse_id registry_get table meta = Upgrade url keys aad \<longleftrightarrow>
     (\<exists>raw i session route. wm_base_id meta = Some raw \<and> parse_id raw = Some i \<and> registry_get i = Some session
        \<and> se_is_alive session \<and> aad = session_aad session \<and> ws_keys_from_session session = Ok (Some keys)
        \<and> route_table_select table (wm_host meta) (wm_path meta) = Some route
        \<and> build_upstream_ws_url (r_upstream route) (wm_path meta) (wm_query meta) = Ok url)"
  by (auto simp: ws_upgrade_handler_def bind_eq_Some_conv split: option.splits sum.splits if_splits)

lemma bridge_start_Ok:
  "bridge_start ae connect bound_new key_new url keys aad = Ok (env, s) \<Longrightarrow>
     be_aead env = ae \<and> be_aad env = aad \<and> be_in_iv env = wk_client_write_iv keys
     \<and> br_last_counter s = 0 \<and> br_up s = [] \<and> br_down s = []"
  by (auto simp: bridge_start_def result_bind_eq_Ok)

lemma bridge_run_inbound:
  assumes "bridge_start ae connect bound_new key_new url keys aad = Ok (env, s)"
  shows "\<exists>gs l. prefix gs (client_frames es)
    \<and> decode_all ae (be_in_key env) (wk_client_write_iv keys) aad 0 gs = (l, Ok (forwarded (fst (bridge_run env es s))))"
  using bridge_start_Ok [OF assms] run_inbound [of env 0 "[]" s es] by (auto simp: passing)

section \<open>Properties\<close>

text \<open>
  C6: Every application message the bridge forwards to the upstream came out of a client frame
  that opened under the session's inbound key and associated data, in the order the client
  sent them: the forwarded messages are the decoding of an initial part of the client's binary
  frames, whose counters ascend strictly from above zero. Nothing else the client sends, no
  plaintext text frame and no replayed frame, gets through, whatever the order in which the two
  sockets deliver and wherever the bridge stops.
\<close>
theorem bridge_forwards_authentic:
  assumes "bridge_start ae connect bound_new key_new url keys aad = Ok (env, s)"
  shows "\<exists>gs l. prefix gs (client_frames es)
    \<and> decode_all ae (be_in_key env) (wk_client_write_iv keys) aad 0 gs = (l, Ok (forwarded (fst (bridge_run env es s))))
    \<and> sorted_wrt (<) (0 # map (\<lambda>f. extract_counter (take 12 f) (wk_client_write_iv keys)) gs)"
  using bridge_run_inbound [OF assms, of es] decode_all_counters by metis

text \<open>
  C31: Towards the client the bridge sends no application data in the clear: it never sends a text
  frame, and its binary frames are the sealing, under the outbound key with consecutive counters,
  of an initial part of the upstream's text and binary messages, in order.
\<close>
theorem bridge_seals_downstream:
  assumes "bridge_start ae connect bound_new key_new url keys aad = Ok (env, s)"
  shows "(\<exists>qs key'. prefix qs (upstream_payloads es)
      \<and> encode_all ae (br_out_key s) aad qs = Ok (sealed (fst (bridge_run env es s)), key'))
    \<and> AxText t \<notin> set (br_down (fst (bridge_run env es s)))"
proof -
  note start = bridge_start_Ok [OF assms]
  then have "encode_all (be_aead env) (br_out_key s) (be_aad env) [] = Ok (sealed s, br_out_key s)"
    by (simp add: passing)
  from run_outbound [OF this, of es] start run_down_no_text [of t s env es] show ?thesis
    by auto
qed

text \<open>
  The upgrade is dialled with the security of the route's upstream: an upstream whose base is
  \<open>https\<close> or \<open>wss\<close> is only ever reached over \<open>wss\<close>, one that is \<open>http\<close> or \<open>ws\<close> over
  \<open>ws\<close>, with the request's path and query behind it, and any other scheme is refused.
\<close>
theorem upstream_ws_url_scheme:
  "case build_upstream_ws_url upstream path query of
     Err e \<Rightarrow> \<not> list_ex (starts_with (trim_end_matches (CHR ''/'') upstream)) [''https://'', ''wss://'', ''http://'', ''ws://'']
   | Ok url \<Rightarrow>
       (\<exists>authority. url = (if list_ex (starts_with (trim_end_matches (CHR ''/'') upstream)) [''https://'', ''wss://'']
           then ''wss://'' else ''ws://'') @ authority @ path @ (case query of None \<Rightarrow> [] | Some q \<Rightarrow> CHR ''?'' # q))"
  by (auto simp: build_upstream_ws_url_def Let_def result_bind_def strip_prefix_eq_Some strip_prefix_eq_None
      starts_with_iff split: option.split sum.split)

text \<open>
  C8: A bridge ends. Whatever the order in which \<open>select!\<close> polls the sockets, it returns
  within one turn more than the two sockets have items; and an end, an error or a close on either side ends it at the
  latest, whatever the other side still has to say and whatever follows.
\<close>
theorem bridge_terminates:
  "(length cs + length us < length w \<longrightarrow>
      snd (run_bridge ae connect bound_new key_new url keys aad w cs us) \<noteq> None)
   \<and> (list_ex ends_bridge es \<longrightarrow> snd (bridge_run env es s) \<noteq> None \<and> bridge_run env (es @ rest) s = bridge_run env es s)"
proof (intro conjI impI)
  assume "length cs + length us < length w"
  note returns = bridge_run_ends [OF bridge_events_end [OF this]]
  show "snd (run_bridge ae connect bound_new key_new url keys aad w cs us) \<noteq> None"
  proof (cases "bridge_start ae connect bound_new key_new url keys aad")
    case (Inr start)
    then show ?thesis
      using returns [of "fst start" "snd start"] by (simp add: run_bridge_def case_prod_beta)
  qed (simp add: run_bridge_def)
qed (simp_all add: bridge_run_ends bridge_run_append)

subsection \<open>Examples\<close>

definition example_session :: "unit Session" where
  "example_session =
     \<lparr>se_id = ''7'', se_is_alive = True, se_algorithm = (),
      se_peek_keys = Some \<lparr>sk_server_write_key = [1], sk_server_write_iv = replicate 12 3,
        sk_client_write_key = [2], sk_client_write_iv = replicate 12 3\<rparr>\<rparr>"

definition example_keys :: "unit WsKeys" where
  "example_keys =
     \<lparr>wk_server_write_key = [1], wk_server_write_iv = replicate 12 3,
      wk_client_write_key = [2], wk_client_write_iv = replicate 12 3, wk_algorithm = ()\<rparr>"

definition example_bridge_env :: "(unit, 64 word) BridgeEnv" where
  "example_bridge_env =
     \<lparr>be_aead = plain_aead (replicate 12 3), be_in_key = (), be_in_iv = replicate 12 3, be_aad = []\<rparr>"

definition example_bridge :: "64 word Bridge" where
  "example_bridge = \<lparr>br_last_counter = 0, br_out_key = 1, br_up = [], br_down = []\<rparr>"

lemma example_bridge_start:
  "bridge_start (plain_aead (replicate 12 3)) (\<lambda>_. Ok ()) (\<lambda>_ _ _. Ok 1) (\<lambda>_ _. Ok ()) ''ws://a'' example_keys []
     = Ok (example_bridge_env, example_bridge)"
  by (simp add: bridge_start_def result_bind_def map_err_def example_keys_def example_bridge_env_def example_bridge_def)

theorem bridge_forwards_authentic_witness:
  "\<exists>gs. prefix gs (client_frames [ClientNext (Some (Ok (AxText ''plain''))) (Ok ())])
    \<and> (\<exists>l. decode_all (plain_aead (replicate 12 3)) () (replicate 12 3) [] 0 gs =
         (l, Ok (forwarded (fst (bridge_run example_bridge_env [ClientNext (Some (Ok (AxText ''plain''))) (Ok ())] example_bridge)))))"
  using bridge_forwards_authentic [OF example_bridge_start, of "[ClientNext (Some (Ok (AxText ''plain''))) (Ok ())]"]
  by (auto simp: example_keys_def example_bridge_env_def)

theorem bridge_seals_downstream_witness:
  "AxText ''hi'' \<notin> set (br_down (fst (bridge_run example_bridge_env [UpstreamNext (Some (Ok (UpText ''hi''))) (Ok ())] example_bridge)))"
  using bridge_seals_downstream [OF example_bridge_start] by blast

theorem bridge_terminates_witness:
  "snd (run_bridge (plain_aead (replicate 12 3)) (\<lambda>_. Ok ()) (\<lambda>_ _ _. Ok (1 :: 64 word)) (\<lambda>_ _. Ok ()) ''ws://a'' example_keys []
     [False, True, True] [(Ok (AxPing [1]), Ok ())] [(Ok (UpText ''hi''), Ok ())]) \<noteq> None"
proof -
  have "length [(Ok (AxPing [1]) :: string + AxumMessage, Ok () :: string + unit)]
      + length [(Ok (UpText ''hi'') :: string + UpMessage, Ok () :: string + unit)] < length [False, True, True]"
    by simp
  from bridge_terminates [THEN conjunct1, THEN mp, OF this] show ?thesis .
qed

end
