(* ===== verification/Metrics.thy ===== *)
theory Metrics
  imports Prelude "HOL-Library.Multiset" "HOL-Library.Log_Nat"
begin

text \<open>
  Process metrics (\<open>src/metrics.rs\<close>). Every counter is an \<open>AtomicU64\<close> changed only by
  \<open>fetch_add\<close>, which wraps; the methods are lists of such atomic additions, so that
  what concurrent requests can interleave is explicit. A latency is a non-negative finite \<open>f64\<close>,
  represented exactly as a mantissa and a binary exponent, with the rounding of IEEE
  multiplication and division, of \<open>f64::round\<close> and of the saturating cast to \<open>u64\<close> written out.
\<close>

section \<open>Non-negative finite doubles\<close>

text \<open>\<open>F64 m e\<close> is the number \<open>m * 2 ^ e\<close>.\<close>

datatype f64 = F64 (mantissa: nat) (binexp: int)

fun f64_le :: "f64 \<Rightarrow> f64 \<Rightarrow> bool" where
  "f64_le (F64 m e) (F64 n f) \<longleftrightarrow> m * 2 ^ nat (e - f) \<le> n * 2 ^ nat (f - e)"

text \<open>Rounding to 53 significant bits, half to even.\<close>

fun f64_nearest :: "f64 \<Rightarrow> f64" where
  "f64_nearest (F64 m e) =
     (let k = floorlog 2 m - 53 in
      if k = 0 then F64 m e
      else
        let q = m div 2 ^ k; r = m mod 2 ^ k; half = 2 ^ (k - 1)
        in F64 (if half < r \<or> (r = half \<and> odd q) then q + 1 else q) (e + int k))"

fun f64_mul :: "f64 \<Rightarrow> f64 \<Rightarrow> f64" where
  "f64_mul (F64 m e) (F64 n f) = f64_nearest (F64 (m * n) (e + f))"

text \<open>Division by a non-zero number: enough quotient bits, and one that says whether it is exact.\<close>

fun f64_div :: "f64 \<Rightarrow> f64 \<Rightarrow> f64" where
  "f64_div (F64 m e) (F64 n f) =
     (let s = 55 + floorlog 2 n; q = (m * 2 ^ s) div n; sticky = (if (m * 2 ^ s) mod n = 0 then 0 else 1)
      in f64_nearest (F64 (2 * q + sticky) (e - f - int s - 1)))"

text \<open>\<open>f64::round\<close>, half away from zero, and \<open>as u64\<close>, which saturates.\<close>

fun f64_round_u64 :: "f64 \<Rightarrow> nat" where
  "f64_round_u64 (F64 m e) =
     min u64_max (if 0 \<le> e then m * 2 ^ nat e else (m + 2 ^ (nat (- e) - 1)) div 2 ^ nat (- e))"

definition f64_of_u64 :: "64 word \<Rightarrow> f64" where
  "f64_of_u64 w = f64_nearest (F64 (unat w) 0)"

section \<open>The counters\<close>

text \<open>The bucket bounds are the doubles nearest to 0.005, 0.01, 0.025, 0.05, 0.1, 0.25, 0.5, 1, 2.5, 5 and 10.\<close>

definition LATENCY_BUCKETS_SECS :: "f64 list" where
  "LATENCY_BUCKETS_SECS =
     [F64 5764607523034235 (- 60), F64 5764607523034235 (- 59), F64 3602879701896397 (- 57),
      F64 3602879701896397 (- 56), F64 3602879701896397 (- 55), F64 1 (- 2), F64 1 (- 1), F64 1 0,
      F64 5 (- 1), F64 5 0, F64 10 0]"

record Metrics =
  handshakes_total :: u64
  decrypt_failures_total :: u64
  upstream_requests_total :: u64
  upstream_errors_total :: u64
  latency_buckets :: "u64 list"
  latency_count :: u64
  latency_sum_micros :: u64

definition metrics_new :: Metrics where
  "metrics_new =
     \<lparr>handshakes_total = 0, decrypt_failures_total = 0, upstream_requests_total = 0,
      upstream_errors_total = 0, latency_buckets = map (\<lambda>_. 0) LATENCY_BUCKETS_SECS,
      latency_count = 0, latency_sum_micros = 0\<rparr>"

text \<open>The atomic steps: one \<open>fetch_add\<close> on one cell.\<close>

datatype Cell =
    Handshakes | DecryptFailures | UpstreamRequests | UpstreamErrors
  | Bucket nat | LatencyCount | LatencySum

fun fetch_add :: "Cell \<times> u64 \<Rightarrow> Metrics \<Rightarrow> Metrics" where
  "fetch_add (Handshakes, n) m = m\<lparr>handshakes_total := handshakes_total m + n\<rparr>"
| "fetch_add (DecryptFailures, n) m = m\<lparr>decrypt_failures_total := decrypt_failures_total m + n\<rparr>"
| "fetch_add (UpstreamRequests, n) m = m\<lparr>upstream_requests_total := upstream_requests_total m + n\<rparr>"
| "fetch_add (UpstreamErrors, n) m = m\<lparr>upstream_errors_total := upstream_errors_total m + n\<rparr>"
| "fetch_add (Bucket i, n) m = m\<lparr>latency_buckets := (latency_buckets m)[i := latency_buckets m ! i + n]\<rparr>"
| "fetch_add (LatencyCount, n) m = m\<lparr>latency_count := latency_count m + n\<rparr>"
| "fetch_add (LatencySum, n) m = m\<lparr>latency_sum_micros := latency_sum_micros m + n\<rparr>"

definition metrics_apply :: "(Cell \<times> u64) list \<Rightarrow> Metrics \<Rightarrow> Metrics" where
  "metrics_apply ops m = fold fetch_add ops m"

definition metrics_default :: Metrics where
  "metrics_default = metrics_new"

definition inc_handshakes :: "Metrics \<Rightarrow> Metrics" where
  "inc_handshakes m = fetch_add (Handshakes, 1) m"

definition inc_decrypt_failures :: "Metrics \<Rightarrow> Metrics" where
  "inc_decrypt_failures m = fetch_add (DecryptFailures, 1) m"

definition inc_upstream_requests :: "Metrics \<Rightarrow> Metrics" where
  "inc_upstream_requests m = fetch_add (UpstreamRequests, 1) m"

definition inc_upstream_errors :: "Metrics \<Rightarrow> Metrics" where
  "inc_upstream_errors m = fetch_add (UpstreamErrors, 1) m"

definition latency_micros :: "f64 \<Rightarrow> nat" where
  "latency_micros secs = f64_round_u64 (f64_mul secs (F64 1000000 0))"

text \<open>The additions of one observation, in program order.\<close>

definition observe_ops :: "f64 \<Rightarrow> (Cell \<times> u64) list" where
  "observe_ops secs =
     map (\<lambda>(i, ub). (Bucket i, 1))
       (filter (\<lambda>(i, ub). f64_le secs ub) (enumerate 0 LATENCY_BUCKETS_SECS)) @
     [(LatencyCount, 1), (LatencySum, of_nat (latency_micros secs))]"

definition observe_upstream_latency :: "f64 \<Rightarrow> Metrics \<Rightarrow> Metrics" where
  "observe_upstream_latency secs m = metrics_apply (observe_ops secs) m"

section \<open>The exposition\<close>

definition writeln :: "string \<Rightarrow> string" where
  "writeln s = s @ newline"

definition render_counter :: "string \<Rightarrow> string \<Rightarrow> u64 \<Rightarrow> string" where
  "render_counter name help v =
     writeln (''# HELP '' @ name @ '' '' @ help) @
     writeln (''# TYPE '' @ name @ '' counter'') @
     writeln (name @ '' '' @ string_of_nat (unat v))"

text \<open>\<open>show_f64\<close> is the formatting of an \<open>f64\<close> by \<open>Display\<close>.\<close>

definition render_prometheus :: "(f64 \<Rightarrow> string) \<Rightarrow> Metrics \<Rightarrow> nat \<Rightarrow> string" where
  "render_prometheus show_f64 m active_sessions =
     render_counter ''archetype_proxy_handshakes_total''
       ''Total attestation handshakes served on /attest.'' (handshakes_total m) @
     render_counter ''archetype_proxy_decrypt_failures_total''
       ''Total trusted-request decrypt/MAC verification failures.'' (decrypt_failures_total m) @
     render_counter ''archetype_proxy_upstream_requests_total''
       ''Total upstream requests attempted.'' (upstream_requests_total m) @
     render_counter ''archetype_proxy_upstream_errors_total''
       ''Total upstream requests that failed at the transport level.'' (upstream_errors_total m) @
     writeln ''# HELP archetype_proxy_active_sessions Live AtB sessions in the registry.'' @
     writeln ''# TYPE archetype_proxy_active_sessions gauge'' @
     writeln (''archetype_proxy_active_sessions '' @ string_of_nat active_sessions) @
     writeln ''# HELP archetype_proxy_upstream_latency_seconds Upstream round-trip latency.'' @
     writeln ''# TYPE archetype_proxy_upstream_latency_seconds histogram'' @
     concat (map (\<lambda>(idx, ub).
       writeln (''archetype_proxy_upstream_latency_seconds_bucket{le='' @ in_quotes (show_f64 ub) @ ''} ''
         @ string_of_nat (unat (latency_buckets m ! idx)))) (enumerate 0 LATENCY_BUCKETS_SECS)) @
     writeln (''archetype_proxy_upstream_latency_seconds_bucket{le='' @ in_quotes ''+Inf'' @ ''} ''
       @ string_of_nat (unat (latency_count m))) @
     writeln (''archetype_proxy_upstream_latency_seconds_sum ''
       @ show_f64 (f64_div (f64_of_u64 (latency_sum_micros m)) (F64 1000000 0))) @
     writeln (''archetype_proxy_upstream_latency_seconds_count '' @ string_of_nat (unat (latency_count m)))"

section \<open>Lemmas\<close>

lemma metrics_apply_append: "metrics_apply (as @ bs) m = metrics_apply bs (metrics_apply as m)"
  by (simp add: metrics_apply_def)

lemma metrics_apply_simps [simp]:
  "metrics_apply [] m = m"
  "metrics_apply (op # ops) m = metrics_apply ops (fetch_add op m)"
  by (simp_all add: metrics_apply_def)

lemma add_at_swap:
  fixes xs :: "'a::comm_monoid_add list"
  shows "xs[j := xs ! j + k, i := xs[j := xs ! j + k] ! i + n] = xs[i := xs ! i + n, j := xs[i := xs ! i + n] ! j + k]"
  by (cases "i = j"; cases "i < length xs")
    (simp_all add: list_update_swap nth_list_update add.assoc add.commute [of k] list_update_beyond)

lemma fetch_add_commute: "fetch_add a (fetch_add b m) = fetch_add b (fetch_add a m)"
proof -
  obtain c n d k where ab: "a = (c, n)" "b = (d, k)" by (cases a; cases b)
  show ?thesis
    by (cases c; cases d) (simp_all add: ab add.assoc add.commute [of n] add_at_swap)
qed

text \<open>Only the additions count, not their order.\<close>

lemma metrics_apply_mset: "mset ops = mset ops' \<Longrightarrow> metrics_apply ops m = metrics_apply ops' m"
  unfolding metrics_apply_def
  by (rule fun_cong [OF fold_multiset_equiv]) (simp_all add: fun_eq_iff fetch_add_commute)

fun cell :: "Cell \<Rightarrow> Metrics \<Rightarrow> u64" where
  "cell Handshakes m = handshakes_total m"
| "cell DecryptFailures m = decrypt_failures_total m"
| "cell UpstreamRequests m = upstream_requests_total m"
| "cell UpstreamErrors m = upstream_errors_total m"
| "cell (Bucket i) m = latency_buckets m ! i"
| "cell LatencyCount m = latency_count m"
| "cell LatencySum m = latency_sum_micros m"

fun has_cell :: "Metrics \<Rightarrow> Cell \<Rightarrow> bool" where
  "has_cell m (Bucket i) = (i < length (latency_buckets m))"
| "has_cell m _ = True"

definition added :: "Cell \<Rightarrow> (Cell \<times> u64) list \<Rightarrow> u64" where
  "added c ops = sum_list (map snd (filter (\<lambda>op. fst op = c) ops))"

lemma length_buckets_fetch_add [simp]: "length (latency_buckets (fetch_add op m)) = length (latency_buckets m)"
  by (cases "(op, m)" rule: fetch_add.cases) simp_all

lemma has_cell_fetch_add [simp]: "has_cell (fetch_add op m) c = has_cell m c"
  by (cases c) simp_all

lemma cell_fetch_add: "has_cell m c \<Longrightarrow> cell c (fetch_add (d, n) m) = cell c m + (if d = c then n else 0)"
  by (cases d; cases c) (auto simp: nth_list_update)

lemma cell_metrics_apply: "has_cell m c \<Longrightarrow> cell c (metrics_apply ops m) = cell c m + added c ops"
  by (induction ops arbitrary: m) (auto simp: added_def cell_fetch_add)

lemma length_buckets_apply: "length (latency_buckets (metrics_apply ops m)) = length (latency_buckets m)"
  by (induction ops arbitrary: m) simp_all

lemma added_append [simp]: "added c (as @ bs) = added c as + added c bs"
  by (simp add: added_def)

lemma added_buckets:
  "i < length xs \<Longrightarrow>
     added (Bucket i) (map (\<lambda>(j, ub). (Bucket j, 1)) (filter (\<lambda>(j, ub). P ub) (enumerate 0 xs))) = (if P (xs ! i) then 1 else 0)"
proof (induction xs rule: rev_induct)
  case (snoc x xs)
  have none: "added (Bucket j) (map (\<lambda>(j, ub). (Bucket j, 1)) (filter (\<lambda>(j, ub). P ub) (enumerate 0 xs))) = 0"
    if "length xs \<le> j" for j
    unfolding added_def using that by (subst filter_False) (auto dest!: in_set_enumerate_eq [THEN iffD1])
  from snoc none show ?case
    by (cases "i < length xs") (auto simp: enumerate_append_eq nth_append added_def less_Suc_eq)
qed simp

lemma added_observe:
  "i < length LATENCY_BUCKETS_SECS \<Longrightarrow> added (Bucket i) (observe_ops s) = (if f64_le s (LATENCY_BUCKETS_SECS ! i) then 1 else 0)"
  "added LatencyCount (observe_ops s) = 1"
  "added LatencySum (observe_ops s) = of_nat (latency_micros s)"
proof -
  let ?bs = "map (\<lambda>(i, ub). (Bucket i, 1)) (filter (\<lambda>(i, ub). f64_le s ub) (enumerate 0 LATENCY_BUCKETS_SECS)) :: (Cell \<times> u64) list"
  have "added LatencyCount ?bs = 0" "added LatencySum ?bs = 0"
    unfolding added_def by (subst filter_False; auto)+
  then show "added LatencyCount (observe_ops s) = 1" "added LatencySum (observe_ops s) = of_nat (latency_micros s)"
    unfolding observe_ops_def added_append by (simp_all add: added_def)
  show "added (Bucket i) (observe_ops s) = (if f64_le s (LATENCY_BUCKETS_SECS ! i) then 1 else 0)"
    if "i < length LATENCY_BUCKETS_SECS"
    unfolding observe_ops_def added_append added_buckets [OF that, where P = "f64_le s"] by (simp add: added_def)
qed

lemma added_observations:
  "i < length LATENCY_BUCKETS_SECS \<Longrightarrow>
     added (Bucket i) (concat (map observe_ops obs)) = of_nat (length (filter (\<lambda>s. f64_le s (LATENCY_BUCKETS_SECS ! i)) obs))"
  "added LatencyCount (concat (map observe_ops obs)) = of_nat (length obs)"
  "added LatencySum (concat (map observe_ops obs)) = of_nat (sum_list (map latency_micros obs))"
  by (induction obs) (simp_all add: added_observe added_def [of _ "[]"])

subsection \<open>The order of doubles\<close>

lemma f64_le_common:
  assumes "g \<le> e" "g \<le> f"
  shows "f64_le (F64 m e) (F64 n f) \<longleftrightarrow> m * 2 ^ nat (e - g) \<le> n * 2 ^ nat (f - g)"
proof (cases "f \<le> e")
  case True
  then have "nat (e - g) = nat (e - f) + nat (f - g)" using assms by simp
  with True show ?thesis by (simp add: power_add)
next
  case False
  then have "nat (f - g) = nat (f - e) + nat (e - g)" using assms by simp
  with False show ?thesis by (simp add: power_add)
qed

lemma f64_le_trans:
  assumes "f64_le x y" "f64_le y z"
  shows "f64_le x z"
proof -
  obtain m e n f k h where xyz: "x = F64 m e" "y = F64 n f" "z = F64 k h" by (metis f64.exhaust)
  let ?g = "min e (min f h)"
  have "?g \<le> e" "?g \<le> f" "?g \<le> h" by simp_all
  with assms show ?thesis unfolding xyz
    by (simp only: f64_le_common [where g = ?g])
qed

lemma buckets_ascending: "sorted_wrt f64_le LATENCY_BUCKETS_SECS"
  by code_simp

lemma histogram_final:
  assumes "mset ops = mset (concat (map observe_ops obs))"
  shows "latency_buckets (metrics_apply ops metrics_new) =
      map (\<lambda>ub. of_nat (length (filter (\<lambda>s. f64_le s ub) obs))) LATENCY_BUCKETS_SECS
    \<and> latency_count (metrics_apply ops metrics_new) = of_nat (length obs)
    \<and> latency_sum_micros (metrics_apply ops metrics_new) = of_nat (sum_list (map latency_micros obs))"
proof -
  let ?ops = "concat (map observe_ops obs)"
  let ?m = "metrics_apply ops metrics_new"
  have m: "?m = metrics_apply ?ops metrics_new"
    using assms by (rule metrics_apply_mset)
  have new0: "i < length LATENCY_BUCKETS_SECS \<Longrightarrow> latency_buckets metrics_new ! i = 0" for i
    by (simp add: metrics_new_def)
  have "latency_buckets ?m = map (\<lambda>ub. of_nat (length (filter (\<lambda>s. f64_le s ub) obs))) LATENCY_BUCKETS_SECS"
  proof (rule nth_equalityI)
    show len: "length (latency_buckets ?m) = length (map (\<lambda>ub. of_nat (length (filter (\<lambda>s. f64_le s ub) obs)) :: u64) LATENCY_BUCKETS_SECS)"
      by (simp add: length_buckets_apply metrics_new_def)
    fix i assume "i < length (latency_buckets ?m)"
    then have i: "i < length LATENCY_BUCKETS_SECS" using len by simp
    then have "has_cell metrics_new (Bucket i)" by (simp add: metrics_new_def)
    from cell_metrics_apply [OF this, of ?ops] i new0 [of i]
    show "latency_buckets ?m ! i = map (\<lambda>ub. of_nat (length (filter (\<lambda>s. f64_le s ub) obs))) LATENCY_BUCKETS_SECS ! i"
      by (simp add: m added_observations)
  qed
  moreover have "cell c ?m = cell c metrics_new + added c ?ops" if "has_cell metrics_new c" for c
    unfolding m by (rule cell_metrics_apply [OF that])
  from this [of LatencyCount] this [of LatencySum] have "latency_count ?m = of_nat (length obs)"
    "latency_sum_micros ?m = of_nat (sum_list (map latency_micros obs))"
    by (simp_all add: added_observations metrics_new_def)
  ultimately show ?thesis by simp
qed

section \<open>Properties\<close>

text \<open>
  C36: However the atomic additions of concurrent latency observations interleave, the
  histogram ends with, in each bucket, the number of observations up to its bound, in the total their number, and
  in the sum their microseconds, all modulo the 64 bits of the counters.
\<close>
theorem metrics_histogram:
  assumes "mset ops = mset (concat (map observe_ops obs))"
  shows "latency_buckets (metrics_apply ops metrics_new) =
      map (\<lambda>ub. of_nat (length (filter (\<lambda>s. f64_le s ub) obs))) LATENCY_BUCKETS_SECS
    \<and> latency_count (metrics_apply ops metrics_new) = of_nat (length obs)
    \<and> latency_sum_micros (metrics_apply ops metrics_new) = of_nat (sum_list (map latency_micros obs))"
  using assms by (rule histogram_final)

text \<open>
  As a Prometheus histogram must be, the buckets are cumulative: as long as fewer than
  \<open>2 ^ 64\<close> latencies were observed, the bucket values ascend with their bounds up to the total.
\<close>
theorem metrics_buckets_cumulative:
  assumes "length obs < 2 ^ 64"
  shows "sorted (map unat (latency_buckets (fold observe_upstream_latency obs metrics_new))
    @ [unat (latency_count (fold observe_upstream_latency obs metrics_new))])"
proof -
  have run: "fold observe_upstream_latency obs m = metrics_apply (concat (map observe_ops obs)) m" for m
    by (induction obs arbitrary: m) (simp_all add: observe_upstream_latency_def metrics_apply_append)
  let ?n = "\<lambda>ub. length (filter (\<lambda>s. f64_le s ub) obs)"
  have small: "unat (of_nat (?n ub) :: u64) = ?n ub" for ub
  proof -
    have "?n ub < 2 ^ 64" using assms length_filter_le [of _ obs] order_le_less_trans by blast
    then show ?thesis by (simp add: unsigned_of_nat take_bit_nat_eq_self)
  qed
  have total: "unat (of_nat (length obs) :: u64) = length obs"
    using assms by (simp add: unsigned_of_nat take_bit_nat_eq_self)
  have "sorted (map ?n LATENCY_BUCKETS_SECS)"
    unfolding sorted_map
  proof (rule sorted_wrt_mono_rel [OF _ buckets_ascending])
    fix x y assume "f64_le x y"
    then have "filter (\<lambda>s. f64_le s x) obs = filter (\<lambda>s. f64_le s x) (filter (\<lambda>s. f64_le s y) obs)"
      by (auto simp: intro!: filter_cong dest: f64_le_trans)
    then show "?n x \<le> ?n y" by (metis length_filter_le)
  qed
  then show ?thesis
    using histogram_final [OF refl, of obs] by (simp add: run small total sorted_append comp_def)
qed

theorem metrics_histogram_witness:
  "latency_buckets (metrics_apply (rev (concat (map observe_ops [F64 1 0, F64 1 (- 1)]))) metrics_new) =
     map (\<lambda>ub. of_nat (length (filter (\<lambda>s. f64_le s ub) [F64 1 0, F64 1 (- 1)]))) LATENCY_BUCKETS_SECS"
  using metrics_histogram [of "rev (concat (map observe_ops [F64 1 0, F64 1 (- 1)]))" "[F64 1 0, F64 1 (- 1)]"]
  by (metis mset_rev)

theorem metrics_buckets_cumulative_witness:
  "sorted (map unat (latency_buckets (fold observe_upstream_latency [F64 1 0, F64 1 (- 1)] metrics_new))
    @ [unat (latency_count (fold observe_upstream_latency [F64 1 0, F64 1 (- 1)] metrics_new))])"
  by (rule metrics_buckets_cumulative) simp

end
