(* ===== verification/Proxy.thy ===== *)
theory Proxy
  imports Ws_Bridge Metrics
begin

text \<open>
  The attested reverse proxy (\<open>src/proxy.rs\<close>, \<open>src/envelope.rs\<close>): the extractor that
  authenticates and decrypts a trusted request, the handler that routes it, calls the upstream and
  streams the sealed reply, the observability endpoints, and the two middlewares of \<open>build_router\<close>.
  The session extractor, the ticket and AHL encoders, HMAC, AEAD, JSON, hex and body buffering are
  parameters collected in \<open>ProxyLib\<close>; the upstream call is a parameter of the handler. A
  response is either a bare status line or frames sealed under a session.
\<close>

section \<open>Frames of a response\<close>

datatype StreamFrame =
    Head nat "(string \<times> string) list"
  | Body bytes

definition bytes_hex_serialize :: "(bytes \<Rightarrow> string) \<Rightarrow> bytes \<Rightarrow> string" where
  "bytes_hex_serialize hex_encode bs = hex_encode bs"

definition bytes_hex_deserialize :: "(string \<Rightarrow> string + bytes) \<Rightarrow> string + string \<Rightarrow> string + bytes" where
  "bytes_hex_deserialize hex_decode field = result_bind field hex_decode"

datatype LlmError = Transport string

datatype 's Response =
    Bare nat string
  | Sealed 's "(LlmError + StreamFrame) list"

text \<open>What ends a request early: a response, or a panic of the handler task.\<close>

datatype 's Rejection = Reject "'s Response" | Panicked

section \<open>Requests\<close>

text \<open>
  A header map lists names in lower case with their values, \<open>None\<close> for a value that is not a \<open>str\<close>;
  \<open>get\<close> gives the first value of a name.
\<close>

type_synonym headers = "(string \<times> string option) list"

definition header_get :: "headers \<Rightarrow> string \<Rightarrow> string option option" where
  "header_get hs name = map_of hs name"

definition header_str :: "headers \<Rightarrow> string \<Rightarrow> string option" where
  "header_str hs name = Option.bind (header_get hs name) id"

record Uri =
  uri_path :: string
  uri_query :: "string option"
  uri_authority :: "string option"

record 'body Request =
  rq_method :: string
  rq_uri :: Uri
  rq_original_uri :: "Uri option"
  rq_headers :: headers
  rq_body :: 'body

record 's DecryptedRequest =
  dr_session :: 's
  dr_method :: string
  dr_path :: string
  dr_query :: "string option"
  dr_host :: string
  dr_body :: bytes

record TrrKeys =
  tk_client_mac_key :: bytes
  tk_client_write_key :: bytes
  tk_client_write_iv :: bytes

datatype TrailerError = TrailerMissing | TrailerInvalid string

record ('body, 's, 'h, 'k) ProxyLib =
  pl_session :: "'body Request \<Rightarrow> 's Response + 's"
  pl_session_aad :: "'s \<Rightarrow> bytes"
  pl_decode_attest_ticket :: "headers \<Rightarrow> TrailerError + (64 word \<times> bytes)"
  pl_to_bytes :: "'body \<Rightarrow> nat \<Rightarrow> string + bytes"
  pl_json_ciphertext :: "bytes \<Rightarrow> string + string"
  pl_hex_decode :: "string \<Rightarrow> string + bytes"
  pl_with_keys_for_trr :: "'s \<Rightarrow> 64 word \<Rightarrow> string + TrrKeys"
  pl_hmac_new :: "bytes \<Rightarrow> 'h option"
  pl_hmac_update :: "bytes \<Rightarrow> 'h \<Rightarrow> 'h"
  pl_hmac_verify :: "'h \<Rightarrow> bytes \<Rightarrow> bool"
  pl_update_ahl :: "string \<Rightarrow> string \<Rightarrow> string option \<Rightarrow> string \<Rightarrow> headers \<Rightarrow> string + bytes list"
  pl_nonce_from_slice :: "bytes \<Rightarrow> string + bytes"
  pl_bound_key_new :: "bytes \<Rightarrow> bytes \<Rightarrow> 'k option"
  pl_open :: "'k \<Rightarrow> bytes \<Rightarrow> bytes \<Rightarrow> bytes \<Rightarrow> string + bytes"
  pl_method_from_bytes :: "string \<Rightarrow> string option"

definition HDR_ATTEST_REAL_METHOD :: string where
  "HDR_ATTEST_REAL_METHOD = ''attest-real-method''"

definition JSON_OVERHEAD :: nat where
  "JSON_OVERHEAD = 64"

definition pre_decrypt_cap :: "nat \<Rightarrow> nat" where
  "pre_decrypt_cap max_body_bytes =
     saturating_add (saturating_mul (saturating_add max_body_bytes 16) 2) JSON_OVERHEAD"

definition request_path :: "'body Request \<Rightarrow> string" where
  "request_path req = (case rq_original_uri req of None \<Rightarrow> uri_path (rq_uri req) | Some u \<Rightarrow> uri_path u)"

definition request_query :: "'body Request \<Rightarrow> string option" where
  "request_query req = (case rq_original_uri req of None \<Rightarrow> uri_query (rq_uri req) | Some u \<Rightarrow> uri_query u)"

definition request_authority :: "'body Request \<Rightarrow> string" where
  "request_authority req =
     (case uri_authority (rq_uri req) of
        Some a \<Rightarrow> a
      | None \<Rightarrow> unwrap_or [] (header_str (rq_headers req) ''host''))"

text \<open>The nonce of a trusted request: the counter mixed into the last eight bytes of the IV.\<close>

definition trr_nonce :: "bytes \<Rightarrow> 64 word \<Rightarrow> bytes" where
  "trr_nonce iv nonce_val = take 4 iv @ xor_bytes (drop 4 iv) (u64_to_be_bytes nonce_val)"

text \<open>The closure run with the session's keys: verify the ticket's MAC, then open the body.\<close>

definition verify_and_open ::
  "('body, 's, 'h, 'k) ProxyLib \<Rightarrow> 's \<Rightarrow> 64 word \<Rightarrow> bytes \<Rightarrow> 'body Request \<Rightarrow> bytes \<Rightarrow> TrrKeys \<Rightarrow> 's Rejection + bytes" where
  "verify_and_open lib session nonce_val mac_val req ciphertext keys =
     (case pl_hmac_new lib (tk_client_mac_key keys) of
        None \<Rightarrow> Err (Reject (Bare 500 ''HMAC init failed''))
      | Some hmac \<Rightarrow>
     (let hmac = pl_hmac_update lib (u64_to_be_bytes nonce_val) hmac in
      case pl_update_ahl lib (rq_method req) (request_path req) (request_query req) (request_authority req) (rq_headers req) of
        Err e \<Rightarrow> Err (Reject (Bare 400 (''AHL error: '' @ e)))
      | Ok chunks \<Rightarrow>
      let hmac = fold (pl_hmac_update lib) chunks hmac in
      if \<not> pl_hmac_verify lib hmac mac_val then Err (Reject (Bare 401 ''Invalid header MAC''))
      else if length (tk_client_write_iv keys) \<noteq> 12 then Err Panicked
      else
      (case pl_nonce_from_slice lib (trr_nonce (tk_client_write_iv keys) nonce_val) of
         Err _ \<Rightarrow> Err Panicked
       | Ok aead_nonce \<Rightarrow>
      (case pl_bound_key_new lib (tk_client_write_key keys) (tk_client_write_iv keys) of
         None \<Rightarrow> Err (Reject (Bare 500 ''Key setup failed''))
       | Some bound_key \<Rightarrow>
      (case pl_open lib bound_key aead_nonce (pl_session_aad lib session) ciphertext of
         Err _ \<Rightarrow> Err (Reject (Bare 400 ''Decryption failed''))
       | Ok p \<Rightarrow> Ok p)))))"

definition real_method :: "('body, 's, 'h, 'k) ProxyLib \<Rightarrow> 'body Request \<Rightarrow> string" where
  "real_method lib req =
     unwrap_or (rq_method req)
       (Option.bind (header_str (rq_headers req) HDR_ATTEST_REAL_METHOD) (pl_method_from_bytes lib))"

definition ticket_rejection :: "TrailerError \<Rightarrow> 's Rejection" where
  "ticket_rejection e =
     Reject (Bare (case e of TrailerMissing \<Rightarrow> 401 | TrailerInvalid _ \<Rightarrow> 400) ''Invalid Attest-Ticket format'')"

text \<open>The checks up to the authority, which give the session, the ticket and the ciphertext.\<close>

definition open_envelope ::
  "('body, 's, 'h, 'k) ProxyLib \<Rightarrow> nat \<Rightarrow> 'body Request \<Rightarrow> 's Rejection + ('s \<times> 64 word \<times> bytes \<times> bytes)" where
  "open_envelope lib max_body_bytes req =
     result_bind (map_err Reject (pl_session lib req)) (\<lambda>session.
     result_bind (map_err ticket_rejection (pl_decode_attest_ticket lib (rq_headers req))) (\<lambda>(nonce_val, mac_val).
     result_bind (map_err (\<lambda>_. Reject (Bare 413 ''Encrypted request envelope too large''))
                   (pl_to_bytes lib (rq_body req) (pre_decrypt_cap max_body_bytes))) (\<lambda>body_bytes.
     result_bind (map_err (\<lambda>_. Reject (Bare 400 ''Invalid request envelope''))
                   (pl_json_ciphertext lib body_bytes)) (\<lambda>parsed.
     result_bind (map_err (\<lambda>_. Reject (Bare 400 ''Invalid ciphertext hex'')) (pl_hex_decode lib parsed)) (\<lambda>ciphertext.
     if request_authority req = []
     then Err (Reject (Bare 400 (''Missing Host / authority header '' @ em_dash @ '' required for AHL integrity'')))
     else Ok (session, nonce_val, mac_val, ciphertext))))))"

definition from_request ::
  "('body, 's, 'h, 'k) ProxyLib \<Rightarrow> nat \<Rightarrow> 'body Request \<Rightarrow> Metrics \<Rightarrow> Metrics \<times> ('s Rejection + 's DecryptedRequest)" where
  "from_request lib max_body_bytes req m =
     (case open_envelope lib max_body_bytes req of
        Err r \<Rightarrow> (m, Err r)
      | Ok (session, nonce_val, mac_val, ciphertext) \<Rightarrow>
     (case pl_with_keys_for_trr lib session nonce_val of
        Err e \<Rightarrow> (inc_decrypt_failures m, Err (Reject (Bare 401 e)))
      | Ok keys \<Rightarrow>
     (case verify_and_open lib session nonce_val mac_val req ciphertext keys of
        Err (Reject resp) \<Rightarrow> (inc_decrypt_failures m, Err (Reject resp))
      | Err Panicked \<Rightarrow> (m, Err Panicked)
      | Ok plaintext \<Rightarrow>
          (m, Ok \<lparr>dr_session = session, dr_method = real_method lib req, dr_path = request_path req,
                  dr_query = request_query req, dr_host = request_authority req, dr_body = plaintext\<rparr>))))"

section \<open>The handler\<close>

definition STATIC_HOP_BY_HOP :: "string list" where
  "STATIC_HOP_BY_HOP =
     [''content-length'', ''transfer-encoding'', ''connection'', ''keep-alive'', ''proxy-authenticate'',
      ''proxy-authorization'', ''te'', ''trailer'', ''upgrade'']"

record UpstreamResponse =
  ur_status :: nat
  ur_headers :: headers
  ur_content_length :: "nat option"
  ur_chunks :: "(string + bytes) list"

text \<open>\<open>Inl True\<close> is a timeout.\<close>

record Upstream =
  up_send :: "string \<Rightarrow> string \<Rightarrow> bytes \<Rightarrow> bool + UpstreamResponse"
  up_elapsed :: f64

definition seal_error :: "'s \<Rightarrow> nat \<Rightarrow> string \<Rightarrow> 's Response" where
  "seal_error session status message =
     Sealed session [Ok (Head status [(''content-type'', ''text/plain'')]), Ok (Body (bytes_of_string message))]"

definition strip_names :: "headers \<Rightarrow> string list" where
  "strip_names hs =
     (case header_str hs ''connection'' of
        None \<Rightarrow> []
      | Some v \<Rightarrow> filter (\<lambda>t. t \<noteq> []) (map (\<lambda>t. to_ascii_lowercase (trim t)) (split_char (CHR '','') v))) @
     STATIC_HOP_BY_HOP"

definition forwarded_headers :: "headers \<Rightarrow> (string \<times> string) list" where
  "forwarded_headers hs =
     List.map_filter (\<lambda>(name, value). map_option (Pair name) value)
       (filter (\<lambda>(name, _). name \<notin> set (strip_names hs)) hs)"

fun body_frames :: "nat \<Rightarrow> nat \<Rightarrow> (string + bytes) list \<Rightarrow> (LlmError + StreamFrame) list" where
  "body_frames mx acc [] = []"
| "body_frames mx acc (Inr c # chunks) =
     (let acc' = saturating_add acc (length c) in
      (if mx < acc' then Err (Transport ''upstream body too large'') else Ok (Body c)) # body_frames mx acc' chunks)"
| "body_frames mx acc (Inl e # chunks) = Err (Transport ''upstream body read failed'') # body_frames mx acc chunks"

definition upstream_url :: "Route \<Rightarrow> 's DecryptedRequest \<Rightarrow> string" where
  "upstream_url route req =
     trim_end_matches (CHR ''/'') (r_upstream route) @ dr_path req @
     (case dr_query req of None \<Rightarrow> [] | Some q \<Rightarrow> CHR ''?'' # q)"

definition relay_response :: "nat \<Rightarrow> 's \<Rightarrow> UpstreamResponse \<Rightarrow> 's Response" where
  "relay_response mx session resp =
     (if (case ur_content_length resp of None \<Rightarrow> False | Some len \<Rightarrow> mx < len)
      then seal_error session 413 ''upstream body too large''
      else Sealed session
        (Ok (Head (ur_status resp) (forwarded_headers (ur_headers resp))) # body_frames mx 0 (ur_chunks resp)))"

text \<open>The handler gives the metrics, the call made to the upstream, if any, and the response.\<close>

definition proxy_handler ::
  "(string \<Rightarrow> string option) \<Rightarrow> RouteTable \<Rightarrow> nat \<Rightarrow> Upstream \<Rightarrow> 's DecryptedRequest \<Rightarrow> Metrics \<Rightarrow>
     Metrics \<times> (string \<times> string \<times> bytes) option \<times> 's Response" where
  "proxy_handler method_from_bytes table mx up req m =
     (if mx < length (dr_body req)
      then (m, None, seal_error (dr_session req) 413 ''request body too large'')
      else (case route_table_select table (dr_host req) (dr_path req) of
        None \<Rightarrow> (m, None, seal_error (dr_session req) 404 ''no route matched'')
      | Some route \<Rightarrow>
          let url = upstream_url route req in
          (case method_from_bytes (dr_method req) of
             None \<Rightarrow> (m, None, seal_error (dr_session req) 400 ''invalid method'')
           | Some meth \<Rightarrow>
               let m = inc_upstream_requests m;
                   upstream_resp = up_send up meth url (dr_body req);
                   m = observe_upstream_latency (up_elapsed up) m
               in (case upstream_resp of
                     Err is_timeout \<Rightarrow>
                       (inc_upstream_errors m, Some (meth, url, dr_body req),
                        seal_error (dr_session req) (if is_timeout then 504 else 502) ''upstream request failed'')
                   | Ok resp \<Rightarrow> (m, Some (meth, url, dr_body req), relay_response mx (dr_session req) resp)))))"

section \<open>The router\<close>

definition healthz :: "nat \<times> string" where
  "healthz = (200, ''ok'')"

definition readyz :: "nat \<times> string" where
  "readyz = (200, ''ready'')"

definition metrics_handler :: "(f64 \<Rightarrow> string) \<Rightarrow> nat \<Rightarrow> Metrics \<Rightarrow> nat \<times> (string \<times> string) \<times> string" where
  "metrics_handler show_f64 active m =
     (200, (''content-type'', ''text/plain; version=0.0.4; charset=utf-8''), render_prometheus show_f64 m active)"

text \<open>The layer around the handshake router; \<open>next\<close> gives the status and the response.\<close>

definition handshake_layer :: "('body Request \<Rightarrow> nat \<times> 'r) \<Rightarrow> 'body Request \<Rightarrow> Metrics \<Rightarrow> Metrics \<times> 'r" where
  "handshake_layer inner req m =
     (let is_attest = (rq_method req = ''POST'' \<and> uri_path (rq_uri req) = ''/attest'');
          (status, resp) = inner req
      in (if is_attest \<and> 200 \<le> status \<and> status < 300 then inc_handshakes m else m, resp))"

definition ws_request :: "string \<Rightarrow> 'body Request \<Rightarrow> WsRequest" where
  "ws_request hdr_base_id req =
     \<lparr>wr_method = rq_method req, wr_upgrade = header_get (rq_headers req) ''upgrade'',
      wr_has_base_id = (header_get (rq_headers req) hdr_base_id \<noteq> None)\<rparr>"

definition ws_meta :: "string \<Rightarrow> 'body Request \<Rightarrow> WsRequestMeta" where
  "ws_meta hdr_base_id req =
     \<lparr>wm_host = unwrap_or [] (option_or (uri_authority (rq_uri req)) (header_str (rq_headers req) ''host'')),
      wm_path = uri_path (rq_uri req), wm_query = uri_query (rq_uri req),
      wm_base_id = header_str (rq_headers req) hdr_base_id\<rparr>"

text \<open>\<open>None\<close> hands the request on to the inner routes.\<close>

definition ws_dispatch_middleware ::
  "string \<Rightarrow> (string \<Rightarrow> 'id option) \<Rightarrow> ('id \<Rightarrow> 'alg Session option) \<Rightarrow> RouteTable \<Rightarrow> ('body Request \<Rightarrow> bool) \<Rightarrow>
     'body Request \<Rightarrow> 'alg UpgradeOutcome option" where
  "ws_dispatch_middleware hdr_base_id parse_id registry_get table ws_extracts req =
     (if \<not> is_attested_ws_upgrade (ws_request hdr_base_id req) then None
      else if \<not> ws_extracts req then None
      else Some (ws_upgrade_handler hdr_base_id parse_id registry_get table (ws_meta hdr_base_id req)))"

section \<open>Lemmas\<close>

lemma from_request_Ok:
  "from_request lib mx req m = (m', Ok d) \<longleftrightarrow>
     m' = m \<and> (\<exists>nonce mac ct keys. open_envelope lib mx req = Ok (dr_session d, nonce, mac, ct)
       \<and> pl_with_keys_for_trr lib (dr_session d) nonce = Ok keys
       \<and> verify_and_open lib (dr_session d) nonce mac req ct keys = Ok (dr_body d)
       \<and> d = \<lparr>dr_session = dr_session d, dr_method = real_method lib req, dr_path = request_path req,
              dr_query = request_query req, dr_host = request_authority req, dr_body = dr_body d\<rparr>)"
  by (auto simp: from_request_def split: sum.splits prod.splits Rejection.splits)

lemma open_envelope_Ok:
  "open_envelope lib mx req = Ok (session, nonce, mac, ct) \<longleftrightarrow>
     pl_session lib req = Ok session \<and> pl_decode_attest_ticket lib (rq_headers req) = Ok (nonce, mac)
     \<and> request_authority req \<noteq> []
     \<and> (\<exists>bs parsed. pl_to_bytes lib (rq_body req) (pre_decrypt_cap mx) = Ok bs
          \<and> pl_json_ciphertext lib bs = Ok parsed \<and> pl_hex_decode lib parsed = Ok ct)"
  by (auto simp: open_envelope_def result_bind_def map_err_def split: sum.splits prod.splits)

lemma verify_and_open_Ok:
  "verify_and_open lib session nonce mac req ct keys = Ok p \<longleftrightarrow>
     (\<exists>h chunks n k. pl_hmac_new lib (tk_client_mac_key keys) = Some h
        \<and> pl_update_ahl lib (rq_method req) (request_path req) (request_query req) (request_authority req) (rq_headers req) = Ok chunks
        \<and> pl_hmac_verify lib (fold (pl_hmac_update lib) (u64_to_be_bytes nonce # chunks) h) mac
        \<and> length (tk_client_write_iv keys) = 12
        \<and> pl_nonce_from_slice lib (trr_nonce (tk_client_write_iv keys) nonce) = Ok n
        \<and> pl_bound_key_new lib (tk_client_write_key keys) (tk_client_write_iv keys) = Some k
        \<and> pl_open lib k n (pl_session_aad lib session) ct = Ok p)"
  by (auto simp: verify_and_open_def Let_def split: option.splits sum.splits)

text \<open>The payload bytes a client can take from a stream of frames.\<close>

fun frame_data :: "LlmError + StreamFrame \<Rightarrow> bytes option" where
  "frame_data (Inr (Body d)) = Some d"
| "frame_data _ = None"

definition delivered :: "(LlmError + StreamFrame) list \<Rightarrow> bytes list" where
  "delivered fs = List.map_filter frame_data fs"

definition ok_chunks :: "(string + bytes) list \<Rightarrow> bytes list" where
  "ok_chunks cs = List.map_filter (\<lambda>c. case c of Inl _ \<Rightarrow> None | Inr b \<Rightarrow> Some b) cs"

lemma delivered_simps [simp]:
  "delivered [] = []"
  "delivered (Inl e # fs) = delivered fs"
  "delivered (Inr (Body d) # fs) = d # delivered fs"
  "delivered (Inr (Head st hs) # fs) = delivered fs"
  by (simp_all add: delivered_def map_filter_simps)

lemma ok_chunks_simps [simp]:
  "ok_chunks [] = []"
  "ok_chunks (Inl e # cs) = ok_chunks cs"
  "ok_chunks (Inr b # cs) = b # ok_chunks cs"
  by (simp_all add: ok_chunks_def map_filter_simps)

lemma body_frames_over: "mx < usize_max \<Longrightarrow> mx < acc \<Longrightarrow> delivered (body_frames mx acc chunks) = []"
  by (induction mx acc chunks rule: body_frames.induct) (auto simp: saturating_add_def Let_def)

lemma body_frames_delivered:
  "mx < usize_max \<Longrightarrow> acc \<le> mx \<Longrightarrow>
     prefix (delivered (body_frames mx acc chunks)) (ok_chunks chunks)
     \<and> acc + sum_list (map length (delivered (body_frames mx acc chunks))) \<le> mx"
proof (induction mx acc chunks rule: body_frames.induct)
  case (2 mx acc c chunks)
  show ?case
  proof (cases "acc + length c \<le> mx")
    case True
    then have "saturating_add acc (length c) = acc + length c"
      using 2(2) by (simp add: saturating_add_def)
    with 2 True show ?thesis by (simp add: Let_def)
  next
    case False
    then have "mx < saturating_add acc (length c)"
      using 2(2) by (simp add: saturating_add_def)
    with 2(2,3) show ?thesis by (simp add: Let_def body_frames_over)
  qed
qed auto

lemma body_frames_all:
  "acc + sum_list (map length cs) \<le> mx \<Longrightarrow> mx \<le> usize_max \<Longrightarrow> body_frames mx acc (map Inr cs) = map (Inr \<circ> Body) cs"
  by (induction cs arbitrary: acc) (auto simp: saturating_add_def Let_def)

lemma set_forwarded_headers:
  "(n, v) \<in> set (forwarded_headers hs) \<longleftrightarrow> (n, Some v) \<in> set hs \<and> n \<notin> set (strip_names hs)"
  by (force simp: forwarded_headers_def map_filter_def image_iff)

lemma proxy_handler_call:
  assumes "proxy_handler meth table mx up req m = (m', Some (me, url, body), resp)"
  shows "length (dr_body req) \<le> mx \<and> body = dr_body req \<and> meth (dr_method req) = Some me
    \<and> (\<exists>r. route_table_select table (dr_host req) (dr_path req) = Some r \<and> url = upstream_url r req)"
  using assms by (auto simp: proxy_handler_def Let_def split: if_splits option.splits sum.splits)

lemma proxy_handler_sealed:
  "\<exists>status hs fs. snd (snd (proxy_handler meth table mx up req m)) = Sealed (dr_session req) (Ok (Head status hs) # fs)"
  by (auto simp: proxy_handler_def relay_response_def seal_error_def Let_def split: option.splits sum.splits)

section \<open>Properties\<close>

text \<open>
  C3: A request the extractor lets through is authentic: its ticket's MAC verifies, under the MAC
  key of the session it came in on, over the ticket's counter and the header list of this very
  method, path, query, authority and headers; its body is what the session's key opens at
  that counter's nonce with the session's associated data; and the path, query and host the proxy
  will route by are the ones the MAC covers.
\<close>
theorem decrypted_request_authentic:
  assumes "from_request lib mx req m = (m', Ok d)"
  shows "\<exists>nonce mac keys chunks h n k bs parsed ct.
      pl_session lib req = Ok (dr_session d)
    \<and> pl_decode_attest_ticket lib (rq_headers req) = Ok (nonce, mac)
    \<and> pl_with_keys_for_trr lib (dr_session d) nonce = Ok keys
    \<and> pl_hmac_new lib (tk_client_mac_key keys) = Some h
    \<and> pl_update_ahl lib (rq_method req) (dr_path d) (dr_query d) (dr_host d) (rq_headers req) = Ok chunks
    \<and> pl_hmac_verify lib (fold (pl_hmac_update lib) (u64_to_be_bytes nonce # chunks) h) mac
    \<and> pl_to_bytes lib (rq_body req) (pre_decrypt_cap mx) = Ok bs
    \<and> pl_json_ciphertext lib bs = Ok parsed \<and> pl_hex_decode lib parsed = Ok ct
    \<and> pl_nonce_from_slice lib (trr_nonce (tk_client_write_iv keys) nonce) = Ok n
    \<and> pl_bound_key_new lib (tk_client_write_key keys) (tk_client_write_iv keys) = Some k
    \<and> pl_open lib k n (pl_session_aad lib (dr_session d)) ct = Ok (dr_body d)
    \<and> dr_host d \<noteq> []"
proof -
  obtain nonce mac ct keys where e: "open_envelope lib mx req = Ok (dr_session d, nonce, mac, ct)"
    and k: "pl_with_keys_for_trr lib (dr_session d) nonce = Ok keys"
    and v: "verify_and_open lib (dr_session d) nonce mac req ct keys = Ok (dr_body d)"
    and d: "dr_path d = request_path req" "dr_query d = request_query req" "dr_host d = request_authority req"
    using assms unfolding from_request_Ok by (metis DecryptedRequest.select_convs(3,4,5))
  from e k v show ?thesis
    unfolding open_envelope_Ok verify_and_open_Ok d by blast
qed

text \<open>
  A rejected request counts as a decryption failure exactly when it got as far as the session's
  keys: a request that fails before that, and one that is accepted, leave the metrics alone.
\<close>
theorem decrypt_failures_counted:
  "case from_request lib mx req m of
     (m', Inr d) \<Rightarrow> m' = m
   | (m', Inl Panicked) \<Rightarrow> m' = m
   | (m', Inl (Reject resp)) \<Rightarrow>
       m' = (case open_envelope lib mx req of Inl _ \<Rightarrow> m | Inr _ \<Rightarrow> m\<lparr>decrypt_failures_total := decrypt_failures_total m + 1\<rparr>)"
  by (auto simp: from_request_def inc_decrypt_failures_def open_envelope_def result_bind_def map_err_def
      split: sum.splits Rejection.splits prod.splits if_splits)

text \<open>
  The envelope cap never refuses what the plaintext cap allows: the hex of a body within
  the limit plus its 16-byte tag and the seventeen characters of JSON around it fit, unless the
  computation has saturated; and the cap is at most twice the limit plus 96.
\<close>
theorem pre_decrypt_cap_fits:
  assumes "n \<le> mx"
  shows "(2 * (n + 16) + 17 \<le> pre_decrypt_cap mx \<or> pre_decrypt_cap mx = usize_max) \<and> pre_decrypt_cap mx \<le> 2 * mx + 96"
  using assms by (auto simp: pre_decrypt_cap_def saturating_add_def saturating_mul_def JSON_OVERHEAD_def min_def)

theorem pre_decrypt_cap_fits_witness:
  "2 * (1024 + 16) + 17 \<le> pre_decrypt_cap 4096 \<or> pre_decrypt_cap 4096 = usize_max"
  using pre_decrypt_cap_fits [of 1024 4096] by simp

text \<open>
  C12: The body cap holds for a streamed reply. What the client gets of the upstream's body is an
  initial part of the chunks in their order, never more than the cap in total, and nothing after
  the cap was exceeded; a body within the cap arrives whole.
\<close>
theorem proxy_stream_capped:
  assumes "mx < usize_max"
  shows "prefix (delivered (body_frames mx 0 chunks)) (ok_chunks chunks)
    \<and> sum_list (map length (delivered (body_frames mx 0 chunks))) \<le> mx
    \<and> (sum_list (map length cs) \<le> mx \<longrightarrow> body_frames mx 0 (map Inr cs) = map (Inr \<circ> Body) cs)"
  using body_frames_delivered [OF assms, of 0 chunks] body_frames_all [of 0 cs mx] assms by simp

theorem proxy_stream_capped_witness:
  "sum_list (map length (delivered (body_frames 3 0 [Inr [1, 2], Inl ''reset'', Inr [3, 4], Inr [5]]))) \<le> 3"
  using proxy_stream_capped [of 3 "[Inr [1, 2], Inl ''reset'', Inr [3, 4], Inr [5]]"] by (simp add: usize_max_def)


text \<open>
  C21: Every reply of the proxy handler, errors included, is sealed under the session of the
  request and opens with a head frame, so that no status, header or body of an upstream leaves in the clear.
\<close>
theorem proxy_always_sealed:
  "\<exists>status hs fs. snd (snd (proxy_handler meth table mx up req m)) = Sealed (dr_session req) (Ok (Head status hs) # fs)"
  by (rule proxy_handler_sealed)


section \<open>Examples\<close>

text \<open>
  A library in which the MAC is the concatenation of what was fed to it and the AEAD strips its
  tag, and a request it accepts.
\<close>

definition toy_lib :: "(bytes, string, bytes, unit) ProxyLib" where
  "toy_lib =
     \<lparr>pl_session = (\<lambda>_. Ok ''s1''), pl_session_aad = (\<lambda>_. []),
      pl_decode_attest_ticket = (\<lambda>_. Ok (1, [9] @ u64_to_be_bytes 1)),
      pl_to_bytes = (\<lambda>b cap. if length b \<le> cap then Ok b else Err ''limit''),
      pl_json_ciphertext = (\<lambda>b. Ok ''00''), pl_hex_decode = (\<lambda>_. Ok [7]),
      pl_with_keys_for_trr = (\<lambda>_ _. Ok \<lparr>tk_client_mac_key = [9], tk_client_write_key = [], tk_client_write_iv = replicate 12 0\<rparr>),
      pl_hmac_new = (\<lambda>k. Some k), pl_hmac_update = (\<lambda>b h. h @ b), pl_hmac_verify = (\<lambda>h mac. h = mac),
      pl_update_ahl = (\<lambda>_ _ _ _ _. Ok []), pl_nonce_from_slice = Ok, pl_bound_key_new = (\<lambda>_ _. Some ()),
      pl_open = (\<lambda>_ _ _ ct. Ok ct), pl_method_from_bytes = Some\<rparr>"

definition toy_request :: "bytes Request" where
  "toy_request =
     \<lparr>rq_method = ''POST'', rq_uri = \<lparr>uri_path = ''/v1'', uri_query = None, uri_authority = Some ''api''\<rparr>,
      rq_original_uri = None, rq_headers = [(''attest-real-method'', Some ''GET'')], rq_body = [1, 2]\<rparr>"

definition toy_decrypted :: "string DecryptedRequest" where
  "toy_decrypted =
     \<lparr>dr_session = ''s1'', dr_method = ''GET'', dr_path = ''/v1'', dr_query = None, dr_host = ''api'', dr_body = [7]\<rparr>"

theorem decrypted_request_authentic_witness:
  "\<exists>nonce mac keys. pl_decode_attest_ticket toy_lib (rq_headers toy_request) = Ok (nonce, mac)
     \<and> pl_with_keys_for_trr toy_lib ''s1'' nonce = Ok keys"
proof -
  have "from_request toy_lib 1024 toy_request metrics_new = (metrics_new, Ok toy_decrypted)"
    by code_simp
  from decrypted_request_authentic [OF this] show ?thesis
    by (auto simp: toy_decrypted_def)
qed

text \<open>
  Only the first \<open>Connection\<close> field is read: a name nominated in a second one is relayed, although
  the two fields together are one list.
\<close>

lemma second_connection_field_leaks:
  "forwarded_headers [(''connection'', Some ''close''), (''connection'', Some ''x-internal''), (''x-internal'', Some ''secret'')]
     = [(''x-internal'', ''secret'')]"
  by code_simp

end
