(* ===== verification/Router.thy ===== *)
theory Router
  imports Proxy
begin

text \<open>
  The router of the proxy (\<open>build_router\<close> in \<open>src/proxy.rs\<close>): which routes it registers, behind which
  layers, and what a request then meets. Matching a path and a method against registered routes is
  axum's, the trusted-request layer and the handshake routes are openhttpa's: they are fields of
  \<open>RouterLib\<close>. Serving a request gives the metrics after it, the call it made to an upstream, if any,
  and the reply.
\<close>

section \<open>State\<close>

record ('id, 'alg) AtbRegistry =
  reg_get :: "'id \<Rightarrow> 'alg Session option"
  reg_len :: nat

text \<open>The route table is the one the shared handle holds when the request loads it.\<close>

record ('id, 'alg) ProxyState =
  pst_registry :: "('id, 'alg) AtbRegistry"
  pst_http :: Upstream
  pst_routes :: RouteTable
  pst_max_body_bytes :: nat
  pst_metrics :: Metrics

definition registry_from_ref :: "('id, 'alg) ProxyState \<Rightarrow> ('id, 'alg) AtbRegistry" where
  "registry_from_ref st = pst_registry st"

definition metrics_from_ref :: "('id, 'alg) ProxyState \<Rightarrow> Metrics" where
  "metrics_from_ref st = pst_metrics st"

datatype MaxBodyBytes = MaxBodyBytes (cap_bytes: nat)

definition max_body_bytes_from_ref :: "('id, 'alg) ProxyState \<Rightarrow> MaxBodyBytes" where
  "max_body_bytes_from_ref st = MaxBodyBytes (pst_max_body_bytes st)"

section \<open>Routes\<close>

datatype MethodFilter = Get | Any

text \<open>What answers a route: one of the base router's own, or a handler of the proxy.\<close>

datatype 'b Endpoint = Base 'b | Healthz | Readyz | MetricsText | ProxyRoute

type_synonym 'b routes = "(string \<times> MethodFilter \<times> 'b Endpoint) list"

definition observability :: "'b routes" where
  "observability = [(''/healthz'', Get, Healthz), (''/readyz'', Get, Readyz), (''/metrics'', Get, MetricsText)]"

definition proxy_routes :: "'b routes" where
  "proxy_routes = [(''/'', Any, ProxyRoute), (''/{*path}'', Any, ProxyRoute)]"

definition merged_routes :: "'b routes \<Rightarrow> 'b routes" where
  "merged_routes base_router = base_router @ observability @ proxy_routes"

datatype ('s, 'alg, 'r) Reply =
    Outer 'r
  | Text nat string
  | Typed nat "string \<times> string" string
  | Replied "'s Response"
  | TaskPanicked
  | Ws "'alg UpgradeOutcome"

type_synonym upstream_call = "string \<times> string \<times> bytes"

text \<open>
  \<open>ro_route\<close> is axum's choice among registered routes for a method and a path, \<open>None\<close> when no route has
  the path (404) or none with the path takes the method (405), answered by \<open>ro_unrouted\<close>;
  \<open>ro_tr_layer\<close> refuses a request or hands it on; \<open>ro_base\<close> runs a route of the base router.
\<close>

record ('body, 's, 'h, 'k, 'id, 'alg, 'b, 'r) RouterLib =
  ro_proxy :: "('body, 's, 'h, 'k) ProxyLib"
  ro_method_from_bytes :: "string \<Rightarrow> string option"
  ro_show_f64 :: "f64 \<Rightarrow> string"
  ro_route :: "'b routes \<Rightarrow> string \<Rightarrow> string \<Rightarrow> 'b Endpoint option"
  ro_unrouted :: "'body Request \<Rightarrow> 'r"
  ro_base_routes :: "'b routes"
  ro_base :: "'b \<Rightarrow> 'body Request \<Rightarrow> nat \<times> 'r"
  ro_tr_layer :: "('id, 'alg) AtbRegistry \<Rightarrow> 'body Request \<Rightarrow> 'r + 'body Request"
  ro_hdr_base_id :: string
  ro_parse_id :: "string \<Rightarrow> 'id option"
  ro_ws_extracts :: "'body Request \<Rightarrow> bool"

section \<open>Serving\<close>

text \<open>A proxy route: the trusted-request layer, the extractor, then the handler.\<close>

definition serve_proxy ::
  "('body, 's, 'h, 'k, 'id, 'alg, 'b, 'r) RouterLib \<Rightarrow> ('id, 'alg) ProxyState \<Rightarrow> 'body Request \<Rightarrow>
     Metrics \<times> upstream_call option \<times> ('s, 'alg, 'r) Reply" where
  "serve_proxy lib st req =
     (case ro_tr_layer lib (registry_from_ref st) req of
        Err resp \<Rightarrow> (metrics_from_ref st, None, Outer resp)
      | Ok req \<Rightarrow>
          (case from_request (ro_proxy lib) (cap_bytes (max_body_bytes_from_ref st)) req (metrics_from_ref st) of
             (m, Err (Reject resp)) \<Rightarrow> (m, None, Replied resp)
           | (m, Err Panicked) \<Rightarrow> (m, None, TaskPanicked)
           | (m, Ok decrypted) \<Rightarrow>
               (case proxy_handler (ro_method_from_bytes lib) (pst_routes st) (pst_max_body_bytes st) (pst_http st) decrypted m of
                  (m, call, resp) \<Rightarrow> (m, call, Replied resp))))"

definition serve_endpoint ::
  "('body, 's, 'h, 'k, 'id, 'alg, 'b, 'r) RouterLib \<Rightarrow> ('id, 'alg) ProxyState \<Rightarrow> 'b Endpoint \<Rightarrow> 'body Request \<Rightarrow>
     Metrics \<times> upstream_call option \<times> ('s, 'alg, 'r) Reply" where
  "serve_endpoint lib st ep req =
     (case ep of
        Base b \<Rightarrow> (case handshake_layer (ro_base lib b) req (pst_metrics st) of (m, resp) \<Rightarrow> (m, None, Outer resp))
      | Healthz \<Rightarrow> (case healthz of (status, body) \<Rightarrow> (pst_metrics st, None, Text status body))
      | Readyz \<Rightarrow> (case readyz of (status, body) \<Rightarrow> (pst_metrics st, None, Text status body))
      | MetricsText \<Rightarrow>
          (case metrics_handler (ro_show_f64 lib) (reg_len (pst_registry st)) (pst_metrics st) of
             (status, header, body) \<Rightarrow> (pst_metrics st, None, Typed status header body))
      | ProxyRoute \<Rightarrow> serve_proxy lib st req)"

text \<open>The router: the WebSocket guard around the merged routes.\<close>

definition build_router ::
  "('body, 's, 'h, 'k, 'id, 'alg, 'b, 'r) RouterLib \<Rightarrow> ('id, 'alg) ProxyState \<Rightarrow> 'body Request \<Rightarrow>
     Metrics \<times> upstream_call option \<times> ('s, 'alg, 'r) Reply" where
  "build_router lib st req =
     (case ws_dispatch_middleware (ro_hdr_base_id lib) (ro_parse_id lib) (reg_get (pst_registry st)) (pst_routes st)
             (ro_ws_extracts lib) req of
        Some outcome \<Rightarrow> (pst_metrics st, None, Ws outcome)
      | None \<Rightarrow>
          (case ro_route lib (merged_routes (ro_base_routes lib)) (rq_method req) (uri_path (rq_uri req)) of
             None \<Rightarrow> (pst_metrics st, None, Outer (ro_unrouted lib req))
           | Some ep \<Rightarrow> serve_endpoint lib st ep req))"

section \<open>Lemmas\<close>

lemmas from_ref_defs = registry_from_ref_def metrics_from_ref_def max_body_bytes_from_ref_def

lemma serve_proxy_call:
  assumes "serve_proxy lib st req = (m', Some call, reply)"
  shows "\<exists>req' dr resp. ro_tr_layer lib (pst_registry st) req = Ok req'
    \<and> from_request (ro_proxy lib) (pst_max_body_bytes st) req' (pst_metrics st) = (pst_metrics st, Ok dr)
    \<and> proxy_handler (ro_method_from_bytes lib) (pst_routes st) (pst_max_body_bytes st) (pst_http st) dr (pst_metrics st)
        = (m', Some call, resp)
    \<and> reply = Replied resp"
  using assms
  by (auto simp: serve_proxy_def from_ref_defs from_request_Ok split: sum.splits prod.splits Rejection.splits)

lemma build_router_call:
  assumes "build_router lib st req = (m', Some call, reply)"
  shows "serve_proxy lib st req = (m', Some call, reply)"
  using assms
  by (auto simp: build_router_def serve_endpoint_def split: option.splits Endpoint.splits prod.splits)

lemma build_router_Upgrade:
  assumes "build_router lib st req = (m', call, Ws (Upgrade url keys aad))"
  shows "ws_upgrade_handler (ro_hdr_base_id lib) (ro_parse_id lib) (reg_get (pst_registry st)) (pst_routes st)
      (ws_meta (ro_hdr_base_id lib) req) = Upgrade url keys aad \<and> call = None \<and> m' = pst_metrics st"
  using assms
  by (auto simp: build_router_def serve_endpoint_def serve_proxy_def ws_dispatch_middleware_def
      split: option.splits Endpoint.splits prod.splits sum.splits Rejection.splits if_splits)

lemma build_router_routed:
  assumes "\<not> is_attested_ws_upgrade (ws_request (ro_hdr_base_id lib) req)"
  shows "build_router lib st req =
    (case ro_route lib (merged_routes (ro_base_routes lib)) (rq_method req) (uri_path (rq_uri req)) of
       None \<Rightarrow> (pst_metrics st, None, Outer (ro_unrouted lib req))
     | Some ep \<Rightarrow> serve_endpoint lib st ep req)"
  using assms by (simp add: build_router_def ws_dispatch_middleware_def)

lemma success_div: "200 \<le> status \<and> status < 300 \<longleftrightarrow> status div 100 = (2 :: nat)"
  by auto

section \<open>Routing by axum\<close>

text \<open>
  What the router relies on of axum, for routes of distinct paths. A request is only answered by a registered route
  that takes its method, where \<open>get\<close> takes \<open>GET\<close> and \<open>HEAD\<close> and \<open>any\<close> every method. A
  path registered without captures belongs to its route alone: another method on it finds no route. Any other
  path below the root goes to the wildcard \<open>/{*path}\<close> when that is the only registered path with a capture.
\<close>

fun takes :: "MethodFilter \<Rightarrow> string \<Rightarrow> bool" where
  "takes Get m = (m = ''GET'' \<or> m = ''HEAD'')"
| "takes Any m = True"

definition is_literal :: "string \<Rightarrow> bool" where
  "is_literal path \<longleftrightarrow> CHR ''{'' \<notin> set path"

definition wildcard :: string where
  "wildcard = ''/{*path}''"

definition axum_routing :: "('b routes \<Rightarrow> string \<Rightarrow> string \<Rightarrow> 'b Endpoint option) \<Rightarrow> bool" where
  "axum_routing route \<longleftrightarrow>
     (\<forall>rs. distinct (map fst rs) \<longrightarrow>
        (\<forall>m p ep. route rs m p = Some ep \<longrightarrow> (\<exists>q f. (q, f, ep) \<in> set rs \<and> takes f m))
      \<and> (\<forall>m p f ep. (p, f, ep) \<in> set rs \<longrightarrow> is_literal p \<longrightarrow> route rs m p = (if takes f m then Some ep else None))
      \<and> (\<forall>m c p ep. (wildcard, Any, ep) \<in> set rs \<longrightarrow> (\<forall>q \<in> fst ` set rs. is_literal q \<or> q = wildcard) \<longrightarrow>
           CHR ''/'' # c # p \<notin> fst ` set rs \<longrightarrow> route rs m (CHR ''/'' # c # p) = Some ep))"

lemma axum_routing_literal:
  "axum_routing route \<Longrightarrow> distinct (map fst rs) \<Longrightarrow> (p, f, ep) \<in> set rs \<Longrightarrow> is_literal p \<Longrightarrow>
     route rs m p = (if takes f m then Some ep else None)"
  unfolding axum_routing_def by blast

lemma axum_routing_wildcard:
  "axum_routing route \<Longrightarrow> distinct (map fst rs) \<Longrightarrow> (wildcard, Any, ep) \<in> set rs \<Longrightarrow>
     \<forall>q \<in> fst ` set rs. is_literal q \<or> q = wildcard \<Longrightarrow> CHR ''/'' # c # p \<notin> fst ` set rs \<Longrightarrow>
     route rs m (CHR ''/'' # c # p) = Some ep"
  unfolding axum_routing_def by blast

text \<open>The routes of the proxy itself, and what the base router's must be like to be merged with them.\<close>

definition base_compatible :: "'b routes \<Rightarrow> bool" where
  "base_compatible base_router \<longleftrightarrow>
     distinct (map fst (merged_routes base_router)) \<and> (\<forall>(p, f, ep) \<in> set base_router. is_literal p)"

lemma merged_routes_proxy:
  "(''/healthz'', Get, Healthz) \<in> set (merged_routes base)" "(''/readyz'', Get, Readyz) \<in> set (merged_routes base)"
  "(''/metrics'', Get, MetricsText) \<in> set (merged_routes base)" "(''/'', Any, ProxyRoute) \<in> set (merged_routes base)"
  "(wildcard, Any, ProxyRoute) \<in> set (merged_routes base)"
  by (simp_all add: merged_routes_def observability_def proxy_routes_def wildcard_def)

lemma merged_routes_literal:
  "base_compatible base \<Longrightarrow> \<forall>q \<in> fst ` set (merged_routes base). is_literal q \<or> q = wildcard"
  by (auto simp: base_compatible_def merged_routes_def observability_def proxy_routes_def wildcard_def is_literal_def)

lemma proxy_paths_literal: "is_literal ''/healthz''" "is_literal ''/readyz''" "is_literal ''/metrics''" "is_literal ''/''"
  by (simp_all add: is_literal_def)

lemma route_literal:
  assumes "axum_routing (ro_route lib)" "base_compatible (ro_base_routes lib)"
    and "(p, f, ep) \<in> set (merged_routes (ro_base_routes lib))" "is_literal p"
  shows "ro_route lib (merged_routes (ro_base_routes lib)) m p = (if takes f m then Some ep else None)"
  using assms(2) by (intro axum_routing_literal [OF assms(1) _ assms(3,4)]) (simp add: base_compatible_def)

lemma route_wildcard:
  assumes "axum_routing (ro_route lib)" "base_compatible (ro_base_routes lib)"
    and "CHR ''/'' # c # p \<notin> fst ` set (merged_routes (ro_base_routes lib))"
  shows "ro_route lib (merged_routes (ro_base_routes lib)) m (CHR ''/'' # c # p) = Some ProxyRoute"
  using assms merged_routes_literal [OF assms(2)]
  by (intro axum_routing_wildcard merged_routes_proxy(5)) (auto simp: base_compatible_def)

section \<open>Properties\<close>


text \<open>
  C7: From a WebSocket upgrade to its frames. When the router accepts an upgrade, the request names a session the registry knows
  and that is alive, the upstream is the route's for the request's host and path, and the bridge runs with that session's
  keys and identifier: what it forwards to that upstream are, in order, the client's frames that open under the session's client key.
\<close>
theorem ws_connection_authentic:
  assumes "build_router lib st req = (m', call, Ws (Upgrade url keys aad))"
    and "bridge_start ae connect bound_new key_new url keys aad = Ok (env, s)"
  shows "\<exists>raw i session route gs l.
      header_str (rq_headers req) (ro_hdr_base_id lib) = Some raw \<and> ro_parse_id lib raw = Some i
    \<and> reg_get (pst_registry st) i = Some session \<and> se_is_alive session \<and> ws_keys_from_session session = Ok (Some keys)
    \<and> route_table_select (pst_routes st) (wm_host (ws_meta (ro_hdr_base_id lib) req)) (uri_path (rq_uri req)) = Some route
    \<and> build_upstream_ws_url (r_upstream route) (uri_path (rq_uri req)) (uri_query (rq_uri req)) = Ok url
    \<and> key_new (wk_algorithm keys) (wk_client_write_key keys) = Ok (be_in_key env)
    \<and> prefix gs (client_frames es)
    \<and> decode_all ae (be_in_key env) (wk_client_write_iv keys) (session_aad session) 0 gs
        = (l, Ok (forwarded (fst (bridge_run env es s))))"
proof -
  from build_router_Upgrade [OF assms(1)] obtain raw i session route where
    "header_str (rq_headers req) (ro_hdr_base_id lib) = Some raw" "ro_parse_id lib raw = Some i"
    "reg_get (pst_registry st) i = Some session" "se_is_alive session" "ws_keys_from_session session = Ok (Some keys)"
    "route_table_select (pst_routes st) (wm_host (ws_meta (ro_hdr_base_id lib) req)) (uri_path (rq_uri req)) = Some route"
    "build_upstream_ws_url (r_upstream route) (uri_path (rq_uri req)) (uri_query (rq_uri req)) = Ok url"
    and aad: "aad = session_aad session"
    unfolding ws_upgrade_handler_Upgrade by (auto simp: ws_meta_def)
  moreover have "key_new (wk_algorithm keys) (wk_client_write_key keys) = Ok (be_in_key env)"
    using assms(2) by (auto simp: bridge_start_def result_bind_eq_Ok map_err_eq_Ok)
  moreover note bridge_run_inbound [OF assms(2), of es, unfolded aad]
  ultimately show ?thesis by blast
qed

section \<open>Examples\<close>

text \<open>A router that looks a path up among the registered ones and falls back to the wildcard.\<close>

definition lookup_route :: "'b routes \<Rightarrow> string \<Rightarrow> string \<Rightarrow> 'b Endpoint option" where
  "lookup_route rs m p =
     (case map_of rs p of
        Some (f, ep) \<Rightarrow> if takes f m then Some ep else None
      | None \<Rightarrow> (case map_of rs wildcard of Some (f, ep) \<Rightarrow> if takes f m then Some ep else None | None \<Rightarrow> None))"

lemma axum_routing_lookup: "axum_routing lookup_route"
  unfolding axum_routing_def
proof (intro allI impI conjI)
  fix rs :: "'b routes" and m p ep
  assume "lookup_route rs m p = Some ep"
  then show "\<exists>q f. (q, f, ep) \<in> set rs \<and> takes f m"
    by (auto simp: lookup_route_def split: option.splits if_splits) (blast dest: map_of_SomeD)+
qed (auto simp: lookup_route_def simp flip: map_of_eq_None_iff split: option.splits)

definition toy_router_lib :: "(bytes, string, bytes, unit, nat, unit, unit, nat) RouterLib" where
  "toy_router_lib =
     \<lparr>ro_proxy = toy_lib, ro_method_from_bytes = Some, ro_show_f64 = (\<lambda>_. ''0''), ro_route = lookup_route,
      ro_unrouted = (\<lambda>_. 405), ro_base_routes = [(''/attest'', Any, Base ())], ro_base = (\<lambda>_ _. (200, 200)),
      ro_tr_layer = (\<lambda>_ req. Ok req), ro_hdr_base_id = ''attest-base-id'',
      ro_parse_id = (\<lambda>s. if s = ''7'' then Some 7 else None), ro_ws_extracts = (\<lambda>_. True)\<rparr>"

definition toy_upstream :: Upstream where
  "toy_upstream =
     \<lparr>up_send = (\<lambda>_ _ _. Ok \<lparr>ur_status = 200, ur_headers = [], ur_content_length = None, ur_chunks = [Ok [1]]\<rparr>),
      up_elapsed = F64 1 0\<rparr>"

definition toy_proxy_state :: "(nat, unit) ProxyState" where
  "toy_proxy_state =
     \<lparr>pst_registry = \<lparr>reg_get = (\<lambda>i. if i = 7 then Some example_session else None), reg_len = 1\<rparr>, pst_http = toy_upstream,
      pst_routes = route_table_new [example_route [] [] ''https://up/'' File], pst_max_body_bytes = 1024, pst_metrics = metrics_new\<rparr>"

definition get_request :: "string \<Rightarrow> headers \<Rightarrow> bytes Request" where
  "get_request path hs =
     \<lparr>rq_method = ''GET'', rq_uri = \<lparr>uri_path = path, uri_query = None, uri_authority = Some ''h''\<rparr>,
      rq_original_uri = None, rq_headers = hs, rq_body = []\<rparr>"


definition ws_upgrade_request :: "bytes Request" where
  "ws_upgrade_request = get_request ''/chat'' [(''upgrade'', Some ''WebSocket''), (''attest-base-id'', Some ''7'')]"

theorem ws_connection_authentic_witness:
  "\<exists>i session (route :: Route). reg_get (pst_registry toy_proxy_state) i = Some session \<and> se_is_alive session
     \<and> build_upstream_ws_url (r_upstream route) ''/chat'' None = Ok ''wss://up/chat''"
proof -
  have up: "build_router toy_router_lib toy_proxy_state ws_upgrade_request
      = (metrics_new, None, Ws (Upgrade ''wss://up/chat'' example_keys (session_aad example_session)))"
    by code_simp
  have "bridge_start (plain_aead (replicate 12 3)) (\<lambda>_. Ok ()) (\<lambda>_ _ _. Ok 1) (\<lambda>_ _. Ok ()) ''wss://up/chat'' example_keys
      (session_aad example_session) = Ok (example_bridge_env\<lparr>be_aad := session_aad example_session\<rparr>, example_bridge)"
    by (simp add: bridge_start_def result_bind_def map_err_def example_keys_def example_bridge_env_def example_bridge_def)
  from ws_connection_authentic [OF up this, of "[]"] obtain i session and route :: Route where
    "reg_get (pst_registry toy_proxy_state) i = Some session" "se_is_alive session"
    "build_upstream_ws_url (r_upstream route) (uri_path (rq_uri ws_upgrade_request)) (uri_query (rq_uri ws_upgrade_request))
      = Ok ''wss://up/chat''"
    by (elim exE conjE) (rule that)
  then show ?thesis
    by (intro exI conjI) (assumption, assumption, simp add: ws_upgrade_request_def get_request_def)
qed

end
