(* ===== verification/Startup.thy ===== *)
theory Startup
  imports Attestation Dump Acme_Facts Live_Routes Router
begin

text \<open>
  The program itself (\<open>src/main.rs\<close>): loading the configuration, the attestation guard, the
  discovery tasks, the certificate source of the listener with \<open>setup_acme\<close>, and the bind. Each
  effect another process can observe is an event, in the order in which \<open>main\<close> causes it; the result is
  the server that runs or the reason the process exits with status 1. A listener event is the
  bind, whose own failure panics. The application served is the router behind the optional rate
  limit, whose counting of requests per address is a parameter.
\<close>

record LogRecord =
  log_fields :: "(string \<times> string) list"
  log_message :: string

datatype StartEvent =
    ConfigDumped string
  | Logged LogRecord
  | EvictionTask nat
  | ProviderStarted string
  | RateLimitLayer nat nat
  | Http01Responder SocketAddr
  | AcmeCachedCert
  | AcmeIssuance
  | RenewalTask
  | TlsListener SocketAddr
  | PlainListener SocketAddr

datatype StartError =
    ConfigFailed ConfigError
  | AttestationFailed FatalError
  | TlsConfigInvalid TlsConfigError
  | TlsLoadFailed TlsError
  | AcmeSetupFailed AcmeError
  | AcmeIssuanceFailed AcmeError

record ('p, 'v, 'ck, 'c) Server =
  sv_addr :: SocketAddr
  sv_tls :: "'ck RustlsConfig option"
  sv_mode :: AttestationMode
  sv_tee :: 'p
  sv_verifier :: 'v
  sv_atb_max_sessions :: nat
  sv_atb_ttl_secs :: nat
  sv_max_body_bytes :: nat
  sv_rate_limit :: "(nat \<times> nat) option"
  sv_metrics :: Metrics
  sv_live :: "'c Live"

datatype ('p, 'v, 'ck, 'c) Outcome = Dumped | Exit1 StartError | Serving "('p, 'v, 'ck, 'c) Server"

section \<open>The HTTP-01 responder\<close>

fun with_port :: "SocketAddr \<Rightarrow> nat \<Rightarrow> SocketAddr" where
  "with_port (SocketV4 octets _) port = SocketV4 octets port"
| "with_port (SocketV6 segments _ _) port = SocketV6 segments 0 port"

definition serve_token :: "Http01Tokens \<Rightarrow> string \<Rightarrow> nat \<times> string" where
  "serve_token tokens token =
     (case tokens_get tokens token of
        Some key_authorization \<Rightarrow> (200, key_authorization)
      | None \<Rightarrow> (404, ''unknown ACME challenge token'' @ newline))"

text \<open>
  The task that \<open>spawn_http01_responder\<close> starts: it fails to bind and exits the process, or serves, and \<open>serve\<close> says
  whether serving came to an end with an error. \<open>route\<close> is axum's match of a path against the one registered
  pattern for \<open>GET\<close>, which gives the captured token.
\<close>

datatype ResponderOutcome = ResponderExit1 string | ResponderEnded | ResponderStopped string

definition http01_task :: "string + unit \<Rightarrow> string + unit \<Rightarrow> ResponderOutcome" where
  "http01_task bind serve =
     (case bind of
        Ok _ \<Rightarrow> (case serve of Err e \<Rightarrow> ResponderStopped e | Ok _ \<Rightarrow> ResponderEnded)
      | Err e \<Rightarrow> ResponderExit1 e)"

definition http01_app ::
  "(string \<Rightarrow> string \<Rightarrow> string \<Rightarrow> string option) \<Rightarrow> (string \<Rightarrow> string \<Rightarrow> nat \<times> string) \<Rightarrow> Http01Tokens \<Rightarrow>
     string \<Rightarrow> string \<Rightarrow> nat \<times> string" where
  "http01_app route unrouted tokens meth path =
     (case route ''/.well-known/acme-challenge/{token}'' meth path of
        Some token \<Rightarrow> serve_token tokens token
      | None \<Rightarrow> unrouted meth path)"

section \<open>ACME setup\<close>

definition acme_initial :: "DnsProvider \<Rightarrow> Fs \<Rightarrow> 'z \<Rightarrow> ('ck, 'z) AcmeState" where
  "acme_initial dns fs z =
     \<lparr>st_resolver = acme_resolver_empty, st_tokens = tokens_new, st_dns = (dns, z), st_fs = fs\<rparr>"

definition setup_acme ::
  "('cert, 'key, 'sk, 'kp, 'pa) AcmeLib \<Rightarrow> 'z DnsWorld \<Rightarrow> World \<Rightarrow> nat \<Rightarrow>
     ('ac, 'cr, ('cert, 'sk) certified, 'z) Ca \<Rightarrow> Fs \<Rightarrow> 'z \<Rightarrow> AcmeConfig \<Rightarrow> SocketAddr \<Rightarrow>
     StartEvent list \<times> (StartError + ('cert, 'sk) certified RustlsConfig)" where
  "setup_acme l dw w now ca fs z acme_cfg addr =
     (case acme_manager_new (w_env w) acme_cfg of
        Err e \<Rightarrow> ([], Err (AcmeSetupFailed e))
      | Ok (m, dns) \<Rightarrow>
          (let responder =
                 (if acme_challenge acme_cfg = Http01
                  then [Http01Responder (unwrap_or (with_port addr 80) (acme_http01_listen acme_cfg))]
                  else []);
               (cached, st) = load_cached l now m (acme_initial dns fs z);
               (provisioned, st') =
                 (if cached then (Ok [AcmeCachedCert], st)
                  else case issue l dw ca m st of
                         (Err e, st') \<Rightarrow> (Err (AcmeIssuanceFailed e), st')
                       | (Ok _, st') \<Rightarrow> (Ok [AcmeIssuance], st'))
           in case provisioned of
                Err e \<Rightarrow> (responder @ [AcmeIssuance], Err e)
              | Ok evs \<Rightarrow>
                  (responder @ evs @ [RenewalTask],
                   Ok (config_with_resolver (DynamicResolver (st_resolver st')) (acme_challenge acme_cfg = TlsAlpn01)))))"

section \<open>The listener\<close>

definition main_tls ::
  "('cert, 'key, 'sk) TlsLib \<Rightarrow> ('cert, 'key, 'sk, 'kp, 'pa) AcmeLib \<Rightarrow> 'z DnsWorld \<Rightarrow> World \<Rightarrow> nat \<Rightarrow>
     ('ac, 'cr, ('cert, 'sk) certified, 'z) Ca \<Rightarrow> Fs \<Rightarrow> 'z \<Rightarrow> ServerConfig \<Rightarrow>
     StartEvent list \<times> (StartError + ('cert, 'sk) certified RustlsConfig option)" where
  "main_tls tlib l dw w now ca fs z srv =
     (case srv_tls srv of
        None \<Rightarrow> ([PlainListener (srv_listen srv)], Ok None)
      | Some tls \<Rightarrow>
          (case tls_validate tls of
             Err e \<Rightarrow> ([], Err (TlsConfigInvalid e))
           | Ok mode \<Rightarrow>
               (let (evs, r) =
                  (case mode of
                     TlsStatic cert_path key_path \<Rightarrow>
                       ([], map_err TlsLoadFailed (server_config tlib w (StaticFiles cert_path key_path)))
                   | TlsAcme acme_cfg \<Rightarrow> setup_acme l dw w now ca fs z acme_cfg (srv_listen srv))
                in case r of
                     Err e \<Rightarrow> (evs, Err e)
                   | Ok cfg \<Rightarrow> (evs @ [TlsListener (srv_listen srv)], Ok (Some cfg)))))"

section \<open>Warnings\<close>

definition banner_rule :: string where
  "banner_rule = replicate 60 (CHR ''='')"

definition warn_insecure_mode :: "AttestationConfig \<Rightarrow> bool \<Rightarrow> LogRecord list" where
  "warn_insecure_mode cfg release =
     (let profile = (if release then ''RELEASE'' else ''debug'') in
      [\<lparr>log_fields =
          [(''security'', ''true''), (''profile'', profile), (''allow_mock'', show_bool (att_allow_mock cfg)),
           (''tee_provider'', tee_fmt (att_tee_provider cfg) []), (''verifier'', verifier_fmt (att_verifier cfg) [])],
        log_message =
          newline @ banner_rule @ newline @
          ''==  INSECURE / MOCK ATTESTATION MODE  ======================'' @ newline @
          ''==  Mock attestation provides ZERO security: quotes are   =='' @ newline @
          ''==  not bound to any real TEE and MUST NOT be trusted.     =='' @ newline @
          ''==  This is for DEV/CI ONLY. Do not expose to production.  =='' @ newline @ banner_rule\<rparr>]
      @ (if release
         then [\<lparr>log_fields = [(''security'', ''true'')],
                 log_message = ''running a '' @ profile @ '' build with mock attestation because '' @ INSECURE_DEV_ENV @ ''=1 was set''\<rparr>]
         else []))"

definition unpinned_ak_log :: "AttestationConfig \<Rightarrow> LogRecord" where
  "unpinned_ak_log cfg =
     \<lparr>log_fields = [(''security'', ''true''), (''verifier'', verifier_fmt (att_verifier cfg) [])],
      log_message =
        newline @ banner_rule @ newline @
        ''==  TPM allow_unpinned_ak = true  =========================='' @ newline @
        ''==  The TPM attestation key (AK) is NOT authenticated: it  =='' @ newline @
        ''==  is neither pinned nor chained to a trusted EK root, so =='' @ newline @
        ''==  any AK is accepted. Boot-state (PCR) checks still run, =='' @ newline @
        ''==  but a rogue TPM/AK cannot be detected. DEV/TEST ONLY.  =='' @ newline @ banner_rule\<rparr>"

text \<open>The security warnings \<open>main\<close> logs around the attestation guard.\<close>

definition attestation_warnings :: "bool \<Rightarrow> World \<Rightarrow> AttestationConfig \<Rightarrow> StartEvent list" where
  "attestation_warnings is_release w att =
     map Logged
       (case startup_attestation_decision is_release att (insecure_dev_env_set w) of
          Err e \<Rightarrow> []
        | Ok mode \<Rightarrow>
            (case mode of Insecure release \<Rightarrow> warn_insecure_mode att release | Secure \<Rightarrow> [])
            @ (if warn_tpm_unpinned_ak att then [unpinned_ak_log att] else []))"

section \<open>The program\<close>

record ('p, 'v, 'pol, 'cert, 'key, 'sk, 'kp, 'pa, 'ac, 'cr, 'z, 'e, 'k) Outside =
  out_libs :: Libs
  out_debug :: "string \<Rightarrow> string"
  out_world :: World
  out_is_release :: bool
  out_features :: "string set"
  out_attestation :: "('p, 'v, 'pol) AttestationLib"
  out_kube_client :: "'e + 'k"
  out_tls :: "('cert, 'key, 'sk) TlsLib"
  out_acme :: "('cert, 'key, 'sk, 'kp, 'pa) AcmeLib"
  out_dns :: "'z DnsWorld"
  out_now :: nat
  out_ca :: "('ac, 'cr, ('cert, 'sk) certified, 'z) Ca"
  out_fs :: Fs
  out_state :: 'z

definition main ::
  "('p, 'v, 'pol, 'cert, 'key, 'sk, 'kp, 'pa, 'ac, 'cr, 'z, 'e, 'k) Outside \<Rightarrow> Args \<Rightarrow>
     StartEvent list \<times> ('p, 'v, ('cert, 'sk) certified, 'c) Outcome" where
  "main out args =
     (case config_load (out_libs out) (out_world out) (args_overrides args) (args_config_path args) of
        Err e \<Rightarrow> ([], Exit1 (ConfigFailed e))
      | Ok config \<Rightarrow>
          if args_dump args then ([ConfigDumped (dump (out_debug out) config)], Dumped)
          else
            (let static = cfg_static config;
                 att = st_attestation static;
                 warnings = attestation_warnings (out_is_release out) (out_world out) att
             in case main_attestation (out_attestation out) (out_features out) (out_is_release out)
                       (out_libs out) (out_world out) att of
                  Err e \<Rightarrow> (warnings, Exit1 (AttestationFailed e))
                | Ok (mode, tee_provider, verifier) \<Rightarrow>
                    (let rl = st_rate_limit static;
                         limit = (if 0 < rl_max_requests rl then Some (rl_max_requests rl, rl_window_secs rl) else None);
                         tasks = [EvictionTask (att_atb_eviction_interval_secs att)]
                           @ map (\<lambda>p. ProviderStarted (provider_name p)) (build_providers (st_discovery static))
                           @ (case limit of Some (max_requests, window_secs) \<Rightarrow> [RateLimitLayer max_requests window_secs] | None \<Rightarrow> []);
                         (evs, r) = main_tls (out_tls out) (out_acme out) (out_dns out) (out_world out) (out_now out)
                           (out_ca out) (out_fs out) (out_state out) (st_server static)
                     in case r of
                          Err e \<Rightarrow> (warnings @ tasks @ evs, Exit1 e)
                        | Ok tls \<Rightarrow>
                            (warnings @ tasks @ evs,
                             Serving
                               \<lparr>sv_addr = srv_listen (st_server static), sv_tls = tls, sv_mode = mode,
                                sv_tee = tee_provider, sv_verifier = verifier,
                                sv_atb_max_sessions = att_atb_max_sessions att, sv_atb_ttl_secs = att_atb_ttl_secs att,
                                sv_max_body_bytes = srv_max_body_bytes (st_server static),
                                sv_rate_limit = limit, sv_metrics = metrics_new,
                                sv_live = live_start (''kubernetes'' \<in> out_features out) (out_kube_client out)
                                  (st_discovery static) (cfg_file_routes config)\<rparr>))))"

section \<open>The application\<close>

text \<open>
  The state the handlers share, at some moment of the run: the registry's contents, the HTTP client, the table the live
  handle holds and the metrics so far.
\<close>

definition proxy_state ::
  "('p, 'v, 'ck, 'c) Server \<Rightarrow> ('id, 'alg) AtbRegistry \<Rightarrow> Upstream \<Rightarrow> RouteTable \<Rightarrow> Metrics \<Rightarrow> ('id, 'alg) ProxyState" where
  "proxy_state sv registry http table metrics =
     \<lparr>pst_registry = registry, pst_http = http, pst_routes = table, pst_max_body_bytes = sv_max_body_bytes sv, pst_metrics = metrics\<rparr>"

text \<open>\<open>limiter\<close> is the rate limit layer: the response with which it refuses a request, if it does.\<close>

definition serve_app ::
  "(nat \<Rightarrow> nat \<Rightarrow> 'body Request \<Rightarrow> 'r option) \<Rightarrow> ('body, 's, 'h, 'k, 'id, 'alg, 'b, 'r) RouterLib \<Rightarrow>
     ('p, 'v, 'ck, 'c) Server \<Rightarrow> ('id, 'alg) ProxyState \<Rightarrow> 'body Request \<Rightarrow>
     Metrics \<times> upstream_call option \<times> ('s, 'alg, 'r) Reply" where
  "serve_app limiter lib sv st req =
     (case sv_rate_limit sv of
        None \<Rightarrow> build_router lib st req
      | Some (max_requests, window_secs) \<Rightarrow>
          (case limiter max_requests window_secs req of
             Some resp \<Rightarrow> (pst_metrics st, None, Outer resp)
           | None \<Rightarrow> build_router lib st req))"

section \<open>Lemmas\<close>

lemma serve_app_call:
  assumes "serve_app limiter lib sv st req = (m', Some call, reply)"
  shows "serve_proxy lib st req = (m', Some call, reply)
    \<and> (\<forall>n w. sv_rate_limit sv = Some (n, w) \<longrightarrow> limiter n w req = None)"
  using assms by (auto simp: serve_app_def intro: build_router_call split: option.splits)

fun is_listener :: "StartEvent \<Rightarrow> bool" where
  "is_listener (TlsListener _) = True"
| "is_listener (PlainListener _) = True"
| "is_listener _ = False"

lemma load_cached_current:
  "load_cached l now m st = (True, st') \<Longrightarrow> \<exists>ck. ar_current (st_resolver st') = Some ck"
  by (auto simp: load_cached_def resolver_store_def split: option.splits sum.splits if_splits)

lemma setup_acme_no_listener: "setup_acme l dw w now ca fs z cfg addr = (evs, r) \<Longrightarrow> \<not> list_ex is_listener evs"
  by (auto simp: setup_acme_def Let_def split: sum.splits prod.splits if_splits)

lemma setup_acme_Ok:
  assumes "setup_acme l dw w now ca fs z cfg addr = (evs, Ok rc)"
  shows "\<exists>r ck. rc_resolver rc = DynamicResolver r \<and> ar_current r = Some ck"
proof -
  obtain m dns where m: "acme_manager_new (w_env w) cfg = Ok (m, dns)"
    using assms by (auto simp: setup_acme_def split: sum.splits)
  obtain cached st where c: "load_cached l now m (acme_initial dns fs z) = (cached, st)"
    by (cases "load_cached l now m (acme_initial dns fs z)")
  show ?thesis
  proof (cases cached)
    case True
    then show ?thesis
      using assms m c load_cached_current by (fastforce simp: setup_acme_def config_with_resolver_def Let_def)
  next
    case False
    obtain r st' where i: "issue l dw ca m st = (r, st')"
      by (cases "issue l dw ca m st")
    then show ?thesis
      using assms m c False issue_Ok_current
      by (cases r) (fastforce simp: setup_acme_def config_with_resolver_def Let_def)+
  qed
qed

lemma main_tls_listener:
  assumes "main_tls tlib l dw w now ca fs z srv = (evs, r)"
  shows "case r of
      Inl e \<Rightarrow> \<not> list_ex is_listener evs
    | Inr tls \<Rightarrow> \<exists>pre. evs = pre @ [if tls = None then PlainListener (srv_listen srv) else TlsListener (srv_listen srv)]
        \<and> \<not> list_ex is_listener pre \<and> (tls = None \<longleftrightarrow> srv_tls srv = None)"
  using assms
  by (auto simp: main_tls_def Let_def split: option.splits sum.splits prod.splits TlsMode.splits
      dest: setup_acme_no_listener)

lemma main_tls_certificate:
  assumes "main_tls tlib l dw w now ca fs z srv = (evs, Ok (Some cfg))" "\<not> is_acme_alpn hello"
  shows "\<exists>ck. resolver_resolve (rc_resolver cfg) hello = Some ck"
  using assms
  by (auto simp: main_tls_def Let_def server_config_def result_bind_eq_Ok config_with_resolver_def static_resolve_def
      acme_resolve_def map_err_eq_Ok split: option.splits sum.splits prod.splits TlsMode.splits dest!: setup_acme_Ok)

lemma warnings_no_listener: "\<not> list_ex is_listener (attestation_warnings rel w att)"
  by (auto simp: attestation_warnings_def list_ex_iff)

text \<open>What is behind a server that runs.\<close>

lemma main_Serving:
  fixes sv :: "('p, 'v, ('cert, 'sk) certified, 'c) Server"
  assumes "main out args = (evs, Serving sv)"
  obtains config pre tevs where
    "config_load (out_libs out) (out_world out) (args_overrides args) (args_config_path args) = Ok config"
    "main_attestation (out_attestation out) (out_features out) (out_is_release out) (out_libs out) (out_world out)
       (st_attestation (cfg_static config)) = Ok (sv_mode sv, sv_tee sv, sv_verifier sv)"
    "main_tls (out_tls out) (out_acme out) (out_dns out) (out_world out) (out_now out) (out_ca out) (out_fs out) (out_state out)
       (st_server (cfg_static config)) = (tevs, Ok (sv_tls sv))"
    "evs = pre @ tevs" "\<not> list_ex is_listener pre" "sv_addr sv = srv_listen (st_server (cfg_static config))"
    "sv_live sv = live_start (''kubernetes'' \<in> out_features out) (out_kube_client out) (st_discovery (cfg_static config))
       (cfg_file_routes config)"
proof -
  from assms obtain config where c: "config_load (out_libs out) (out_world out) (args_overrides args) (args_config_path args) = Ok config"
    and nd: "\<not> args_dump args"
    by (auto simp: main_def split: sum.splits if_splits)
  let ?static = "cfg_static config"
  obtain tevs t where tls: "main_tls (out_tls out) (out_acme out) (out_dns out) (out_world out) (out_now out) (out_ca out)
      (out_fs out) (out_state out) (st_server ?static) = (tevs, t)"
    by (cases "main_tls (out_tls out) (out_acme out) (out_dns out) (out_world out) (out_now out) (out_ca out)
      (out_fs out) (out_state out) (st_server ?static)")
  let ?pre = "attestation_warnings (out_is_release out) (out_world out) (st_attestation ?static)
    @ [EvictionTask (att_atb_eviction_interval_secs (st_attestation ?static))]
    @ map (\<lambda>p. ProviderStarted (provider_name p)) (build_providers (st_discovery ?static))
    @ (if 0 < rl_max_requests (st_rate_limit ?static)
       then [RateLimitLayer (rl_max_requests (st_rate_limit ?static)) (rl_window_secs (st_rate_limit ?static))] else [])"
  have "\<not> list_ex is_listener ?pre"
    using warnings_no_listener by (auto simp: list_ex_iff)
  with assms c nd tls show thesis
    by (intro that [of config tevs ?pre]) (auto simp: main_def Let_def split: sum.splits)
qed

lemma main_Serving_listener:
  fixes sv :: "('p, 'v, ('cert, 'sk) certified, 'c) Server"
  assumes "main out args = (evs, Serving sv)"
  obtains pre where
    "evs = pre @ [if sv_tls sv = None then PlainListener (sv_addr sv) else TlsListener (sv_addr sv)]"
    "\<not> list_ex is_listener pre"
proof -
  from assms obtain config pre tevs where c:
    "config_load (out_libs out) (out_world out) (args_overrides args) (args_config_path args) = Ok config"
    "main_attestation (out_attestation out) (out_features out) (out_is_release out) (out_libs out) (out_world out)
       (st_attestation (cfg_static config)) = Ok (sv_mode sv, sv_tee sv, sv_verifier sv)"
    "main_tls (out_tls out) (out_acme out) (out_dns out) (out_world out) (out_now out) (out_ca out) (out_fs out) (out_state out)
       (st_server (cfg_static config)) = (tevs, Ok (sv_tls sv))"
    "evs = pre @ tevs" "\<not> list_ex is_listener pre" "sv_addr sv = srv_listen (st_server (cfg_static config))"
    "sv_live sv = live_start (''kubernetes'' \<in> out_features out) (out_kube_client out) (st_discovery (cfg_static config))
       (cfg_file_routes config)"
    by (rule main_Serving)
  from main_tls_listener [OF c(3)] obtain front where
    "tevs = front @ [if sv_tls sv = None then PlainListener (sv_addr sv) else TlsListener (sv_addr sv)]"
    "\<not> list_ex is_listener front"
    using c(6) by auto
  then show thesis
    using that [of "pre @ front"] c(4,5) by simp
qed

lemma main_not_Serving:
  fixes r :: "('p, 'v, ('cert, 'sk) certified, 'c) Outcome"
  assumes "main out args = (evs, r)" "\<nexists>sv. r = Serving sv"
  shows "\<not> list_ex is_listener evs"
proof (cases "config_load (out_libs out) (out_world out) (args_overrides args) (args_config_path args)")
  case (Inr config)
  let ?srv = "st_server (cfg_static config)"
  obtain tevs t where tls: "main_tls (out_tls out) (out_acme out) (out_dns out) (out_world out) (out_now out) (out_ca out)
      (out_fs out) (out_state out) ?srv = (tevs, t)"
    by (cases "main_tls (out_tls out) (out_acme out) (out_dns out) (out_world out) (out_now out) (out_ca out)
      (out_fs out) (out_state out) ?srv")
  from main_tls_listener [OF tls] assms Inr tls warnings_no_listener show ?thesis
    by (auto simp: main_def Let_def list_ex_iff split: sum.splits prod.splits if_splits)
qed (use assms in \<open>simp add: main_def\<close>)

section \<open>Concrete starts\<close>

text \<open>A release build on attested hardware whose file asks for TLS with a certificate from disk.\<close>

definition tls_file :: FileConfig where
  "tls_file =
     \<lparr>fc_server = \<lparr>fs_listen = None, fs_max_body_bytes = None,
        fs_tls = Some \<lparr>tls_cert_path = Some ''c'', tls_key_path = Some ''k'', tls_acme = None\<rparr>\<rparr>,
      fc_attestation = \<lparr>fa_allow_mock = Some False, fa_strict_attestation = None, fa_atb_ttl_secs = None,
        fa_atb_eviction_interval_secs = None, fa_atb_max_sessions = None, fa_tee_provider = Some SevSnp,
        fa_verifier = Some AmdSnp, fa_verifier_endpoint = None, fa_verifier_api_key = None, fa_tpm = None\<rparr>,
      fc_rate_limit = \<lparr>frl_max_requests = None, frl_window_secs = None\<rparr>,
      fc_discovery = \<lparr>fd_docker = Some True, fd_docker_socket = None, fd_docker_poll_secs = None, fd_kubernetes = Some True,
        fd_kubernetes_namespace = None\<rparr>,
      fc_upstream = Some ''http://app'', fc_routes = []\<rparr>"

definition toy_tls_lib :: "(string, string, string) TlsLib" where
  "toy_tls_lib =
     \<lparr>tl_certs = (\<lambda>b. [Ok ''cert'']), tl_private_key = (\<lambda>b. Ok (Some ''key'')), tl_any_supported_type = Ok,
      tl_keys_match = (\<lambda>certs sk. KeysEqual)\<rparr>"

definition toy_out ::
  "(string, string \<times> DemoPolicy option, DemoPolicy, string, string, string, unit, string list \<times> bytes, unit, string,
     nat \<times> string list, unit, unit) Outside" where
  "toy_out =
     \<lparr>out_libs = example_libs\<lparr>lib_toml := (\<lambda>_. Ok tls_file)\<rparr>, out_debug = in_quotes,
      out_world = \<lparr>w_env = (\<lambda>_. None), w_exists = (\<lambda>_. True), w_read_to_string = (\<lambda>_. Ok []), w_read = (\<lambda>_. Ok [])\<rparr>,
      out_is_release = True, out_features = {''sev_snp'', ''amd_snp'', ''kubernetes''}, out_attestation = demo_lib,
      out_kube_client = Ok (), out_tls = toy_tls_lib, out_acme = toy_acme_lib, out_dns = toy_dns_world, out_now = 0,
      out_ca = toy_ca [], out_fs = st_fs toy_state, out_state = (0, [])\<rparr>"

lemma toy_start:
  obtains evs and sv :: "(string, string \<times> DemoPolicy option, (string, string) certified, unit) Server" and cfg d k
  where "main toy_out example_args = (evs, Serving sv)" "sv_tls sv = Some cfg"
    "lv_chan (sv_live sv) = []" "lv_docker (sv_live sv) = Some d" "lv_k8s (sv_live sv) = Some k"
proof -
  obtain evs and r :: "(string, string \<times> DemoPolicy option, (string, string) certified, unit) Outcome"
    where m: "main toy_out example_args = (evs, r)"
    by (rule prod.exhaust)
  have "case snd (main toy_out example_args :: _ \<times> (_, _, _, unit) Outcome) of
      Serving sv \<Rightarrow> (case (sv_tls sv, lv_chan (sv_live sv), lv_docker (sv_live sv), lv_k8s (sv_live sv)) of
        (Some _, [], Some _, Some _) \<Rightarrow> True | _ \<Rightarrow> False)
    | _ \<Rightarrow> False"
    by code_simp
  then show thesis
    using that m by (auto split: Outcome.splits option.splits list.splits)
qed

section \<open>Properties\<close>





section \<open>Where the code falls short of its comments\<close>

text \<open>
  The first certificate is ordered before the listener exists: whenever a start issues one, it
  does so with no listener open, so with the TLS-ALPN-01 challenge nothing of this process answers the
  authority's handshake.
\<close>

lemma issuance_precedes_listener:
  fixes r :: "('p, 'v, ('cert, 'sk) certified, 'c) Outcome"
  assumes "main out args = (evs, r)" "evs = a @ AcmeIssuance # b"
  shows "\<not> list_ex is_listener a"
proof (cases "\<exists>sv. r = Serving sv")
  case True
  then obtain sv where r: "r = Serving sv"
    by blast
  obtain pre where "evs = pre @ [if sv_tls sv = None then PlainListener (sv_addr sv) else TlsListener (sv_addr sv)]"
      "\<not> list_ex is_listener pre"
    using main_Serving_listener [OF assms(1) [unfolded r]] .
  then show ?thesis
    using assms(2) by (cases b rule: rev_cases) (auto simp: list_ex_iff split: if_splits)
next
  case False
  then show ?thesis
    using main_not_Serving [OF assms(1)] assms(2) by (auto simp: list_ex_iff)
qed

end
