(* ===== verification/Messages.thy ===== *)
theory Messages
  imports Startup
begin

text \<open>
  The texts of the errors: \<open>Display\<close> of the error enums of \<open>src/config.rs\<close>, \<open>src/attestation.rs\<close>, \<open>src/tls.rs\<close> and
  \<open>src/acme.rs\<close>, the messages of label warnings, and what \<open>main\<close> prints before it exits. The components carry an error as a
  constructor with the values its text quotes; here is the text. \<open>dbg\<close> is Rust's \<open>Debug\<close> of a string. The
  section on secrets shows that no text of a refused start depends on the verifier's API key.
\<close>

section \<open>Configuration\<close>

fun kind_error_message :: "(string \<Rightarrow> string) \<Rightarrow> KindError \<Rightarrow> string" where
  "kind_error_message dbg (UnknownTeeProvider other) =
     ''unknown tee_provider '' @ dbg other @ '' (expected mock|tdx|sev_snp|sgx|trustzone|aws_nitro|tpm)''"
| "kind_error_message dbg (UnknownVerifier other) =
     ''unknown verifier '' @ dbg other @ '' (expected mock|maa|ita|amd_snp|tpm|nvidia|dcap)''"
| "kind_error_message dbg (UnknownAcmeChallenge other) =
     ''unknown acme challenge '' @ dbg other @ '' (expected tls-alpn-01|http-01|dns-01)''"
| "kind_error_message dbg (UnknownDnsProvider other) =
     ''unknown dns provider '' @ dbg other @ '' (expected manual|cloudflare)''"

fun int_error_message :: "IntErrorKind \<Rightarrow> string" where
  "int_error_message IntEmpty = ''cannot parse integer from empty string''"
| "int_error_message InvalidDigit = ''invalid digit found in string''"
| "int_error_message PosOverflow = ''number too large to fit in target type''"

fun env_reason_message :: "(string \<Rightarrow> string) \<Rightarrow> EnvReason \<Rightarrow> string" where
  "env_reason_message dbg (IntReason e) = int_error_message e"
| "env_reason_message dbg (InvalidPcrIndex e) = ''invalid PCR index: '' @ int_error_message e"
| "env_reason_message dbg (KindReason e) = kind_error_message dbg e"
| "env_reason_message dbg AddrReason = ''invalid socket address syntax''"
| "env_reason_message dbg ExpectedBoolean = ''expected a boolean''"
| "env_reason_message dbg (ExpectedHex e) = ''expected hex: '' @ e"
| "env_reason_message dbg ExpectedPairs = ''expected `index:hex` pairs separated by commas''"

definition tpm_policy_message :: "VerifierKind \<Rightarrow> TeeProviderKind \<Rightarrow> string" where
  "tpm_policy_message v t =
     ''attestation.verifier='' @ verifier_fmt v [] @ '' / tee_provider='' @ tee_fmt t [] @
     '' requires a non-empty [attestation.tpm].expected_pcrs reference policy (map of PCR index -> hex digest); '' @
     ''an empty policy would fail closed at runtime. Set expected PCRs, e.g.'' @ newline @ newline @
     ''    [attestation.tpm.expected_pcrs]'' @ newline @
     ''    0 = '' @ in_quotes ''<64-hex-sha256>'' @ newline @ ''    ...'' @ newline @ newline @
     ''or via ARCHETYPE_PROXY_TPM_EXPECTED_PCRS=0:<hex>,7:<hex>.''"

definition tpm_trust_message :: "VerifierKind \<Rightarrow> TeeProviderKind \<Rightarrow> string" where
  "tpm_trust_message v t =
     ''attestation.verifier='' @ verifier_fmt v [] @ '' / tee_provider='' @ tee_fmt t [] @
     '' requires the TPM attestation key (AK) to be trusted by exactly one of three modes; none is configured, so '' @
     ''the verifier would reject every AK at request time. Choose one:'' @ newline @ newline @
     ''  1. Pin the AK public key (uncompressed SEC1, hex):'' @ newline @ newline @
     ''       [attestation.tpm]'' @ newline @ ''       pinned_ak_sec1_hex = '' @ in_quotes ''04...'' @ newline @ newline @
     ''     (or ARCHETYPE_PROXY_TPM_PINNED_AK_SEC1_HEX)'' @ newline @ newline @
     ''  2. Chain the AK to trusted EK/manufacturer root cert(s):'' @ newline @ newline @
     ''       [attestation.tpm]'' @ newline @ ''       trusted_ek_root_paths = ['' @ in_quotes ''/path/ek-root.pem'' @ '']'' @ newline @ newline @
     ''     (or ARCHETYPE_PROXY_TPM_TRUSTED_EK_ROOT_PATHS)'' @ newline @ newline @
     ''  3. Accept an unpinned AK (INSECURE, dev/test only):'' @ newline @ newline @
     ''       [attestation.tpm]'' @ newline @ ''       allow_unpinned_ak = true'' @ newline @ newline @
     ''     (or ARCHETYPE_PROXY_TPM_ALLOW_UNPINNED_AK=true)''"

fun root_message :: "ValidationMessage \<Rightarrow> string" where
  "root_message (RootPemUnparseable path e) = ''trusted EK root '' @ path @ '': failed to parse PEM certificate(s): '' @ e"
| "root_message (RootPemEmpty path) = ''trusted EK root '' @ path @ '': no PEM certificate found''"
| "root_message (RootNotX509 path e) = ''trusted EK root '' @ path @ '': not a valid X.509 certificate: '' @ e"
| "root_message (TpmPolicyMissing v t) = tpm_policy_message v t"
| "root_message (TpmTrustModeMissing v t) = tpm_trust_message v t"

fun config_error_display :: "(string \<Rightarrow> string) \<Rightarrow> ConfigError \<Rightarrow> string" where
  "config_error_display dbg (ReadError path source) = ''failed to read config file '' @ path @ '': '' @ source"
| "config_error_display dbg (ParseError path source) = ''failed to parse config file '' @ path @ '': '' @ source"
| "config_error_display dbg (EnvError var val reason) =
     ''invalid value for '' @ var @ '': '' @ val @ '' ('' @ env_reason_message dbg reason @ '')''"
| "config_error_display dbg (ValidationError m) = ''invalid configuration: '' @ root_message m"

section \<open>Attestation\<close>

fun fatal_error_message :: "(string \<Rightarrow> string) \<Rightarrow> FatalError \<Rightarrow> string" where
  "fatal_error_message dbg (MockInRelease allow_mock tee ver) =
     ''refusing to start: release build resolved to mock attestation (allow_mock='' @ show_bool allow_mock @
     '', tee_provider='' @ tee_fmt tee [] @ '', verifier='' @ verifier_fmt ver [] @ ''), which provides no security. '' @
     ''Configure a real hardware tee_provider + verifier (and build with the matching --features), or set '' @
     INSECURE_DEV_ENV @ ''=1 to explicitly run an insecure dev server.''"
| "fatal_error_message dbg (FeatureMissing kind val feature) =
     kind @ ''='' @ val @ '' requires building with --features '' @ feature @
     ''; this binary was compiled without it (default build is mock-only)''"
| "fatal_error_message dbg MaaNeedsEndpoint =
     ''verifier=maa requires attestation.verifier_endpoint (e.g. https://sharedeus2.eus2.attest.azure.net)''"
| "fatal_error_message dbg ItaNeedsEndpoint = ''verifier=ita requires attestation.verifier_endpoint''"
| "fatal_error_message dbg ItaNeedsApiKey = ''verifier=ita requires attestation.verifier_api_key''"
| "fatal_error_message dbg (VerifierUnsupported ver) =
     ''verifier='' @ verifier_fmt ver [] @ '' is not supported by archetype-proxy in the pinned openhttpa revision '' @
     ''(no production-ready verifier type is available); choose mock|maa|ita|amd_snp|tpm''"
| "fatal_error_message dbg TpmSectionMissing = ''verifier=tpm requires an [attestation.tpm] section with expected_pcrs''"
| "fatal_error_message dbg TpmPcrsEmpty =
     ''verifier=tpm requires a non-empty [attestation.tpm].expected_pcrs reference policy''"
| "fatal_error_message dbg (TpmRootsError e) = config_error_display dbg e"

section \<open>Labels\<close>

fun label_warning_message :: "LabelWarning \<Rightarrow> string" where
  "label_warning_message (MalformedRouteLabel k) = ''ignoring malformed route label `'' @ k @ ''`''"
| "label_warning_message (RouteMissingUpstream name) = ''route `'' @ name @ ''` missing `upstream`; skipped''"
| "label_warning_message (NoRoutesDeclared container) = ''container '' @ container @ '' enabled but declares no routes''"

section \<open>TLS and ACME\<close>

fun tls_error_display :: "TlsError \<Rightarrow> string" where
  "tls_error_display (TlsRead kind path source) = ''failed to read TLS '' @ kind @ '' file '' @ path @ '': '' @ source"
| "tls_error_display (TlsNoCerts path) = ''no certificates found in PEM file '' @ path"
| "tls_error_display (TlsNoKey path) = ''no private key found in PEM file '' @ path"
| "tls_error_display (TlsPem kind path source) = ''invalid PEM in '' @ kind @ '' file '' @ path @ '': '' @ source"
| "tls_error_display (TlsKey path source) = ''invalid private key in '' @ path @ '': '' @ source"
| "tls_error_display (TlsKeyMismatch cert_path key_path source) =
     ''TLS certificate '' @ cert_path @ '' and private key '' @ key_path @
     '' do not match (key does not correspond to the certificate's public key): '' @ source"
| "tls_error_display (TlsConfigFailed source) = ''failed to build rustls ServerConfig: '' @ source"

fun hook_failure_message :: "(string \<Rightarrow> string) \<Rightarrow> HookFailure \<Rightarrow> string" where
  "hook_failure_message dbg (HookSpawn command e) = ''failed to spawn '' @ dbg command @ '': '' @ e"
| "hook_failure_message dbg (HookExit command status) = ''command '' @ dbg command @ '' exited with '' @ status"

fun dns_failure_message :: "(string \<Rightarrow> string) \<Rightarrow> DnsFailure \<Rightarrow> string" where
  "dns_failure_message dbg (ZoneRequestFailed e) = ''zone lookup request failed: '' @ e"
| "dns_failure_message dbg (ZoneDecodeFailed e) = ''zone lookup decode failed: '' @ e"
| "dns_failure_message dbg (ZoneLookupFailed candidate errors) = ''zone lookup for '' @ dbg candidate @ '' failed: '' @ errors"
| "dns_failure_message dbg (NoZoneFound record_name) =
     ''no Cloudflare zone found for '' @ dbg record_name @ '' (check the token has Zone:Read or set zone_id explicitly)''"
| "dns_failure_message dbg (CreateRequestFailed e) = ''create TXT request failed: '' @ e"
| "dns_failure_message dbg (CreateDecodeFailed e) = ''create TXT decode failed: '' @ e"
| "dns_failure_message dbg (CreateFailed record_name errors) = ''create TXT '' @ dbg record_name @ '' failed: '' @ errors"
| "dns_failure_message dbg CreateNoRecord = ''create TXT returned no record''"
| "dns_failure_message dbg TokenMissing =
     ''dns provider=cloudflare requires a token via api_token or api_token_env (env var unset or empty)''"

fun authorization_status_debug :: "AuthorizationStatus \<Rightarrow> string" where
  "authorization_status_debug AuthzPending = ''Pending''"
| "authorization_status_debug AuthzValid = ''Valid''"
| "authorization_status_debug AuthzInvalid = ''Invalid''"
| "authorization_status_debug AuthzRevoked = ''Revoked''"
| "authorization_status_debug AuthzExpired = ''Expired''"
| "authorization_status_debug AuthzDeactivated = ''Deactivated''"

fun order_status_debug :: "OrderStatus \<Rightarrow> string" where
  "order_status_debug OrderPending = ''Pending''"
| "order_status_debug OrderReady = ''Ready''"
| "order_status_debug OrderProcessing = ''Processing''"
| "order_status_debug OrderValid = ''Valid''"
| "order_status_debug OrderInvalid = ''Invalid''"

fun acme_error_display :: "(string \<Rightarrow> string) \<Rightarrow> AcmeError \<Rightarrow> string" where
  "acme_error_display dbg (AcmeProtocol e) = ''ACME protocol error: '' @ e"
| "acme_error_display dbg (AcmeCache path source) = ''cache I/O error for '' @ path @ '': '' @ source"
| "acme_error_display dbg (AcmeRcgen e) = ''certificate generation error: '' @ e"
| "acme_error_display dbg (AcmeCert e) = ''invalid issued certificate: '' @ e"
| "acme_error_display dbg (AcmeAuthorization domain status) =
     ''ACME authorization for '' @ domain @ '' failed with status '' @ authorization_status_debug status"
| "acme_error_display dbg (AcmeOrder status) = ''ACME order did not become valid (status '' @ order_status_debug status @ '')''"
| "acme_error_display dbg (AcmeDnsHook f) = ''DNS-01 hook command failed: '' @ hook_failure_message dbg f"
| "acme_error_display dbg (AcmeDns f) = ''DNS-01 provider error: '' @ dns_failure_message dbg f"
| "acme_error_display dbg (AcmeRustls e) = ''rustls key error: '' @ e"

section \<open>Refused starts\<close>

text \<open>
  The text of the error a start exits with: an error of the configuration is only logged, every other one is also
  printed between blank lines.
\<close>

fun start_error_text :: "(string \<Rightarrow> string) \<Rightarrow> StartError \<Rightarrow> string" where
  "start_error_text dbg (ConfigFailed e) = config_error_display dbg e"
| "start_error_text dbg (AttestationFailed e) = newline @ ''error: '' @ fatal_error_message dbg e @ newline @ newline"
| "start_error_text dbg (TlsConfigInvalid e) = newline @ ''error: '' @ tls_config_message e @ newline @ newline"
| "start_error_text dbg (TlsLoadFailed e) = newline @ ''error: '' @ tls_error_display e @ newline @ newline"
| "start_error_text dbg (AcmeSetupFailed e) = newline @ ''error: ACME setup failed: '' @ acme_error_display dbg e @ newline @ newline"
| "start_error_text dbg (AcmeIssuanceFailed e) = newline @ ''error: ACME issuance failed: '' @ acme_error_display dbg e @ newline @ newline"

section \<open>Secrets\<close>

definition API_KEY_VAR :: string where
  "API_KEY_VAR = ''ARCHETYPE_PROXY_VERIFIER_API_KEY''"

definition with_api_key :: "string \<Rightarrow> World \<Rightarrow> World" where
  "with_api_key v w = w\<lparr>w_env := (w_env w)(API_KEY_VAR := Some v)\<rparr>"

lemma with_api_key_fields [simp]:
  "w_exists (with_api_key v w) = w_exists w" "w_read_to_string (with_api_key v w) = w_read_to_string w"
  "w_read (with_api_key v w) = w_read w"
  "w_env (with_api_key v w) name = (if name = API_KEY_VAR then Some v else w_env w name)"
  by (simp_all add: with_api_key_def)

lemma env_var_with_api_key: "name \<noteq> API_KEY_VAR \<Longrightarrow> env_var (with_api_key v w) name = env_var w name"
  by (simp add: env_var_def)

lemma env_parse_with_api_key:
  "name \<noteq> API_KEY_VAR \<Longrightarrow> env_parse (with_api_key v w) from_str name = env_parse w from_str name"
  "name \<noteq> API_KEY_VAR \<Longrightarrow> env_parse_bool (with_api_key v w) name = env_parse_bool w name"
  by (simp_all add: env_parse_def env_parse_bool_def env_var_with_api_key)

lemma read_tpm_env_with_api_key: "read_tpm_env l (with_api_key v w) = read_tpm_env l w"
  by (simp add: read_tpm_env_def env_var_with_api_key API_KEY_VAR_def)

lemma result_bind_assoc: "result_bind (result_bind r f) g = result_bind r (\<lambda>a. result_bind (f a) g)"
  by (cases r) simp_all

lemma read_env_with_api_key:
  "v \<noteq> [] \<Longrightarrow> read_env l (with_api_key v w) = result_bind (read_env l w) (\<lambda>p. Ok (p\<lparr>ps_verifier_api_key := Some v\<rparr>))"
  by (simp add: read_env_def env_parse_with_api_key env_var_with_api_key read_tpm_env_with_api_key API_KEY_VAR_def
      env_var_def [of "with_api_key v w" API_KEY_VAR, unfolded API_KEY_VAR_def] result_bind_assoc)

text \<open>Two configurations that differ at most in the key, which both have.\<close>

definition same_but_key :: "AttestationConfig \<Rightarrow> AttestationConfig \<Rightarrow> bool" where
  "same_but_key a b \<longleftrightarrow> b\<lparr>att_verifier_api_key := None\<rparr> = a\<lparr>att_verifier_api_key := None\<rparr>
     \<and> (att_verifier_api_key a = None \<longleftrightarrow> att_verifier_api_key b = None)"

lemma same_but_key_fields:
  assumes "same_but_key a b"
  shows "att_allow_mock b = att_allow_mock a" "att_tee_provider b = att_tee_provider a" "att_verifier b = att_verifier a"
    "att_verifier_endpoint b = att_verifier_endpoint a" "att_tpm b = att_tpm a"
    "(att_verifier_api_key a = None) = (att_verifier_api_key b = None)"
  using assms by (cases a; cases b; simp add: same_but_key_def)+

lemma trusted_ek_roots_der_with_api_key: "trusted_ek_roots_der l (with_api_key v w) t = trusted_ek_roots_der l w t"
proof -
  have "load_cert_der l (with_api_key v w) = load_cert_der l w"
    by (rule ext) (simp add: load_cert_der_def)
  then show ?thesis
    by (simp add: trusted_ek_roots_der_def)
qed

lemma config_load_with_api_key:
  assumes "w_env w API_KEY_VAR = Some u" "u \<noteq> []" "v \<noteq> []"
  shows "case config_load l w cli path of
      Inl e \<Rightarrow> config_load l (with_api_key v w) cli path = Err e
    | Inr cfg \<Rightarrow> \<exists>cfg'. config_load l (with_api_key v w) cli path = Ok cfg'
        \<and> same_but_key (st_attestation (cfg_static cfg)) (st_attestation (cfg_static cfg'))"
proof -
  have read: "read_file l (with_api_key v w) (config_path (with_api_key v w) path) = read_file l w (config_path w path)"
    by (simp add: read_file_def config_path_def API_KEY_VAR_def ENV_CONFIG_PATH_def)
  show ?thesis
  proof (cases "read_file l w (config_path w path)")
    case (Inr f)
    show ?thesis
    proof (cases "read_env l w")
      case env: (Inr e)
      obtain fp rs where f: "f = (fp, rs)"
        by (cases f)
      let ?e = "e\<lparr>ps_verifier_api_key := Some v\<rparr>"
      have key: "ps_verifier_api_key e = Some u"
        using env assms(1,2) by (clarsimp simp: read_env_def result_bind_eq_Ok env_var_def API_KEY_VAR_def)
      have same: "same_but_key (st_attestation (static_spec fp e cli)) (st_attestation (static_spec fp ?e cli))"
        using key by (cases "ps_verifier_api_key cli") (simp_all add: same_but_key_def static_spec_def)
      then have "config_validate l (with_api_key v w) (resolve_layers (fp, rs) ?e cli) = config_validate l w (resolve_layers (fp, rs) e cli)"
        by (simp add: config_validate_def resolve_layers_static same_but_key_fields trusted_ek_roots_der_with_api_key Let_def cong: if_cong option.case_cong)
      then show ?thesis
        using Inr env f same
        by (cases "config_validate l w (resolve_layers (fp, rs) e cli)")
          (simp_all add: config_load_def read read_env_with_api_key [OF assms(3)] resolve_layers_static Let_def)
    qed (use Inr in \<open>simp add: config_load_def read read_env_with_api_key [OF assms(3)]\<close>)
  qed (simp add: config_load_def read)
qed

lemma main_attestation_with_api_key:
  assumes "same_but_key a b"
  shows "case main_attestation lib features rel l w a of
      Inl e \<Rightarrow> main_attestation lib features rel l (with_api_key v w) b = Err e
    | Inr _ \<Rightarrow> \<exists>r. main_attestation lib features rel l (with_api_key v w) b = Ok r"
proof -
  note same = same_but_key_fields [OF assms]
  have guard: "startup_attestation_decision rel b (insecure_dev_env_set (with_api_key v w))
      = startup_attestation_decision rel a (insecure_dev_env_set w)"
    by (simp add: startup_attestation_decision_def insecure_dev_env_set_def uses_mock_def same API_KEY_VAR_def INSECURE_DEV_ENV_def)
  have tee: "build_tee_provider lib features b = build_tee_provider lib features a"
    by (simp add: build_tee_provider_def same)
  have "build_tpm_verifier lib l (with_api_key v w) b = build_tpm_verifier lib l w a"
    by (simp add: build_tpm_verifier_def same trusted_ek_roots_der_with_api_key Let_def cong: if_cong)
  then have "case build_verifier lib features l w a of
      Inl e \<Rightarrow> build_verifier lib features l (with_api_key v w) b = Err e
    | Inr _ \<Rightarrow> \<exists>r. build_verifier lib features l (with_api_key v w) b = Ok r"
    using same(6)
    by (cases "att_verifier a"; cases "att_verifier_endpoint a"; cases "att_verifier_api_key a"; cases "att_verifier_api_key b")
      (auto simp: build_verifier_def same(1-5) ok_or_def split: sum.split)
  then show ?thesis
    unfolding main_attestation_def guard tee
    by (cases "startup_attestation_decision rel a (insecure_dev_env_set w)"; cases "build_tee_provider lib features a";
        cases "build_verifier lib features l w a") auto
qed

fun before_listening :: "StartError \<Rightarrow> bool" where
  "before_listening (ConfigFailed _) = True"
| "before_listening (AttestationFailed _) = True"
| "before_listening _ = False"

lemma main_tls_late:
  "main_tls tlib l dw w now ca fs z srv = (evs, Inl err) \<Longrightarrow> \<not> before_listening err"
  by (cases err)
    (auto simp: main_tls_def setup_acme_def Let_def map_err_def split: prod.splits sum.splits option.splits TlsMode.splits if_splits)

text \<open>
  C38: A refused start does not disclose the verifier's API key. When the process exits because of its configuration or
  its attestation, it would exit after the same events and with the same text for every other non-empty key in
  the environment.
\<close>
theorem refused_start_hides_api_key:
  assumes "w_env (out_world out) API_KEY_VAR = Some u" "u \<noteq> []" "v \<noteq> []"
    and "main out args = (evs, Exit1 err :: ('p, 'v, ('cert, 'sk) certified, 'c) Outcome)" "before_listening err"
  shows "\<exists>err'. main (out\<lparr>out_world := with_api_key v (out_world out)\<rparr>) args = (evs, Exit1 err' :: ('p, 'v, ('cert, 'sk) certified, 'c) Outcome)
    \<and> start_error_text dbg err' = start_error_text dbg err"
proof -
  let ?w = "out_world out"
  note load = config_load_with_api_key [OF assms(1-3), of "out_libs out" "args_overrides args" "args_config_path args"]
  show ?thesis
  proof (cases "config_load (out_libs out) ?w (args_overrides args) (args_config_path args)")
    case (Inl e)
    with load assms(4) show ?thesis
      by (simp add: main_def)
  next
    case (Inr cfg)
    with load obtain cfg' where cfg': "config_load (out_libs out) (with_api_key v ?w) (args_overrides args) (args_config_path args) = Ok cfg'"
      and same: "same_but_key (st_attestation (cfg_static cfg)) (st_attestation (cfg_static cfg'))"
      by auto
    let ?att = "main_attestation (out_attestation out) (out_features out) (out_is_release out) (out_libs out) ?w
      (st_attestation (cfg_static cfg))"
    note att = main_attestation_with_api_key [OF same, of "out_attestation out" "out_features out" "out_is_release out" "out_libs out" v ?w]
    have nd: "\<not> args_dump args"
      using assms(4) Inr by (auto simp: main_def split: if_splits)
    have warnings: "attestation_warnings (out_is_release out) (with_api_key v ?w) (st_attestation (cfg_static cfg'))
        = attestation_warnings (out_is_release out) ?w (st_attestation (cfg_static cfg))"
      using same_but_key_fields [OF same]
      by (simp add: attestation_warnings_def startup_attestation_decision_def insecure_dev_env_set_def uses_mock_def
          warn_insecure_mode_def unpinned_ak_log_def warn_tpm_unpinned_ak_def API_KEY_VAR_def INSECURE_DEV_ENV_def)
    show ?thesis
    proof (cases ?att)
      case Inl
      with assms(4) Inr nd att cfg' warnings show ?thesis
        by (simp add: main_def Let_def)
    next
      case ok: (Inr r)
      then have "\<not> before_listening err"
        using assms(4) Inr nd
        by (auto simp: main_def Let_def dest: main_tls_late split: prod.splits sum.splits)
      with assms(5) show ?thesis by simp
    qed
  qed
qed

definition bad_listen_world :: World where
  "bad_listen_world =
     \<lparr>w_env = map_of [(''ARCHETYPE_PROXY_LISTEN'', ''localhost''), (''ARCHETYPE_PROXY_VERIFIER_API_KEY'', ''k1'')],
      w_exists = (\<lambda>_. False), w_read_to_string = (\<lambda>_. Err []), w_read = (\<lambda>_. Err [])\<rparr>"

theorem refused_start_hides_api_key_witness:
  "\<exists>err. main (toy_out\<lparr>out_world := with_api_key ''k2'' bad_listen_world\<rparr>) example_args
       = ([], Exit1 err :: (string, string \<times> DemoPolicy option, (string, string) certified, unit) Outcome)
     \<and> start_error_text in_quotes err
         = ''invalid value for ARCHETYPE_PROXY_LISTEN: localhost (invalid socket address syntax)''"
proof -
  let ?out = "toy_out\<lparr>out_world := bad_listen_world\<rparr>"
  let ?e = "EnvError ''ARCHETYPE_PROXY_LISTEN'' ''localhost'' AddrReason"
  have "case config_load (out_libs ?out) (out_world ?out) (args_overrides example_args) (args_config_path example_args) of
      Inl e \<Rightarrow> e = ?e | Inr _ \<Rightarrow> False"
    by code_simp
  then have "main ?out example_args
      = ([], Exit1 (ConfigFailed ?e) :: (string, string \<times> DemoPolicy option, (string, string) certified, unit) Outcome)"
    unfolding main_def by (cases "config_load (out_libs ?out) (out_world ?out) (args_overrides example_args) (args_config_path example_args)") simp_all
  moreover have "w_env (out_world ?out) API_KEY_VAR = Some ''k1''"
    by (simp add: bad_listen_world_def API_KEY_VAR_def)
  moreover have "start_error_text in_quotes (ConfigFailed ?e)
      = ''invalid value for ARCHETYPE_PROXY_LISTEN: localhost (invalid socket address syntax)''"
    by code_simp
  ultimately show ?thesis
    using refused_start_hides_api_key [of ?out "''k1''" "''k2''" example_args "[]" "ConfigFailed ?e" in_quotes] by simp
qed

end
