(* ===== verification/Unit_Config.thy ===== *)
theory Unit_Config
  imports Messages
begin

text \<open>
  The unit tests of \<open>src/config.rs\<close>, run on the model. Each test is a definition that translates the test's body, the conjunction of its
  assertions, and a lemma of the test's name that evaluates it. Where a test
  writes a TOML file, the parser is a table with that one text, whose value is what the derived deserializers
  read from it. The test of the TOML derive alone is not here, and the one that loads generated certificates is in \<open>Unit_Cli\<close>.
\<close>

fun str_starts :: "string \<Rightarrow> string \<Rightarrow> bool" where
  "str_starts s [] = True"
| "str_starts [] (d # p) = False"
| "str_starts (c # s) (d # p) = (if c = d then str_starts s p else False)"

fun str_contains :: "string \<Rightarrow> string \<Rightarrow> bool" where
  "str_contains [] p = (p = [])"
| "str_contains (c # s) p = (if str_starts (c # s) p then True else str_contains s p)"

fun is_ok :: "'e + 'a \<Rightarrow> bool" where
  "is_ok (Inl _) = False"
| "is_ok (Inr _) = True"

fun is_validation_error :: "ConfigError + 'a \<Rightarrow> bool" where
  "is_validation_error (Inl (ValidationError _)) = True"
| "is_validation_error _ = False"

fun error_text :: "ConfigError + 'a \<Rightarrow> string" where
  "error_text (Inl e) = config_error_display in_quotes e"
| "error_text (Inr _) = []"

text \<open>A world without variables and files, and libraries that know no file.\<close>

definition bare_world :: World where
  "bare_world =
     \<lparr>w_env = (\<lambda>_. None), w_exists = (\<lambda>_. False), w_read_to_string = (\<lambda>_. Err ''absent''), w_read = (\<lambda>_. Err ''absent'')\<rparr>"

definition bare_libs :: Libs where
  "bare_libs =
     \<lparr>lib_toml = (\<lambda>_. Err ''unknown''), lib_hex_decode = hex_decode_ref, lib_pem_certs = (\<lambda>_. []), lib_x509 = (\<lambda>_. Ok ())\<rparr>"

section \<open>TPM policy\<close>

definition empty_file :: "PartialStatic \<times> Route list" where
  "empty_file = (partial_static_default, [])"

definition tpm_policy :: TpmConfig where
  "tpm_policy =
     \<lparr>tpm_expected_pcrs = bt_insert 0 (replicate 32 0) [], tpm_pinned_ak_sec1 = None, tpm_pcr_selection = None,
      tpm_trusted_ek_root_paths = [], tpm_allow_unpinned_ak = True\<rparr>"

definition layers :: "PartialStatic \<Rightarrow> PartialStatic \<Rightarrow> PartialStatic \<Rightarrow> Config" where
  "layers f e c = resolve_layers (f, []) e c"

definition test_tpm_verifier_without_policy_fails_validation :: bool where
  "test_tpm_verifier_without_policy_fails_validation \<longleftrightarrow>
     (let r = config_validate bare_libs bare_world
        (layers (partial_static_default\<lparr>ps_verifier := Some VerTpm\<rparr>) partial_static_default partial_static_default)
      in is_validation_error r \<and> str_contains (error_text r) ''attestation.tpm'')"

definition test_tpm_provider_without_policy_fails_validation :: bool where
  "test_tpm_provider_without_policy_fails_validation \<longleftrightarrow>
     is_validation_error (config_validate bare_libs bare_world
       (layers (partial_static_default\<lparr>ps_tee_provider := Some TeeTpm\<rparr>) partial_static_default partial_static_default))"

definition test_tpm_verifier_with_policy_validates :: bool where
  "test_tpm_verifier_with_policy_validates \<longleftrightarrow>
     (let cfg = layers (partial_static_default\<lparr>ps_verifier := Some VerTpm, ps_tpm := Some tpm_policy\<rparr>)
        partial_static_default partial_static_default
      in is_ok (config_validate bare_libs bare_world cfg)
         \<and> map_option (\<lambda>t. length (tpm_expected_pcrs t)) (att_tpm (st_attestation (cfg_static cfg))) = Some 1)"

definition test_tpm_empty_expected_pcrs_fails_validation :: bool where
  "test_tpm_empty_expected_pcrs_fails_validation \<longleftrightarrow>
     is_validation_error (config_validate bare_libs bare_world
       (layers
          (partial_static_default
             \<lparr>ps_verifier := Some VerTpm,
              ps_tpm := Some \<lparr>tpm_expected_pcrs = [], tpm_pinned_ak_sec1 = None, tpm_pcr_selection = None,
                tpm_trusted_ek_root_paths = [], tpm_allow_unpinned_ak = True\<rparr>\<rparr>)
          partial_static_default partial_static_default))"

definition test_tpm_file_hex_decodes_to_bytes :: bool where
  "test_tpm_file_hex_decodes_to_bytes \<longleftrightarrow>
     (case file_tpm_resolve bare_libs
        \<lparr>ft_expected_pcrs = bt_insert ''7'' (concat (replicate 32 ''ab'')) (bt_insert ''0'' (concat (replicate 32 ''00'')) []),
         ft_pinned_ak_sec1_hex = Some (''04'' @ concat (replicate 64 ''11'')), ft_pcr_selection = Some [0, 1, 7],
         ft_trusted_ek_root_paths = [''/path/ek-root.pem''], ft_allow_unpinned_ak = True\<rparr> of
        Inl _ \<Rightarrow> False
      | Inr tc \<Rightarrow>
          bt_get (tpm_expected_pcrs tc) 0 = Some (replicate 32 0)
          \<and> bt_get (tpm_expected_pcrs tc) 7 = Some (replicate 32 0xab)
          \<and> map_option length (tpm_pinned_ak_sec1 tc) = Some 65
          \<and> tpm_pcr_selection tc = Some [0, 1, 7]
          \<and> tpm_trusted_ek_root_paths tc = [''/path/ek-root.pem'']
          \<and> tpm_allow_unpinned_ak tc)"

definition test_tpm_file_bad_hex_is_config_error :: bool where
  "test_tpm_file_bad_hex_is_config_error \<longleftrightarrow>
     (let r = file_tpm_resolve bare_libs
        \<lparr>ft_expected_pcrs = bt_insert ''0'' ''zznothex'' [], ft_pinned_ak_sec1_hex = None, ft_pcr_selection = None,
         ft_trusted_ek_root_paths = [], ft_allow_unpinned_ak = False\<rparr>
      in (case r of Inl (EnvError _ _ _) \<Rightarrow> True | _ \<Rightarrow> False)
         \<and> str_contains (error_text r) ''attestation.tpm.expected_pcrs[0]'')"

definition one_pcr :: "bytes option \<Rightarrow> bool \<Rightarrow> Config" where
  "one_pcr pinned unpinned =
     layers
       (partial_static_default
          \<lparr>ps_verifier := Some VerTpm,
           ps_tpm := Some \<lparr>tpm_expected_pcrs = bt_insert 0 (replicate 32 0) [], tpm_pinned_ak_sec1 = pinned,
             tpm_pcr_selection = None, tpm_trusted_ek_root_paths = [], tpm_allow_unpinned_ak = unpinned\<rparr>\<rparr>)
       partial_static_default partial_static_default"

definition test_tpm_verifier_with_pcrs_but_no_trust_mode_fails_validation :: bool where
  "test_tpm_verifier_with_pcrs_but_no_trust_mode_fails_validation \<longleftrightarrow>
     (let r = config_validate bare_libs bare_world (one_pcr None False); msg = error_text r
      in is_validation_error r \<and> str_contains msg ''pinned_ak_sec1_hex'' \<and> str_contains msg ''trusted_ek_root_paths''
         \<and> str_contains msg ''allow_unpinned_ak'')"

definition test_tpm_verifier_with_allow_unpinned_ak_validates :: bool where
  "test_tpm_verifier_with_allow_unpinned_ak_validates \<longleftrightarrow> is_ok (config_validate bare_libs bare_world (one_pcr None True))"

definition test_tpm_verifier_with_pinned_ak_validates :: bool where
  "test_tpm_verifier_with_pinned_ak_validates \<longleftrightarrow>
     is_ok (config_validate bare_libs bare_world (one_pcr (Some (replicate 65 4)) False))"

text \<open>A world with one file, and a parser that knows its text.\<close>

definition one_file_world :: "string \<Rightarrow> string \<Rightarrow> World" where
  "one_file_world path text =
     bare_world\<lparr>w_exists := (\<lambda>p. p = path), w_read_to_string := (\<lambda>p. if p = path then Ok text else Err ''absent'')\<rparr>"

definition one_text_libs :: "string \<Rightarrow> FileConfig \<Rightarrow> Libs" where
  "one_text_libs text fc = bare_libs\<lparr>lib_toml := (\<lambda>t. if t = text then Ok fc else Err ''unknown'')\<rparr>"

definition empty_file_config :: FileConfig where
  "empty_file_config =
     \<lparr>fc_server = \<lparr>fs_listen = None, fs_max_body_bytes = None, fs_tls = None\<rparr>,
      fc_attestation = \<lparr>fa_allow_mock = None, fa_strict_attestation = None, fa_atb_ttl_secs = None,
        fa_atb_eviction_interval_secs = None, fa_atb_max_sessions = None, fa_tee_provider = None,
        fa_verifier = None, fa_verifier_endpoint = None, fa_verifier_api_key = None, fa_tpm = None\<rparr>,
      fc_rate_limit = \<lparr>frl_max_requests = None, frl_window_secs = None\<rparr>,
      fc_discovery = \<lparr>fd_docker = None, fd_docker_socket = None, fd_docker_poll_secs = None, fd_kubernetes = None,
        fd_kubernetes_namespace = None\<rparr>,
      fc_upstream = None, fc_routes = []\<rparr>"

definition zero_digest :: string where
  "zero_digest = replicate 64 (CHR ''0'')"

definition test_tpm_file_round_trips_trust_fields :: bool where
  "test_tpm_file_round_trips_trust_fields \<longleftrightarrow>
     (let toml = newline @ ''[attestation]'' @ newline @ ''verifier = '' @ in_quotes ''tpm'' @ newline @
            ''tee_provider = '' @ in_quotes ''tpm'' @ newline @ newline @ ''[attestation.tpm]'' @ newline @
            ''trusted_ek_root_paths = ['' @ in_quotes ''/a/root.pem'' @ '', '' @ in_quotes ''/b/root.der'' @ '']'' @ newline @
            ''allow_unpinned_ak = true'' @ newline @ newline @ ''[attestation.tpm.expected_pcrs]'' @ newline @
            ''0 = '' @ in_quotes zero_digest @ newline;
          fc = empty_file_config
            \<lparr>fc_attestation := (fc_attestation empty_file_config)
              \<lparr>fa_verifier := Some VerTpm, fa_tee_provider := Some TeeTpm,
               fa_tpm := Some \<lparr>ft_expected_pcrs = [(''0'', zero_digest)], ft_pinned_ak_sec1_hex = None,
                 ft_pcr_selection = None, ft_trusted_ek_root_paths = [''/a/root.pem'', ''/b/root.der''],
                 ft_allow_unpinned_ak = True\<rparr>\<rparr>\<rparr>
      in case read_file (one_text_libs toml fc) (one_file_world ''c.toml'' toml) ''c.toml'' of
           Inl _ \<Rightarrow> False
         | Inr (p, _) \<Rightarrow>
             (case ps_tpm p of
                None \<Rightarrow> False
              | Some tpm \<Rightarrow>
                  tpm_trusted_ek_root_paths tpm = [''/a/root.pem'', ''/b/root.der'']
                  \<and> tpm_allow_unpinned_ak tpm \<and> length (tpm_expected_pcrs tpm) = 1))"

definition test_tpm_env_round_trips_trust_fields :: bool where
  "test_tpm_env_round_trips_trust_fields \<longleftrightarrow>
     (case read_tpm_env bare_libs
        (bare_world\<lparr>w_env := map_of
           [(''ARCHETYPE_PROXY_TPM_EXPECTED_PCRS'', ''0:'' @ zero_digest),
            (''ARCHETYPE_PROXY_TPM_TRUSTED_EK_ROOT_PATHS'', ''/x/root.pem:/y/root.der,/z/root.pem''),
            (''ARCHETYPE_PROXY_TPM_ALLOW_UNPINNED_AK'', ''true'')]\<rparr>) of
        Inr (Some tpm) \<Rightarrow>
          tpm_trusted_ek_root_paths tpm = [''/x/root.pem'', ''/y/root.der'', ''/z/root.pem'']
          \<and> tpm_allow_unpinned_ak tpm \<and> length (tpm_expected_pcrs tpm) = 1
      | _ \<Rightarrow> False)"

section \<open>Layers\<close>

definition test_defaults_when_all_layers_silent :: bool where
  "test_defaults_when_all_layers_silent \<longleftrightarrow>
     (let cfg = resolve_layers empty_file partial_static_default partial_static_default; st = cfg_static cfg
      in srv_max_body_bytes (st_server st) = DEFAULT_MAX_BODY_BYTES \<and> att_allow_mock (st_attestation st)
         \<and> \<not> docker_enabled (disc_docker (st_discovery st))
         \<and> att_atb_eviction_interval_secs (st_attestation st) = DEFAULT_ATB_EVICTION_INTERVAL_SECS
         \<and> att_atb_max_sessions (st_attestation st) = DEFAULT_ATB_MAX_SESSIONS
         \<and> rl_max_requests (st_rate_limit st) = 0
         \<and> provenance_get (cfg_provenance cfg) ''server.max_body_bytes'' = Some Default)"

definition test_file_overrides_default :: bool where
  "test_file_overrides_default \<longleftrightarrow>
     (let cfg = layers (partial_static_default\<lparr>ps_max_body_bytes := Some 999, ps_docker_enabled := Some True\<rparr>)
        partial_static_default partial_static_default
      in srv_max_body_bytes (st_server (cfg_static cfg)) = 999
         \<and> docker_enabled (disc_docker (st_discovery (cfg_static cfg)))
         \<and> provenance_get (cfg_provenance cfg) ''server.max_body_bytes'' = Some File
         \<and> provenance_get (cfg_provenance cfg) ''discovery.docker'' = Some File)"

definition test_env_overrides_file :: bool where
  "test_env_overrides_file \<longleftrightarrow>
     (let cfg = layers (partial_static_default\<lparr>ps_max_body_bytes := Some 999, ps_allow_mock := Some True\<rparr>)
        (partial_static_default\<lparr>ps_max_body_bytes := Some 111\<rparr>) partial_static_default
      in srv_max_body_bytes (st_server (cfg_static cfg)) = 111
         \<and> provenance_get (cfg_provenance cfg) ''server.max_body_bytes'' = Some Env
         \<and> provenance_get (cfg_provenance cfg) ''attestation.allow_mock'' = Some File)"

definition test_cli_overrides_env_and_file :: bool where
  "test_cli_overrides_env_and_file \<longleftrightarrow>
     (let cfg = layers (partial_static_default\<lparr>ps_max_body_bytes := Some 999\<rparr>)
        (partial_static_default\<lparr>ps_max_body_bytes := Some 111\<rparr>) (partial_static_default\<lparr>ps_max_body_bytes := Some 7\<rparr>)
      in srv_max_body_bytes (st_server (cfg_static cfg)) = 7
         \<and> provenance_get (cfg_provenance cfg) ''server.max_body_bytes'' = Some Cli)"

definition test_partial_override_leaves_other_fields :: bool where
  "test_partial_override_leaves_other_fields \<longleftrightarrow>
     (let cfg = layers
        (partial_static_default
           \<lparr>ps_max_body_bytes := Some 999, ps_docker_enabled := Some True, ps_docker_socket := Some ''unix:///custom.sock''\<rparr>)
        (partial_static_default\<lparr>ps_docker_enabled := Some False\<rparr>) partial_static_default;
          docker = disc_docker (st_discovery (cfg_static cfg))
      in \<not> docker_enabled docker
         \<and> provenance_get (cfg_provenance cfg) ''discovery.docker'' = Some Env
         \<and> docker_socket docker = ''unix:///custom.sock''
         \<and> provenance_get (cfg_provenance cfg) ''discovery.docker.socket'' = Some File
         \<and> srv_max_body_bytes (st_server (cfg_static cfg)) = 999)"

definition namespace_of :: "Config \<Rightarrow> string option" where
  "namespace_of cfg = k8s_namespace (disc_kubernetes (st_discovery (cfg_static cfg)))"

definition with_namespace :: "string \<Rightarrow> PartialStatic" where
  "with_namespace ns = partial_static_default\<lparr>ps_kubernetes_namespace := namespace_layer (Some ns)\<rparr>"

definition test_namespace_option_provenance :: bool where
  "test_namespace_option_provenance \<longleftrightarrow>
     (let cfg = layers (with_namespace ''prod'') partial_static_default partial_static_default;
          none = resolve_layers empty_file partial_static_default partial_static_default
      in namespace_of cfg = Some ''prod''
         \<and> provenance_get (cfg_provenance cfg) ''discovery.kubernetes.namespace'' = Some File
         \<and> namespace_of none = None
         \<and> provenance_get (cfg_provenance none) ''discovery.kubernetes.namespace'' = Some Default)"

definition test_namespace_cleared_by_higher_layer :: bool where
  "test_namespace_cleared_by_higher_layer \<longleftrightarrow>
     (let cfg = layers (with_namespace ''prod'') (with_namespace []) partial_static_default
      in namespace_of cfg = None
         \<and> provenance_get (cfg_provenance cfg) ''discovery.kubernetes.namespace'' = Some Env)"

definition test_namespace_set_by_higher_layer :: bool where
  "test_namespace_set_by_higher_layer \<longleftrightarrow>
     (let cfg = layers (with_namespace ''prod'') (with_namespace ''staging'') partial_static_default
      in namespace_of cfg = Some ''staging''
         \<and> provenance_get (cfg_provenance cfg) ''discovery.kubernetes.namespace'' = Some Env)"

section \<open>Results\<close>

lemma tpm_verifier_without_policy_fails_validation: test_tpm_verifier_without_policy_fails_validation
  by code_simp

lemma tpm_provider_without_policy_fails_validation: test_tpm_provider_without_policy_fails_validation
  by code_simp

lemma tpm_verifier_with_policy_validates: test_tpm_verifier_with_policy_validates
  by code_simp

lemma tpm_empty_expected_pcrs_fails_validation: test_tpm_empty_expected_pcrs_fails_validation
  by code_simp

lemma tpm_file_hex_decodes_to_bytes: test_tpm_file_hex_decodes_to_bytes
  by code_simp

lemma tpm_file_bad_hex_is_config_error: test_tpm_file_bad_hex_is_config_error
  by code_simp

lemma str_starts_append: "str_starts s p \<Longrightarrow> str_starts (s @ t) p"
  by (induction s p rule: str_starts.induct) (auto split: if_splits)

lemma str_contains_append: "str_contains s p \<Longrightarrow> str_contains (s @ t) p" "str_contains t p \<Longrightarrow> str_contains (s @ t) p"
proof -
  have "str_contains t []"
    by (cases t) simp_all
  then show "str_contains s p \<Longrightarrow> str_contains (s @ t) p"
    by (induction s) (auto split: if_splits dest: str_starts_append)
  show "str_contains t p \<Longrightarrow> str_contains (s @ t) p"
    by (induction s) auto
qed

lemma tpm_trust_message_contains:
  "str_contains (tpm_trust_message v t) ''pinned_ak_sec1_hex''"
  "str_contains (tpm_trust_message v t) ''trusted_ek_root_paths''"
  "str_contains (tpm_trust_message v t) ''allow_unpinned_ak''"
proof -
  have lines: "str_contains ''       pinned_ak_sec1_hex = '' ''pinned_ak_sec1_hex''"
    "str_contains ''       trusted_ek_root_paths = ['' ''trusted_ek_root_paths''"
    "str_contains ''       allow_unpinned_ak = true'' ''allow_unpinned_ak''"
    by code_simp+
  show "str_contains (tpm_trust_message v t) ''pinned_ak_sec1_hex''"
    "str_contains (tpm_trust_message v t) ''trusted_ek_root_paths''"
    "str_contains (tpm_trust_message v t) ''allow_unpinned_ak''"
    unfolding tpm_trust_message_def by ((rule str_contains_append(1), rule lines | rule str_contains_append(2))+)
qed

lemma tpm_verifier_with_pcrs_but_no_trust_mode_fails_validation: test_tpm_verifier_with_pcrs_but_no_trust_mode_fails_validation
proof -
  have "config_validate bare_libs bare_world (one_pcr None False) = Err (ValidationError (TpmTrustModeMissing VerTpm TeeMock))"
    by code_simp
  then show ?thesis
    unfolding test_tpm_verifier_with_pcrs_but_no_trust_mode_fails_validation_def Let_def
    by (simp only: error_text.simps is_validation_error.simps config_error_display.simps root_message.simps)
      (intro conjI TrueI str_contains_append(2) tpm_trust_message_contains)
qed

lemma tpm_verifier_with_allow_unpinned_ak_validates: test_tpm_verifier_with_allow_unpinned_ak_validates
  by code_simp

lemma tpm_verifier_with_pinned_ak_validates: test_tpm_verifier_with_pinned_ak_validates
  by code_simp

lemma tpm_file_round_trips_trust_fields: test_tpm_file_round_trips_trust_fields
  by code_simp

lemma tpm_env_round_trips_trust_fields: test_tpm_env_round_trips_trust_fields
  by code_simp

lemma defaults_when_all_layers_silent: test_defaults_when_all_layers_silent
  by code_simp

lemma file_overrides_default: test_file_overrides_default
  by code_simp

lemma env_overrides_file: test_env_overrides_file
  by code_simp

lemma cli_overrides_env_and_file: test_cli_overrides_env_and_file
  by code_simp

lemma partial_override_leaves_other_fields: test_partial_override_leaves_other_fields
  by code_simp

lemma namespace_option_provenance: test_namespace_option_provenance
  by code_simp

lemma namespace_cleared_by_higher_layer: test_namespace_cleared_by_higher_layer
  by code_simp

lemma namespace_set_by_higher_layer: test_namespace_set_by_higher_layer
  by code_simp

end
