(* ===== verification/Unit_Routes.thy ===== *)
theory Unit_Routes
  imports Unit_Config
begin

text \<open>
  The unit tests of \<open>src/config.rs\<close> on route selection, the routes of a file, the TLS block and the DNS settings, run on the model.
\<close>

section \<open>Route selection\<close>

definition test_route :: "string \<Rightarrow> string \<Rightarrow> string \<Rightarrow> string \<Rightarrow> Route" where
  "test_route name host pre upstream =
     \<lparr>r_name = name, r_host = host, r_path_prefix = pre, r_upstream = upstream, r_strict_attestation = None, r_source = File\<rparr>"

definition test_route_src :: "string \<Rightarrow> string \<Rightarrow> string \<Rightarrow> Source \<Rightarrow> Route" where
  "test_route_src name pre upstream source =
     \<lparr>r_name = name, r_host = [], r_path_prefix = pre, r_upstream = upstream, r_strict_attestation = None, r_source = source\<rparr>"

definition selected :: "RouteTable \<Rightarrow> string \<Rightarrow> string \<Rightarrow> string option" where
  "selected t host path = map_option r_upstream (route_table_select t host path)"

definition test_route_selects_by_path_prefix :: bool where
  "test_route_selects_by_path_prefix \<longleftrightarrow>
     (let t = route_table_new [test_route ''v1'' [] ''/v1'' ''http://v1:80'', test_route ''catch'' [] [] ''http://default:80'']
      in selected t ''any'' ''/v1/foo'' = Some ''http://v1:80'' \<and> selected t ''any'' ''/other'' = Some ''http://default:80'')"

definition test_route_host_match_beats_catchall :: bool where
  "test_route_host_match_beats_catchall \<longleftrightarrow>
     (let t = route_table_new [test_route ''catch'' [] [] ''http://default:80'', test_route ''api'' ''api.internal'' [] ''http://api:80'']
      in selected t ''api.internal'' ''/x'' = Some ''http://api:80'' \<and> selected t ''other'' ''/x'' = Some ''http://default:80'')"

definition test_route_longer_prefix_wins :: bool where
  "test_route_longer_prefix_wins \<longleftrightarrow>
     (let t = route_table_new [test_route ''short'' [] ''/api'' ''http://short:80'', test_route ''long'' [] ''/api/v2'' ''http://long:80'']
      in selected t ''h'' ''/api/v2/x'' = Some ''http://long:80'' \<and> selected t ''h'' ''/api/v1/x'' = Some ''http://short:80'')"

definition test_route_host_is_case_insensitive :: bool where
  "test_route_host_is_case_insensitive \<longleftrightarrow>
     route_table_select (route_table_new [test_route ''api'' ''API.Internal'' [] ''http://api:80'']) ''api.internal'' ''/x'' \<noteq> None"

definition test_discovered_overrides_file_on_identical_rule :: bool where
  "test_discovered_overrides_file_on_identical_rule \<longleftrightarrow>
     (let file_first = route_table_new [test_route_src ''file'' ''/v1'' ''http://file:80'' File,
            test_route_src ''disc'' ''/v1'' ''http://disc:80'' Discovered];
          disc_first = route_table_new [test_route_src ''disc'' ''/v1'' ''http://disc:80'' Discovered,
            test_route_src ''file'' ''/v1'' ''http://file:80'' File]
      in selected file_first ''h'' ''/v1/x'' = Some ''http://disc:80'' \<and> selected disc_first ''h'' ''/v1/x'' = Some ''http://disc:80'')"

definition test_more_specific_file_route_still_beats_less_specific_discovered :: bool where
  "test_more_specific_file_route_still_beats_less_specific_discovered \<longleftrightarrow>
     selected (route_table_new [test_route_src ''disc-short'' ''/api'' ''http://disc:80'' Discovered,
       test_route_src ''file-long'' ''/api/v2'' ''http://file:80'' File]) ''h'' ''/api/v2/x'' = Some ''http://file:80''"

definition test_path_prefix_matches_on_segment_boundary :: bool where
  "test_path_prefix_matches_on_segment_boundary \<longleftrightarrow>
     path_prefix_matches ''/v1'' ''/v1'' \<and> path_prefix_matches ''/v1'' ''/v1/ok'' \<and> path_prefix_matches ''/v1/'' ''/v1/ok''
     \<and> \<not> path_prefix_matches ''/v1'' ''/v123'' \<and> \<not> path_prefix_matches ''/v1'' ''/v1evil'' \<and> \<not> path_prefix_matches ''/v1'' ''/v''
     \<and> path_prefix_matches [] ''/anything'' \<and> path_prefix_matches ''/'' ''/anything''"

definition test_route_v1_does_not_match_v123 :: bool where
  "test_route_v1_does_not_match_v123 \<longleftrightarrow>
     (let t = route_table_new [test_route ''v1'' [] ''/v1'' ''http://v1:80'', test_route ''catch'' [] [] ''http://default:80'']
      in selected t ''h'' ''/v1'' = Some ''http://v1:80'' \<and> selected t ''h'' ''/v1/ok'' = Some ''http://v1:80''
         \<and> selected t ''h'' ''/v123'' = Some ''http://default:80'' \<and> selected t ''h'' ''/v1evil'' = Some ''http://default:80'')"

definition test_route_no_match_returns_none :: bool where
  "test_route_no_match_returns_none \<longleftrightarrow>
     route_table_select (route_table_new [test_route ''api'' ''api.internal'' [] ''http://api:80'']) ''nope'' ''/x'' = None"

definition test_parse_bool_token_trims_and_normalizes :: bool where
  "test_parse_bool_token_trims_and_normalizes \<longleftrightarrow>
     parse_bool_token '' TRUE '' = Some True \<and> parse_bool_token ''On'' = Some True \<and> parse_bool_token ''0'' = Some False
     \<and> parse_bool_token ''  no'' = Some False \<and> parse_bool_token ''maybe'' = None"

section \<open>Routes of a file\<close>

definition test_file_upstream_backcompat_becomes_catchall :: bool where
  "test_file_upstream_backcompat_becomes_catchall \<longleftrightarrow>
     (let toml = ''[server]'' @ newline @ ''listen = '' @ in_quotes ''127.0.0.1:9000'' @ newline @ newline @ ''[upstream]'' @ newline @
            ''target = '' @ in_quotes ''http://back:8080'' @ newline;
          fc = empty_file_config
            \<lparr>fc_server := (fc_server empty_file_config)\<lparr>fs_listen := parse_socket_addr ''127.0.0.1:9000''\<rparr>,
             fc_upstream := Some ''http://back:8080''\<rparr>
      in case read_file (one_text_libs toml fc) (one_file_world ''c.toml'' toml) ''c.toml'' of
           Inr (p, [r]) \<Rightarrow>
             ps_listen p = Some (SocketV4 [127, 0, 0, 1] 9000) \<and> r_upstream r = ''http://back:8080'' \<and> r_host r = [] \<and> r_path_prefix r = []
         | _ \<Rightarrow> False)"

definition test_file_routes_parsed :: bool where
  "test_file_routes_parsed \<longleftrightarrow>
     (let toml = newline @ ''[[route]]'' @ newline @ ''name = '' @ in_quotes ''api'' @ newline @ ''host = '' @ in_quotes ''api.internal'' @ newline @
            ''path_prefix = '' @ in_quotes ''/v1'' @ newline @ ''upstream = '' @ in_quotes ''http://api:8080'' @ newline @
            ''strict_attestation = true'' @ newline @ newline @ ''[[route]]'' @ newline @ ''upstream = '' @ in_quotes ''http://default:80'' @ newline;
          fc = empty_file_config
            \<lparr>fc_routes :=
              [\<lparr>fr_name = Some ''api'', fr_host = ''api.internal'', fr_path_prefix = ''/v1'', fr_upstream = ''http://api:8080'',
                fr_strict_attestation = Some True\<rparr>,
               \<lparr>fr_name = None, fr_host = [], fr_path_prefix = [], fr_upstream = ''http://default:80'', fr_strict_attestation = None\<rparr>]\<rparr>
      in case read_file (one_text_libs toml fc) (one_file_world ''c.toml'' toml) ''c.toml'' of
           Inr (_, [r0, r1]) \<Rightarrow> r_name r0 = ''api'' \<and> r_strict_attestation r0 = Some True \<and> r_name r1 = ''route-1''
         | _ \<Rightarrow> False)"

section \<open>TLS and DNS settings\<close>

definition acme_cfg :: "AcmeChallenge \<Rightarrow> string list \<Rightarrow> AcmeConfig" where
  "acme_cfg challenge domains =
     \<lparr>acme_enabled = True, acme_domains = domains, acme_contact = Some ''admin@example.com'', acme_challenge = challenge,
      acme_directory_url = None, acme_staging = True, acme_cache_dir = None, acme_http01_listen = None,
      acme_dns = acme_dns_config_default\<rparr>"

definition tls_error_contains :: "TlsConfig \<Rightarrow> string \<Rightarrow> bool" where
  "tls_error_contains tls text =
     (case tls_validate tls of Inl e \<Rightarrow> str_contains (tls_config_message e) text | Inr _ \<Rightarrow> False)"

definition acme_tls :: "AcmeConfig \<Rightarrow> TlsConfig" where
  "acme_tls acme = \<lparr>tls_cert_path = None, tls_key_path = None, tls_acme = Some acme\<rparr>"

definition test_tls_validate_static_pair_ok :: bool where
  "test_tls_validate_static_pair_ok \<longleftrightarrow>
     (case tls_validate \<lparr>tls_cert_path = Some ''/c.pem'', tls_key_path = Some ''/k.pem'', tls_acme = None\<rparr> of
        Inr (TlsStatic _ _) \<Rightarrow> True | _ \<Rightarrow> False)"

definition test_tls_validate_static_and_acme_mutually_exclusive :: bool where
  "test_tls_validate_static_and_acme_mutually_exclusive \<longleftrightarrow>
     tls_error_contains
       \<lparr>tls_cert_path = Some ''/c.pem'', tls_key_path = Some ''/k.pem'', tls_acme = Some (acme_cfg TlsAlpn01 [''example.com''])\<rparr>
       ''mutually exclusive''"

definition test_tls_validate_no_source_is_error :: bool where
  "test_tls_validate_no_source_is_error \<longleftrightarrow>
     tls_error_contains \<lparr>tls_cert_path = None, tls_key_path = None, tls_acme = None\<rparr> ''no cert source''"

definition test_tls_validate_half_static_pair_is_error :: bool where
  "test_tls_validate_half_static_pair_is_error \<longleftrightarrow>
     tls_error_contains \<lparr>tls_cert_path = Some ''/c.pem'', tls_key_path = None, tls_acme = None\<rparr> ''key_path is missing''"

definition test_tls_validate_acme_requires_domains :: bool where
  "test_tls_validate_acme_requires_domains \<longleftrightarrow> tls_error_contains (acme_tls (acme_cfg TlsAlpn01 [])) ''`domains` is empty''"

definition test_tls_validate_acme_disabled_is_no_source :: bool where
  "test_tls_validate_acme_disabled_is_no_source \<longleftrightarrow>
     tls_error_contains (acme_tls ((acme_cfg TlsAlpn01 [''example.com''])\<lparr>acme_enabled := False\<rparr>)) ''no cert source''"

definition test_tls_validate_wildcard_requires_dns01 :: bool where
  "test_tls_validate_wildcard_requires_dns01 \<longleftrightarrow>
     list_all (\<lambda>ch. tls_error_contains (acme_tls (acme_cfg ch [''*.example.com'']))
                  (''wildcard domain requires challenge='' @ in_quotes ''dns-01''))
       [TlsAlpn01, Http01]"

definition test_tls_validate_wildcard_ok_with_dns01 :: bool where
  "test_tls_validate_wildcard_ok_with_dns01 \<longleftrightarrow>
     (case tls_validate (acme_tls (acme_cfg Dns01 [''*.example.com''])) of Inr (TlsAcme _) \<Rightarrow> True | _ \<Rightarrow> False)"

definition test_dns_provider_kind_parses_cloudflare :: bool where
  "test_dns_provider_kind_parses_cloudflare \<longleftrightarrow>
     dns_from_str ''cloudflare'' = Ok Cloudflare \<and> dns_from_str ''cf'' = Ok Cloudflare \<and> dns_from_str ''manual'' = Ok Manual
     \<and> (case dns_from_str ''route53'' of
          Inl e \<Rightarrow> str_contains (kind_error_message in_quotes e) ''expected manual|cloudflare'' | Inr _ \<Rightarrow> False)"

definition test_cf_token_resolves_inline_then_env :: bool where
  "test_cf_token_resolves_inline_then_env \<longleftrightarrow>
     (let env = map_of [(''APROXY_TEST_CF_TOKEN_RESOLVE'', ''from-env'')]
      in resolve_cf_token env (acme_dns_config_default
           \<lparr>dns_api_token := Some ''inline'', dns_api_token_env := Some ''APROXY_TEST_CF_TOKEN_UNSET''\<rparr>) = Some ''inline''
         \<and> resolve_cf_token env (acme_dns_config_default
           \<lparr>dns_api_token := None, dns_api_token_env := Some ''APROXY_TEST_CF_TOKEN_RESOLVE''\<rparr>) = Some ''from-env''
         \<and> resolve_cf_token env acme_dns_config_default = None)"

section \<open>Results\<close>

lemma route_selects_by_path_prefix: test_route_selects_by_path_prefix
  by code_simp

lemma route_host_match_beats_catchall: test_route_host_match_beats_catchall
  by code_simp

lemma route_longer_prefix_wins: test_route_longer_prefix_wins
  by code_simp

lemma route_host_is_case_insensitive: test_route_host_is_case_insensitive
  by code_simp

lemma discovered_overrides_file_on_identical_rule: test_discovered_overrides_file_on_identical_rule
  by code_simp

lemma more_specific_file_route_still_beats_less_specific_discovered: test_more_specific_file_route_still_beats_less_specific_discovered
  by code_simp

lemma path_prefix_matches_on_segment_boundary: test_path_prefix_matches_on_segment_boundary
  by code_simp

lemma route_v1_does_not_match_v123: test_route_v1_does_not_match_v123
  by code_simp

lemma route_no_match_returns_none: test_route_no_match_returns_none
  by code_simp

lemma parse_bool_token_trims_and_normalizes: test_parse_bool_token_trims_and_normalizes
  by code_simp

lemma file_upstream_backcompat_becomes_catchall: test_file_upstream_backcompat_becomes_catchall
  by code_simp

lemma file_routes_parsed: test_file_routes_parsed
  by code_simp

lemma tls_validate_static_pair_ok: test_tls_validate_static_pair_ok
  by code_simp

lemma tls_validate_static_and_acme_mutually_exclusive: test_tls_validate_static_and_acme_mutually_exclusive
  by code_simp

lemma tls_validate_no_source_is_error: test_tls_validate_no_source_is_error
  by code_simp

lemma tls_validate_half_static_pair_is_error: test_tls_validate_half_static_pair_is_error
  by code_simp

lemma tls_validate_acme_requires_domains: test_tls_validate_acme_requires_domains
  by code_simp

lemma tls_validate_acme_disabled_is_no_source: test_tls_validate_acme_disabled_is_no_source
  by code_simp

lemma tls_validate_wildcard_requires_dns01: test_tls_validate_wildcard_requires_dns01
  by code_simp

lemma tls_validate_wildcard_ok_with_dns01: test_tls_validate_wildcard_ok_with_dns01
  by code_simp

lemma dns_provider_kind_parses_cloudflare: test_dns_provider_kind_parses_cloudflare
  by code_simp

lemma cf_token_resolves_inline_then_env: test_cf_token_resolves_inline_then_env
  by code_simp

end
