(* ===== verification/Unit_Discovery.thy ===== *)
theory Unit_Discovery
  imports Unit_Config
begin

text \<open>
  The unit tests of \<open>src/discovery/labels.rs\<close>, \<open>src/discovery/docker.rs\<close> and \<open>src/discovery/k8s.rs\<close>, run on the model. The objects of the
  Kubernetes tests are given by their metadata, which is all that is read of a Service or an Ingress.
\<close>

section \<open>Labels\<close>

definition labels_map :: "(string \<times> string) list \<Rightarrow> (string, string) btree" where
  "labels_map pairs = bt_of_list pairs"

definition test_disabled_container_yields_nothing :: bool where
  "test_disabled_container_yields_nothing \<longleftrightarrow>
     fst (routes_from_labels ''abc'' (labels_map [(''archetype.enable'', ''false'')])) = []
     \<and> fst (routes_from_labels ''abc'' (labels_map [(''other.label'', ''x'')])) = []"

definition test_single_named_route :: bool where
  "test_single_named_route \<longleftrightarrow>
     (case routes_from_labels ''deadbeefcafe0000'' (labels_map
        [(''archetype.enable'', ''true''), (''archetype.route.api.host'', ''api.internal''),
         (''archetype.route.api.upstream'', ''http://api:8080''), (''archetype.route.api.pathprefix'', ''/v1'')]) of
        ([r], warnings) \<Rightarrow>
          r_host r = ''api.internal'' \<and> r_upstream r = ''http://api:8080'' \<and> r_path_prefix r = ''/v1''
          \<and> r_name r = ''docker/deadbeefcafe/api'' \<and> r_source r = Discovered \<and> warnings = []
      | _ \<Rightarrow> False)"

definition test_multiple_routes_per_container :: bool where
  "test_multiple_routes_per_container \<longleftrightarrow>
     (let (routes, _) = routes_from_labels ''c1'' (labels_map
        [(''archetype.enable'', ''true''), (''archetype.route.a.upstream'', ''http://a:1''),
         (''archetype.route.b.upstream'', ''http://b:2''), (''archetype.route.b.host'', ''b.internal'')])
      in case sort_key r_upstream routes of
           [r0, r1] \<Rightarrow> r_upstream r0 = ''http://a:1'' \<and> r_host r1 = ''b.internal''
         | _ \<Rightarrow> False)"

definition test_per_route_strict_overrides_global :: bool where
  "test_per_route_strict_overrides_global \<longleftrightarrow>
     (let (routes, _) = routes_from_labels ''c1'' (labels_map
        [(''archetype.enable'', ''true''), (''archetype.attestation.strict'', ''true''),
         (''archetype.route.a.upstream'', ''http://a:1''), (''archetype.route.a.strict'', ''false''),
         (''archetype.route.b.upstream'', ''http://b:2'')])
      in map_option r_strict_attestation (find (\<lambda>r. r_upstream r = ''http://a:1'') routes) = Some (Some False)
         \<and> map_option r_strict_attestation (find (\<lambda>r. r_upstream r = ''http://b:2'') routes) = Some (Some True))"

definition test_missing_upstream_warns_and_skips :: bool where
  "test_missing_upstream_warns_and_skips \<longleftrightarrow>
     (let (routes, warnings) = routes_from_labels ''c1'' (labels_map
        [(''archetype.enable'', ''true''), (''archetype.route.a.host'', ''a.internal'')])
      in routes = [] \<and> list_ex (\<lambda>w. str_contains (label_warning_message w) ''missing `upstream`'') warnings)"

definition test_implicit_route_from_top_level_upstream :: bool where
  "test_implicit_route_from_top_level_upstream \<longleftrightarrow>
     (case routes_from_labels ''abcdef123456'' (labels_map
        [(''archetype.enable'', ''true''), (''archetype.upstream'', ''http://solo:9000''), (''archetype.host'', ''solo.internal'')]) of
        ([r], _) \<Rightarrow> r_upstream r = ''http://solo:9000'' \<and> r_host r = ''solo.internal'' \<and> r_name r = ''docker/abcdef123456''
      | _ \<Rightarrow> False)"

definition test_enabled_but_no_routes_warns :: bool where
  "test_enabled_but_no_routes_warns \<longleftrightarrow>
     (let (routes, warnings) = routes_from_labels ''c1'' (labels_map [(''archetype.enable'', ''true'')])
      in routes = [] \<and> list_ex (\<lambda>w. str_contains (label_warning_message w) ''no routes'') warnings)"

section \<open>Docker\<close>

definition test_socket_kind_dispatch :: bool where
  "test_socket_kind_dispatch \<longleftrightarrow>
     socket_kind ''unix:///var/run/docker.sock'' = SocketUnix \<and> socket_kind ''http://127.0.0.1:2375'' = SocketHttp
     \<and> socket_kind ''tcp://127.0.0.1:2375'' = SocketHttp"

definition test_short_truncates_to_12 :: bool where
  "test_short_truncates_to_12 \<longleftrightarrow> docker_short ''deadbeefcafe0000'' = ''deadbeefcafe'' \<and> docker_short ''abc'' = ''abc''"

section \<open>Kubernetes\<close>

definition test_object :: "string \<Rightarrow> string \<Rightarrow> (string \<times> string) list \<Rightarrow> ObjectMeta" where
  "test_object ns name ann = \<lparr>om_namespace = Some ns, om_name = Some name, om_annotations = Some (bt_of_list ann)\<rparr>"

definition test_object_key_is_namespace_slash_name :: bool where
  "test_object_key_is_namespace_slash_name \<longleftrightarrow> object_key (test_object ''prod'' ''api'' []) = ''prod/api''"

definition test_synthetic_service_reconciles_to_route :: bool where
  "test_synthetic_service_reconciles_to_route \<longleftrightarrow>
     (case route_from_object (test_object ''prod'' ''api''
        [(''archetype.li/enable'', ''true''), (''archetype.li/upstream'', ''http://api:80''), (''archetype.li/host'', ''api.internal'')]) of
        Some r \<Rightarrow> r_name r = ''k8s/api'' \<and> r_upstream r = ''http://api:80'' \<and> r_host r = ''api.internal''
      | None \<Rightarrow> False)"

definition test_synthetic_ingress_reconciles_to_route :: bool where
  "test_synthetic_ingress_reconciles_to_route \<longleftrightarrow>
     (case route_from_object (test_object ''prod'' ''web''
        [(''archetype.li/enable'', ''true''), (''archetype.li/upstream'', ''http://web:8080''), (''archetype.li/path-prefix'', ''/app'')]) of
        Some r \<Rightarrow> r_name r = ''k8s/web'' \<and> r_path_prefix r = ''/app''
      | None \<Rightarrow> False)"

definition test_not_opted_in_object_yields_no_route :: bool where
  "test_not_opted_in_object_yields_no_route \<longleftrightarrow>
     route_from_object (test_object ''prod'' ''api'' [(''archetype.li/enable'', ''false'')]) = None
     \<and> route_from_object (test_object ''prod'' ''other'' []) = None"

definition opted :: "string \<Rightarrow> string \<Rightarrow> string \<Rightarrow> ObjectMeta" where
  "opted ns name upstream = test_object ns name [(''archetype.li/enable'', ''true''), (''archetype.li/upstream'', upstream)]"

definition collect_names :: "KindStore \<Rightarrow> string list" where
  "collect_names store = map r_name (kind_store_routes store)"

definition test_init_buffer_swaps_in_atomically :: bool where
  "test_init_buffer_swaps_in_atomically \<longleftrightarrow>
     (let (s1, c1) = kind_store_apply kind_store_default (to_op (EvApply (opted ''prod'' ''old'' ''http://old:80'')));
          (s2, c2) = kind_store_apply s1 (to_op EvInit);
          (s3, c3) = kind_store_apply s2 (to_op (EvInitApply (opted ''prod'' ''new'' ''http://new:80'')));
          (s4, c4) = kind_store_apply s3 (to_op EvInitDone)
      in c1 \<and> collect_names s1 = [''k8s/old''] \<and> \<not> c2 \<and> collect_names s2 = [''k8s/old'']
         \<and> \<not> c3 \<and> collect_names s3 = [''k8s/old''] \<and> c4 \<and> collect_names s4 = [''k8s/new''])"

definition test_apply_then_delete_round_trips :: bool where
  "test_apply_then_delete_round_trips \<longleftrightarrow>
     (let api = opted ''prod'' ''api'' ''http://api:80'';
          (s1, c1) = kind_store_apply kind_store_default (to_op (EvApply api));
          (s2, c2) = kind_store_apply s1 (to_op (EvApply api));
          (s3, c3) = kind_store_apply s2 (to_op (EvDelete api));
          (s4, c4) = kind_store_apply s3 (to_op (EvDelete api))
      in c1 \<and> collect_names s1 = [''k8s/api''] \<and> \<not> c2 \<and> c3 \<and> collect_names s3 = [] \<and> \<not> c4)"

definition test_losing_optin_annotations_drops_the_route :: bool where
  "test_losing_optin_annotations_drops_the_route \<longleftrightarrow>
     (let (s1, c1) = kind_store_apply kind_store_default (to_op (EvApply (opted ''prod'' ''api'' ''http://api:80'')));
          (s2, c2) = kind_store_apply s1 (to_op (EvApply (test_object ''prod'' ''api'' [(''archetype.li/enable'', ''false'')])))
      in c1 \<and> c2 \<and> collect_names s2 = [])"

definition test_empty_initdone_clears_committed :: bool where
  "test_empty_initdone_clears_committed \<longleftrightarrow>
     (let (s1, c1) = kind_store_apply kind_store_default (to_op (EvApply (opted ''prod'' ''api'' ''http://api:80'')));
          (s2, c2) = kind_store_apply s1 (to_op EvInit);
          (s3, c3) = kind_store_apply s2 (to_op EvInitDone)
      in c1 \<and> \<not> c2 \<and> c3 \<and> collect_names s3 = [])"

definition test_disabled_yields_none :: bool where
  "test_disabled_yields_none \<longleftrightarrow>
     route_from_annotations ''svc'' (labels_map [(''archetype.li/enable'', ''false'')]) = None
     \<and> route_from_annotations ''svc'' (labels_map []) = None"

definition test_enabled_without_upstream_none :: bool where
  "test_enabled_without_upstream_none \<longleftrightarrow>
     route_from_annotations ''svc'' (labels_map [(''archetype.li/enable'', ''true'')]) = None"

definition test_full_annotation_set :: bool where
  "test_full_annotation_set \<longleftrightarrow>
     (case route_from_annotations ''api-svc'' (labels_map
        [(''archetype.li/enable'', ''true''), (''archetype.li/upstream'', ''http://svc:80''), (''archetype.li/host'', ''api.internal''),
         (''archetype.li/path-prefix'', ''/v1''), (''archetype.li/strict'', ''true'')]) of
        Some r \<Rightarrow>
          r_name r = ''k8s/api-svc'' \<and> r_upstream r = ''http://svc:80'' \<and> r_host r = ''api.internal'' \<and> r_path_prefix r = ''/v1''
          \<and> r_strict_attestation r = Some True \<and> r_source r = Discovered
      | None \<Rightarrow> False)"

section \<open>Results\<close>

lemma disabled_container_yields_nothing: test_disabled_container_yields_nothing
  by code_simp

lemma single_named_route: test_single_named_route
  by code_simp

lemma multiple_routes_per_container: test_multiple_routes_per_container
  by code_simp

lemma per_route_strict_overrides_global: test_per_route_strict_overrides_global
  by code_simp

lemma missing_upstream_warns_and_skips: test_missing_upstream_warns_and_skips
  by code_simp

lemma implicit_route_from_top_level_upstream: test_implicit_route_from_top_level_upstream
  by code_simp

lemma enabled_but_no_routes_warns: test_enabled_but_no_routes_warns
  by code_simp

lemma socket_kind_dispatch: test_socket_kind_dispatch
  by code_simp

lemma short_truncates_to_12: test_short_truncates_to_12
  by code_simp

lemma object_key_is_namespace_slash_name: test_object_key_is_namespace_slash_name
  by code_simp

lemma synthetic_service_reconciles_to_route: test_synthetic_service_reconciles_to_route
  by code_simp

lemma synthetic_ingress_reconciles_to_route: test_synthetic_ingress_reconciles_to_route
  by code_simp

lemma not_opted_in_object_yields_no_route: test_not_opted_in_object_yields_no_route
  by code_simp

lemma init_buffer_swaps_in_atomically: test_init_buffer_swaps_in_atomically
  by code_simp

lemma apply_then_delete_round_trips: test_apply_then_delete_round_trips
  by code_simp

lemma losing_optin_annotations_drops_the_route: test_losing_optin_annotations_drops_the_route
  by code_simp

lemma empty_initdone_clears_committed: test_empty_initdone_clears_committed
  by code_simp

lemma disabled_yields_none: test_disabled_yields_none
  by code_simp

lemma enabled_without_upstream_none: test_enabled_without_upstream_none
  by code_simp

lemma full_annotation_set: test_full_annotation_set
  by code_simp

end
