(* ===== verification/Unit_Security.thy ===== *)
theory Unit_Security
  imports Unit_Config
begin

text \<open>
  The unit tests of \<open>src/attestation.rs\<close>, \<open>src/ws.rs\<close>, \<open>src/tls.rs\<close> and \<open>src/acme.rs\<close>, run on the model of the
  default build, in which only the mock provider and verifier are compiled in. The AEAD of the WebSocket tests is the
  concrete one of \<open>Ws_Frames\<close>, and the stub server of the Cloudflare tests is a concrete Cloudflare API that
  records the requests it gets. The tests that use a generated certificate are in \<open>Unit_Cli\<close>.
\<close>

section \<open>Attestation\<close>

definition att_cfg :: "bool \<Rightarrow> TeeProviderKind \<Rightarrow> VerifierKind \<Rightarrow> AttestationConfig" where
  "att_cfg allow_mock tee ver =
     \<lparr>att_allow_mock = allow_mock, att_strict_attestation = False, att_atb_ttl_secs = 300,
      att_atb_eviction_interval_secs = 60, att_atb_max_sessions = 100, att_tee_provider = tee,
      att_verifier = ver, att_verifier_endpoint = None, att_verifier_api_key = None, att_tpm = None\<rparr>"

fun fatal_contains :: "FatalError + 'a \<Rightarrow> string \<Rightarrow> bool" where
  "fatal_contains (Inl e) text = str_contains (fatal_error_message in_quotes e) text"
| "fatal_contains (Inr _) text = False"

definition test_release_mock_no_escape_is_fatal :: bool where
  "test_release_mock_no_escape_is_fatal \<longleftrightarrow>
     (let err = startup_attestation_decision True (att_cfg True TeeMock VerMock) False
      in fatal_contains err ''refusing to start'' \<and> fatal_contains err ''no security'')"

definition test_release_mock_with_escape_boots_insecure :: bool where
  "test_release_mock_with_escape_boots_insecure \<longleftrightarrow>
     startup_attestation_decision True (att_cfg True TeeMock VerMock) True = Ok (Insecure True)"

definition test_release_real_boots_secure :: bool where
  "test_release_real_boots_secure \<longleftrightarrow> startup_attestation_decision True (att_cfg False Tdx Maa) False = Ok Secure"

definition test_debug_mock_boots_insecure_without_escape :: bool where
  "test_debug_mock_boots_insecure_without_escape \<longleftrightarrow>
     startup_attestation_decision False (att_cfg True TeeMock VerMock) False = Ok (Insecure False)"

definition test_allow_mock_alone_taints_real_provider_verifier :: bool where
  "test_allow_mock_alone_taints_real_provider_verifier \<longleftrightarrow>
     uses_mock (att_cfg True Tdx Maa)
     \<and> fatal_contains (startup_attestation_decision True (att_cfg True Tdx Maa) False) ''allow_mock=true''"

definition test_mock_provider_alone_taints :: bool where
  "test_mock_provider_alone_taints \<longleftrightarrow>
     uses_mock (att_cfg False TeeMock Maa)
     \<and> \<not> is_ok (startup_attestation_decision True (att_cfg False TeeMock Maa) False)"

definition test_mock_verifier_alone_taints :: bool where
  "test_mock_verifier_alone_taints \<longleftrightarrow>
     uses_mock (att_cfg False Tdx VerMock)
     \<and> \<not> is_ok (startup_attestation_decision True (att_cfg False Tdx VerMock) False)"

definition test_debug_real_is_secure :: bool where
  "test_debug_real_is_secure \<longleftrightarrow> startup_attestation_decision False (att_cfg False SevSnp AmdSnp) False = Ok Secure"

definition test_mock_provider_and_verifier_build :: bool where
  "test_mock_provider_and_verifier_build \<longleftrightarrow>
     is_ok (build_tee_provider demo_lib {} (att_cfg True TeeMock VerMock))
     \<and> is_ok (build_verifier demo_lib {} bare_libs bare_world (att_cfg True TeeMock VerMock))"

definition test_tdx_without_feature_is_fatal :: bool where
  "test_tdx_without_feature_is_fatal \<longleftrightarrow>
     fatal_contains (build_tee_provider demo_lib {} (att_cfg False Tdx VerMock)) ''--features tdx''"

definition test_maa_without_feature_is_fatal :: bool where
  "test_maa_without_feature_is_fatal \<longleftrightarrow>
     fatal_contains (build_verifier demo_lib {} bare_libs bare_world (att_cfg False TeeMock Maa)) ''--features maa''"

definition test_dcap_is_unsupported :: bool where
  "test_dcap_is_unsupported \<longleftrightarrow>
     fatal_contains (build_verifier demo_lib {} bare_libs bare_world (att_cfg False TeeMock Dcap)) ''not supported''"

section \<open>WebSocket frames\<close>

definition test_upstream_url_http_to_ws :: bool where
  "test_upstream_url_http_to_ws \<longleftrightarrow>
     build_upstream_ws_url ''http://api:8080'' ''/chat'' None = Ok ''ws://api:8080/chat''
     \<and> build_upstream_ws_url ''https://api:8443/'' ''/chat'' (Some ''x=1'') = Ok ''wss://api:8443/chat?x=1''
     \<and> build_upstream_ws_url ''ws://api:9000'' ''/s'' None = Ok ''ws://api:9000/s''
     \<and> \<not> is_ok (build_upstream_ws_url ''ftp://api'' ''/s'' None)"

definition test_outbound_roundtrips_through_inbound_decode :: bool where
  "test_outbound_roundtrips_through_inbound_decode \<longleftrightarrow>
     (let iv = replicate 12 3; ae = plain_aead iv; aad = bytes_of_string ''openhttpa:test''
      in case encode_outbound ae MSG_TEXT (bytes_of_string ''hello'') 1 aad of
           Inl _ \<Rightarrow> False
         | Inr (frame, out) \<Rightarrow>
             (case encode_outbound ae MSG_BINARY [1, 2, 3] out aad of
                Inl _ \<Rightarrow> False
              | Inr (frame2, _) \<Rightarrow>
                  decode_inbound ae frame () iv aad 0 = (1, Ok (PText ''hello''))
                  \<and> decode_inbound ae frame2 () iv aad 1 = (2, Ok (PBinary [1, 2, 3]))))"

definition test_replayed_counter_rejected :: bool where
  "test_replayed_counter_rejected \<longleftrightarrow>
     (let iv = replicate 12 1; ae = plain_aead iv; aad = bytes_of_string ''openhttpa:x''
      in case encode_outbound ae MSG_TEXT (bytes_of_string ''a'') 1 aad of
           Inl _ \<Rightarrow> False
         | Inr (f1, out) \<Rightarrow>
             (case encode_outbound ae MSG_TEXT (bytes_of_string ''b'') out aad of
                Inl _ \<Rightarrow> False
              | Inr (f2, _) \<Rightarrow>
                  (case decode_inbound ae f2 () iv aad 0 of
                     (last_counter, r) \<Rightarrow> is_ok r \<and> \<not> is_ok (snd (decode_inbound ae f1 () iv aad last_counter)))))"

definition test_short_frame_rejected :: bool where
  "test_short_frame_rejected \<longleftrightarrow>
     (let iv = replicate 12 0
      in \<not> is_ok (snd (decode_inbound (plain_aead iv) (replicate 10 0) () iv (bytes_of_string ''aad'') 0)))"

section \<open>TLS files\<close>

text \<open>A file system with the given files, and PEM readers that find nothing in a text without a PEM section.\<close>

definition files_world :: "(string \<times> bytes) list \<Rightarrow> World" where
  "files_world files =
     bare_world\<lparr>w_read := \<lambda>p. case map_of files p of Some b \<Rightarrow> Ok b | None \<Rightarrow> Err ''absent''\<rparr>"

definition no_pem :: "(bytes, bytes, bytes) TlsLib" where
  "no_pem = toy_tls\<lparr>tl_certs := \<lambda>_. [], tl_private_key := \<lambda>_. Ok None\<rparr>"

definition test_missing_cert_file_fails_fast :: bool where
  "test_missing_cert_file_fails_fast \<longleftrightarrow>
     (case server_config no_pem (files_world []) (StaticFiles ''/nonexistent/cert.pem'' ''/nonexistent/key.pem'') of
        Inl (TlsRead _ _ _) \<Rightarrow> True
      | _ \<Rightarrow> False)"

definition test_invalid_pem_fails_fast :: bool where
  "test_invalid_pem_fails_fast \<longleftrightarrow>
     (case server_config no_pem
        (files_world [(''/tmp/cert.pem'', bytes_of_string ''not a pem at all''), (''/tmp/key.pem'', bytes_of_string ''also not a pem'')])
        (StaticFiles ''/tmp/cert.pem'' ''/tmp/key.pem'') of
        Inl (TlsNoCerts _) \<Rightarrow> True
      | _ \<Rightarrow> False)"

section \<open>ACME\<close>

definition base_cfg :: AcmeConfig where
  "base_cfg =
     \<lparr>acme_enabled = True, acme_domains = [''example.com''], acme_contact = Some ''admin@example.com'',
      acme_challenge = TlsAlpn01, acme_directory_url = None, acme_staging = False, acme_cache_dir = None,
      acme_http01_listen = None, acme_dns = acme_dns_config_default\<rparr>"

definition test_directory_url_prefers_explicit_then_staging_then_prod :: bool where
  "test_directory_url_prefers_explicit_then_staging_then_prod \<longleftrightarrow>
     (let ca = toy_ca []; staging = base_cfg\<lparr>acme_staging := True\<rparr>;
          explicit = staging\<lparr>acme_directory_url := Some ''https://acme.example/dir''\<rparr>
      in directory_url ca base_cfg = ca_production_url ca
         \<and> directory_url ca staging = ca_staging_url ca
         \<and> directory_url ca explicit = ''https://acme.example/dir'')"

definition test_dns_record_name_strips_wildcard :: bool where
  "test_dns_record_name_strips_wildcard \<longleftrightarrow>
     dns_record_name ''example.com'' = ''_acme-challenge.example.com''
     \<and> dns_record_name ''*.example.com'' = ''_acme-challenge.example.com''"

definition test_dispatch_http01_returns_keyauth_body_for_token :: bool where
  "test_dispatch_http01_returns_keyauth_body_for_token \<longleftrightarrow>
     build_challenge_response Http01 ''example.com'' ''tok123'' ''tok123.thumbprint'' (replicate 32 0) ''ignored''
       = RespHttp01 ''tok123'' ''tok123.thumbprint''"

definition test_dispatch_tls_alpn01_carries_digest_and_domain :: bool where
  "test_dispatch_tls_alpn01_carries_digest_and_domain \<longleftrightarrow>
     build_challenge_response TlsAlpn01 ''host.example.com'' ''tok'' ''tok.thumb'' (replicate 32 0x42) ''ignored''
       = RespTlsAlpn01 ''host.example.com'' (replicate 32 0x42)"

definition test_dispatch_dns01_uses_record_name_and_txt_value :: bool where
  "test_dispatch_dns01_uses_record_name_and_txt_value \<longleftrightarrow>
     build_challenge_response Dns01 ''*.example.com'' ''tok'' ''tok.thumb'' (replicate 32 0) ''base64url-digest''
       = RespDns01 ''*.example.com'' ''_acme-challenge.example.com'' ''base64url-digest''"

definition test_http01_token_store_round_trip :: bool where
  "test_http01_token_store_round_trip \<longleftrightarrow>
     (let stored = tokens_insert ''tok'' ''tok.keyauth'' tokens_new
      in tokens_get tokens_new ''tok'' = None
         \<and> tokens_get stored ''tok'' = Some ''tok.keyauth''
         \<and> tokens_get (tokens_remove ''tok'' stored) ''tok'' = None)"

definition test_manual_provider_default_kind :: bool where
  "test_manual_provider_default_kind \<longleftrightarrow> dns_provider acme_dns_config_default = Manual"

section \<open>The manual DNS provider\<close>

text \<open>
  The shell of these tests knows the two commands they run: \<open>printf '%s %s %s'\<close> of the three variables into
  a file, which is the state, and \<open>exit 3\<close>.
\<close>

definition PRINT_HOOK :: string where
  "PRINT_HOOK =
     ''printf '' @ [CHR 0x27] @ ''%s %s %s'' @ [CHR 0x27] @ '' '' @ in_quotes ''$ACME_DNS_DOMAIN'' @ '' '' @ in_quotes ''$ACME_DNS_NAME'' @ '' '' @
     in_quotes ''$ACME_DNS_VALUE'' @ '' > /tmp/hook.out''"

definition hook_shell :: "string option shell" where
  "hook_shell command env z =
     (if command = PRINT_HOOK
      then (Ok \<lparr>es_success = True, es_display = ''exit status: 0''\<rparr>,
            Some (join '' '' (map (\<lambda>k. unwrap_or [] (map_of env k)) [''ACME_DNS_DOMAIN'', ''ACME_DNS_NAME'', ''ACME_DNS_VALUE''])))
      else if command = ''exit 3'' then (Ok \<lparr>es_success = False, es_display = ''exit status: 3''\<rparr>, z)
      else (Err ''unknown command'', z))"

definition test_manual_dns_provider_logs_without_hook :: bool where
  "test_manual_dns_provider_logs_without_hook \<longleftrightarrow>
     (case manual_publish hook_shell ''example.com'' ''_acme-challenge.example.com'' ''val'' (manual_new None None 0, None) of
        (r, s) \<Rightarrow> is_ok r \<and> snd (manual_cleanup hook_shell ''example.com'' ''_acme-challenge.example.com'' ''val'' s) = None)"

definition test_manual_dns_provider_runs_hook_with_env :: bool where
  "test_manual_dns_provider_runs_hook_with_env \<longleftrightarrow>
     (case manual_publish hook_shell ''example.com'' ''_acme-challenge.example.com'' ''theval''
             (manual_new (Some PRINT_HOOK) None 0, None) of
        (r, p, written) \<Rightarrow> is_ok r \<and> written = Some ''example.com _acme-challenge.example.com theval'')"

definition test_manual_dns_provider_hook_failure_is_error :: bool where
  "test_manual_dns_provider_hook_failure_is_error \<longleftrightarrow>
     (case manual_publish hook_shell ''example.com'' ''_acme-challenge.example.com'' ''v''
             (manual_new (Some ''exit 3'') None 0, None) of
        (Inl (AcmeDnsHook _), s) \<Rightarrow> True
      | _ \<Rightarrow> False)"

section \<open>The Cloudflare provider against a stub server\<close>

definition test_cf_zone_candidates_walk_labels :: bool where
  "test_cf_zone_candidates_walk_labels \<longleftrightarrow>
     zone_candidates ''_acme-challenge.foo.bar.example.com''
       = [''foo.bar.example.com'', ''bar.example.com'', ''example.com'', ''com'']
     \<and> zone_candidates ''example.com'' = [''example.com'', ''com'']"

text \<open>A request the stub has seen: its label, the zone name or the path, the body and the authorization header.\<close>

type_synonym StubReq = "string \<times> string \<times> TxtBody option \<times> string option"

definition list_zones :: "string option \<Rightarrow> string \<Rightarrow> string \<Rightarrow> StubReq list \<Rightarrow> CfZone list CfReply \<times> StubReq list" where
  "list_zones zn token name reqs =
     (CfReply \<lparr>cfv_success = True, cfv_errors = [],
        cfv_result = Some (if zn = Some name then [\<lparr>cfz_id = ''zone-123''\<rparr>] else [])\<rparr>,
      reqs @ [(''GET zones'', name, None, Some (''Bearer '' @ token))])"

definition create_record :: "bool \<Rightarrow> string \<Rightarrow> TxtBody \<Rightarrow> StubReq list \<Rightarrow> CfRecord CfReply \<times> StubReq list" where
  "create_record ok token body reqs =
     (CfReply
        (if ok then \<lparr>cfv_success = True, cfv_errors = [], cfv_result = Some \<lparr>cfr_id = ''rec-999''\<rparr>\<rparr>
         else \<lparr>cfv_success = False, cfv_errors = [\<lparr>cfe_code = 1004, cfe_message = ''DNS record invalid''\<rparr>], cfv_result = None\<rparr>),
      reqs @ [(''POST record'', [], Some body, Some (''Bearer '' @ token))])"

definition delete_record :: "string \<Rightarrow> string \<Rightarrow> StubReq list \<Rightarrow> (string + nat) \<times> StubReq list" where
  "delete_record zone rid reqs = (Ok 200, reqs @ [(''DELETE record'', zone @ ''/'' @ rid, None, None)])"

text \<open>The stub's routing table: the segments of the path after the base URL, and any other path is refused.\<close>

definition stub_path :: "string \<Rightarrow> string \<Rightarrow> string list" where
  "stub_path base url =
     (case strip_prefix url (base @ ''/client/v4/zones'') of Some p \<Rightarrow> split_char (CHR ''/'') p | None \<Rightarrow> [])"

definition spawn_cf_stub :: "string \<Rightarrow> string option \<Rightarrow> bool \<Rightarrow> StubReq list CfApi" where
  "spawn_cf_stub base zone_name_match create_success =
     \<lparr>api_get_zones = (\<lambda>url token name reqs.
        case stub_path base url of
          [e] \<Rightarrow> list_zones zone_name_match token name reqs
        | _ \<Rightarrow> (CfDecodeFailed ''404'', reqs)),
      api_post_record = (\<lambda>url token body reqs.
        case stub_path base url of
          [e, zone, records] \<Rightarrow>
            if records = ''dns_records'' then create_record create_success token body reqs else (CfDecodeFailed ''404'', reqs)
        | _ \<Rightarrow> (CfDecodeFailed ''404'', reqs)),
      api_delete = (\<lambda>url token reqs.
        case stub_path base url of
          [e, zone, records, rid] \<Rightarrow> if records = ''dns_records'' then delete_record zone rid reqs else (Ok 404, reqs)
        | _ \<Rightarrow> (Ok 404, reqs))\<rparr>"

definition STUB_URL :: string where
  "STUB_URL = ''http://127.0.0.1:4000''"

definition first_labelled :: "string \<Rightarrow> StubReq list \<Rightarrow> StubReq option" where
  "first_labelled label reqs = find (\<lambda>r. fst r = label) reqs"

definition test_cloudflare_publish_posts_txt_and_cleanup_deletes :: bool where
  "test_cloudflare_publish_posts_txt_and_cleanup_deletes \<longleftrightarrow>
     (let api = spawn_cf_stub STUB_URL (Some ''example.com'') True; p = with_base_url ''tok-abc'' None 0 STUB_URL
      in case cf_publish api ''example.com'' ''_acme-challenge.example.com'' ''txtval'' (p, []) of
           (Inl _, s) \<Rightarrow> False
         | (Inr _, s) \<Rightarrow>
             (let reqs = snd (cf_cleanup api ''example.com'' ''_acme-challenge.example.com'' ''txtval'' s)
              in (case first_labelled ''GET zones'' reqs of
                    Some (_, name, _, auth) \<Rightarrow> name = ''example.com'' \<and> auth = Some ''Bearer tok-abc''
                  | None \<Rightarrow> False)
                 \<and> (case first_labelled ''POST record'' reqs of
                      Some (_, _, Some body, auth) \<Rightarrow>
                        auth = Some ''Bearer tok-abc'' \<and> txt_type body = ''TXT''
                        \<and> txt_name body = ''_acme-challenge.example.com'' \<and> txt_content body = ''txtval''
                    | _ \<Rightarrow> False)
                 \<and> (case first_labelled ''DELETE record'' reqs of
                      Some (_, path, _, _) \<Rightarrow> path = ''zone-123/rec-999''
                    | None \<Rightarrow> False)))"

definition test_cloudflare_zone_discovery_walks_to_registrable_domain :: bool where
  "test_cloudflare_zone_discovery_walks_to_registrable_domain \<longleftrightarrow>
     (let api = spawn_cf_stub STUB_URL (Some ''example.com'') True; p = with_base_url ''tok'' None 0 STUB_URL
      in case cf_publish api ''sub.example.com'' ''_acme-challenge.sub.example.com'' ''v'' (p, []) of
           (r, q, reqs) \<Rightarrow>
             (let names = map (\<lambda>r. fst (snd r)) (filter (\<lambda>r. fst r = ''GET zones'') reqs)
              in is_ok r \<and> take 1 names = [''sub.example.com''] \<and> List.member names ''example.com''))"

definition test_cloudflare_publish_maps_cf_failure_to_error :: bool where
  "test_cloudflare_publish_maps_cf_failure_to_error \<longleftrightarrow>
     (let api = spawn_cf_stub STUB_URL (Some ''example.com'') False; p = with_base_url ''tok'' (Some ''zone-123'') 0 STUB_URL
      in case cf_publish api ''example.com'' ''_acme-challenge.example.com'' ''v'' (p, []) of
           (Inl (AcmeDns f), s) \<Rightarrow> str_contains (dns_failure_message in_quotes f) ''DNS record invalid''
         | _ \<Rightarrow> False)"

definition test_construction_fails_fast_when_cloudflare_without_token :: bool where
  "test_construction_fails_fast_when_cloudflare_without_token \<longleftrightarrow>
     (let cfg = base_cfg\<lparr>acme_challenge := Dns01, acme_dns := acme_dns_config_default\<lparr>dns_provider := Cloudflare\<rparr>\<rparr>
      in case acme_manager_new (\<lambda>_. None) cfg of Inl (AcmeDns _) \<Rightarrow> True | _ \<Rightarrow> False)"

section \<open>Results\<close>

lemma release_mock_no_escape_is_fatal: test_release_mock_no_escape_is_fatal
  by code_simp

lemma release_mock_with_escape_boots_insecure: test_release_mock_with_escape_boots_insecure
  by code_simp

lemma release_real_boots_secure: test_release_real_boots_secure
  by code_simp

lemma debug_mock_boots_insecure_without_escape: test_debug_mock_boots_insecure_without_escape
  by code_simp

lemma allow_mock_alone_taints_real_provider_verifier: test_allow_mock_alone_taints_real_provider_verifier
  by code_simp

lemma mock_provider_alone_taints: test_mock_provider_alone_taints
  by code_simp

lemma mock_verifier_alone_taints: test_mock_verifier_alone_taints
  by code_simp

lemma debug_real_is_secure: test_debug_real_is_secure
  by code_simp

lemma mock_provider_and_verifier_build: test_mock_provider_and_verifier_build
  by code_simp

lemma tdx_without_feature_is_fatal: test_tdx_without_feature_is_fatal
  by code_simp

lemma maa_without_feature_is_fatal: test_maa_without_feature_is_fatal
  by code_simp

lemma dcap_is_unsupported: test_dcap_is_unsupported
  by code_simp

lemma upstream_url_http_to_ws: test_upstream_url_http_to_ws
  by code_simp

lemma outbound_roundtrips_through_inbound_decode: test_outbound_roundtrips_through_inbound_decode
proof -
  have first: "encode_outbound (plain_aead (replicate 12 3)) MSG_TEXT (bytes_of_string ''hello'') 1 (bytes_of_string ''openhttpa:test'')
      = Ok ([3, 3, 3, 3, 3, 3, 3, 3, 3, 3, 3, 2, 0, 104, 101, 108, 108, 111] @ replicate 16 0, 2)"
    by code_simp
  have second: "encode_outbound (plain_aead (replicate 12 3)) MSG_BINARY [1, 2, 3] 2 (bytes_of_string ''openhttpa:test'')
      = Ok ([3, 3, 3, 3, 3, 3, 3, 3, 3, 3, 3, 1, 1, 1, 2, 3] @ replicate 16 0, 3)"
    by code_simp
  have "decode_inbound (plain_aead (replicate 12 3)) ([3, 3, 3, 3, 3, 3, 3, 3, 3, 3, 3, 2, 0, 104, 101, 108, 108, 111] @ replicate 16 0) () (replicate 12 3)
      (bytes_of_string ''openhttpa:test'') 0 = (1, Ok (PText ''hello''))"
    by code_simp
  moreover have "decode_inbound (plain_aead (replicate 12 3)) ([3, 3, 3, 3, 3, 3, 3, 3, 3, 3, 3, 1, 1, 1, 2, 3] @ replicate 16 0) () (replicate 12 3)
      (bytes_of_string ''openhttpa:test'') 1 = (2, Ok (PBinary [1, 2, 3]))"
    by code_simp
  ultimately show ?thesis
    by (simp only: test_outbound_roundtrips_through_inbound_decode_def Let_def first second sum.case prod.case simp_thms)
qed

lemma replayed_counter_rejected: test_replayed_counter_rejected
proof -
  have first: "encode_outbound (plain_aead (replicate 12 1)) MSG_TEXT (bytes_of_string ''a'') 1 (bytes_of_string ''openhttpa:x'')
      = Ok ([1, 1, 1, 1, 1, 1, 1, 1, 1, 1, 1, 0, 0, 97] @ replicate 16 0, 2)"
    by code_simp
  have second: "encode_outbound (plain_aead (replicate 12 1)) MSG_TEXT (bytes_of_string ''b'') 2 (bytes_of_string ''openhttpa:x'')
      = Ok ([1, 1, 1, 1, 1, 1, 1, 1, 1, 1, 1, 3, 0, 98] @ replicate 16 0, 3)"
    by code_simp
  have "decode_inbound (plain_aead (replicate 12 1)) ([1, 1, 1, 1, 1, 1, 1, 1, 1, 1, 1, 3, 0, 98] @ replicate 16 0) () (replicate 12 1)
      (bytes_of_string ''openhttpa:x'') 0 = (2, Ok (PText ''b''))"
    by code_simp
  moreover have "decode_inbound (plain_aead (replicate 12 1)) ([1, 1, 1, 1, 1, 1, 1, 1, 1, 1, 1, 0, 0, 97] @ replicate 16 0) () (replicate 12 1)
      (bytes_of_string ''openhttpa:x'') 2 = (2, Err NonceReplay)"
    by code_simp
  ultimately show ?thesis
    by (simp only: test_replayed_counter_rejected_def Let_def first second sum.case prod.case snd_conv is_ok.simps simp_thms)
qed

lemma short_frame_rejected: test_short_frame_rejected
  by code_simp

lemma missing_cert_file_fails_fast: test_missing_cert_file_fails_fast
  by code_simp

lemma invalid_pem_fails_fast: test_invalid_pem_fails_fast
  by code_simp

lemma directory_url_prefers_explicit_then_staging_then_prod: test_directory_url_prefers_explicit_then_staging_then_prod
  by code_simp

lemma dns_record_name_strips_wildcard: test_dns_record_name_strips_wildcard
  by code_simp

lemma dispatch_http01_returns_keyauth_body_for_token: test_dispatch_http01_returns_keyauth_body_for_token
  by code_simp

lemma dispatch_tls_alpn01_carries_digest_and_domain: test_dispatch_tls_alpn01_carries_digest_and_domain
  by code_simp

lemma dispatch_dns01_uses_record_name_and_txt_value: test_dispatch_dns01_uses_record_name_and_txt_value
  by code_simp

lemma http01_token_store_round_trip: test_http01_token_store_round_trip
  by code_simp

lemma manual_provider_default_kind: test_manual_provider_default_kind
  by code_simp

lemma manual_dns_provider_logs_without_hook: test_manual_dns_provider_logs_without_hook
  by code_simp

lemma manual_dns_provider_runs_hook_with_env: test_manual_dns_provider_runs_hook_with_env
  by code_simp

lemma manual_dns_provider_hook_failure_is_error: test_manual_dns_provider_hook_failure_is_error
  by code_simp

lemma cf_zone_candidates_walk_labels: test_cf_zone_candidates_walk_labels
  by code_simp

lemma cloudflare_publish_posts_txt_and_cleanup_deletes: test_cloudflare_publish_posts_txt_and_cleanup_deletes
  by code_simp

lemma cloudflare_zone_discovery_walks_to_registrable_domain: test_cloudflare_zone_discovery_walks_to_registrable_domain
  by code_simp

lemma cloudflare_publish_maps_cf_failure_to_error: test_cloudflare_publish_maps_cf_failure_to_error
  by code_simp

lemma construction_fails_fast_when_cloudflare_without_token: test_construction_fails_fast_when_cloudflare_without_token
  by code_simp

end
