(* ===== verification/Unit_Metrics.thy ===== *)
theory Unit_Metrics
  imports Unit_Config
begin

text \<open>
  The unit tests of \<open>src/metrics.rs\<close>, run on the model. The formatting of an \<open>f64\<close> is a table of the texts of
  the bucket bounds. The assertions are searches in the whole exposition: each is proved on the line it is about and
  lifted through the concatenation.
\<close>

definition bound_text :: "f64 \<Rightarrow> string" where
  "bound_text x =
     unwrap_or [] (map_of (zip LATENCY_BUCKETS_SECS
       [''0.005'', ''0.01'', ''0.025'', ''0.05'', ''0.1'', ''0.25'', ''0.5'', ''1'', ''2.5'', ''5'', ''10'']) x)"

text \<open>The observed latencies are the doubles nearest to 0.03, 2 and 0.001.\<close>

definition counted_metrics :: Metrics where
  "counted_metrics =
     observe_upstream_latency (F64 1 1) (observe_upstream_latency (F64 1080863910568919 (- 55))
       (inc_upstream_errors (inc_upstream_requests (inc_decrypt_failures (inc_handshakes (inc_handshakes metrics_new))))))"

definition test_counters_and_render :: bool where
  "test_counters_and_render \<longleftrightarrow>
     (let text = render_prometheus bound_text counted_metrics 7
      in str_contains text ''archetype_proxy_handshakes_total 2''
         \<and> str_contains text ''archetype_proxy_decrypt_failures_total 1''
         \<and> str_contains text ''archetype_proxy_upstream_requests_total 1''
         \<and> str_contains text ''archetype_proxy_upstream_errors_total 1''
         \<and> str_contains text ''archetype_proxy_active_sessions 7''
         \<and> str_contains text (''le='' @ in_quotes ''0.05'' @ ''} 1'')
         \<and> str_contains text (''le='' @ in_quotes ''2.5'' @ ''} 2'')
         \<and> str_contains text (''le='' @ in_quotes ''+Inf'' @ ''} 2'')
         \<and> str_contains text ''archetype_proxy_upstream_latency_seconds_count 2'')"

definition observed_metrics :: Metrics where
  "observed_metrics = observe_upstream_latency (F64 1152921504606847 (- 60)) metrics_new"

definition test_histogram_is_cumulative :: bool where
  "test_histogram_is_cumulative \<longleftrightarrow>
     (let text = render_prometheus bound_text observed_metrics 0
      in str_contains text (''le='' @ in_quotes ''0.005'' @ ''} 1'')
         \<and> str_contains text (''le='' @ in_quotes ''10'' @ ''} 1''))"

section \<open>Searching the exposition\<close>

lemma str_contains_concat: "x \<in> set xs \<Longrightarrow> str_contains x p \<Longrightarrow> str_contains (concat xs) p"
  by (induction xs) (auto intro: str_contains_append)

lemma render_prometheus_counters:
  assumes "str_contains (render_counter ''archetype_proxy_handshakes_total''
        ''Total attestation handshakes served on /attest.'' (handshakes_total m)) p
      \<or> str_contains (render_counter ''archetype_proxy_decrypt_failures_total''
        ''Total trusted-request decrypt/MAC verification failures.'' (decrypt_failures_total m)) p
      \<or> str_contains (render_counter ''archetype_proxy_upstream_requests_total''
        ''Total upstream requests attempted.'' (upstream_requests_total m)) p
      \<or> str_contains (render_counter ''archetype_proxy_upstream_errors_total''
        ''Total upstream requests that failed at the transport level.'' (upstream_errors_total m)) p"
  shows "str_contains (render_prometheus f m n) p"
  using assms unfolding render_prometheus_def
  by (elim disjE) ((rule str_contains_append(1), assumption | rule str_contains_append(2))+)

lemma render_prometheus_sessions:
  assumes "str_contains (writeln (''archetype_proxy_active_sessions '' @ string_of_nat n)) p"
  shows "str_contains (render_prometheus f m n) p"
  using assms unfolding render_prometheus_def
  by - ((rule str_contains_append(1), assumption | rule str_contains_append(2))+)

lemma render_prometheus_bucket:
  assumes "i < length LATENCY_BUCKETS_SECS"
    and "str_contains (writeln (''archetype_proxy_upstream_latency_seconds_bucket{le='' @ in_quotes (f (LATENCY_BUCKETS_SECS ! i)) @ ''} ''
      @ string_of_nat (unat (latency_buckets m ! i)))) p"
  shows "str_contains (render_prometheus f m n) p"
proof -
  have "(i, LATENCY_BUCKETS_SECS ! i) \<in> set (enumerate 0 LATENCY_BUCKETS_SECS)"
    using assms(1) by (simp add: in_set_enumerate_eq)
  then have "str_contains (concat (map (\<lambda>(idx, ub).
      writeln (''archetype_proxy_upstream_latency_seconds_bucket{le='' @ in_quotes (f ub) @ ''} ''
        @ string_of_nat (unat (latency_buckets m ! idx)))) (enumerate 0 LATENCY_BUCKETS_SECS))) p"
    by (intro str_contains_concat [OF _ assms(2)]) force
  then show ?thesis
    unfolding render_prometheus_def by - ((rule str_contains_append(1), assumption | rule str_contains_append(2))+)
qed

lemma render_prometheus_count:
  assumes "str_contains (writeln (''archetype_proxy_upstream_latency_seconds_bucket{le='' @ in_quotes ''+Inf'' @ ''} ''
        @ string_of_nat (unat (latency_count m)))) p
      \<or> str_contains (writeln (''archetype_proxy_upstream_latency_seconds_count '' @ string_of_nat (unat (latency_count m)))) p"
  shows "str_contains (render_prometheus f m n) p"
  using assms unfolding render_prometheus_def
  by (elim disjE) ((rule str_contains_append(1), assumption | rule str_contains_append(2) | assumption)+)

lemma counted_metrics_eq:
  "counted_metrics =
     \<lparr>handshakes_total = 2, decrypt_failures_total = 1, upstream_requests_total = 1, upstream_errors_total = 1,
      latency_buckets = [0, 0, 0, 1, 1, 1, 1, 1, 2, 2, 2], latency_count = 2, latency_sum_micros = 2030000\<rparr>"
  by code_simp

lemma observed_metrics_eq:
  "observed_metrics =
     \<lparr>handshakes_total = 0, decrypt_failures_total = 0, upstream_requests_total = 0, upstream_errors_total = 0,
      latency_buckets = replicate 11 1, latency_count = 1, latency_sum_micros = 1000\<rparr>"
  by code_simp

section \<open>Results\<close>

lemma counters_and_render: test_counters_and_render
proof -
  let ?text = "render_prometheus bound_text counted_metrics 7"
  have "str_contains ?text ''archetype_proxy_handshakes_total 2''"
    unfolding counted_metrics_eq by (rule render_prometheus_counters, rule disjI1) code_simp
  moreover have "str_contains ?text ''archetype_proxy_decrypt_failures_total 1''"
    unfolding counted_metrics_eq by (rule render_prometheus_counters, rule disjI2, rule disjI1) code_simp
  moreover have "str_contains ?text ''archetype_proxy_upstream_requests_total 1''"
    unfolding counted_metrics_eq by (rule render_prometheus_counters, rule disjI2, rule disjI2, rule disjI1) code_simp
  moreover have "str_contains ?text ''archetype_proxy_upstream_errors_total 1''"
    unfolding counted_metrics_eq by (rule render_prometheus_counters, rule disjI2, rule disjI2, rule disjI2) code_simp
  moreover have "str_contains ?text ''archetype_proxy_active_sessions 7''"
    unfolding counted_metrics_eq by (rule render_prometheus_sessions) code_simp
  moreover have "str_contains ?text (''le='' @ in_quotes ''0.05'' @ ''} 1'')"
    unfolding counted_metrics_eq by (rule render_prometheus_bucket [where i = 3]) code_simp+
  moreover have "str_contains ?text (''le='' @ in_quotes ''2.5'' @ ''} 2'')"
    unfolding counted_metrics_eq by (rule render_prometheus_bucket [where i = 8]) code_simp+
  moreover have "str_contains ?text (''le='' @ in_quotes ''+Inf'' @ ''} 2'')"
    unfolding counted_metrics_eq by (rule render_prometheus_count, rule disjI1) code_simp
  moreover have "str_contains ?text ''archetype_proxy_upstream_latency_seconds_count 2''"
    unfolding counted_metrics_eq by (rule render_prometheus_count, rule disjI2) code_simp
  ultimately show ?thesis
    unfolding test_counters_and_render_def Let_def by (intro conjI)
qed

lemma histogram_is_cumulative: test_histogram_is_cumulative
proof -
  let ?text = "render_prometheus bound_text observed_metrics 0"
  have "str_contains ?text (''le='' @ in_quotes ''0.005'' @ ''} 1'')"
    unfolding observed_metrics_eq by (rule render_prometheus_bucket [where i = 0]) code_simp+
  moreover have "str_contains ?text (''le='' @ in_quotes ''10'' @ ''} 1'')"
    unfolding observed_metrics_eq by (rule render_prometheus_bucket [where i = 10]) code_simp+
  ultimately show ?thesis
    unfolding test_histogram_is_cumulative_def Let_def by (intro conjI)
qed

end
