(* ===== verification/Unit_Cli.thy ===== *)
theory Unit_Cli
  imports Cli Unit_Security
begin

text \<open>
  The unit tests of \<open>src/cli.rs\<close>, and the tests of \<open>src/config.rs\<close>, \<open>src/tls.rs\<close> and \<open>src/acme.rs\<close> that use a generated certificate. clap is
  third-party code: a concrete parser for the arguments that \<open>Args\<close> declares stands for it, with values through the
  parsers of \<open>usize\<close> and \<open>SocketAddr\<close>. rcgen and the certificate parsers are concrete as well: a certificate is its
  DER bytes, and its PEM text is known to the PEM reader.
\<close>

section \<open>Command line\<close>

definition no_args :: Args where
  "no_args =
     \<lparr>arg_config_path = None, arg_config = None, arg_listen = None, arg_max_body_bytes = None, arg_docker = False,
      arg_kubernetes = False, arg_log_level = None, arg_verbose = 0, arg_command = None\<rparr>"

definition log_level_from_str :: "string \<Rightarrow> LogLevel option" where
  "log_level_from_str s = List.find (\<lambda>l. log_level_as_str l = s) [LogOff, LogError, LogWarn, LogInfo, LogDebug, LogTrace]"

fun try_parse :: "string list \<Rightarrow> Args \<Rightarrow> string + Args" where
  "try_parse [] a = Ok a"
| "try_parse (w # ws) a =
     (if w = ''--docker'' then try_parse ws (a\<lparr>arg_docker := True\<rparr>)
      else if w = ''--kubernetes'' then try_parse ws (a\<lparr>arg_kubernetes := True\<rparr>)
      else if w = ''--verbose'' then try_parse ws (a\<lparr>arg_verbose := arg_verbose a + 1\<rparr>)
      else if starts_with w ''-v'' \<and> list_all (\<lambda>c. c = CHR ''v'') (drop 1 w)
      then try_parse ws (a\<lparr>arg_verbose := arg_verbose a + length (drop 1 w)\<rparr>)
      else if w \<in> {''--config'', ''--listen'', ''--max-body-bytes'', ''--log-level''} then
        (case ws of
           [] \<Rightarrow> Err ''a value is required''
         | v # vs \<Rightarrow>
             if w = ''--config'' then try_parse vs (a\<lparr>arg_config := Some v\<rparr>)
             else if w = ''--listen'' then
               (case parse_socket_addr v of None \<Rightarrow> Err ''invalid value'' | Some addr \<Rightarrow> try_parse vs (a\<lparr>arg_listen := Some addr\<rparr>))
             else if w = ''--max-body-bytes'' then
               (case usize_from_str v of Inl _ \<Rightarrow> Err ''invalid value'' | Inr n \<Rightarrow> try_parse vs (a\<lparr>arg_max_body_bytes := Some n\<rparr>))
             else
               (case log_level_from_str v of None \<Rightarrow> Err ''invalid value'' | Some l \<Rightarrow> try_parse vs (a\<lparr>arg_log_level := Some l\<rparr>)))
      else if starts_with w ''-'' then Err ''unexpected argument''
      else if w = ''dump'' then try_parse ws (a\<lparr>arg_command := Some Dump\<rparr>)
      else if arg_config_path a = None then try_parse ws (a\<lparr>arg_config_path := Some w\<rparr>)
      else Err ''unexpected argument'')"

definition parse :: "string list \<Rightarrow> string + Args" where
  "parse argv = try_parse argv no_args"

definition parsed :: "string list \<Rightarrow> (Args \<Rightarrow> bool) \<Rightarrow> bool" where
  "parsed argv P = (case parse argv of Inl _ \<Rightarrow> False | Inr args \<Rightarrow> P args)"

definition test_valid_max_body_bytes_parses :: bool where
  "test_valid_max_body_bytes_parses \<longleftrightarrow>
     parsed [''--max-body-bytes'', ''1024''] (\<lambda>args. ps_max_body_bytes (args_overrides args) = Some 1024)"

definition test_invalid_max_body_bytes_errors :: bool where
  "test_invalid_max_body_bytes_errors \<longleftrightarrow> \<not> is_ok (parse [''--max-body-bytes'', ''nope''])"

definition test_missing_flag_value_errors :: bool where
  "test_missing_flag_value_errors \<longleftrightarrow> \<not> is_ok (parse [''--listen''])"

definition test_invalid_listen_errors :: bool where
  "test_invalid_listen_errors \<longleftrightarrow> \<not> is_ok (parse [''--listen'', ''not-an-addr''])"

definition test_positional_config_path_and_dump :: bool where
  "test_positional_config_path_and_dump \<longleftrightarrow>
     parsed [''./my.toml'', ''dump''] (\<lambda>args. args_config_path args = Some ''./my.toml'' \<and> args_dump args)"

definition test_config_flag_wins_over_positional :: bool where
  "test_config_flag_wins_over_positional \<longleftrightarrow>
     parsed [''pos.toml'', ''--config'', ''flag.toml''] (\<lambda>args. args_config_path args = Some ''flag.toml'')"

definition test_docker_flag_enable_only :: bool where
  "test_docker_flag_enable_only \<longleftrightarrow>
     parsed [] (\<lambda>args. ps_docker_enabled (args_overrides args) = None)
     \<and> parsed [''--docker''] (\<lambda>args. ps_docker_enabled (args_overrides args) = Some True)
     \<and> \<not> is_ok (parse [''--no-docker''])"

definition test_log_directive_level_and_verbosity :: bool where
  "test_log_directive_level_and_verbosity \<longleftrightarrow>
     parsed [] (\<lambda>args. args_log_directive args = ''archetype_proxy_server=info'')
     \<and> parsed [''-v''] (\<lambda>args. args_log_directive args = ''archetype_proxy_server=debug'')
     \<and> parsed [''-vv''] (\<lambda>args. args_log_directive args = ''archetype_proxy_server=trace'')
     \<and> parsed [''-vvv''] (\<lambda>args. args_log_directive args = ''archetype_proxy_server=trace'')
     \<and> parsed [''--log-level'', ''warn'', ''-vv''] (\<lambda>args. args_log_directive args = ''archetype_proxy_server=warn'')
     \<and> parsed [''--log-level'', ''off''] (\<lambda>args. args_log_directive args = ''archetype_proxy_server=off'')"

definition test_log_level_and_dump_coexist :: bool where
  "test_log_level_and_dump_coexist \<longleftrightarrow>
     parsed [''-vv'', ''dump''] (\<lambda>args. args_dump args \<and> args_log_directive args = ''archetype_proxy_server=trace'')"

definition test_kubernetes_flag :: bool where
  "test_kubernetes_flag \<longleftrightarrow>
     parsed [] (\<lambda>args. ps_kubernetes_enabled (args_overrides args) = None)
     \<and> parsed [''--kubernetes''] (\<lambda>args. ps_kubernetes_enabled (args_overrides args) = Some True)"

section \<open>Certificates\<close>

definition cert_der :: bytes where
  "cert_der = [48, 130, 1, 10]"

definition cert_pem :: bytes where
  "cert_pem = bytes_of_string (''-----BEGIN CERTIFICATE-----'' @ newline @ ''MIIBCg=='' @ newline @ ''-----END CERTIFICATE-----'' @ newline)"

text \<open>Certificates that start as a DER sequence parse.\<close>

definition cert_libs :: Libs where
  "cert_libs =
     bare_libs\<lparr>lib_pem_certs := (\<lambda>b. if b = cert_pem then [Ok cert_der] else []),
               lib_x509 := (\<lambda>der. if take 1 der = [48] then Ok () else Err ''not a sequence'')\<rparr>"

definition test_tpm_load_cert_der_parses_pem_and_der :: bool where
  "test_tpm_load_cert_der_parses_pem_and_der \<longleftrightarrow>
     (let w = files_world [(''/tmp/root.pem'', cert_pem), (''/tmp/root.der'', cert_der), (''/tmp/bad.der'', bytes_of_string ''not a certificate'')]
      in load_cert_der cert_libs w ''/tmp/root.pem'' = Ok [cert_der] \<and> load_cert_der cert_libs w ''/tmp/root.der'' = Ok [cert_der]
         \<and> str_contains (error_text (load_cert_der cert_libs w ''/tmp/bad.der'')) ''bad.der'')"

definition pem_tls :: "(bytes, bytes, bytes) TlsLib" where
  "pem_tls =
     \<lparr>tl_certs = (\<lambda>b. if b = cert_pem then [Ok cert_der] else []), tl_private_key = (\<lambda>b. Ok (if b = [] then None else Some b)),
      tl_any_supported_type = Ok, tl_keys_match = (\<lambda>certs sk. if certs = [cert_der] \<and> sk = [7] then KeysEqual else KeysError ''mismatch'')\<rparr>"

definition test_static_files_round_trip_builds_config :: bool where
  "test_static_files_round_trip_builds_config \<longleftrightarrow>
     is_ok (server_config pem_tls (files_world [(''/tmp/cert.pem'', cert_pem), (''/tmp/key.pem'', [7])])
       (StaticFiles ''/tmp/cert.pem'' ''/tmp/key.pem''))"

definition test_tls_alpn_validation_cert_builds :: bool where
  "test_tls_alpn_validation_cert_builds \<longleftrightarrow>
     (case tls_alpn_cert toy_acme_lib ''example.com'' (replicate 32 17) of
        Inl _ \<Rightarrow> False
      | Inr (certs, _) \<Rightarrow> length certs = 1)"

section \<open>Results\<close>

lemma valid_max_body_bytes_parses: test_valid_max_body_bytes_parses
  by code_simp

lemma invalid_max_body_bytes_errors: test_invalid_max_body_bytes_errors
  by code_simp

lemma missing_flag_value_errors: test_missing_flag_value_errors
  by code_simp

lemma invalid_listen_errors: test_invalid_listen_errors
  by code_simp

lemma positional_config_path_and_dump: test_positional_config_path_and_dump
  by code_simp

lemma config_flag_wins_over_positional: test_config_flag_wins_over_positional
  by code_simp

lemma docker_flag_enable_only: test_docker_flag_enable_only
  by code_simp

lemma log_directive_level_and_verbosity: test_log_directive_level_and_verbosity
  by code_simp

lemma log_level_and_dump_coexist: test_log_level_and_dump_coexist
  by code_simp

lemma kubernetes_flag: test_kubernetes_flag
  by code_simp

lemma tpm_load_cert_der_parses_pem_and_der: test_tpm_load_cert_der_parses_pem_and_der
  by code_simp

lemma static_files_round_trip_builds_config: test_static_files_round_trip_builds_config
  by code_simp

lemma tls_alpn_validation_cert_builds: test_tls_alpn_validation_cert_builds
  by code_simp

end
