(* ===== verification/Client.thy ===== *)
theory Client
  imports Router Hex_Ref
begin

text \<open>
  The other end of the protocol: the client that the repository's end-to-end tests drive
  (\<open>tests/frame_helper/mod.rs\<close>), which mirrors the shipped one. It seals a request under the
  session's keys, sends it as a \<open>POST\<close> with the real method in a header, and decodes the stream of sealed frames it gets
  back. The random generator, the session, AEAD, HMAC, SHA-384, JSON, hex, the parser of URIs and the
  transport are parameters. The section on the exchange joins this client with the router of the proxy.
\<close>

section \<open>Standard library\<close>

definition ascii_upper_char :: "char \<Rightarrow> char" where
  "ascii_upper_char c = (if 97 \<le> byte_of c \<and> byte_of c \<le> 122 then char_of (byte_of c - 32) else c)"

definition to_ascii_uppercase :: "string \<Rightarrow> string" where
  "to_ascii_uppercase s = map ascii_upper_char s"

section \<open>Session and libraries\<close>

datatype ClientError = Failed string | ClientPanicked

record ClientKeys =
  ck_client_mac_key :: bytes
  ck_client_write_key :: bytes
  ck_client_write_iv :: bytes
  ck_server_write_key :: bytes
  ck_server_write_iv :: bytes

text \<open>
  The session as the client sees it: its identifier, the keys with the counter a request is given, and the keys for a
  response.
\<close>

record ClientSession =
  cs_id :: string
  cs_keys_for_trr :: "64 word \<Rightarrow> string + (ClientKeys \<times> 64 word)"
  cs_keys_for_trs :: "string + ClientKeys"

record ClientUri =
  cu_scheme :: "string option"
  cu_authority :: "string option"
  cu_path :: string
  cu_query :: "string option"

record TransportRequest =
  tq_method :: string
  tq_uri :: ClientUri
  tq_headers :: headers
  tq_body :: bytes

record TransportResponse =
  ts_status :: nat
  ts_body :: "string + bytes"

record ('h, 'k, 'b) ClientLib =
  cl_hdr_base_id :: string
  cl_hdr_ticket :: string
  cl_random :: "unit + bytes"
  cl_parse_uri :: "string \<Rightarrow> string + ClientUri"
  cl_header_value :: "string \<Rightarrow> string + string"
  cl_bound_key_new :: "bytes \<Rightarrow> bytes \<Rightarrow> string + 'b"
  cl_aead_key_new :: "bytes \<Rightarrow> string + 'k"
  cl_aead :: "('k, 'b) Aead"
  cl_hmac_new :: "bytes \<Rightarrow> string + 'h"
  cl_hmac_update :: "bytes \<Rightarrow> 'h \<Rightarrow> 'h"
  cl_hmac_finalize :: "'h \<Rightarrow> bytes"
  cl_update_ahl :: "string \<Rightarrow> string \<Rightarrow> string option \<Rightarrow> string \<Rightarrow> headers \<Rightarrow> string + bytes list"
  cl_encode_attest_ticket :: "64 word \<Rightarrow> bytes \<Rightarrow> string"
  cl_hex_encode :: "bytes \<Rightarrow> string"
  cl_json_envelope :: "string \<Rightarrow> string + bytes"
  cl_sha384 :: "bytes \<Rightarrow> bytes"
  cl_json_frame :: "bytes \<Rightarrow> string + StreamFrame"
  cl_send :: "TransportRequest \<Rightarrow> string + TransportResponse"

section \<open>Sending\<close>

definition WIRE_METHOD :: string where
  "WIRE_METHOD = ''POST''"

record FramedResponse =
  fr_status :: nat
  fr_headers :: "(string \<times> string) list"
  fr_body :: bytes

definition ahl_authority :: "ClientUri \<Rightarrow> string" where
  "ahl_authority uri =
     (case cu_authority uri of
        None \<Rightarrow> []
      | Some auth \<Rightarrow>
          (case (if cu_scheme uri = Some ''https'' then Some ''443''
                 else if cu_scheme uri = Some ''http'' then Some ''80'' else None) of
             None \<Rightarrow> auth
           | Some default_port \<Rightarrow>
               (case rsplit_once (CHR '':'') auth of
                  Some (host, port) \<Rightarrow> if port = default_port then host else auth
                | None \<Rightarrow> auth)))"

text \<open>\<open>HeaderMap::insert\<close> replaces the values of a name.\<close>

definition header_insert :: "string \<Rightarrow> string \<Rightarrow> headers \<Rightarrow> headers" where
  "header_insert name v hs = filter (\<lambda>(n, _). n \<noteq> name) hs @ [(name, Some v)]"

definition seal_request ::
  "('h, 'k, 'b) ClientLib \<Rightarrow> ClientSession \<Rightarrow> string \<Rightarrow> string \<Rightarrow> string option \<Rightarrow> string \<Rightarrow> bytes \<Rightarrow> bytes \<Rightarrow> string \<Rightarrow>
     ClientError + (headers \<times> bytes)" where
  "seal_request cl session meth path query authority body aad base_id =
     result_bind (map_err (\<lambda>_. Failed ''RNG failure'') (cl_random cl)) (\<lambda>nonce_bytes.
     result_bind (map_err Failed (cs_keys_for_trr session (u64_from_be_bytes nonce_bytes))) (\<lambda>(keys, counter).
     if length (ck_client_write_iv keys) \<noteq> 12 then Err ClientPanicked
     else
     result_bind (map_err (\<lambda>e. Failed (''key setup failed: '' @ e))
                   (cl_bound_key_new cl (ck_client_write_key keys) (ck_client_write_iv keys))) (\<lambda>bound_key.
     result_bind (map_err (\<lambda>e. Failed (''encryption failed: '' @ e)) (ae_seal (cl_aead cl) bound_key aad body)) (\<lambda>(_, data, _).
     result_bind (map_err (\<lambda>e. Failed (''invalid base-id header: '' @ e)) (cl_header_value cl base_id)) (\<lambda>base_id_value.
     result_bind (map_err (\<lambda>e. Failed (''invalid real-method header: '' @ e)) (cl_header_value cl (to_ascii_uppercase meth))) (\<lambda>method_value.
     let hdrs = header_insert HDR_ATTEST_REAL_METHOD method_value (header_insert (cl_hdr_base_id cl) base_id_value []) in
     result_bind (map_err (\<lambda>e. Failed (''HMAC key setup failed: '' @ e)) (cl_hmac_new cl (ck_client_mac_key keys))) (\<lambda>hmac.
     result_bind (map_err (\<lambda>e. Failed (''AHL error: '' @ e)) (cl_update_ahl cl WIRE_METHOD path query authority hdrs)) (\<lambda>chunks.
     let mac = cl_hmac_finalize cl (fold (cl_hmac_update cl) chunks (cl_hmac_update cl (u64_to_be_bytes counter) hmac))
     in Ok (header_insert (cl_hdr_ticket cl) (cl_encode_attest_ticket cl counter mac) hdrs, data)))))))))"

definition request_aad :: "string \<Rightarrow> bytes" where
  "request_aad base_id = bytes_of_string ''openhttpa:'' @ bytes_of_string base_id"

definition full_uri_str :: "string \<Rightarrow> string \<Rightarrow> string" where
  "full_uri_str server_base path =
     (if server_base \<noteq> [] \<and> last server_base = CHR ''/'' \<and> starts_with path ''/'' then butlast server_base else server_base) @ path"

text \<open>The first half of \<open>framed_trusted_request\<close>: the request it sends.\<close>

definition client_request ::
  "('h, 'k, 'b) ClientLib \<Rightarrow> ClientSession \<Rightarrow> string \<Rightarrow> string \<Rightarrow> string \<Rightarrow> bytes \<Rightarrow> ClientError + TransportRequest" where
  "client_request cl session server_base meth path body =
     (let uri_str = full_uri_str server_base path in
      result_bind (map_err (\<lambda>e. Failed (''invalid uri '' @ uri_str @ '': '' @ e)) (cl_parse_uri cl uri_str)) (\<lambda>full_uri.
      result_bind (seal_request cl session meth (cu_path full_uri) (cu_query full_uri) (ahl_authority full_uri) body
                    (request_aad (cs_id session)) (cs_id session)) (\<lambda>(headers, encrypted_body).
      result_bind (map_err Failed (cl_json_envelope cl (cl_hex_encode cl encrypted_body))) (\<lambda>envelope.
      Ok \<lparr>tq_method = WIRE_METHOD, tq_uri = full_uri,
          tq_headers = header_insert ''content-type'' ''application/json'' headers, tq_body = envelope\<rparr>))))"

section \<open>Receiving\<close>

text \<open>The closure run with the response keys: the frame of one ciphertext and the next hash of the chain.\<close>

definition open_frame ::
  "('h, 'k, 'b) ClientLib \<Rightarrow> ClientSession \<Rightarrow> bytes \<Rightarrow> bytes \<Rightarrow> 64 word \<Rightarrow> bytes \<Rightarrow> ClientError + (StreamFrame \<times> bytes)" where
  "open_frame cl session aad prev_hash counter ciphertext =
     result_bind (map_err Failed (cs_keys_for_trs session)) (\<lambda>keys.
     if length (ck_server_write_iv keys) \<noteq> 12 then Err ClientPanicked
     else
     result_bind (map_err (\<lambda>_. Failed ''nonce length invariant violated'')
                   (ae_nonce_from_slice (cl_aead cl) (trr_nonce (ck_server_write_iv keys) counter))) (\<lambda>aead_nonce.
     result_bind (map_err Failed (cl_aead_key_new cl (ck_server_write_key keys))) (\<lambda>key.
     let next_hash = cl_sha384 cl (prev_hash @ ciphertext) in
     result_bind (map_err (\<lambda>e. Failed (''stream decrypt failed: '' @ e))
                   (ae_open_in_place (cl_aead cl) key aead_nonce (aad @ prev_hash) ciphertext)) (\<lambda>plaintext.
     result_bind (map_err (\<lambda>e. Failed (''malformed stream frame: '' @ e)) (cl_json_frame cl plaintext)) (\<lambda>frame.
     Ok (frame, next_hash))))))"

function decode_loop ::
  "('h, 'k, 'b) ClientLib \<Rightarrow> ClientSession \<Rightarrow> bytes \<Rightarrow> bytes \<Rightarrow> nat \<Rightarrow> bytes \<Rightarrow> nat option \<Rightarrow> (string \<times> string) list \<Rightarrow> bytes \<Rightarrow>
     ClientError + FramedResponse" where
  "decode_loop cl session aad raw offset prev_hash status headers body =
     (if length raw \<le> offset
      then (case status of
              None \<Rightarrow> Err (Failed ''empty stream: no Head frame'')
            | Some s \<Rightarrow> Ok \<lparr>fr_status = s, fr_headers = headers, fr_body = body\<rparr>)
      else if length raw < offset + 12 then Err (Failed ''truncated frame header'')
      else
        let len = be_nat (take 4 (drop offset raw)); counter = u64_from_be_bytes (take 8 (drop (offset + 4) raw))
        in if length raw < offset + 12 + len then Err (Failed ''truncated frame body'')
           else
             (case open_frame cl session aad prev_hash counter (take len (drop (offset + 12) raw)) of
                Inl e \<Rightarrow> Err e
              | Inr (Head s h, next_hash) \<Rightarrow>
                  if status \<noteq> None then Err (Failed ''unexpected second Head frame'')
                  else decode_loop cl session aad raw (offset + 12 + len) next_hash (Some s) h body
              | Inr (Body data, next_hash) \<Rightarrow>
                  if status = None then Err (Failed ''Body frame before Head'')
                  else decode_loop cl session aad raw (offset + 12 + len) next_hash status headers (body @ data)))"
  by pat_completeness auto

termination
  by (relation "measure (\<lambda>(cl, session, aad, raw, offset, prev_hash, status, headers, body). length raw - offset)") auto

declare decode_loop.simps [simp del]

definition decode_frames :: "('h, 'k, 'b) ClientLib \<Rightarrow> ClientSession \<Rightarrow> bytes \<Rightarrow> bytes \<Rightarrow> ClientError + FramedResponse" where
  "decode_frames cl session aad raw = decode_loop cl session aad raw 0 (replicate 48 0) None [] []"

text \<open>\<open>show_status\<close> is the formatting of a status code.\<close>

definition framed_trusted_request ::
  "(nat \<Rightarrow> string) \<Rightarrow> ('h, 'k, 'b) ClientLib \<Rightarrow> ClientSession \<Rightarrow> string \<Rightarrow> string \<Rightarrow> string \<Rightarrow> bytes \<Rightarrow> ClientError + FramedResponse" where
  "framed_trusted_request show_status cl session server_base meth path body =
     result_bind (client_request cl session server_base meth path body) (\<lambda>req.
     result_bind (map_err (\<lambda>e. Failed (''transport send failed: '' @ e)) (cl_send cl req)) (\<lambda>resp.
     if \<not> (200 \<le> ts_status resp \<and> ts_status resp < 300)
     then Err (Failed (''server returned error: '' @ show_status (ts_status resp)))
     else
     result_bind (map_err (\<lambda>e. Failed (''body collect failed: '' @ e)) (ts_body resp)) (\<lambda>raw.
     decode_frames cl session (request_aad (cs_id session)) raw)))"

section \<open>Sealed streams\<close>

text \<open>
  What the stream format declares: the bytes are a sequence of frames, each the length of its ciphertext in four
  bytes, its counter in eight and the ciphertext, which opens under the hash of the ciphertexts before it.
\<close>

inductive sealed_stream ::
  "('h, 'k, 'b) ClientLib \<Rightarrow> ClientSession \<Rightarrow> bytes \<Rightarrow> bytes \<Rightarrow> bytes \<Rightarrow> StreamFrame list \<Rightarrow> bool"
  for cl session aad where
  stream_end: "sealed_stream cl session aad prev_hash [] []"
| stream_frame:
    "open_frame cl session aad prev_hash counter ct = Ok (frame, next_hash) \<Longrightarrow> length ct < 2 ^ 32 \<Longrightarrow>
     sealed_stream cl session aad next_hash raw frames \<Longrightarrow>
     sealed_stream cl session aad prev_hash (be_bytes 4 (length ct) @ u64_to_be_bytes counter @ ct @ raw) (frame # frames)"

inductive_cases sealed_stream_Nil: "sealed_stream cl session aad prev_hash raw []"
inductive_cases sealed_stream_Cons: "sealed_stream cl session aad prev_hash raw (frame # frames)"

lemma be_nat_bound: "be_nat bs < 256 ^ length bs"
proof (induction bs rule: rev_induct)
  case (snoc b bs)
  have "unat b < 256"
    using unsigned_less [of b] by simp
  with snoc show ?case
    by (simp add: be_nat_snoc)
qed (simp add: be_nat_def)

lemma be_bytes_be_nat: "be_bytes (length bs) (be_nat bs) = bs"
proof (induction bs rule: rev_induct)
  case (snoc b bs)
  have b: "unat b < 256"
    using unsigned_less [of b] by simp
  have "(256 :: byte) = 0" by simp
  then have "x * 256 = 0" for x :: byte
    by (simp only: mult_zero_right)
  with snoc b show ?case
    by (simp add: be_nat_snoc)
qed simp

lemma u64_to_from_be_bytes:
  assumes "length bs = 8"
  shows "u64_to_be_bytes (u64_from_be_bytes bs) = bs"
proof -
  have "unat (u64_from_be_bytes bs) = be_nat bs"
    using be_nat_bound [of bs] assms by (simp add: u64_from_be_bytes_def unsigned_of_nat take_bit_eq_mod)
  then show ?thesis
    using be_bytes_be_nat [of bs] assms by (simp add: u64_to_be_bytes_def)
qed

lemma drop_split: "drop n xs = take k (drop n xs) @ drop (n + k) xs"
  by (metis append_take_drop_id add.commute drop_drop)

text \<open>The first frame of a stream that is not empty, by its bytes.\<close>

lemma sealed_stream_iff:
  assumes "offset \<le> length raw"
  defines "len \<equiv> be_nat (take 4 (drop offset raw))"
  shows "sealed_stream cl session aad prev_hash (drop offset raw) frames \<longleftrightarrow>
    (if offset = length raw then frames = []
     else offset + 12 + len \<le> length raw \<and>
       (\<exists>frame next_hash rest. frames = frame # rest
          \<and> open_frame cl session aad prev_hash (u64_from_be_bytes (take 8 (drop (offset + 4) raw)))
              (take len (drop (offset + 12) raw)) = Ok (frame, next_hash)
          \<and> sealed_stream cl session aad next_hash (drop (offset + 12 + len) raw) rest))"
  (is "_ = ?rhs")
proof
  assume "sealed_stream cl session aad prev_hash (drop offset raw) frames"
  then show ?rhs
  proof cases
    case (stream_frame counter ct frame next_hash rest frames')
    have d: "drop offset raw = be_bytes 4 (length ct) @ u64_to_be_bytes counter @ ct @ rest"
      using stream_frame by simp
    then have len: "len = length ct"
      using stream_frame by (simp add: len_def be_nat_be_bytes)
    have drops: "drop (offset + k) raw = drop k (drop offset raw)" for k
      by (simp add: add.commute)
    have "length (drop offset raw) = 12 + length ct + length rest"
      unfolding d by simp
    then have "length raw = offset + 12 + length ct + length rest"
      using assms(1) by simp
    moreover have "drop (offset + 12 + len) raw = rest"
      using drops [of "12 + len"] by (simp add: d len add.assoc)
    moreover have "u64_from_be_bytes (take 8 (drop (offset + 4) raw)) = counter"
      unfolding drops d by (simp add: u64_be_round_trip)
    moreover have "take len (drop (offset + 12) raw) = ct"
      unfolding drops d len by simp
    ultimately have "offset \<noteq> length raw" "offset + 12 + len \<le> length raw"
        "open_frame cl session aad prev_hash (u64_from_be_bytes (take 8 (drop (offset + 4) raw)))
          (take len (drop (offset + 12) raw)) = Ok (frame, next_hash)"
        "sealed_stream cl session aad next_hash (drop (offset + 12 + len) raw) frames'"
      using stream_frame len by simp_all
    with \<open>frames = frame # frames'\<close> show ?thesis
      by (simp only: if_False) blast
  qed (use assms(1) in auto)
next
  assume rhs: ?rhs
  show "sealed_stream cl session aad prev_hash (drop offset raw) frames"
  proof (cases "offset = length raw")
    case False
    with rhs obtain frame next_hash rest where
      fits: "offset + 12 + len \<le> length raw" and fs: "frames = frame # rest"
      and opn: "open_frame cl session aad prev_hash (u64_from_be_bytes (take 8 (drop (offset + 4) raw)))
          (take len (drop (offset + 12) raw)) = Ok (frame, next_hash)"
      and more: "sealed_stream cl session aad next_hash (drop (offset + 12 + len) raw) rest"
      by auto
    have "drop offset raw = take 4 (drop offset raw) @ take 8 (drop (offset + 4) raw) @ take len (drop (offset + 12) raw) @
        drop (offset + 12 + len) raw"
      using drop_split [of offset raw 4] drop_split [of "offset + 4" raw 8] drop_split [of "offset + 12" raw len]
      by (simp add: add.commute [of 12])
    moreover have "take 4 (drop offset raw) = be_bytes 4 (length (take len (drop (offset + 12) raw)))"
      using be_bytes_be_nat [of "take 4 (drop offset raw)"] fits by (simp add: len_def)
    moreover have "len < 2 ^ 32"
      using be_nat_bound [of "take 4 (drop offset raw)"] fits by (simp add: len_def)
    ultimately show ?thesis
      using sealed_stream.stream_frame [OF opn _ more] fits fs by (simp add: u64_to_from_be_bytes)
  qed (use rhs in \<open>simp add: sealed_stream.stream_end\<close>)
qed

text \<open>The loop after the head, then from the start.\<close>

lemma decode_loop_bodies:
  "offset \<le> length raw \<Longrightarrow>
     decode_loop cl session aad raw offset prev_hash (Some status) headers body = Ok resp \<longleftrightarrow>
     (\<exists>ds. sealed_stream cl session aad prev_hash (drop offset raw) (map Body ds)
        \<and> resp = \<lparr>fr_status = status, fr_headers = headers, fr_body = body @ concat ds\<rparr>)"
proof (induction "length raw - offset" arbitrary: offset prev_hash body rule: less_induct)
  case less
  let ?len = "be_nat (take 4 (drop offset raw))"
  show ?case
  proof (cases "offset = length raw \<or> length raw < offset + 12 + ?len")
    case True
    then show ?thesis
      using less.prems
      by (auto simp: decode_loop.simps [of cl session aad raw offset] sealed_stream_iff Let_def)
  next
    case False
    then have "length raw - (offset + 12 + ?len) < length raw - offset" "offset + 12 + ?len \<le> length raw"
      using less.prems by auto
    note IH = less.hyps [OF this]
    show ?thesis
      using False less.prems
      by (auto simp: decode_loop.simps [of cl session aad raw offset] sealed_stream_iff [of offset raw] IH Let_def
          map_eq_Cons_conv split: sum.splits prod.splits StreamFrame.splits)
        (metis append.assoc concat.simps(2) list.simps(9))+
  qed
qed

lemma decode_frames_Ok:
  "decode_frames cl session aad raw = Ok resp \<longleftrightarrow>
     (\<exists>status headers ds. sealed_stream cl session aad (replicate 48 0) raw (Head status headers # map Body ds)
        \<and> resp = \<lparr>fr_status = status, fr_headers = headers, fr_body = concat ds\<rparr>)"
proof (cases "raw = [] \<or> length raw < 12 + be_nat (take 4 raw)")
  case True
  then show ?thesis
    using sealed_stream_iff [of 0 raw cl session aad "replicate 48 0"]
    by (auto simp: decode_frames_def decode_loop.simps [of cl session aad raw 0] Let_def)
next
  case False
  then show ?thesis
    using sealed_stream_iff [of 0 raw cl session aad "replicate 48 0"]
      decode_loop_bodies [of "12 + be_nat (take 4 raw)" raw cl session aad]
    by (auto simp: decode_frames_def decode_loop.simps [of cl session aad raw 0] Let_def
        split: sum.splits prod.splits StreamFrame.splits)
qed

section \<open>The exchange\<close>

text \<open>
  What the two ends rely on of the libraries they share. \<open>attest_headers\<close> are the headers the MAC covers: those named
  \<open>attest-\<close> something, the ticket apart.
\<close>

definition attest_headers :: "string \<Rightarrow> headers \<Rightarrow> headers" where
  "attest_headers ticket hs = filter (\<lambda>(n, _). starts_with n ''attest-'' \<and> n \<noteq> ticket) hs"

text \<open>HMAC and the header list: the server verifies what the client finalizes over the same covered headers.\<close>

definition mac_agrees :: "('h, 'k, 'b) ClientLib \<Rightarrow> (bytes, 's, 'h, 'o) ProxyLib \<Rightarrow> bool" where
  "mac_agrees cl lib \<longleftrightarrow>
     (\<forall>k h. cl_hmac_new cl k = Ok h \<longrightarrow> pl_hmac_new lib k = Some h)
     \<and> pl_hmac_update lib = cl_hmac_update cl
     \<and> (\<forall>h. pl_hmac_verify lib h (cl_hmac_finalize cl h))
     \<and> (\<forall>m p q a hs hs'. attest_headers (cl_hdr_ticket cl) hs = attest_headers (cl_hdr_ticket cl) hs' \<longrightarrow>
          pl_update_ahl lib m p q a hs = cl_update_ahl cl m p q a hs')
     \<and> (\<forall>hs c mac. header_str hs (cl_hdr_ticket cl) = Some (cl_encode_attest_ticket cl c mac) \<longrightarrow>
          pl_decode_attest_ticket lib hs = Ok (c, mac))"

text \<open>
  The envelope and its AEAD: JSON and hex decode what they encode and the JSON around the hex is short; a new
  key seals its first message at counter 1, with a tag of sixteen bytes, and the server's key opens it there.
\<close>

definition envelope_agrees :: "('h, 'k, 'b) ClientLib \<Rightarrow> (bytes, 's, 'h, 'o) ProxyLib \<Rightarrow> bool" where
  "envelope_agrees cl lib \<longleftrightarrow>
     (\<forall>bs. pl_hex_decode lib (cl_hex_encode cl bs) = Ok bs \<and> length (cl_hex_encode cl bs) = 2 * length bs)
     \<and> (\<forall>t e. cl_json_envelope cl t = Ok e \<longrightarrow> pl_json_ciphertext lib e = Ok t \<and> length e \<le> length t + 17)
     \<and> (\<forall>b cap. length b \<le> cap \<longrightarrow> pl_to_bytes lib b cap = Ok b)
     \<and> (\<forall>k iv b aad pt n ct b'. length iv = 12 \<longrightarrow> cl_bound_key_new cl k iv = Ok b \<longrightarrow>
          ae_seal (cl_aead cl) b aad pt = Ok (n, ct, b') \<longrightarrow>
          length ct = length pt + 16 \<and> n = trr_nonce iv 1 \<and> pl_nonce_from_slice lib n = Ok n
          \<and> (\<exists>key. pl_bound_key_new lib k iv = Some key \<and> pl_open lib key n aad ct = Ok pt))"

text \<open>The headers the client sets are different, and a header value that is accepted is kept.\<close>

definition headers_agree :: "('h, 'k, 'b) ClientLib \<Rightarrow> bool" where
  "headers_agree cl \<longleftrightarrow>
     distinct [cl_hdr_base_id cl, cl_hdr_ticket cl, HDR_ATTEST_REAL_METHOD, ''content-type'']
     \<and> (\<forall>v w. cl_header_value cl v = Ok w \<longrightarrow> w = v)"

text \<open>A session both ends hold after a handshake, before its first request: the request is given the counter 1.\<close>

definition fresh_session :: "ClientSession \<Rightarrow> (bytes, 's, 'h, 'o) ProxyLib \<Rightarrow> 's \<Rightarrow> bool" where
  "fresh_session session lib s \<longleftrightarrow>
     pl_session_aad lib s = request_aad (cs_id session)
     \<and> (\<forall>n keys c. cs_keys_for_trr session n = Ok (keys, c) \<longrightarrow>
          c = 1 \<and> pl_with_keys_for_trr lib s 1 =
            Ok \<lparr>tk_client_mac_key = ck_client_mac_key keys, tk_client_write_key = ck_client_write_key keys,
                tk_client_write_iv = ck_client_write_iv keys\<rparr>)"

text \<open>
  HTTP: the server sees the request the transport was given, with the authority in its URI or its host header
  and without a default port; headers may be added, but none the MAC covers.
\<close>

definition carries :: "string \<Rightarrow> TransportRequest \<Rightarrow> bytes Request \<Rightarrow> bool" where
  "carries ticket tr req \<longleftrightarrow>
     rq_method req = tq_method tr \<and> rq_body req = tq_body tr
     \<and> uri_path (rq_uri req) = cu_path (tq_uri tr) \<and> uri_query (rq_uri req) = cu_query (tq_uri tr)
     \<and> rq_original_uri req \<in> {None, Some (rq_uri req)}
     \<and> request_authority req = ahl_authority (tq_uri tr)
     \<and> attest_headers ticket (rq_headers req) = attest_headers ticket (tq_headers tr)
     \<and> (\<forall>(n, v) \<in> set (tq_headers tr). header_get (rq_headers req) n = Some v)"

lemma carries_uri:
  "carries ticket tr req \<Longrightarrow> request_path req = cu_path (tq_uri tr) \<and> request_query req = cu_query (tq_uri tr)"
  by (auto simp: carries_def request_path_def request_query_def)

lemma client_request_Ok:
  assumes "client_request cl session server_base meth path body = Ok tr"
  obtains nonce keys counter bound_key n data b' base_id_value method_value hmac chunks mac hs where
    "cs_keys_for_trr session nonce = Ok (keys, counter)" "length (ck_client_write_iv keys) = 12"
    "cl_bound_key_new cl (ck_client_write_key keys) (ck_client_write_iv keys) = Ok bound_key"
    "ae_seal (cl_aead cl) bound_key (request_aad (cs_id session)) body = Ok (n, data, b')"
    "cl_header_value cl (cs_id session) = Ok base_id_value" "cl_header_value cl (to_ascii_uppercase meth) = Ok method_value"
    "cl_hmac_new cl (ck_client_mac_key keys) = Ok hmac"
    "hs = header_insert HDR_ATTEST_REAL_METHOD method_value (header_insert (cl_hdr_base_id cl) base_id_value [])"
    "cl_update_ahl cl WIRE_METHOD (cu_path (tq_uri tr)) (cu_query (tq_uri tr)) (ahl_authority (tq_uri tr)) hs = Ok chunks"
    "mac = cl_hmac_finalize cl (fold (cl_hmac_update cl) (u64_to_be_bytes counter # chunks) hmac)"
    "tq_method tr = WIRE_METHOD" "cl_json_envelope cl (cl_hex_encode cl data) = Ok (tq_body tr)"
    "tq_headers tr = header_insert ''content-type'' ''application/json''
       (header_insert (cl_hdr_ticket cl) (cl_encode_attest_ticket cl counter mac) hs)"
  using assms
  by (clarsimp simp: client_request_def seal_request_def Let_def result_bind_eq_Ok map_err_eq_Ok split: if_splits prod.splits)

lemma header_get_carried:
  assumes "carries ticket tr req" "(n, Some v) \<in> set (tq_headers tr)"
  shows "header_str (rq_headers req) n = Some v"
  using assms by (auto simp: carries_def header_str_def)

lemma set_header_insert: "set (header_insert n v hs) = insert (n, Some v) {(m, w) \<in> set hs. m \<noteq> n}"
  by (auto simp: header_insert_def)

lemma attest_headers_insert:
  "\<not> starts_with n ''attest-'' \<or> n = ticket \<Longrightarrow> n \<notin> fst ` set hs \<Longrightarrow>
     attest_headers ticket (header_insert n v hs) = attest_headers ticket hs"
  by (auto simp: attest_headers_def header_insert_def filter_filter intro!: filter_cong)

lemma client_request_accepted:
  assumes "mac_agrees cl lib" "envelope_agrees cl lib" "headers_agree cl" "fresh_session session lib s"
    and req: "client_request cl session server_base meth path body = Ok tr" and wire: "carries (cl_hdr_ticket cl) tr req"
    and "pl_session lib req = Ok s" and "ahl_authority (tq_uri tr) \<noteq> []" and "length body \<le> mx"
    and "pre_decrypt_cap mx < usize_max" and "pl_method_from_bytes lib (to_ascii_uppercase meth) = Some me"
  shows "from_request lib mx req m =
    (m, Ok \<lparr>dr_session = s, dr_method = me, dr_path = cu_path (tq_uri tr), dr_query = cu_query (tq_uri tr),
            dr_host = ahl_authority (tq_uri tr), dr_body = body\<rparr>)"
proof -
  from client_request_Ok [OF req] obtain nonce keys counter bound_key n data b' base_id_value method_value hmac chunks mac hs where
    trr: "cs_keys_for_trr session nonce = Ok (keys, counter)" and iv: "length (ck_client_write_iv keys) = 12"
    and seal: "cl_bound_key_new cl (ck_client_write_key keys) (ck_client_write_iv keys) = Ok bound_key"
      "ae_seal (cl_aead cl) bound_key (request_aad (cs_id session)) body = Ok (n, data, b')"
    and hv: "cl_header_value cl (cs_id session) = Ok base_id_value" "cl_header_value cl (to_ascii_uppercase meth) = Ok method_value"
    and hmac: "cl_hmac_new cl (ck_client_mac_key keys) = Ok hmac"
    and hs: "hs = header_insert HDR_ATTEST_REAL_METHOD method_value (header_insert (cl_hdr_base_id cl) base_id_value [])"
    and ahl: "cl_update_ahl cl WIRE_METHOD (cu_path (tq_uri tr)) (cu_query (tq_uri tr)) (ahl_authority (tq_uri tr)) hs = Ok chunks"
    and mac: "mac = cl_hmac_finalize cl (fold (cl_hmac_update cl) (u64_to_be_bytes counter # chunks) hmac)"
    and tr: "tq_method tr = WIRE_METHOD" "cl_json_envelope cl (cl_hex_encode cl data) = Ok (tq_body tr)"
      "tq_headers tr = header_insert ''content-type'' ''application/json''
         (header_insert (cl_hdr_ticket cl) (cl_encode_attest_ticket cl counter mac) hs)" .
  note wired = wire [unfolded carries_def] carries_uri [OF wire]
  have one: "counter = 1" and keys: "pl_with_keys_for_trr lib s 1 =
      Ok \<lparr>tk_client_mac_key = ck_client_mac_key keys, tk_client_write_key = ck_client_write_key keys,
          tk_client_write_iv = ck_client_write_iv keys\<rparr>" and aad: "pl_session_aad lib s = request_aad (cs_id session)"
    using assms(4) trr by (auto simp: fresh_session_def)
  have names: "cl_hdr_ticket cl \<noteq> ''content-type''" "HDR_ATTEST_REAL_METHOD \<noteq> ''content-type''"
    "HDR_ATTEST_REAL_METHOD \<noteq> cl_hdr_ticket cl" "cl_hdr_base_id cl \<noteq> cl_hdr_ticket cl" "cl_hdr_base_id cl \<noteq> ''content-type''"
    and mv: "method_value = to_ascii_uppercase meth"
    using assms(3) hv(2) by (auto simp: headers_agree_def)
  have ticket: "pl_decode_attest_ticket lib (rq_headers req) = Ok (1, mac)"
    using assms(1) header_get_carried [OF wire] names(1) tr(3)
    by (auto simp: mac_agrees_def set_header_insert one)
  have meth: "real_method lib req = me"
    using header_get_carried [OF wire, of HDR_ATTEST_REAL_METHOD "to_ascii_uppercase meth"] names tr(3) hs mv assms(11)
    by (simp add: real_method_def set_header_insert)
  have "attest_headers (cl_hdr_ticket cl) (tq_headers tr) = attest_headers (cl_hdr_ticket cl) hs"
    using names unfolding tr(3) hs by (subst attest_headers_insert, auto simp: set_header_insert starts_with_iff)+
  then have chunks: "pl_update_ahl lib (rq_method req) (request_path req) (request_query req) (request_authority req) (rq_headers req)
      = Ok chunks"
    using assms(1) ahl wired tr(1) by (simp add: mac_agrees_def)
  have sealed: "length data = length body + 16" "n = trr_nonce (ck_client_write_iv keys) 1" "pl_nonce_from_slice lib n = Ok n"
    "\<exists>key. pl_bound_key_new lib (ck_client_write_key keys) (ck_client_write_iv keys) = Some key
       \<and> pl_open lib key n (request_aad (cs_id session)) data = Ok body"
    using assms(2) iv seal unfolding envelope_agrees_def by meson+
  have json: "pl_json_ciphertext lib (tq_body tr) = Ok (cl_hex_encode cl data)"
      "length (tq_body tr) \<le> 2 * length data + 17" "pl_hex_decode lib (cl_hex_encode cl data) = Ok data"
    using assms(2) tr(2) unfolding envelope_agrees_def by metis+
  have "2 * (length body + 16) + 17 \<le> pre_decrypt_cap mx"
    using pre_decrypt_cap_fits [OF assms(9)] assms(10) by auto
  then have "pl_to_bytes lib (tq_body tr) (pre_decrypt_cap mx) = Ok (tq_body tr)"
    using assms(2) json(2) sealed(1) by (simp add: envelope_agrees_def)
  then have env: "open_envelope lib mx req = Ok (s, 1, mac, data)"
    using assms(7,8) ticket json wired by (simp add: open_envelope_Ok)
  have "verify_and_open lib s 1 mac req data \<lparr>tk_client_mac_key = ck_client_mac_key keys,
      tk_client_write_key = ck_client_write_key keys, tk_client_write_iv = ck_client_write_iv keys\<rparr> = Ok body"
    using assms(1) hmac chunks sealed iv by (auto simp: verify_and_open_Ok mac_agrees_def mac one aad)
  with env keys meth wired show ?thesis
    by (simp add: from_request_def)
qed

text \<open>A request from the client reaches the proxy handler as the client was given it.\<close>

lemma client_request_handled:
  assumes "mac_agrees cl (ro_proxy lib)" "envelope_agrees cl (ro_proxy lib)" "headers_agree cl"
    and "fresh_session session (ro_proxy lib) s" "pl_session (ro_proxy lib) req = Ok s"
    and "axum_routing (ro_route lib)" "base_compatible (ro_base_routes lib)" "ro_tr_layer lib (pst_registry st) req = Ok req"
    and req: "client_request cl session server_base meth path body = Ok tr" and wire: "carries (cl_hdr_ticket cl) tr req"
    and "ahl_authority (tq_uri tr) \<noteq> []" and uri: "cu_path (tq_uri tr) = CHR ''/'' # c # p"
    and "CHR ''/'' # c # p \<notin> fst ` set (merged_routes (ro_base_routes lib))"
    and "length body \<le> pst_max_body_bytes st" "pre_decrypt_cap (pst_max_body_bytes st) < usize_max"
    and "pl_method_from_bytes (ro_proxy lib) (to_ascii_uppercase meth) = Some me"
  shows "build_router lib st req =
    (case proxy_handler (ro_method_from_bytes lib) (pst_routes st) (pst_max_body_bytes st) (pst_http st)
            \<lparr>dr_session = s, dr_method = me, dr_path = CHR ''/'' # c # p, dr_query = cu_query (tq_uri tr),
             dr_host = ahl_authority (tq_uri tr), dr_body = body\<rparr> (pst_metrics st) of
       (m, call, resp) \<Rightarrow> (m, call, Replied resp))"
proof -
  have post: "rq_method req = ''POST''" and path: "uri_path (rq_uri req) = CHR ''/'' # c # p"
    using wire client_request_Ok [OF req] uri by (auto simp: carries_def WIRE_METHOD_def)
  have "\<not> is_attested_ws_upgrade (ws_request (ro_hdr_base_id lib) req)"
    by (simp add: is_attested_ws_upgrade_def ws_request_def post)
  then have "build_router lib st req = serve_proxy lib st req"
    using build_router_routed [of lib req st] route_wildcard [OF assms(6,7,13)] by (simp add: path serve_endpoint_def)
  then show ?thesis
    using client_request_accepted [OF assms(1-4) req wire assms(5,11,14,15,16)]
    by (simp add: serve_proxy_def from_ref_defs assms(8) uri)
qed

lemma client_request_relayed:
  assumes handled: "build_router lib st req =
      (case proxy_handler (ro_method_from_bytes lib) (pst_routes st) (pst_max_body_bytes st) (pst_http st)
              \<lparr>dr_session = s, dr_method = me, dr_path = path, dr_query = query, dr_host = host, dr_body = body\<rparr> (pst_metrics st) of
         (m, call, resp) \<Rightarrow> (m, call, Replied resp))"
    and "length body \<le> pst_max_body_bytes st" "pst_max_body_bytes st < usize_max" "ro_method_from_bytes lib me = Some me"
    and "route_table_select (pst_routes st) host path = Some route"
    and "url = trim_end_matches (CHR ''/'') (r_upstream route) @ path @ (case query of None \<Rightarrow> [] | Some q \<Rightarrow> CHR ''?'' # q)"
    and "up_send (pst_http st) me url body =
      Ok \<lparr>ur_status = status, ur_headers = hs, ur_content_length = n, ur_chunks = map Ok cs\<rparr>"
    and "pred_option (\<lambda>n. n \<le> pst_max_body_bytes st) n" "sum_list (map length cs) \<le> pst_max_body_bytes st"
  shows "snd (build_router lib st req)
      = (Some (me, url, body), Replied (Sealed s (map Ok (Head status (forwarded_headers hs) # map Body cs))))"
proof -
  have "relay_response (pst_max_body_bytes st) s \<lparr>ur_status = status, ur_headers = hs, ur_content_length = n, ur_chunks = map Ok cs\<rparr>
      = Sealed s (map Ok (Head status (forwarded_headers hs) # map Body cs))"
    using assms(3,8,9) body_frames_all [of 0 cs "pst_max_body_bytes st"] by (auto simp: relay_response_def split: option.splits)
  then show ?thesis
    using assms(2,4-7) by (simp add: handled proxy_handler_def upstream_url_def Let_def)
qed

section \<open>Properties\<close>

text \<open>
  C11: Decoding refines the stream format: the client accepts exactly the bytes that are a sealed stream of one
  head frame followed by body frames, each opened under the counter it carries and chained to those before it by their hash, and returns the
  status and headers of the head with the bodies in order. Every other input is an error.
\<close>
theorem decode_frames_refines:
  "decode_frames cl session aad raw = Ok resp \<longleftrightarrow>
     (\<exists>status headers ds. sealed_stream cl session aad (replicate 48 0) raw (Head status headers # map Body ds)
        \<and> resp = \<lparr>fr_status = status, fr_headers = headers, fr_body = concat ds\<rparr>)"
  by (rule decode_frames_Ok)


section \<open>Examples\<close>

text \<open>
  Concrete libraries that keep the contracts: an AEAD whose tag shows the nonce and the key, a checksum for HMAC and SHA-384, the
  JSON envelope, and frames as bytes with fields ended by zeros.
\<close>

definition demo_tag :: "bytes \<Rightarrow> bytes \<Rightarrow> bytes \<Rightarrow> bytes" where
  "demo_tag key nonce aad = take 16 (nonce @ take 2 key @ [of_nat (length aad)] @ replicate 16 0)"

definition demo_open :: "bytes \<Rightarrow> bytes \<Rightarrow> bytes \<Rightarrow> bytes \<Rightarrow> string + bytes" where
  "demo_open key nonce aad ct =
     (let n = length ct - 16 in if drop n ct = demo_tag key nonce aad then Ok (take n ct) else Err ''bad tag'')"

definition demo_aead :: "(bytes, bytes \<times> bytes \<times> 64 word) Aead" where
  "demo_aead =
     \<lparr>ae_nonce_from_slice = Ok, ae_open_in_place = demo_open,
      ae_seal = (\<lambda>(key, iv, c) aad pt. Ok (trr_nonce iv c, pt @ demo_tag key (trr_nonce iv c) aad, (key, iv, c + 1)))\<rparr>"

definition demo_sum :: "bytes \<Rightarrow> bytes" where
  "demo_sum bs = [sum_list bs, of_nat (length bs)]"

definition demo_ahl :: "string \<Rightarrow> string \<Rightarrow> string option \<Rightarrow> string \<Rightarrow> headers \<Rightarrow> string + bytes list" where
  "demo_ahl m p q a hs =
     Ok (map bytes_of_string ([m, p, unwrap_or [] q, a]
       @ concat (map (\<lambda>(n, v). [n, unwrap_or [] v]) (attest_headers ''attest-ticket'' hs))))"

definition demo_envelope :: "string \<Rightarrow> bytes" where
  "demo_envelope t = bytes_of_string (''{'' @ in_quotes ''ciphertext'' @ '':'' @ in_quotes t @ ''}'')"

definition demo_unwrap :: "bytes \<Rightarrow> string + string" where
  "demo_unwrap bs = Ok (string_of_bytes (take (length bs - 17) (drop 15 bs)))"

fun demo_frame_bytes :: "StreamFrame \<Rightarrow> bytes" where
  "demo_frame_bytes (Head status hs) =
     0 # be_bytes 2 status @ concat (map (\<lambda>(n, v). bytes_of_string n @ [0] @ bytes_of_string v @ [0]) hs)"
| "demo_frame_bytes (Body d) = 1 # d"

fun demo_pairs :: "string list \<Rightarrow> (string \<times> string) list" where
  "demo_pairs (n # v # fs) = (n, v) # demo_pairs fs"
| "demo_pairs _ = []"

fun demo_frame :: "bytes \<Rightarrow> string + StreamFrame" where
  "demo_frame (t # d) =
     (if t = 1 then Ok (Body d)
      else Ok (Head (be_nat (take 2 d)) (demo_pairs (split_char (char_of (0 :: nat)) (string_of_bytes (drop 2 d))))))"
| "demo_frame [] = Err ''empty''"

definition demo_uri :: "string \<Rightarrow> string + ClientUri" where
  "demo_uri s =
     (case strip_prefix s ''http://'' of
        None \<Rightarrow> Err ''invalid scheme''
      | Some rest \<Rightarrow>
          (case split_once (CHR ''/'') rest of
             None \<Rightarrow> Ok \<lparr>cu_scheme = Some ''http'', cu_authority = Some rest, cu_path = ''/'', cu_query = None\<rparr>
           | Some (authority, p) \<Rightarrow>
               (case split_once (CHR ''?'') p of
                  None \<Rightarrow> Ok \<lparr>cu_scheme = Some ''http'', cu_authority = Some authority, cu_path = CHR ''/'' # p, cu_query = None\<rparr>
                | Some (p, q) \<Rightarrow>
                    Ok \<lparr>cu_scheme = Some ''http'', cu_authority = Some authority, cu_path = CHR ''/'' # p, cu_query = Some q\<rparr>)))"

definition demo_client ::
  "(TransportRequest \<Rightarrow> string + TransportResponse) \<Rightarrow> (bytes, bytes, bytes \<times> bytes \<times> 64 word) ClientLib" where
  "demo_client send =
     \<lparr>cl_hdr_base_id = ''attest-base-id'', cl_hdr_ticket = ''attest-ticket'', cl_random = Ok (replicate 8 7),
      cl_parse_uri = demo_uri, cl_header_value = Ok, cl_bound_key_new = (\<lambda>key iv. Ok (key, iv, 1)), cl_aead_key_new = Ok,
      cl_aead = demo_aead, cl_hmac_new = Ok, cl_hmac_update = (\<lambda>b h. h @ b), cl_hmac_finalize = demo_sum,
      cl_update_ahl = demo_ahl, cl_encode_attest_ticket = (\<lambda>c mac. hex_encode_ref (u64_to_be_bytes c @ mac)),
      cl_hex_encode = hex_encode_ref, cl_json_envelope = (\<lambda>t. Ok (demo_envelope t)), cl_sha384 = demo_sum,
      cl_json_frame = demo_frame, cl_send = send\<rparr>"

definition demo_ticket :: "headers \<Rightarrow> TrailerError + (64 word \<times> bytes)" where
  "demo_ticket hs =
     (case header_str hs ''attest-ticket'' of
        None \<Rightarrow> Err TrailerMissing
      | Some t \<Rightarrow>
          (case hex_decode_ref t of
             Inl e \<Rightarrow> Err (TrailerInvalid e)
           | Inr bs \<Rightarrow> Ok (u64_from_be_bytes (take 8 bs), drop 8 bs)))"

definition demo_keys :: ClientKeys where
  "demo_keys =
     \<lparr>ck_client_mac_key = [5], ck_client_write_key = [1, 2], ck_client_write_iv = replicate 12 3,
      ck_server_write_key = [8, 9], ck_server_write_iv = replicate 12 4\<rparr>"

definition demo_session :: ClientSession where
  "demo_session = \<lparr>cs_id = ''42'', cs_keys_for_trr = (\<lambda>_. Ok (demo_keys, 1)), cs_keys_for_trs = Ok demo_keys\<rparr>"

definition demo_server :: "(bytes, string, bytes, bytes) ProxyLib" where
  "demo_server =
     \<lparr>pl_session = (\<lambda>req. if header_str (rq_headers req) ''attest-base-id'' = Some ''42'' then Ok ''42''
        else Err (Bare 401 ''AtB session not found'')),
      pl_session_aad = request_aad, pl_decode_attest_ticket = demo_ticket,
      pl_to_bytes = (\<lambda>b cap. if length b \<le> cap then Ok b else Err ''limit''),
      pl_json_ciphertext = demo_unwrap, pl_hex_decode = hex_decode_ref,
      pl_with_keys_for_trr = (\<lambda>s n.
        if s = ''42'' \<and> n = 1
        then Ok \<lparr>tk_client_mac_key = ck_client_mac_key demo_keys, tk_client_write_key = ck_client_write_key demo_keys,
               tk_client_write_iv = ck_client_write_iv demo_keys\<rparr>
        else Err ''replay''),
      pl_hmac_new = Some, pl_hmac_update = (\<lambda>b h. h @ b), pl_hmac_verify = (\<lambda>h mac. demo_sum h = mac),
      pl_update_ahl = demo_ahl, pl_nonce_from_slice = Ok, pl_bound_key_new = (\<lambda>key _. Some key), pl_open = demo_open,
      pl_method_from_bytes = Some\<rparr>"

lemma demo_tag_length: "length nonce = 12 \<Longrightarrow> length (demo_tag key nonce aad) = 16"
  by (simp add: demo_tag_def)

lemma length_trr_nonce: "length iv = 12 \<Longrightarrow> length (trr_nonce iv c) = 12"
  by (simp add: trr_nonce_def)

lemma demo_mac_agrees: "mac_agrees (demo_client send) demo_server"
  by (auto simp: mac_agrees_def demo_client_def demo_server_def demo_ahl_def demo_ticket_def hex_round_trip_ref u64_be_round_trip)

lemma demo_envelope_agrees: "envelope_agrees (demo_client send) demo_server"
proof -
  have "demo_unwrap (demo_envelope t) = Ok t" for t
  proof -
    have "demo_envelope t = bytes_of_string (''{'' @ in_quotes ''ciphertext'' @ '':'' @ [char_of (34 :: nat)]) @
        bytes_of_string t @ bytes_of_string ([char_of (34 :: nat)] @ ''}'')"
      by (simp add: demo_envelope_def in_quotes_def bytes_of_string_def)
    moreover have "length (bytes_of_string (''{'' @ in_quotes ''ciphertext'' @ '':'' @ [char_of (34 :: nat)])) = 15"
      by (simp add: bytes_of_string_def in_quotes_def)
    ultimately show ?thesis
      by (simp add: demo_unwrap_def bytes_of_string_def string_of_bytes_of_string [unfolded bytes_of_string_def])
  qed
  moreover have "length (demo_envelope t) \<le> length t + 17" for t
    by (simp add: demo_envelope_def bytes_of_string_def in_quotes_def)
  ultimately show ?thesis
    by (auto simp: envelope_agrees_def demo_client_def demo_server_def demo_aead_def demo_open_def hex_round_trip_ref
        length_hex_encode_ref demo_tag_length length_trr_nonce Let_def)
qed

lemma demo_headers_agree: "headers_agree (demo_client send)"
  by (simp add: headers_agree_def demo_client_def HDR_ATTEST_REAL_METHOD_def)

lemma demo_fresh_session: "fresh_session demo_session demo_server ''42''"
  by (simp add: fresh_session_def demo_session_def demo_server_def)

definition demo_router :: "(bytes, string, bytes, bytes, nat, unit, unit, nat) RouterLib" where
  "demo_router =
     \<lparr>ro_proxy = demo_server, ro_method_from_bytes = Some, ro_show_f64 = (\<lambda>_. ''0''), ro_route = lookup_route,
      ro_unrouted = (\<lambda>_. 405), ro_base_routes = [(''/attest'', Any, Base ())], ro_base = (\<lambda>_ _. (200, 200)),
      ro_tr_layer = (\<lambda>_ req. Ok req), ro_hdr_base_id = ''attest-base-id'', ro_parse_id = (\<lambda>_. None), ro_ws_extracts = (\<lambda>_. True)\<rparr>"

text \<open>The server's side of the transport: the request on the wire, and the sealing of a stream of frames.\<close>

definition demo_wire :: "TransportRequest \<Rightarrow> bytes Request" where
  "demo_wire tr =
     \<lparr>rq_method = tq_method tr,
      rq_uri = \<lparr>uri_path = cu_path (tq_uri tr), uri_query = cu_query (tq_uri tr), uri_authority = None\<rparr>,
      rq_original_uri = None, rq_headers = (''host'', Some (ahl_authority (tq_uri tr))) # tq_headers tr, rq_body = tq_body tr\<rparr>"

fun demo_seal_stream :: "bytes \<Rightarrow> bytes \<Rightarrow> 64 word \<Rightarrow> StreamFrame list \<Rightarrow> bytes" where
  "demo_seal_stream aad prev_hash c [] = []"
| "demo_seal_stream aad prev_hash c (f # fs) =
     (let ct = demo_frame_bytes f @
          demo_tag (ck_server_write_key demo_keys) (trr_nonce (ck_server_write_iv demo_keys) c) (aad @ prev_hash)
      in be_bytes 4 (length ct) @ u64_to_be_bytes c @ ct @ demo_seal_stream aad (demo_sum (prev_hash @ ct)) (c + 1) fs)"

text \<open>A transport that hands the request to the router and seals the reply.\<close>

definition demo_send :: "(nat, unit) ProxyState \<Rightarrow> TransportRequest \<Rightarrow> string + TransportResponse" where
  "demo_send st tr =
     (case snd (snd (build_router demo_router st (demo_wire tr))) of
        Replied (Sealed s frames) \<Rightarrow>
          Ok \<lparr>ts_status = 200, ts_body = Ok (demo_seal_stream (request_aad s) (replicate 48 0) 1 (map projr frames))\<rparr>
      | _ \<Rightarrow> Ok \<lparr>ts_status = 500, ts_body = Ok []\<rparr>)"

definition demo_state :: "(nat, unit) ProxyState" where
  "demo_state =
     toy_proxy_state\<lparr>pst_http := \<lparr>up_send = (\<lambda>meth url body.
        Ok \<lparr>ur_status = 404, ur_headers = [(''x'', Some ''y'')], ur_content_length = None, ur_chunks = [Ok [7], Ok [8]]\<rparr>), up_elapsed = F64 1 0\<rparr>\<rparr>"

lemma carries_demo_wire:
  assumes "distinct (map fst (tq_headers tr))" "''host'' \<notin> fst ` set (tq_headers tr)"
  shows "carries ticket tr (demo_wire tr)"
proof -
  have "(n, v) \<in> set (tq_headers tr) \<Longrightarrow> n \<noteq> ''host'' \<and> map_of (tq_headers tr) n = Some v" for n v
    using assms by force
  then show ?thesis
    by (auto simp: carries_def demo_wire_def request_authority_def header_str_def header_get_def attest_headers_def starts_with_iff)
qed

lemma demo_seal_stream_sealed:
  assumes "\<And>f. f \<in> set fs \<Longrightarrow> demo_frame (demo_frame_bytes f) = Ok f \<and> length (demo_frame_bytes f) < 2 ^ 31"
  shows "sealed_stream (demo_client send) demo_session aad prev_hash (demo_seal_stream aad prev_hash c fs) fs"
  using assms
proof (induction aad prev_hash c fs rule: demo_seal_stream.induct)
  case (2 aad prev_hash c f fs)
  let ?tag = "demo_tag (ck_server_write_key demo_keys) (trr_nonce (ck_server_write_iv demo_keys) c) (aad @ prev_hash)"
  have iv: "length (ck_server_write_iv demo_keys) = 12"
    by (simp add: demo_keys_def)
  then have tag: "length ?tag = 16"
    by (intro demo_tag_length length_trr_nonce)
  have "open_frame (demo_client send) demo_session aad prev_hash c (demo_frame_bytes f @ ?tag)
      = Ok (f, demo_sum (prev_hash @ demo_frame_bytes f @ ?tag))"
    using 2(2) [of f] iv tag
    by (simp add: open_frame_def demo_client_def demo_session_def demo_aead_def demo_open_def Let_def)
  moreover have "length (demo_frame_bytes f @ ?tag) < 2 ^ 32"
    using 2(2) [of f] tag by simp
  moreover have "sealed_stream (demo_client send) demo_session aad (demo_sum (prev_hash @ demo_frame_bytes f @ ?tag))
      (demo_seal_stream aad (demo_sum (prev_hash @ demo_frame_bytes f @ ?tag)) (c + 1) fs) fs"
    using 2 by simp
  ultimately show ?case
    using sealed_stream.stream_frame by (simp only: demo_seal_stream.simps Let_def)
qed (simp add: sealed_stream.stream_end)

lemma demo_client_request:
  assumes "demo_uri (full_uri_str server_base path) = Ok uri"
  obtains tr where "client_request (demo_client send) demo_session server_base meth path body = Ok tr"
    "tq_uri tr = uri" "carries (cl_hdr_ticket (demo_client send)) tr (demo_wire tr)" "pl_session demo_server (demo_wire tr) = Ok ''42''"
proof -
  let ?trs = "client_request (demo_client send) demo_session server_base meth path body"
  obtain ticket envelope where "?trs = Ok \<lparr>tq_method = WIRE_METHOD, tq_uri = uri,
      tq_headers = [(''attest-base-id'', Some ''42''), (HDR_ATTEST_REAL_METHOD, Some (to_ascii_uppercase meth)),
        (''attest-ticket'', Some ticket), (''content-type'', Some ''application/json'')], tq_body = envelope\<rparr>"
    using assms
    by (simp add: client_request_def seal_request_def demo_client_def demo_session_def demo_keys_def demo_aead_def demo_ahl_def
        result_bind_def map_err_def Let_def header_insert_def HDR_ATTEST_REAL_METHOD_def)
  then show ?thesis
    by (rule that, simp, intro carries_demo_wire)
      (simp_all add: HDR_ATTEST_REAL_METHOD_def demo_server_def demo_wire_def header_str_def header_get_def)
qed

lemmas demo_contracts = demo_mac_agrees demo_envelope_agrees demo_headers_agree demo_fresh_session

lemma demo_router_fields:
  "ro_proxy demo_router = demo_server" "ro_route demo_router = lookup_route" "ro_tr_layer demo_router = (\<lambda>_ req. Ok req)"
  "ro_method_from_bytes demo_router = Some" "pl_method_from_bytes demo_server = Some"
  "base_compatible (ro_base_routes demo_router)"
  by (simp_all add: demo_router_def demo_server_def) code_simp

text \<open>One exchange with the demonstration server, from the frames of the router's reply.\<close>

lemma demo_reply:
  assumes "snd (snd (build_router demo_router st (demo_wire tr))) = Replied (Sealed ''42'' (map Ok fs))"
    and "list_all (\<lambda>f. demo_frame (demo_frame_bytes f) = Ok f \<and> length (demo_frame_bytes f) < 2 ^ 31) fs"
  shows "\<exists>raw. cl_send (demo_client (demo_send st)) tr = Ok \<lparr>ts_status = 200, ts_body = Ok raw\<rparr>
    \<and> sealed_stream (demo_client (demo_send st)) demo_session (request_aad (cs_id demo_session)) (replicate 48 0) raw fs"
proof -
  have "cs_id demo_session = ''42''" "cl_send (demo_client (demo_send st)) = demo_send st"
    by (simp_all add: demo_session_def demo_client_def)
  then show ?thesis
    using assms demo_seal_stream_sealed [of fs] by (simp add: demo_send_def list_all_iff map_idI)
qed

text \<open>A whole exchange, from what the proxy handler answers.\<close>

lemma demo_exchange:
  assumes uri: "demo_uri (full_uri_str server_base path) = Ok uri" and path: "cu_path uri = CHR ''/'' # c # p"
    and "ahl_authority uri = host" "host \<noteq> []" "CHR ''/'' # c # p \<notin> fst ` set (merged_routes (ro_base_routes demo_router))"
    and "length body \<le> pst_max_body_bytes st" "pre_decrypt_cap (pst_max_body_bytes st) < usize_max"
    and handler: "snd (snd (proxy_handler Some (pst_routes st) (pst_max_body_bytes st) (pst_http st)
      \<lparr>dr_session = ''42'', dr_method = to_ascii_uppercase meth, dr_path = CHR ''/'' # c # p, dr_query = cu_query uri, dr_host = host,
       dr_body = body\<rparr> (pst_metrics st))) = Sealed ''42'' (map Ok (Head status hs # map Body ds))"
    and frames: "list_all (\<lambda>f. demo_frame (demo_frame_bytes f) = Ok f \<and> length (demo_frame_bytes f) < 2 ^ 31) (Head status hs # map Body ds)"
  shows "framed_trusted_request show_status (demo_client (demo_send st)) demo_session server_base meth path body =
    Ok \<lparr>fr_status = status, fr_headers = hs, fr_body = concat ds\<rparr>"
proof -
  let ?cl = "demo_client (demo_send st)"
  from demo_client_request [OF uri, of "demo_send st" meth body] obtain tr where
    tr: "client_request ?cl demo_session server_base meth path body = Ok tr" "tq_uri tr = uri"
    "carries (cl_hdr_ticket ?cl) tr (demo_wire tr)" "pl_session demo_server (demo_wire tr) = Ok ''42''" .
  have "snd (snd (build_router demo_router st (demo_wire tr))) = Replied (Sealed ''42'' (map Ok (Head status hs # map Body ds)))"
    using client_request_handled [where lib = demo_router and s = "''42''" and me = "to_ascii_uppercase meth" and st = st,
        unfolded demo_router_fields(1-5), OF demo_contracts tr(4) axum_routing_lookup demo_router_fields(6) refl tr(1,3)] assms
    by (simp add: tr(2) demo_router_fields(1-5) case_prod_beta)
  from demo_reply [OF this frames] obtain raw where "cl_send ?cl tr = Ok \<lparr>ts_status = 200, ts_body = Ok raw\<rparr>"
    "sealed_stream ?cl demo_session (request_aad (cs_id demo_session)) (replicate 48 0) raw (Head status hs # map Body ds)"
    by auto
  with tr(1) show ?thesis
    by (auto simp: framed_trusted_request_def decode_frames_Ok)
qed


end
