(* ===== verification/Unit_E2e.thy ===== *)
theory Unit_E2e
  imports Client Unit_Cli
begin

text \<open>
  The integration tests of \<open>tests/proxy_e2e.rs\<close> and \<open>tests/tls_listener.rs\<close> on the model: the client of \<open>Client\<close>, the router, the
  configuration loaded from the test's file and the test's upstream. The handshake is third-party code: each request uses a
  fresh session of the demonstration libraries of \<open>Client\<close>.
\<close>

section \<open>The upstream\<close>

text \<open>The upstream of the tests, and the response axum makes of a status and a text.\<close>

definition upstream_handler :: "string \<Rightarrow> string \<Rightarrow> nat \<times> string" where
  "upstream_handler meth path =
     (if path = ''/ok'' then (200, ''upstream-ok-body'')
      else if path = ''/method'' then (200, ''method='' @ meth)
      else (404, ''nope''))"

definition into_response :: "nat \<times> string \<Rightarrow> UpstreamResponse" where
  "into_response r =
     (case r of (status, text) \<Rightarrow>
        \<lparr>ur_status = status, ur_headers = [(''content-type'', Some ''text/plain; charset=utf-8'')],
         ur_content_length = Some (length text), ur_chunks = [Ok (bytes_of_string text)]\<rparr>)"

definition upstream_addr :: string where
  "upstream_addr = ''http://127.0.0.1:9001''"

text \<open>The network of the tests: the upstream listens on its address and every other connection is refused.\<close>

definition spawn_upstream :: Upstream where
  "spawn_upstream =
     \<lparr>up_send = (\<lambda>meth url _.
        case strip_prefix url upstream_addr of
          None \<Rightarrow> Err False
        | Some target \<Rightarrow> Ok (into_response (upstream_handler meth (takeWhile (\<lambda>c. c \<noteq> CHR ''?'') target)))),
      up_elapsed = F64 1 0\<rparr>"

section \<open>The proxy\<close>

definition e2e_toml :: "nat option \<Rightarrow> string option \<Rightarrow> string" where
  "e2e_toml max_body upstream =
     ''[server]'' @ newline @ ''listen = '' @ in_quotes ''127.0.0.1:0'' @ newline @
     (case max_body of None \<Rightarrow> [] | Some n \<Rightarrow> ''max_body_bytes = '' @ string_of_nat n @ newline) @ newline @
     ''[attestation]'' @ newline @ ''allow_mock = true'' @ newline @
     (case upstream of
        None \<Rightarrow> []
      | Some u \<Rightarrow> newline @ ''[[route]]'' @ newline @ ''name = '' @ in_quotes ''default'' @ newline @ ''upstream = '' @ in_quotes u @ newline)"

definition e2e_file :: "nat option \<Rightarrow> string option \<Rightarrow> FileConfig" where
  "e2e_file max_body upstream =
     empty_file_config
       \<lparr>fc_server := \<lparr>fs_listen = parse_socket_addr ''127.0.0.1:0'', fs_max_body_bytes = max_body, fs_tls = None\<rparr>,
        fc_attestation := (fc_attestation empty_file_config)\<lparr>fa_allow_mock := Some True\<rparr>,
        fc_routes :=
          (case upstream of
             None \<Rightarrow> []
           | Some u \<Rightarrow> [\<lparr>fr_name = Some ''default'', fr_host = [], fr_path_prefix = [], fr_upstream = u, fr_strict_attestation = None\<rparr>])\<rparr>"

text \<open>The \<open>ProxyState\<close> the tests build from the routes and the cap of the loaded configuration.\<close>

definition e2e_state :: "Route list \<Rightarrow> nat \<Rightarrow> (nat, unit) ProxyState" where
  "e2e_state routes max_body =
     \<lparr>pst_registry = pst_registry toy_proxy_state, pst_http = spawn_upstream, pst_routes = route_table_new routes,
      pst_max_body_bytes = max_body, pst_metrics = metrics_new\<rparr>"

definition spawn_proxy :: "nat option \<Rightarrow> string option \<Rightarrow> ConfigError + (nat, unit) ProxyState" where
  "spawn_proxy max_body upstream =
     (let toml = e2e_toml max_body upstream; path = ''archetype-proxy.toml'' in
      result_bind (config_load (one_text_libs toml (e2e_file max_body upstream)) (one_file_world path toml) partial_static_default (Some path))
        (\<lambda>config. Ok (e2e_state (cfg_file_routes config) (srv_max_body_bytes (st_server (cfg_static config))))))"

definition server_base :: string where
  "server_base = ''http://127.0.0.1:8443/''"

definition trusted :: "(nat, unit) ProxyState \<Rightarrow> string \<Rightarrow> string \<Rightarrow> string \<Rightarrow> ClientError + FramedResponse" where
  "trusted st meth path body =
     framed_trusted_request string_of_nat (demo_client (demo_send st)) demo_session server_base meth path (bytes_of_string body)"

definition answers :: "ClientError + FramedResponse \<Rightarrow> nat \<Rightarrow> string \<Rightarrow> bool" where
  "answers r status body = (case r of Inl _ \<Rightarrow> False | Inr resp \<Rightarrow> fr_status resp = status \<and> fr_body resp = bytes_of_string body)"

section \<open>The tests\<close>

definition test_proxy_round_trips_status_and_body :: bool where
  "test_proxy_round_trips_status_and_body \<longleftrightarrow>
     (case spawn_proxy (Some 4194304) (Some upstream_addr) of
        Inl _ \<Rightarrow> False
      | Inr st \<Rightarrow>
          snd (snd (build_router demo_router st (get_request ''/healthz'' []))) = Text 200 ''ok''
          \<and> answers (trusted st ''POST'' ''/ok'' ''ping'') 200 ''upstream-ok-body''
          \<and> answers (trusted st ''POST'' ''/missing'' ''ping'') 404 ''nope'')"

definition test_no_route_returns_sealed_404 :: bool where
  "test_no_route_returns_sealed_404 \<longleftrightarrow>
     (case spawn_proxy None None of
        Inl _ \<Rightarrow> False
      | Inr st \<Rightarrow> (case trusted st ''POST'' ''/anything'' ''x'' of Inl _ \<Rightarrow> False | Inr resp \<Rightarrow> fr_status resp = 404))"

definition test_unreachable_upstream_returns_sealed_502 :: bool where
  "test_unreachable_upstream_returns_sealed_502 \<longleftrightarrow>
     (case spawn_proxy None (Some ''http://127.0.0.1:9'') of
        Inl _ \<Rightarrow> False
      | Inr st \<Rightarrow>
          (case trusted st ''POST'' ''/x'' ''x'' of Inl _ \<Rightarrow> False | Inr resp \<Rightarrow> fr_status resp = 502 \<or> fr_status resp = 504))"

definition test_get_real_method_forwarded_to_upstream :: bool where
  "test_get_real_method_forwarded_to_upstream \<longleftrightarrow>
     (case spawn_proxy None (Some upstream_addr) of
        Inl _ \<Rightarrow> False
      | Inr st \<Rightarrow>
          answers (trusted st ''GET'' ''/method'' []) 200 ''method=GET''
          \<and> answers (trusted st ''DELETE'' ''/method'' []) 200 ''method=DELETE'')"

text \<open>The TLS listener: its configuration from the fixture's files, and the router behind it.\<close>

definition build_app :: "(nat, unit) ProxyState" where
  "build_app = e2e_state [] (4 * 1024 * 1024)"

definition test_healthz_served_over_tls :: bool where
  "test_healthz_served_over_tls \<longleftrightarrow>
     (case server_config pem_tls (files_world [(''/tmp/cert.pem'', cert_pem), (''/tmp/key.pem'', [7])])
             (StaticFiles ''/tmp/cert.pem'' ''/tmp/key.pem'') of
        Inl _ \<Rightarrow> False
      | Inr tls_config \<Rightarrow>
          resolver_resolve (rc_resolver tls_config) \<lparr>ch_alpn = None, ch_server_name = Some ''localhost''\<rparr> = Some ([cert_der], [7])
          \<and> snd (snd (build_router demo_router build_app (get_request ''/healthz'' []))) = Text 200 ''ok'')"

section \<open>Results\<close>

lemma spawn_proxy_eq:
  assumes "map_sum id (\<lambda>c. (cfg_file_routes c, srv_max_body_bytes (st_server (cfg_static c))))
      (config_load (one_text_libs (e2e_toml max_body upstream) (e2e_file max_body upstream))
        (one_file_world ''archetype-proxy.toml'' (e2e_toml max_body upstream)) partial_static_default (Some ''archetype-proxy.toml''))
    = Ok (routes, n)"
  shows "spawn_proxy max_body upstream = Ok (e2e_state routes n)"
  using assms by (auto simp: spawn_proxy_def Let_def result_bind_def split: sum.splits)

definition catch_all :: "string \<Rightarrow> Route" where
  "catch_all upstream =
     \<lparr>r_name = ''default'', r_host = [], r_path_prefix = [], r_upstream = upstream, r_strict_attestation = None, r_source = File\<rparr>"

lemma spawned:
  "spawn_proxy (Some 4194304) (Some upstream_addr) = Ok (e2e_state [catch_all upstream_addr] 4194304)"
  "spawn_proxy None None = Ok (e2e_state [] 4194304)"
  "spawn_proxy None (Some ''http://127.0.0.1:9'') = Ok (e2e_state [catch_all ''http://127.0.0.1:9''] 4194304)"
  "spawn_proxy None (Some upstream_addr) = Ok (e2e_state [catch_all upstream_addr] 4194304)"
  by (rule spawn_proxy_eq, code_simp)+

text \<open>One trusted request to the spawned proxy.\<close>

lemma trusted_exchange:
  assumes "demo_uri (full_uri_str server_base (CHR ''/'' # c # p)) =
      Ok \<lparr>cu_scheme = Some ''http'', cu_authority = Some ''127.0.0.1:8443'', cu_path = CHR ''/'' # c # p, cu_query = None\<rparr>"
    and "CHR ''/'' # c # p \<notin> fst ` set (merged_routes (ro_base_routes demo_router))" "length body \<le> 4194304"
    and "snd (snd (proxy_handler Some (route_table_new routes) 4194304 spawn_upstream
      \<lparr>dr_session = ''42'', dr_method = to_ascii_uppercase meth, dr_path = CHR ''/'' # c # p, dr_query = None,
       dr_host = ''127.0.0.1:8443'', dr_body = bytes_of_string body\<rparr> metrics_new))
      = Sealed ''42'' (map Ok (Head status hs # map Body [bytes_of_string d]))"
    and "list_all (\<lambda>f. demo_frame (demo_frame_bytes f) = Ok f \<and> length (demo_frame_bytes f) < 2 ^ 31)
      (Head status hs # map Body [bytes_of_string d])"
  shows "trusted (e2e_state routes 4194304) meth (CHR ''/'' # c # p) body =
    Ok \<lparr>fr_status = status, fr_headers = hs, fr_body = bytes_of_string d\<rparr>"
proof -
  have "ahl_authority \<lparr>cu_scheme = Some ''http'', cu_authority = Some ''127.0.0.1:8443'', cu_path = CHR ''/'' # c # p, cu_query = None\<rparr>
      = ''127.0.0.1:8443''"
    by (simp add: ahl_authority_def) code_simp
  moreover have "pre_decrypt_cap 4194304 < usize_max"
    by code_simp
  ultimately show ?thesis
    using assms demo_exchange [OF assms(1), of c p "''127.0.0.1:8443''" "bytes_of_string body" "e2e_state routes 4194304" meth status hs
        "[bytes_of_string d]"]
    by (simp add: trusted_def e2e_state_def bytes_of_string_def)
qed

lemma test_requests:
  "trusted (e2e_state [catch_all upstream_addr] 4194304) ''POST'' ''/ok'' ''ping'' =
     Ok \<lparr>fr_status = 200, fr_headers = [(''content-type'', ''text/plain; charset=utf-8'')], fr_body = bytes_of_string ''upstream-ok-body''\<rparr>"
  "trusted (e2e_state [catch_all upstream_addr] 4194304) ''POST'' ''/missing'' ''ping'' =
     Ok \<lparr>fr_status = 404, fr_headers = [(''content-type'', ''text/plain; charset=utf-8'')], fr_body = bytes_of_string ''nope''\<rparr>"
  "trusted (e2e_state [] 4194304) ''POST'' ''/anything'' ''x'' =
     Ok \<lparr>fr_status = 404, fr_headers = [(''content-type'', ''text/plain'')], fr_body = bytes_of_string ''no route matched''\<rparr>"
  "trusted (e2e_state [catch_all ''http://127.0.0.1:9''] 4194304) ''POST'' ''/x'' ''x'' =
     Ok \<lparr>fr_status = 502, fr_headers = [(''content-type'', ''text/plain'')], fr_body = bytes_of_string ''upstream request failed''\<rparr>"
  "trusted (e2e_state [catch_all upstream_addr] 4194304) ''GET'' ''/method'' [] =
     Ok \<lparr>fr_status = 200, fr_headers = [(''content-type'', ''text/plain; charset=utf-8'')], fr_body = bytes_of_string ''method=GET''\<rparr>"
  "trusted (e2e_state [catch_all upstream_addr] 4194304) ''DELETE'' ''/method'' [] =
     Ok \<lparr>fr_status = 200, fr_headers = [(''content-type'', ''text/plain; charset=utf-8'')], fr_body = bytes_of_string ''method=DELETE''\<rparr>"
  by (rule trusted_exchange; code_simp)+

lemma proxy_round_trips_status_and_body: "test_proxy_round_trips_status_and_body"
proof -
  have "snd (snd (build_router demo_router (e2e_state [catch_all upstream_addr] 4194304) (get_request ''/healthz'' []))) = Text 200 ''ok''"
    by code_simp
  then show ?thesis
    by (simp add: test_proxy_round_trips_status_and_body_def spawned test_requests answers_def)
qed

lemma no_route_returns_sealed_404: "test_no_route_returns_sealed_404"
  by (simp add: test_no_route_returns_sealed_404_def spawned test_requests)

lemma unreachable_upstream_returns_sealed_502: "test_unreachable_upstream_returns_sealed_502"
  by (simp add: test_unreachable_upstream_returns_sealed_502_def spawned test_requests)

lemma get_real_method_forwarded_to_upstream: "test_get_real_method_forwarded_to_upstream"
  by (simp add: test_get_real_method_forwarded_to_upstream_def spawned test_requests answers_def)

lemma healthz_served_over_tls: "test_healthz_served_over_tls"
  by code_simp

end
