(* ===== verification/Spec2Isabelle.thy ===== *)
theory Spec2Isabelle
  imports Messages Unit_Routes Unit_Discovery Unit_Security Unit_Metrics Unit_Cli Unit_E2e
begin

text \<open>
  \<^bold>\<open>archetype-proxy-server.\<close> An attested reverse proxy. Clients perform an attestation
  handshake, then send encrypted requests that are authenticated against the session, routed by host and
  path to an upstream, and answered with a stream of frames sealed to the same session; attested WebSockets are
  bridged the same way. Routes come from a file and from Docker and Kubernetes discovery. The
  server can terminate public TLS itself, with certificates from disk or from ACME.

  \<^bold>\<open>Conventions.\<close> A Rust \<open>String\<close> is a \<open>string\<close> whose characters are its bytes; bytes are \<open>8 word\<close>,
  \<open>u64\<close> counters are \<open>64 word\<close> and wrap, \<open>usize\<close> sizes are \<open>nat\<close> with saturation written out. \<open>Result\<close> is a
  sum with \<open>Ok\<close> and \<open>Err\<close>; each error message is a constructor or the string itself. A \<open>BTreeMap\<close> is a
  sorted association list, a \<open>HashMap\<close> a partial function. A \<open>&mut\<close> argument, an \<open>ArcSwap\<close> or a \<open>Mutex\<close> becomes
  explicit state. Code outside the repository (rustls, instant-acme, openhttpa, the AEAD, HMAC, TOML, PEM and
  X.509 parsers, the HTTP client, the Cloudflare API, the container APIs, the file system, the environment) is a
  parameter, a record of functions; what a theorem needs of it is a named hypothesis, and its
  witness instantiates the parameter with concrete functions.

  \<^bold>\<open>Theories and sources.\<close>
  \<^item> \<open>Prelude\<close>: results, options, ASCII and UTF-8 string operations of the standard library, decimal numbers;
    \<open>Rust_Maps\<close>: the two maps and the interface \<open>keyed_store\<close>, on which both are interpreted.
  \<^item> \<open>Kinds\<close>, \<open>Socket_Addr\<close>, \<open>Tls_Config\<close>, \<open>Config\<close> (\<open>src/config.rs\<close>): the enumerations with their parsers, printers and deserializers, and
    the interface \<open>token_enum\<close>; socket addresses as the standard library parses them; the TLS block and
    \<open>TlsConfig::validate\<close>; the records, the file and environment layers, their resolution with
    provenance, \<open>Config::validate\<close> and \<open>Config::load\<close>. \<open>Cli\<close> (\<open>src/cli.rs\<close>): the overrides layer.
    \<open>Dump\<close>: the printed configuration, which discloses no secret. \<open>Hex_Ref\<close> is a concrete hexadecimal codec for the witnesses. \<open>Config_Facts\<close>: layering, fail-closed TPM
    policies, the PCR environment encoding, and that a loaded configuration is well typed.
  \<^item> \<open>Routing\<close> (\<open>src/config.rs\<close>): routes, specificity, matching, the sorted table. Its selection refines
    \<open>best_route\<close>, the first most specific match in configuration order.
  \<^item> \<open>Labels\<close>, \<open>Discovery\<close>, \<open>Docker\<close>, \<open>Kubernetes\<close> (\<open>src/discovery\<close>): container labels, the route manager with the
    interface \<open>snapshot_provider\<close>, one turn of the Docker polling loop, and the Kubernetes watch
    loop with its scope, its merged streams and its stores. \<open>Live_Routes\<close> (\<open>src/main.rs\<close>): the tasks and the bounded channel as the step
    relation \<open>live_step\<close>; the table is in step with the providers whenever the channel is empty.
  \<^item> \<open>Attestation\<close> (\<open>src/attestation.rs\<close>): the guard against mocks in release builds and the construction of
    provider and verifier.
  \<^item> \<open>Ws_Frames\<close>, \<open>Ws_Bridge\<close> (\<open>src/ws.rs\<close>): the frame format with its replay check, the upgrade, the two pumps of
    the bridge as a state machine, and \<open>run_bridge\<close> over the two sockets.
  \<^item> \<open>Metrics\<close> (\<open>src/metrics.rs\<close>): the counters as atomic additions, so that any interleaving gives the same
    totals, and the exposition. \<open>Proxy\<close> (\<open>src/proxy.rs\<close>, \<open>src/envelope.rs\<close>): the extractor
    \<open>from_request\<close>, the handler with its streaming cap, header stripping and sealed errors, the observability
    handlers, and the WebSocket dispatch. \<open>Router\<close> (\<open>build_router\<close>): the registered routes, their layers and what a
    request meets; how axum matches a registered route is the hypothesis \<open>axum_routing\<close>.
  \<^item> \<open>Tls\<close> (\<open>src/tls.rs\<close>): static certificates, the ACME resolver, server configurations. \<open>Dns_Providers\<close> and \<open>Acme\<close>
    (\<open>src/acme.rs\<close>): the DNS-01 providers with the interface \<open>dns01_provider\<close>, challenge responses, the
    token store, certificates, the cache, the account, \<open>issue\<close> and the renewal loop. \<open>Acme_Facts\<close>: teardown,
    completion, and that renewals never lose the served certificate.
  \<^item> \<open>Startup\<close> (\<open>src/main.rs\<close>): \<open>main\<close> and \<open>setup_acme\<close> as a sequence of observable events and an
    outcome, the HTTP-01 responder, and the application that is served, \<open>serve_app\<close>. \<open>Messages\<close>: the texts of the errors, and
    what a refused start prints. This theory joins startup, live routes, the router and the proxy.
  \<^item> \<open>Client\<close> (\<open>tests/frame_helper/mod.rs\<close>): the client at the other end, as the end-to-end tests have it. Decoding refines the
    stream format \<open>sealed_stream\<close>, and the section on the exchange composes the client with the router. What both ends rely
    on in their libraries is \<open>mac_agrees\<close>, \<open>envelope_agrees\<close>, \<open>headers_agree\<close>, \<open>fresh_session\<close> and, for HTTP,
    \<open>carries\<close>; the demonstration libraries at the end keep them.
  \<^item> \<open>Unit_Config\<close>, \<open>Unit_Routes\<close>, \<open>Unit_Discovery\<close>, \<open>Unit_Security\<close>, \<open>Unit_Metrics\<close>, \<open>Unit_Cli\<close>: the crate's own unit tests,
    \<open>test_x\<close> for the test \<open>x\<close>, each evaluated on the model: the definitions meet the
    assertions the tests make. \<open>Unit_E2e\<close> (\<open>tests/proxy_e2e.rs\<close>, \<open>tests/tls_listener.rs\<close>): the end-to-end tests, from the
    configuration file through the client, the router and the upstream and back.

  \<^bold>\<open>What is shown.\<close> Requests and frames that pass are authentic and frames are not replayed; a request the client seals is
  accepted, reaches the upstream as the client was given it, and its answer comes back whole; the base
  router and the observability paths apart, a request meets the trusted-request layer or upgrades a live session; what leaves is sealed and
  capped; a bridge ends when either side does; routing is the declared best match over the file and discovered routes under every
  interleaving; a confined Kubernetes provider takes routes from its namespace only;
  the configuration is well typed, layers by precedence and fails closed on attestation, its dump discloses no secret and a
  refused start no API key; metrics add up;
  issuance succeeds when the authority does its part, cleans up after itself once its authorization loop has completed,
  and never removes the served certificate; TLS never falls back to plaintext and the port opens last. The
  lemmas in the sections on where the code falls short, in \<open>Dump\<close>, \<open>Acme_Facts\<close> and \<open>Startup\<close>, and \<open>Routing\<close>'s and \<open>Proxy\<close>'s
  lemmas on trailing slashes and on a second \<open>Connection\<close> field, prove that the code and its comments disagree.

  \<^bold>\<open>Bounds.\<close> No definition uses fuel: every loop of the model runs over the list of what the outside sends
  it (labels, events, chunks, frames, authorizations, turns), or ends by its offset as the client's decoder does, so each result covers every finite history. The
  channel has the capacity 16 of the code; the WebSocket counter result is stated up to \<open>2^64\<close>; the \<open>f64\<close>
  arithmetic of the latency sum rounds to the nearest double with ties to even.

  \<^bold>\<open>Not modelled.\<close> How axum matches paths, how the rate limiter counts, and the attestation handshake with the session registry of
  openhttpa are parameters. clap's parsing, tracing output
  other than the security warnings, sleeps and timeouts, and the accept loops of the servers are left out. What remains of the sources is
  comments, imports and attributes, the module declarations of \<open>lib.rs\<close>, one unit test of the TOML derive alone, the test of
  openhttpa's registry, and the tests that need a software TPM.
\<close>



end
